(* ===== verification/Prelude.thy ===== *)
theory Prelude
  imports Main "HOL-Library.Word" "HOL-Library.Product_Lexorder" "HOL-Library.Sublist"
begin

text \<open>
  The layer every component theory shares: the error-and-state programs in which the
  operations of the store and of the HTTP handlers are written, the calculus that lifts an
  invariant from single statements to whole handlers, the list operations that stand for
  the \<^verbatim>\<open>WHERE\<close> clauses of the SQL statements, and the collections the component
  proofs use.
\<close>

named_theorems prog_simps \<open>unfolding of the error-and-state programs\<close>
named_theorems keeps_intros \<open>introduction rules of the invariant calculus\<close>
named_theorems field_simps_where \<open>reading a column of an updated table\<close>

section \<open>Programs: explicit state, errors as values\<close>

text \<open>
  A Go function that can fail and that works on shared state is a function from the state to
  its result and the new state. \<open>Inl\<close> is the early return of an error, \<open>Inr\<close> the normal
  result. \<open>and_then\<close> is the \<^verbatim>\<open>if err != nil { return ... }\<close> after a call, \<open>on_error\<close>
  the translation of the callee's error into the caller's.
\<close>

type_synonym ('e, 'a, 's) prog = "'s \<Rightarrow> ('e + 'a) \<times> 's"

definition ret :: "'a \<Rightarrow> ('e, 'a, 's) prog" where
  "ret x s = (Inr x, s)"

definition throw :: "'e \<Rightarrow> ('e, 'a, 's) prog" where
  "throw e s = (Inl e, s)"

definition and_then :: "('e, 'a, 's) prog \<Rightarrow> ('a \<Rightarrow> ('e, 'b, 's) prog) \<Rightarrow> ('e, 'b, 's) prog" where
  "and_then m f s = (case m s of (Inl e, s') \<Rightarrow> (Inl e, s') | (Inr x, s') \<Rightarrow> f x s')"

definition on_error :: "('e \<Rightarrow> 'f) \<Rightarrow> ('e, 'a, 's) prog \<Rightarrow> ('f, 'a, 's) prog" where
  "on_error h m s = (case m s of (Inl e, s') \<Rightarrow> (Inl (h e), s') | (Inr x, s') \<Rightarrow> (Inr x, s'))"

text \<open>\<open>attempting\<close> hands the error to the caller as a value, for code that branches on it.\<close>

definition attempting :: "('e, 'a, 's) prog \<Rightarrow> ('f, 'e + 'a, 's) prog" where
  "attempting m s = (case m s of (r, s') \<Rightarrow> (Inr r, s'))"

definition guard :: "bool \<Rightarrow> 'e \<Rightarrow> ('e, unit, 's) prog" where
  "guard b e = (if b then ret () else throw e)"

fun need :: "'e \<Rightarrow> 'a option \<Rightarrow> ('e, 'a, 's) prog" where
  "need e None = throw e"
| "need e (Some x) = ret x"

text \<open>A handler ends with a response on both paths.\<close>

definition finish :: "('r, 'r, 's) prog \<Rightarrow> 's \<Rightarrow> 'r \<times> 's" where
  "finish m s = (case m s of (Inl r, s') \<Rightarrow> (r, s') | (Inr r, s') \<Rightarrow> (r, s'))"

text \<open>
  Inside a transaction, \<^verbatim>\<open>return x, nil\<close> before the commit leaves the body as an error
  that carries the result; \<open>early\<close> turns it into the result it is.
\<close>

definition early :: "('e + 'a, 'a, 's) prog \<Rightarrow> ('e, 'a, 's) prog" where
  "early m s =
     (case m s of
        (Inl (Inl e), s') \<Rightarrow> (Inl e, s')
      | (Inl (Inr x), s') \<Rightarrow> (Inr x, s')
      | (Inr x, s') \<Rightarrow> (Inr x, s'))"

lemma ret_apply [prog_simps]: "ret x s = (Inr x, s)"
  by (simp add: ret_def)

lemma throw_apply [prog_simps]: "throw e s = (Inl e, s)"
  by (simp add: throw_def)

lemma guard_apply [prog_simps]: "guard b e s = (if b then (Inr (), s) else (Inl e, s))"
  by (simp add: guard_def ret_def throw_def)

lemma need_apply [prog_simps]: "need e v s = (case v of None \<Rightarrow> (Inl e, s) | Some x \<Rightarrow> (Inr x, s))"
  by (cases v) (simp_all add: ret_def throw_def)

lemma and_then_Inl: "m s = (Inl e, s') \<Longrightarrow> and_then m f s = (Inl e, s')"
  by (simp add: and_then_def)

lemma and_then_Inr: "m s = (Inr x, s') \<Longrightarrow> and_then m f s = f x s'"
  by (simp add: and_then_def)

lemma and_then_ret: "and_then (ret x) f = f x"
  by (rule ext) (simp add: and_then_def ret_def)

lemma and_then_assoc: "and_then (and_then m f) g = and_then m (\<lambda>x. and_then (f x) g)"
  by (rule ext) (auto simp: and_then_def split: prod.splits sum.splits)

lemma and_then_InrE:
  assumes "and_then m f s = (Inr y, t)"
  obtains x u where "m s = (Inr x, u)" and "f x u = (Inr y, t)"
  using assms by (auto simp: and_then_def split: prod.splits sum.splits)

lemma and_then_InlE:
  assumes "and_then m f s = (Inl e, t)"
  obtains "m s = (Inl e, t)" | x u where "m s = (Inr x, u)" and "f x u = (Inl e, t)"
  using assms by (auto simp: and_then_def split: prod.splits sum.splits)

lemma on_error_InrD: "on_error h m s = (Inr y, t) \<Longrightarrow> m s = (Inr y, t)"
  by (auto simp: on_error_def split: prod.splits sum.splits)

lemma need_InrD: "need e v s = (Inr y, t) \<Longrightarrow> v = Some y \<and> t = s"
  by (auto simp: need_apply split: option.splits)

lemma guard_InrD: "guard b e s = (Inr y, t) \<Longrightarrow> b \<and> t = s"
  by (auto simp: guard_apply split: if_splits)

section \<open>The invariant calculus\<close>

text \<open>
  \<open>keeps R m\<close>: whatever the program does and however it ends, the state it leaves is
  \<open>R\<close>-related to the one it started from. For a reflexive and transitive \<open>R\<close> the rules
  below reduce a handler to its single statements.
\<close>

definition keeps :: "('s \<Rightarrow> 's \<Rightarrow> bool) \<Rightarrow> ('e, 'a, 's) prog \<Rightarrow> bool" where
  "keeps R m \<longleftrightarrow> (\<forall>s. R s (snd (m s)))"

lemma keepsI: "(\<And>s. R s (snd (m s))) \<Longrightarrow> keeps R m"
  by (simp add: keeps_def)

lemma keepsD: "keeps R m \<Longrightarrow> m s = (r, s') \<Longrightarrow> R s s'"
  by (metis keeps_def snd_conv)

locale step_order =
  fixes R :: "'s \<Rightarrow> 's \<Rightarrow> bool"
  assumes refl: "R s s"
    and trans: "R s t \<Longrightarrow> R t u \<Longrightarrow> R s u"
begin

lemma keeps_ret: "keeps R (ret x)"
  by (rule keepsI) (simp add: prog_simps refl)

lemma keeps_throw: "keeps R (throw e)"
  by (rule keepsI) (simp add: prog_simps refl)

lemma keeps_guard: "keeps R (guard b e)"
  by (rule keepsI) (simp add: prog_simps refl)

lemma keeps_need: "keeps R (need e v)"
  by (rule keepsI) (simp add: prog_simps refl split: option.splits)

lemma bind_at: "R s (snd (m s)) \<Longrightarrow> (\<And>x t. m s = (Inr x, t) \<Longrightarrow> R t (snd (f x t))) \<Longrightarrow> R s (snd (and_then m f s))"
  by (auto simp: and_then_def intro: trans split: prod.splits sum.splits)

lemma keeps_bind: "keeps R m \<Longrightarrow> (\<And>s x t. m s = (Inr x, t) \<Longrightarrow> R t (snd (f x t))) \<Longrightarrow> keeps R (and_then m f)"
  by (rule keepsI) (auto simp: keeps_def intro: bind_at)

lemma keeps_and_then: "keeps R m \<Longrightarrow> (\<And>x. keeps R (f x)) \<Longrightarrow> keeps R (and_then m f)"
  by (rule keeps_bind) (simp_all add: keeps_def)

lemma keeps_on_error: "keeps R m \<Longrightarrow> keeps R (on_error h m)"
  by (auto simp: keeps_def on_error_def split: prod.splits sum.splits) (metis snd_conv)+

lemma keeps_attempting: "keeps R m \<Longrightarrow> keeps R (attempting m)"
  by (auto simp: keeps_def attempting_def split: prod.splits) (metis snd_conv)

lemma keeps_early: "keeps R m \<Longrightarrow> keeps R (early m)"
  by (auto simp: keeps_def early_def split: prod.splits sum.splits) (metis snd_conv)+

lemma finish_keeps: "keeps R m \<Longrightarrow> R s (snd (finish m s))"
  by (auto simp: keeps_def finish_def split: prod.splits sum.splits) (metis snd_conv)+

lemmas keeps_rules =
  keeps_ret keeps_throw keeps_guard keeps_need keeps_and_then keeps_on_error keeps_attempting keeps_early

end

section \<open>Outcomes of a program\<close>

text \<open>
  \<open>yields m s Q F\<close>: from the state \<open>s\<close> the program ends normally with a result and a
  state that satisfy \<open>Q\<close>, or early with an error and a state that satisfy \<open>F\<close>.
\<close>

definition yields ::
    "('e, 'a, 's) prog \<Rightarrow> 's \<Rightarrow> ('a \<Rightarrow> 's \<Rightarrow> bool) \<Rightarrow> ('e \<Rightarrow> 's \<Rightarrow> bool) \<Rightarrow> bool" where
  "yields m s Q F = (case m s of (Inl e, t) \<Rightarrow> F e t | (Inr x, t) \<Rightarrow> Q x t)"

lemma yieldsI:
  "(\<And>x t. m s = (Inr x, t) \<Longrightarrow> Q x t) \<Longrightarrow> (\<And>e t. m s = (Inl e, t) \<Longrightarrow> F e t) \<Longrightarrow> yields m s Q F"
  by (auto simp: yields_def split: prod.splits sum.splits)

lemma yields_InrD: "yields m s Q F \<Longrightarrow> m s = (Inr x, t) \<Longrightarrow> Q x t"
  by (simp add: yields_def)

lemma yields_InlD: "yields m s Q F \<Longrightarrow> m s = (Inl e, t) \<Longrightarrow> F e t"
  by (simp add: yields_def)

lemma yields_bind:
  assumes "yields m s Q' F" and "\<And>x t. Q' x t \<Longrightarrow> yields (f x) t Q F"
  shows "yields (and_then m f) s Q F"
proof -
  obtain r u where ms: "m s = (r, u)" by (cases "m s")
  show ?thesis
  proof (cases r)
    case (Inl e)
    then show ?thesis using assms(1) ms by (simp add: yields_def and_then_def)
  next
    case (Inr x)
    then have "yields (f x) u Q F" using assms ms by (simp add: yields_def)
    then show ?thesis using Inr ms by (simp add: yields_def and_then_def)
  qed
qed

lemma yields_mono:
  assumes "yields m s Q' F'" and "\<And>x t. Q' x t \<Longrightarrow> Q x t" and "\<And>e t. F' e t \<Longrightarrow> F e t"
  shows "yields m s Q F"
  using assms by (auto simp: yields_def split: prod.splits sum.splits)

lemma yields_ret: "Q x s \<Longrightarrow> yields (ret x) s Q F"
  by (simp add: yields_def ret_def)

lemma yields_throw: "F e s \<Longrightarrow> yields (throw e) s Q F"
  by (simp add: yields_def throw_def)

lemma yields_guard: "(b \<Longrightarrow> Q () s) \<Longrightarrow> (\<not> b \<Longrightarrow> F e s) \<Longrightarrow> yields (guard b e) s Q F"
  by (simp add: yields_def guard_apply)

lemma yields_need:
  "(\<And>x. v = Some x \<Longrightarrow> Q x s) \<Longrightarrow> (v = None \<Longrightarrow> F e s) \<Longrightarrow> yields (need e v) s Q F"
  by (cases v) (simp_all add: yields_def ret_def throw_def)

lemma yields_on_error: "yields m s Q (\<lambda>e t. F (h e) t) \<Longrightarrow> yields (on_error h m) s Q F"
  by (auto simp: yields_def on_error_def split: prod.splits sum.splits)

lemma yields_finish: "finish m s = (a, t) \<Longrightarrow> yields m s P P \<Longrightarrow> P a t"
  by (auto simp: yields_def finish_def split: prod.splits sum.splits)

section \<open>Tables as lists of rows\<close>

text \<open>\<open>UPDATE t SET ... WHERE p\<close> and \<open>DELETE FROM t WHERE p\<close> on a table held as a list.\<close>

definition update_where :: "('r \<Rightarrow> bool) \<Rightarrow> ('r \<Rightarrow> 'r) \<Rightarrow> 'r list \<Rightarrow> 'r list" where
  "update_where p f rows = map (\<lambda>r. if p r then f r else r) rows"

definition delete_where :: "('r \<Rightarrow> bool) \<Rightarrow> 'r list \<Rightarrow> 'r list" where
  "delete_where p rows = filter (\<lambda>r. \<not> p r) rows"

lemma update_where_simps [simp]:
  "update_where p f [] = []"
  "update_where p f (r # rows) = (if p r then f r else r) # update_where p f rows"
  by (simp_all add: update_where_def)

lemma delete_where_simps [simp]:
  "delete_where p [] = []"
  "delete_where p (r # rows) = (if p r then delete_where p rows else r # delete_where p rows)"
  by (simp_all add: delete_where_def)

lemma length_update_where [simp]: "length (update_where p f rows) = length rows"
  by (simp add: update_where_def)

lemma set_update_where:
  "set (update_where p f rows) = (\<lambda>r. if p r then f r else r) ` set rows"
  by (simp add: update_where_def)

lemma set_delete_where: "set (delete_where p rows) = {r \<in> set rows. \<not> p r}"
  by (simp add: delete_where_def)

lemma update_where_append [simp]:
  "update_where p f (xs @ ys) = update_where p f xs @ update_where p f ys"
  by (simp add: update_where_def)

lemma map_update_where_same:
  "(\<And>r. p r \<Longrightarrow> k (f r) = k r) \<Longrightarrow> map k (update_where p f rows) = map k rows"
  by (induction rows) auto

lemma update_where_none: "(\<And>r. r \<in> set rows \<Longrightarrow> \<not> p r) \<Longrightarrow> update_where p f rows = rows"
  by (induction rows) auto

lemma delete_where_none: "(\<And>r. r \<in> set rows \<Longrightarrow> \<not> p r) \<Longrightarrow> delete_where p rows = rows"
  by (induction rows) auto

lemma distinct_map_delete_where: "distinct (map k rows) \<Longrightarrow> distinct (map k (delete_where p rows))"
  by (induction rows) (auto simp: set_delete_where)

lemma sorted_delete_where: "sorted (map k rows) \<Longrightarrow> sorted (map k (delete_where p rows))"
  by (simp add: delete_where_def sorted_filter)

text \<open>\<open>SELECT ... WHERE key = k\<close> read with \<^verbatim>\<open>QueryRow\<close>: the first matching row.\<close>

lemma find_SomeD: "find p rows = Some r \<Longrightarrow> r \<in> set rows \<and> p r"
  by (induction rows) (auto split: if_splits)

lemma find_NoneD: "find p rows = None \<Longrightarrow> r \<in> set rows \<Longrightarrow> \<not> p r"
  by (auto simp: find_None_iff)

lemma find_key_distinct:
  "distinct (map k rows) \<Longrightarrow> r \<in> set rows \<Longrightarrow> find (\<lambda>x. k x = k r) rows = Some r"
  by (induction rows) (auto simp: image_iff)

lemma distinct_map_eqD:
  "distinct (map k rows) \<Longrightarrow> r \<in> set rows \<Longrightarrow> r' \<in> set rows \<Longrightarrow> k r = k r' \<Longrightarrow> r = r'"
  by (induction rows) (auto simp: image_iff)

lemma find_update_where:
  assumes "\<And>r. p r \<Longrightarrow> q (f r) = q r"
  shows "find q (update_where p f rows) = map_option (\<lambda>r. if p r then f r else r) (find q rows)"
  by (induction rows) (auto simp: assms)

lemma find_delete_where_other:
  assumes "\<And>r. q r \<Longrightarrow> \<not> p r"
  shows "find q (delete_where p rows) = find q rows"
  by (induction rows) (auto simp: assms)

text \<open>A row count under a filter.\<close>

lemma length_filter_update_where:
  assumes "\<And>r. p r \<Longrightarrow> q (f r) = q r"
  shows "length (filter q (update_where p f rows)) = length (filter q rows)"
  by (induction rows) (auto simp: assms)

end
