(* ===== verification/Golib.thy ===== *)
theory Golib
  imports Prelude
begin

text \<open>
  The parts of the Go language and of its standard library the program uses: integer
  ranges, \<^verbatim>\<open>time.Time\<close> and \<^verbatim>\<open>time.Duration\<close>, \<^verbatim>\<open>strings\<close>, \<^verbatim>\<open>unicode/utf8\<close>, \<^verbatim>\<open>strconv\<close>
  and \<^verbatim>\<open>encoding/hex\<close>, and the context tree of \<^verbatim>\<open>context\<close>. Instants and durations are
  nanoseconds; every process and every database session is taken to run in UTC.
\<close>

section \<open>Integers\<close>

text \<open>Go's \<^verbatim>\<open>int\<close> and \<^verbatim>\<open>int64\<close>, and the \<^verbatim>\<open>INT\<close> columns of the schema.\<close>

definition int64_ok :: "int \<Rightarrow> bool" where
  "int64_ok n \<longleftrightarrow> - (2 ^ 63) \<le> n \<and> n < 2 ^ 63"

definition int32_ok :: "int \<Rightarrow> bool" where
  "int32_ok n \<longleftrightarrow> - (2 ^ 31) \<le> n \<and> n < 2 ^ 31"

lemma int32_imp_int64: "int32_ok n \<Longrightarrow> int64_ok n"
  by (simp add: int32_ok_def int64_ok_def)

text \<open>The value a 64-bit signed computation leaves: two's complement wrap-around.\<close>

definition wrap64 :: "int \<Rightarrow> int" where
  "wrap64 n = (n + 2 ^ 63) mod 2 ^ 64 - 2 ^ 63"

lemma wrap64_id: "int64_ok n \<Longrightarrow> wrap64 n = n"
  by (simp add: wrap64_def int64_ok_def)

lemma wrap64_ok: "int64_ok (wrap64 n)"
proof -
  have "0 \<le> (n + 2 ^ 63) mod 2 ^ 64" and "(n + 2 ^ 63) mod 2 ^ 64 < (2::int) ^ 64"
    by simp_all
  then show ?thesis unfolding wrap64_def int64_ok_def by simp
qed

section \<open>Time\<close>

type_synonym time = int
type_synonym duration = int

abbreviation (input) nanosecond :: duration where "nanosecond \<equiv> 1"
abbreviation (input) millisecond :: duration where "millisecond \<equiv> 1000000"
abbreviation (input) second :: duration where "second \<equiv> 1000000000"
abbreviation (input) minute :: duration where "minute \<equiv> 60000000000"
abbreviation (input) hour :: duration where "hour \<equiv> 3600000000000"

text \<open>\<^verbatim>\<open>Time.IsZero\<close>: January 1, year 1, 00:00:00 UTC, in nanoseconds of the Unix epoch.\<close>

definition zero_time :: time where
  "zero_time = - 62135596800 * second"

section \<open>Strings\<close>

text \<open>\<^verbatim>\<open>strings.Split(s, sep)\<close> for a separator of one byte; \<^verbatim>\<open>strings.Join\<close>.\<close>

fun split_on :: "char \<Rightarrow> string \<Rightarrow> string list" where
  "split_on c [] = [[]]"
| "split_on c (x # xs) =
     (if x = c then [] # split_on c xs
      else case split_on c xs of [] \<Rightarrow> [[x]] | w # ws \<Rightarrow> (x # w) # ws)"

fun join_with :: "string \<Rightarrow> string list \<Rightarrow> string" where
  "join_with sep [] = []"
| "join_with sep [w] = w"
| "join_with sep (w # v # ws) = w @ sep @ join_with sep (v # ws)"

lemma split_on_nonempty [simp]: "split_on c s \<noteq> []"
  by (cases s) (auto split: list.splits)

lemma split_on_no_sep: "c \<notin> set s \<Longrightarrow> split_on c s = [s]"
  by (induction s) auto

lemma split_on_append: "c \<notin> set s \<Longrightarrow> split_on c (s @ c # t) = s # split_on c t"
  by (induction s) auto

lemma split_on_parts: "w \<in> set (split_on c s) \<Longrightarrow> c \<notin> set w"
proof (induction s arbitrary: w)
  case Nil
  then show ?case by simp
next
  case (Cons x xs)
  then show ?case by (cases "split_on c xs") (auto split: if_splits)
qed

lemma join_split_on: "join_with [c] (split_on c s) = s"
proof (induction s)
  case Nil
  then show ?case by simp
next
  case (Cons x xs)
  obtain w ws where ws: "split_on c xs = w # ws"
    by (cases "split_on c xs") (simp_all)
  with Cons show ?case by (cases ws) auto
qed

lemma split_on_two: "split_on c s = [a, b] \<longleftrightarrow> s = a @ c # b \<and> c \<notin> set a \<and> c \<notin> set b"
proof
  assume sp: "split_on c s = [a, b]"
  have "s = join_with [c] [a, b]" using join_split_on [of c s] sp by simp
  moreover have "c \<notin> set a \<and> c \<notin> set b"
    using split_on_parts [of a c s] split_on_parts [of b c s] sp by simp
  ultimately show "s = a @ c # b \<and> c \<notin> set a \<and> c \<notin> set b" by simp
next
  assume "s = a @ c # b \<and> c \<notin> set a \<and> c \<notin> set b"
  then show "split_on c s = [a, b]" by (simp add: split_on_append split_on_no_sep)
qed

text \<open>\<^verbatim>\<open>strings.TrimSpace\<close> on ASCII white space.\<close>

definition is_space :: "char \<Rightarrow> bool" where
  "is_space c \<longleftrightarrow> c \<in> {CHR '' '', CHR 0x09, CHR 0x0A, CHR 0x0B, CHR 0x0C, CHR 0x0D}"

definition trim_space :: "string \<Rightarrow> string" where
  "trim_space s = rev (dropWhile is_space (rev (dropWhile is_space s)))"

lemma trim_space_id:
  assumes "\<forall>c \<in> set s. \<not> is_space c"
  shows "trim_space s = s"
proof -
  have same: "dropWhile is_space t = t" if "\<forall>c \<in> set t. \<not> is_space c" for t
    using that by (cases t) auto
  have "dropWhile is_space (rev s) = rev s" using assms by (intro same) simp
  then show ?thesis by (simp add: trim_space_def same [OF assms])
qed

lemma trim_space_surround:
  assumes "\<forall>c \<in> set a. is_space c" and "\<forall>c \<in> set b. is_space c" and "\<forall>c \<in> set s. \<not> is_space c"
  shows "trim_space (a @ s @ b) = s"
proof (cases s)
  case Nil
  with assms have "\<forall>c \<in> set (a @ s @ b). is_space c" by auto
  then have "dropWhile is_space (a @ s @ b) = []" by (simp only: dropWhile_eq_Nil_conv)
  then show ?thesis by (simp only: trim_space_def rev.simps dropWhile.simps Nil)
next
  case (Cons x xs)
  have "dropWhile is_space (a @ s @ b) = s @ b"
    using assms Cons by simp
  moreover have "dropWhile is_space (rev b @ rev s) = rev s"
  proof -
    have "dropWhile is_space (rev s) = rev s"
      using assms(3) by (cases "rev s") (auto simp: rev_eq_Cons_iff)
    moreover have "\<And>c. c \<in> set (rev b) \<Longrightarrow> is_space c" using assms(2) by simp
    ultimately show ?thesis by (subst dropWhile_append2) simp_all
  qed
  ultimately show ?thesis by (simp add: trim_space_def)
qed

text \<open>Upper and lower case of ASCII letters.\<close>

definition to_upper :: "char \<Rightarrow> char" where
  "to_upper c = (let n = of_char c :: nat in if 97 \<le> n \<and> n \<le> 122 then char_of (n - 32) else c)"

definition to_lower :: "char \<Rightarrow> char" where
  "to_lower c = (let n = of_char c :: nat in if 65 \<le> n \<and> n \<le> 90 then char_of (n + 32) else c)"

text \<open>\<^verbatim>\<open>strings.ReplaceAll(s, "\x00", "")\<close>.\<close>

definition strip_nul :: "string \<Rightarrow> string" where
  "strip_nul s = filter (\<lambda>c. c \<noteq> CHR 0x00) s"

lemma strip_nul_clean: "CHR 0x00 \<notin> set (strip_nul s)"
  by (simp add: strip_nul_def)

lemma strip_nul_id: "CHR 0x00 \<notin> set s \<Longrightarrow> strip_nul s = s"
  unfolding strip_nul_def by (rule filter_True) auto

section \<open>UTF-8\<close>

text \<open>
  A Go string is a sequence of bytes. What \<^verbatim>\<open>utf8.DecodeRuneInString\<close> finds at the start of one:
  after the first byte of a longer sequence so many bytes follow, of which the first is in the
  given range and the others continue; anything else is one byte that is no rune.
\<close>

fun ascii :: "char \<Rightarrow> bool" where
  "ascii (Char b0 b1 b2 b3 b4 b5 b6 b7) \<longleftrightarrow> \<not> b7"

definition byte_in :: "nat \<Rightarrow> nat \<Rightarrow> char \<Rightarrow> bool" where
  "byte_in lo hi c \<longleftrightarrow> (let n = of_char c in lo \<le> n \<and> n \<le> hi)"

definition follows :: "char \<Rightarrow> nat \<times> nat \<times> nat" where
  "follows c = (let n = of_char c :: nat in
     if byte_in 0xC2 0xDF c then (1, 0x80, 0xBF)
     else if n = 0xE0 then (2, 0xA0, 0xBF)
     else if n = 0xED then (2, 0x80, 0x9F)
     else if byte_in 0xE1 0xEF c then (2, 0x80, 0xBF)
     else if n = 0xF0 then (3, 0x90, 0xBF)
     else if n = 0xF4 then (3, 0x80, 0x8F)
     else if byte_in 0xF1 0xF3 c then (3, 0x80, 0xBF)
     else (0, 0, 0))"

text \<open>The bytes of the rune a string starts with; nothing when it starts with none.\<close>

definition rune_tail :: "char \<Rightarrow> string \<Rightarrow> nat option" where
  "rune_tail c s =
     (if ascii c then Some 0
      else case follows c of (k, lo, hi) \<Rightarrow>
        if 0 < k \<and> k \<le> length s \<and> byte_in lo hi (hd s) \<and> list_all (byte_in 0x80 0xBF) (take (k - 1) (tl s))
        then Some k else None)"

definition replacement_char :: string where
  "replacement_char = [CHR 0xEF, CHR 0xBF, CHR 0xBD]"

text \<open>
  What \<^verbatim>\<open>json.Marshal\<close> writes for a string and what \<^verbatim>\<open>json.Unmarshal\<close> stores: each byte that is
  part of no rune becomes U+FFFD.
\<close>

fun to_valid :: "string \<Rightarrow> string" where
  "to_valid [] = []"
| "to_valid (c # s) =
     (case rune_tail c s of
        None \<Rightarrow> replacement_char @ to_valid s
      | Some k \<Rightarrow> c # take k s @ to_valid (drop k s))"

declare to_valid.simps [simp del]

definition utf8 :: "string \<Rightarrow> bool" where
  "utf8 s \<longleftrightarrow> to_valid s = s"

lemma to_valid_Nil [simp]: "to_valid [] = []"
  by (simp add: to_valid.simps)

lemma to_valid_Cons_ascii [simp]: "ascii c \<Longrightarrow> to_valid (c # s) = c # to_valid s"
  by (simp add: to_valid.simps rune_tail_def)

lemma to_valid_utf8: "utf8 s \<Longrightarrow> to_valid s = s"
  by (simp add: utf8_def)

lemma utf8_simps [simp]: "utf8 []" "ascii c \<Longrightarrow> utf8 (c # s) = utf8 s"
  by (simp_all add: utf8_def)

lemma utf8_ascii: "list_all ascii s \<Longrightarrow> utf8 s"
  by (induction s) simp_all

lemma utf8_replicate [simp]: "ascii c \<Longrightarrow> utf8 (replicate n c)"
  by (induction n) simp_all

lemma to_valid_eq_Nil [simp]: "to_valid s = [] \<longleftrightarrow> s = []"
  by (cases s) (auto simp: to_valid.simps replacement_char_def split: option.split)

lemma ascii_of_char: "ascii c \<longleftrightarrow> (of_char c :: nat) < 128"
  by (cases c) (auto simp: of_char_def horner_sum_simps split: bool.splits)

lemma ascii_no_tail: "ascii c \<Longrightarrow> 128 \<le> lo \<Longrightarrow> \<not> byte_in lo hi c"
  by (simp add: ascii_of_char byte_in_def Let_def)

text \<open>A rune ends before the next byte of one character, and does not depend on what follows it.\<close>

lemma follows_low: "follows c = (k, lo, hi) \<Longrightarrow> 0 < k \<Longrightarrow> 128 \<le> lo"
  by (auto simp: follows_def Let_def split: if_splits)

lemma rune_tail_le: "rune_tail c s = Some k \<Longrightarrow> k \<le> length s"
  by (auto simp: rune_tail_def split: if_splits prod.splits)

lemma rune_tail_prefix: "rune_tail c s = Some k \<Longrightarrow> rune_tail c (take k s @ t) = Some k"
proof -
  assume r: "rune_tail c s = Some k"
  show ?thesis
  proof (cases k)
    case 0
    then show ?thesis using r by (auto simp: rune_tail_def split: if_splits prod.splits)
  next
    case (Suc j)
    then obtain x xs where s: "s = x # xs" using rune_tail_le [OF r] Suc by (cases s) auto
    have "j \<le> length xs" using rune_tail_le [OF r] s Suc by simp
    then show ?thesis using r Suc s by (auto simp: rune_tail_def split: if_splits prod.splits)
  qed
qed

lemma rune_tail_ascii:
  assumes "ascii x"
  shows "rune_tail c (s @ x # t) = rune_tail c s"
proof (cases "ascii c")
  case False
  obtain k lo hi where f: "follows c = (k, lo, hi)" by (cases "follows c")
  show ?thesis
  proof (cases "k \<le> length s")
    case True
    then show ?thesis using False f by (cases s) (auto simp: rune_tail_def)
  next
    case long: False
    have "x \<in> set (take (k - 1) (tl (s @ x # t)))" if ne: "s \<noteq> []"
    proof -
      obtain y ys where s: "s = y # ys" using ne by (cases s) auto
      obtain m where "k - 1 - length ys = Suc m" using long s by (cases "k - 1 - length ys") auto
      then have "take (k - 1) (ys @ x # t) = ys @ x # take m t" by simp
      then show ?thesis using s by simp
    qed
    then have "\<not> (0 < k \<and> byte_in lo hi (hd (s @ x # t)) \<and> list_all (byte_in 128 191) (take (k - 1) (tl (s @ x # t))))"
      using ascii_no_tail [OF assms] follows_low [OF f] by (cases "s = []") (auto simp: list_all_iff)
    then show ?thesis using False f long by (auto simp: rune_tail_def)
  qed
qed (simp add: rune_tail_def)

text \<open>A single byte such as a line feed splits a string into parts that are read on their own.\<close>

lemma to_valid_split:
  assumes "ascii x"
  shows "to_valid (s @ x # t) = to_valid s @ x # to_valid t"
proof (induction s rule: to_valid.induct)
  case (2 c s)
  then show ?case
    using rune_tail_ascii [OF assms, of c s t] rune_tail_le [of c s]
    by (auto simp: to_valid.simps(2) split: option.split)
qed (use assms in simp)

lemma to_valid_join:
  assumes "ascii x"
  shows "to_valid (join_with [x] ws) = join_with [x] (map to_valid ws)"
  by (induction "[x]" ws rule: join_with.induct) (simp_all add: to_valid_split [OF assms])

lemma utf8_to_valid: "utf8 (to_valid s)"
  unfolding utf8_def
proof (induction s rule: to_valid.induct)
  case (2 c s)
  show ?case
  proof (cases "rune_tail c s")
    case None
    have "rune_tail CHR 0xEF (CHR 0xBF # CHR 0xBD # to_valid s) = Some 2"
      by (simp add: rune_tail_def follows_def byte_in_def)
    then show ?thesis
      using None 2 by (simp add: to_valid.simps(2) replacement_char_def)
  next
    case (Some k)
    then show ?thesis
      using 2(2) [OF Some] rune_tail_prefix [OF Some] rune_tail_le [OF Some] by (simp add: to_valid.simps(2))
  qed
qed simp

lemmas to_valid_idem [simp] = utf8_to_valid [unfolded utf8_def]

text \<open>No byte of one character is lost, and none comes from nowhere.\<close>

lemma to_valid_ascii_iff:
  assumes "ascii x"
  shows "x \<in> set (to_valid s) \<longleftrightarrow> x \<in> set s"
proof (induction s rule: to_valid.induct)
  case (2 c s)
  have r: "x \<notin> set replacement_char" using assms by (auto simp: replacement_char_def)
  show ?case
  proof (cases "rune_tail c s")
    case None
    then have "c \<noteq> x" using assms by (auto simp: rune_tail_def)
    then show ?thesis using None 2 r by (simp add: to_valid.simps(2))
  next
    case (Some k)
    have "set s = set (take k s) \<union> set (drop k s)" by (metis append_take_drop_id set_append)
    then show ?thesis using Some 2(2) [OF Some] by (auto simp: to_valid.simps(2))
  qed
qed simp

section \<open>Decimal numbers\<close>

definition digit_char :: "nat \<Rightarrow> char" where
  "digit_char d = char_of (48 + d)"

fun nat_digits :: "nat \<Rightarrow> string" where
  "nat_digits n = (if n < 10 then [digit_char n] else nat_digits (n div 10) @ [digit_char (n mod 10)])"

declare nat_digits.simps [simp del]

text \<open>\<^verbatim>\<open>strconv.Itoa\<close> (and \<^verbatim>\<open>%d\<close>).\<close>

definition itoa :: "int \<Rightarrow> string" where
  "itoa n = (if n < 0 then CHR ''-'' # nat_digits (nat (- n)) else nat_digits (nat n))"

definition digit_value :: "char \<Rightarrow> nat option" where
  "digit_value c = (let k = of_char c :: nat in if 48 \<le> k \<and> k \<le> 57 then Some (k - 48) else None)"

fun parse_digits :: "nat \<Rightarrow> string \<Rightarrow> nat option" where
  "parse_digits acc [] = Some acc"
| "parse_digits acc (c # cs) =
     (case digit_value c of None \<Rightarrow> None | Some d \<Rightarrow> parse_digits (10 * acc + d) cs)"

text \<open>\<^verbatim>\<open>strconv.Atoi\<close>, which is \<^verbatim>\<open>strconv.ParseInt(s, 10, 64)\<close> on a 64-bit system.\<close>

definition parse_signed :: "bool \<Rightarrow> string \<Rightarrow> int option" where
  "parse_signed neg ds =
     (if ds = [] then None
      else case parse_digits 0 ds of
        None \<Rightarrow> None
      | Some n \<Rightarrow>
          (let v = (if neg then - int n else int n) in if int64_ok v then Some v else None))"

fun atoi :: "string \<Rightarrow> int option" where
  "atoi [] = None"
| "atoi (c # cs) =
     (if c = CHR ''-'' then parse_signed True cs
      else if c = CHR ''+'' then parse_signed False cs
      else parse_signed False (c # cs))"

lemma digit_value_char: "d < 10 \<Longrightarrow> digit_value (digit_char d) = Some d"
  by (simp add: digit_value_def digit_char_def Let_def)

lemma parse_digits_append:
  "parse_digits acc (xs @ ys) =
     (case parse_digits acc xs of None \<Rightarrow> None | Some a \<Rightarrow> parse_digits a ys)"
  by (induction xs arbitrary: acc) (auto split: option.splits)

lemma parse_nat_digits: "parse_digits 0 (nat_digits n) = Some n"
proof (induction n rule: nat_digits.induct)
  case (1 n)
  show ?case
  proof (cases "n < 10")
    case True
    then show ?thesis by (simp add: nat_digits.simps [of n] digit_value_char)
  next
    case False
    with 1 have "parse_digits 0 (nat_digits (n div 10)) = Some (n div 10)" by simp
    with False show ?thesis
      by (simp add: nat_digits.simps [of n] parse_digits_append digit_value_char)
  qed
qed

lemma nat_digits_Cons:
  obtains c cs where "nat_digits n = c # cs" and "c \<noteq> CHR ''-''" and "c \<noteq> CHR ''+''"
proof -
  have "\<exists>d cs. d < 10 \<and> nat_digits n = digit_char d # cs"
  proof (induction n rule: nat_digits.induct)
    case (1 n)
    show ?case
    proof (cases "n < 10")
      case True
      then show ?thesis by (auto simp: nat_digits.simps [of n])
    next
      case False
      with 1 obtain d cs where "d < 10" "nat_digits (n div 10) = digit_char d # cs" by blast
      with False show ?thesis by (auto simp: nat_digits.simps [of n])
    qed
  qed
  then obtain d cs where d: "d < 10" and eq: "nat_digits n = digit_char d # cs" by blast
  have "digit_value (digit_char d) = Some d" using d by (rule digit_value_char)
  then have "digit_char d \<noteq> CHR ''-''" and "digit_char d \<noteq> CHR ''+''"
    by (auto simp: digit_value_def Let_def)
  with eq show ?thesis by (rule that)
qed

lemma atoi_itoa: "int64_ok n \<Longrightarrow> atoi (itoa n) = Some n"
proof (cases "n < 0")
  case True
  assume ok: "int64_ok n"
  have "nat_digits (nat (- n)) \<noteq> []" using nat_digits_Cons by (metis list.discI)
  with True ok show ?thesis by (simp add: itoa_def parse_signed_def parse_nat_digits)
next
  case False
  assume ok: "int64_ok n"
  obtain c cs where eq: "nat_digits (nat n) = c # cs" and "c \<noteq> CHR ''-''" "c \<noteq> CHR ''+''"
    by (rule nat_digits_Cons)
  then have "atoi (itoa n) = parse_signed False (nat_digits (nat n))"
    using False by (simp add: itoa_def)
  also have "\<dots> = Some n"
    using False ok eq parse_nat_digits [of "nat n"] by (simp add: parse_signed_def)
  finally show ?thesis .
qed

section \<open>Hexadecimal\<close>

definition hex_char :: "nat \<Rightarrow> char" where
  "hex_char d = (if d < 10 then char_of (48 + d) else char_of (87 + d))"

text \<open>\<^verbatim>\<open>hex.EncodeToString\<close>: two lower-case digits a byte.\<close>

fun hex_encode :: "8 word list \<Rightarrow> string" where
  "hex_encode [] = []"
| "hex_encode (b # bs) = hex_char (unat b div 16) # hex_char (unat b mod 16) # hex_encode bs"

lemma length_hex_encode: "length (hex_encode bs) = 2 * length bs"
  by (induction bs) auto

lemma of_char_hex_char:
  "d < 16 \<Longrightarrow> (of_char (hex_char d) :: nat) = (if d < 10 then 48 + d else 87 + d)"
  by (simp add: hex_char_def)

lemma hex_char_inj:
  assumes "a < 16" and "b < 16" and "hex_char a = hex_char b"
  shows "a = b"
proof -
  have "(of_char (hex_char a) :: nat) = of_char (hex_char b)" using assms(3) by simp
  then show ?thesis using assms(1,2) by (simp add: of_char_hex_char split: if_splits)
qed

lemma byte_nibbles: "unat (x :: 8 word) div 16 < 16" "unat (x :: 8 word) mod 16 < 16"
proof -
  have "unat x < 256" using unsigned_less [of x] by simp
  then show "unat x div 16 < 16" by (simp add: less_mult_imp_div_less)
qed simp

lemma hex_encode_inj: "hex_encode as = hex_encode bs \<Longrightarrow> as = bs"
proof (induction as arbitrary: bs)
  case Nil
  then show ?case by (cases bs) auto
next
  case (Cons a as)
  then obtain b bs' where bs: "bs = b # bs'" by (cases bs) auto
  from Cons.prems bs have "unat a div 16 = unat b div 16" and "unat a mod 16 = unat b mod 16"
    by (auto intro: hex_char_inj [OF byte_nibbles(1) byte_nibbles(1)]
        hex_char_inj [OF byte_nibbles(2) byte_nibbles(2)])
  then have "unat a = unat b" by (metis div_mult_mod_eq)
  then have "a = b" by (rule unsigned_word_eqI)
  with Cons bs show ?case by auto
qed

lemma hex_char_not_space:
  assumes "d < 16"
  shows "\<not> is_space (hex_char d)"
proof
  assume "is_space (hex_char d)"
  then have "(of_char (hex_char d) :: nat) \<in> {32, 9, 10, 11, 12, 13}"
    by (auto simp: is_space_def)
  then show False using assms by (simp add: of_char_hex_char split: if_splits)
qed

lemma hex_encode_not_space: "c \<in> set (hex_encode bs) \<Longrightarrow> \<not> is_space c"
  by (induction bs) (auto simp: hex_char_not_space byte_nibbles)

section \<open>Contexts\<close>

text \<open>
  A \<^verbatim>\<open>context.Context\<close> is a chain from \<^verbatim>\<open>Background\<close>. A cancel function is named by a
  string; \<open>cancelled_at\<close> says when each was called, if it was. A context is done as soon
  as one of the links above it is, and keeps the error of the first.
\<close>

datatype ctx_error = Canceled | DeadlineExceeded

datatype ctx =
    Background
  | WithCancel string ctx
  | WithDeadline time ctx

definition earlier :: "(time \<times> ctx_error) option \<Rightarrow> (time \<times> ctx_error) option \<Rightarrow> (time \<times> ctx_error) option" where
  "earlier a b =
     (case a of None \<Rightarrow> b
      | Some (t, e) \<Rightarrow> (case b of None \<Rightarrow> a | Some (u, f) \<Rightarrow> if u < t then b else a))"

fun ctx_end :: "(string \<rightharpoonup> time) \<Rightarrow> ctx \<Rightarrow> (time \<times> ctx_error) option" where
  "ctx_end cancelled_at Background = None"
| "ctx_end cancelled_at (WithCancel c p) =
     earlier (ctx_end cancelled_at p) (map_option (\<lambda>t. (t, Canceled)) (cancelled_at c))"
| "ctx_end cancelled_at (WithDeadline d p) =
     earlier (ctx_end cancelled_at p) (Some (d, DeadlineExceeded))"

text \<open>\<^verbatim>\<open>ctx.Err()\<close> at an instant.\<close>

definition ctx_err :: "(string \<rightharpoonup> time) \<Rightarrow> time \<Rightarrow> ctx \<Rightarrow> ctx_error option" where
  "ctx_err cancelled_at now c =
     (case ctx_end cancelled_at c of None \<Rightarrow> None | Some (t, e) \<Rightarrow> if t \<le> now then Some e else None)"

lemma ctx_err_Background [simp]: "ctx_err ca now Background = None"
  by (simp add: ctx_err_def)

end
