(* ===== verification/Rfc3339.thy ===== *)
theory Rfc3339
  imports Golib
begin

text \<open>
  The textual form of \<^verbatim>\<open>time.Time\<close> in JSON: RFC 3339 with nanoseconds, written in UTC
  and read with any offset, over the proleptic Gregorian calendar. The result of the theory
  is the round trip \<open>parse_time_format_time\<close>, on which every message that carries a
  time relies.
\<close>

section \<open>The calendar\<close>

text \<open>
  Days since 1970-01-01 of a civil date and back. Inside, a year starts on March 1, so that
  the leap day is the last one; \<open>split_era\<close> splits a day of the 400-year era into the year
  of the era and the day of that year, by centuries, four-year groups and years.
\<close>

definition split_era :: "int \<Rightarrow> int \<times> int" where
  "split_era doe =
     (let c = min 3 (doe div 36524); r1 = doe - 36524 * c;
          q = r1 div 1461; r2 = r1 - 1461 * q;
          n = min 3 (r2 div 365)
      in (100 * c + 4 * q + n, r2 - 365 * n))"

definition days_from_civil :: "int \<Rightarrow> int \<Rightarrow> int \<Rightarrow> int" where
  "days_from_civil y m d =
     (let y' = (if m \<le> 2 then y - 1 else y);
          era = y' div 400;
          yoe = y' mod 400;
          doy = (153 * (if m > 2 then m - 3 else m + 9) + 2) div 5 + d - 1
      in era * 146097 + (yoe * 365 + yoe div 4 - yoe div 100 + doy) - 719468)"

definition civil_from_days :: "int \<Rightarrow> int \<times> int \<times> int" where
  "civil_from_days z =
     (let z' = z + 719468;
          era = z' div 146097;
          (yoe, doy) = split_era (z' mod 146097);
          mp = (5 * doy + 2) div 153;
          m = (if mp < 10 then mp + 3 else mp - 9)
      in ((if m \<le> 2 then yoe + era * 400 + 1 else yoe + era * 400), m,
          doy - (153 * mp + 2) div 5 + 1))"

definition is_leap :: "int \<Rightarrow> bool" where
  "is_leap y \<longleftrightarrow> y mod 4 = 0 \<and> (y mod 100 \<noteq> 0 \<or> y mod 400 = 0)"

definition days_in :: "int \<Rightarrow> int \<Rightarrow> int" where
  "days_in y m =
     (if m = 2 then (if is_leap y then 29 else 28)
      else if m \<in> {4, 6, 9, 11} then 30 else 31)"

lemma div_bounds:
  fixes x k :: int
  assumes "0 < k"
  shows "k * (x div k) \<le> x" and "x < k * (x div k) + k"
proof -
  have "x = k * (x div k) + x mod k" by simp
  moreover have "0 \<le> x mod k" "x mod k < k" using assms by simp_all
  ultimately show "k * (x div k) \<le> x" "x < k * (x div k) + k" by linarith+
qed

lemma split_era_parts:
  assumes doe: "0 \<le> doe" "doe < 146097"
  obtains c q n doy where "split_era doe = (100 * c + 4 * q + n, doy)"
    and "0 \<le> c" "c \<le> 3" "0 \<le> q" "q \<le> 24" "0 \<le> n" "n \<le> 3" "0 \<le> doy" "doy \<le> 365"
    and "doe = 36524 * c + 1461 * q + 365 * n + doy"
    and "doy = 365 \<Longrightarrow> n = 3 \<and> (q < 24 \<or> c = 3)"
proof -
  define c where "c = min 3 (doe div 36524)"
  define r1 where "r1 = doe - 36524 * c"
  define q where "q = r1 div 1461"
  define r2 where "r2 = r1 - 1461 * q"
  define n where "n = min 3 (r2 div 365)"
  have c: "0 \<le> c" "c \<le> 3" "0 \<le> r1" "r1 \<le> 36524" "c < 3 \<Longrightarrow> r1 < 36524"
    unfolding r1_def c_def using doe by (auto simp: min_def)
  have q: "0 \<le> q" "q \<le> 24" "0 \<le> r2" "r2 < 1461"
    using c div_bounds [of 1461 r1] unfolding r2_def q_def by linarith+
  have n: "0 \<le> n" "n \<le> 3" "0 \<le> r2 - 365 * n" "r2 - 365 * n \<le> 365"
    "r2 - 365 * n = 365 \<Longrightarrow> n = 3"
    using q div_bounds [of 365 r2] unfolding n_def min_def by (auto split: if_splits)
  have last: "q < 24 \<or> c = 3" if "r2 - 365 * n = 365"
  proof (rule ccontr)
    assume "\<not> (q < 24 \<or> c = 3)"
    with c q have "q = 24" "r1 < 36524" by auto
    then have "r2 < 1460" unfolding r2_def by simp
    with n(5) [OF that] that show False by simp
  qed
  show ?thesis
  proof (rule that)
    show "split_era doe = (100 * c + 4 * q + n, r2 - 365 * n)"
      by (simp add: split_era_def Let_def c_def r1_def q_def r2_def n_def)
    show "doe = 36524 * c + 1461 * q + 365 * n + (r2 - 365 * n)"
      by (simp add: r1_def r2_def)
  qed (use c q n last in auto)
qed

lemma month_of_year:
  fixes doy :: int
  assumes "0 \<le> doy" and "doy \<le> 365"
  defines "mp \<equiv> (5 * doy + 2) div 153"
  defines "d \<equiv> doy - (153 * mp + 2) div 5 + 1"
  shows "0 \<le> mp" and "mp \<le> 11" and "1 \<le> d" and "d \<le> 31"
    and "mp \<in> {1, 3, 6, 8} \<Longrightarrow> d \<le> 30" and "mp = 11 \<Longrightarrow> d \<le> doy - 336"
proof -
  have m: "153 * mp \<le> 5 * doy + 2" "5 * doy + 2 < 153 * mp + 153"
    unfolding mp_def using div_bounds [of 153 "5 * doy + 2"] by simp_all
  then show mp: "0 \<le> mp" "mp \<le> 11" using assms(1,2) by linarith+
  have "mp = 0 \<or> mp = 1 \<or> mp = 2 \<or> mp = 3 \<or> mp = 4 \<or> mp = 5 \<or> mp = 6 \<or> mp = 7 \<or> mp = 8
    \<or> mp = 9 \<or> mp = 10 \<or> mp = 11" using mp by arith
  then show "1 \<le> d" "d \<le> 31" "mp \<in> {1, 3, 6, 8} \<Longrightarrow> d \<le> 30"
    unfolding d_def using m assms(1,2) by auto
  show "d \<le> doy - 336" if "mp = 11" unfolding d_def that by simp
qed

lemma civil_from_days_eq:
  assumes "split_era ((z + 719468) mod 146097) = (yoe, doy)"
  shows "civil_from_days z =
     (let y = yoe + (z + 719468) div 146097 * 400; mp = (5 * doy + 2) div 153;
          d = doy - (153 * mp + 2) div 5 + 1
      in if mp < 10 then (if mp + 3 \<le> 2 then y + 1 else y, mp + 3, d)
         else (if mp - 9 \<le> 2 then y + 1 else y, mp - 9, d))"
  by (simp add: civil_from_days_def assms Let_def)

lemma civil_roundtrip:
  "(case civil_from_days z of (y, m, d) \<Rightarrow> days_from_civil y m d) = z"
proof -
  define era where "era = (z + 719468) div 146097"
  define doe where "doe = (z + 719468) mod 146097"
  have doe: "0 \<le> doe" "doe < 146097" and z: "z + 719468 = era * 146097 + doe"
    by (simp_all add: doe_def era_def)
  obtain c q n doy where sp: "split_era doe = (100 * c + 4 * q + n, doy)"
    and b: "0 \<le> c" "c \<le> 3" "0 \<le> q" "q \<le> 24" "0 \<le> n" "n \<le> 3" "0 \<le> doy" "doy \<le> 365"
    and sum: "doe = 36524 * c + 1461 * q + 365 * n + doy"
    by (rule split_era_parts [OF doe])
  define yoe where "yoe = 100 * c + 4 * q + n"
  have yoe: "(yoe + era * 400) div 400 = era" "(yoe + era * 400) mod 400 = yoe"
    "yoe div 4 = 25 * c + q" "yoe div 100 = c"
    using b by (auto simp: yoe_def)
  have small: "yoe mod 400 = yoe" using b by (simp add: yoe_def)
  define mp where "mp = (5 * doy + 2) div 153"
  have mp: "0 \<le> mp" "mp \<le> 11" using month_of_year [OF b(7,8)] by (simp_all add: mp_def)
  have "yoe * 365 + (25 * c + q) - c + doy = doe"
    unfolding sum yoe_def by (simp add: algebra_simps)
  with z have "era * 146097 + (yoe * 365 + yoe div 4 - yoe div 100 + doy) - 719468 = z"
    unfolding yoe(3,4) by linarith
  moreover have "civil_from_days z =
      (if mp < 10 then (yoe + era * 400, mp + 3, doy - (153 * mp + 2) div 5 + 1)
       else (yoe + era * 400 + 1, mp - 9, doy - (153 * mp + 2) div 5 + 1))"
    using mp by (simp add: civil_from_days_eq [OF sp [unfolded doe_def]] era_def yoe_def mp_def Let_def)
  ultimately show ?thesis
    using mp by (cases "mp < 10") (simp_all add: days_from_civil_def Let_def yoe(1,2) small)
qed

lemma civil_valid:
  assumes "civil_from_days z = (y, m, d)"
  shows "1 \<le> m" and "m \<le> 12" and "1 \<le> d" and "d \<le> days_in y m"
proof -
  define era where "era = (z + 719468) div 146097"
  define doe where "doe = (z + 719468) mod 146097"
  have doe: "0 \<le> doe" "doe < 146097" by (simp_all add: doe_def)
  obtain c q n doy where sp: "split_era doe = (100 * c + 4 * q + n, doy)"
    and b: "0 \<le> c" "c \<le> 3" "0 \<le> q" "q \<le> 24" "0 \<le> n" "n \<le> 3" "0 \<le> doy" "doy \<le> 365"
    and last: "doy = 365 \<Longrightarrow> n = 3 \<and> (q < 24 \<or> c = 3)"
    by (rule split_era_parts [OF doe]) blast
  define yoe where "yoe = 100 * c + 4 * q + n"
  define mp where "mp = (5 * doy + 2) div 153"
  note my = month_of_year [OF b(7,8), folded mp_def]
  have eqs: "m = (if mp < 10 then mp + 3 else mp - 9)" "d = doy - (153 * mp + 2) div 5 + 1"
    "y = (if m \<le> 2 then yoe + era * 400 + 1 else yoe + era * 400)"
    using assms civil_from_days_eq [OF sp [unfolded doe_def]]
    by (auto simp: Let_def mp_def yoe_def era_def split: if_splits)
  show "1 \<le> m" "m \<le> 12" "1 \<le> d" using my eqs by auto
  have leap: "is_leap y" if "doy = 365" "mp = 11"
  proof -
    have y: "y = 100 * (c + 4 * era) + (4 * q + 4)"
      using that eqs last [OF that(1)] by (simp add: yoe_def)
    then have "y = 4 * (25 * (c + 4 * era) + q + 1)" by simp
    then have "y mod 4 = 0" by simp
    moreover have "y mod 100 \<noteq> 0 \<or> y mod 400 = 0"
    proof (cases "q < 24")
      case True
      have "y mod 100 = (4 * q + 4) mod 100" unfolding y by (simp only: mod_mult_self4)
      also have "\<dots> = 4 * q + 4" using True b(3) by simp
      finally have "y mod 100 = 4 * q + 4" .
      then show ?thesis using b(3) by simp
    next
      case False
      then have "y = 400 * (era + 1)" using last [OF that(1)] b(4) y by simp
      then show ?thesis by simp
    qed
    ultimately show ?thesis by (simp add: is_leap_def)
  qed
  show "d \<le> days_in y m"
  proof (cases "mp = 11")
    case True
    then have "m = 2" using eqs by simp
    moreover have "d \<le> doy - 336" using my(6) True eqs(2) by simp
    moreover have "doy \<le> 364 \<or> is_leap y" using leap True b(8) by fastforce
    ultimately show ?thesis using b(8) by (auto simp: days_in_def)
  next
    case False
    then have "m \<noteq> 2" using eqs my by (auto split: if_splits)
    moreover have "m \<in> {4, 6, 9, 11} \<Longrightarrow> mp \<in> {1, 3, 6, 8}" using eqs(1) my(2) by (auto split: if_splits)
    ultimately show ?thesis using my(4,5) eqs(2) by (simp add: days_in_def)
  qed
qed

section \<open>Fixed-width numbers\<close>

fun pad :: "nat \<Rightarrow> nat \<Rightarrow> string" where
  "pad 0 n = []"
| "pad (Suc w) n = pad w (n div 10) @ [digit_char (n mod 10)]"

lemma length_pad [simp]: "length (pad w n) = w"
  by (induction w n rule: pad.induct) auto

lemma parse_pad: "n < 10 ^ w \<Longrightarrow> parse_digits 0 (pad w n) = Some n"
proof (induction w n rule: pad.induct)
  case (2 w n)
  then have "n div 10 < 10 ^ w" by (simp add: less_mult_imp_div_less mult.commute)
  with 2 show ?case by (simp add: parse_digits_append digit_value_char)
qed simp

definition take_num :: "nat \<Rightarrow> string \<Rightarrow> (nat \<times> string) option" where
  "take_num w s =
     (if length s < w then None
      else map_option (\<lambda>n. (n, drop w s)) (parse_digits 0 (take w s)))"

lemma take_num_pad [simp]: "n < 10 ^ w \<Longrightarrow> take_num w (pad w n @ s) = Some (n, s)"
  by (simp add: take_num_def parse_pad)

fun expect :: "char \<Rightarrow> string \<Rightarrow> string option" where
  "expect c [] = None"
| "expect c (x # xs) = (if x = c then Some xs else None)"

definition is_digit :: "char \<Rightarrow> bool" where
  "is_digit c \<longleftrightarrow> digit_value c \<noteq> None"

lemma is_digit_pad: "c \<in> set (pad w n) \<Longrightarrow> is_digit c"
  by (induction w n rule: pad.induct) (auto simp: is_digit_def digit_value_char)

section \<open>Fractions of a second\<close>

text \<open>Nine digits with the trailing zeros dropped, and nothing at all for zero.\<close>

definition trim_zeros :: "string \<Rightarrow> string" where
  "trim_zeros s = rev (dropWhile (\<lambda>c. c = CHR ''0'') (rev s))"

definition format_frac :: "nat \<Rightarrow> string" where
  "format_frac ns = (if ns = 0 then [] else CHR ''.'' # trim_zeros (pad 9 ns))"

definition parse_frac :: "string \<Rightarrow> (nat \<times> string) option" where
  "parse_frac s =
     (case expect CHR ''.'' s of
        None \<Rightarrow> Some (0, s)
      | Some t \<Rightarrow>
          (let ds = takeWhile is_digit t in
           if ds = [] then None
           else map_option (\<lambda>n. (n, dropWhile is_digit t))
                  (parse_digits 0 (take 9 (ds @ replicate 9 CHR ''0'')))))"

lemma trim_zeros_append: "\<exists>k. s = trim_zeros s @ replicate k CHR ''0''"
proof -
  let ?z = "takeWhile (\<lambda>c. c = CHR ''0'') (rev s)"
  have "rev ?z = replicate (length ?z) CHR ''0''"
    by (intro replicate_eqI) (auto dest: set_takeWhileD)
  moreover have "s = rev (dropWhile (\<lambda>c. c = CHR ''0'') (rev s)) @ rev ?z"
    by (metis rev_append rev_rev_ident takeWhile_dropWhile_id)
  ultimately show ?thesis unfolding trim_zeros_def by metis
qed

lemma take_trim_zeros:
  assumes "length s = 9"
  shows "take 9 (trim_zeros s @ replicate 9 CHR ''0'') = s"
proof -
  obtain k where k: "s = trim_zeros s @ replicate k CHR ''0''"
    using trim_zeros_append by blast
  then have len: "9 = length (trim_zeros s) + k" using assms by (metis length_append length_replicate)
  then have "take 9 (trim_zeros s @ replicate 9 CHR ''0'') = trim_zeros s @ replicate k CHR ''0''"
    by simp
  with k show ?thesis by simp
qed

lemma trim_zeros_digits: "c \<in> set (trim_zeros (pad w n)) \<Longrightarrow> is_digit c"
  by (metis is_digit_pad trim_zeros_def set_dropWhileD set_rev)

lemma parse_format_frac:
  assumes "ns < 10 ^ 9" and "s = CHR ''Z'' # t"
  shows "parse_frac (format_frac ns @ s) = Some (ns, s)"
proof (cases "ns = 0")
  case True
  with assms(2) show ?thesis by (simp add: format_frac_def parse_frac_def)
next
  case False
  let ?ds = "trim_zeros (pad 9 ns)"
  have dig: "\<forall>c \<in> set ?ds. is_digit c" by (simp add: trim_zeros_digits)
  have z: "\<not> is_digit CHR ''Z''" by (simp add: is_digit_def digit_value_def)
  have tw: "takeWhile is_digit (?ds @ s) = ?ds" "dropWhile is_digit (?ds @ s) = s"
    using dig z assms(2) by (simp_all add: takeWhile_append2 dropWhile_append2)
  have "?ds \<noteq> []"
  proof
    assume "?ds = []"
    then obtain k where "pad 9 ns = replicate k CHR ''0''"
      using trim_zeros_append [of "pad 9 ns"] by auto
    moreover have "parse_digits 0 (replicate k CHR ''0'') = Some 0"
      by (induction k) (simp_all add: digit_value_def)
    ultimately show False using parse_pad [OF assms(1)] False by simp
  qed
  then show ?thesis
    using False tw parse_pad [OF assms(1)]
    by (simp add: format_frac_def parse_frac_def Let_def take_trim_zeros del: take_append)
qed

section \<open>Timestamps\<close>

definition day_ns :: int where
  "day_ns = 24 * hour"

definition year_of :: "time \<Rightarrow> int" where
  "year_of t = fst (civil_from_days (t div day_ns))"

text \<open>\<^verbatim>\<open>t.UTC().Format(time.RFC3339Nano)\<close>, for the years 0 to 9999.\<close>

definition format_time :: "time \<Rightarrow> string" where
  "format_time t =
     (case civil_from_days (t div day_ns) of (y, m, d) \<Rightarrow>
        let r = nat (t mod day_ns); sec = r div 1000000000
        in pad 4 (nat y) @ ''-'' @ pad 2 (nat m) @ ''-'' @ pad 2 (nat d) @ ''T'' @
           pad 2 (sec div 3600) @ '':'' @ pad 2 (sec div 60 mod 60) @ '':'' @ pad 2 (sec mod 60) @
           format_frac (r mod 1000000000) @ ''Z'')"

text \<open>The offset, \<^verbatim>\<open>Z\<close> or \<^verbatim>\<open>+hh:mm\<close>, in seconds; nothing may follow it.\<close>

definition parse_offset :: "string \<Rightarrow> int option" where
  "parse_offset s =
     (if s = ''Z'' then Some 0
      else case s of
        [] \<Rightarrow> None
      | c # t \<Rightarrow>
          if c = CHR ''+'' \<or> c = CHR ''-'' then
            Option.bind (take_num 2 t) (\<lambda>(h, t).
            Option.bind (expect CHR '':'' t) (\<lambda>t.
            Option.bind (take_num 2 t) (\<lambda>(mi, t).
              if t = [] \<and> h < 24 \<and> mi < 60
              then Some ((if c = CHR ''-'' then - 1 else 1) * int (h * 3600 + mi * 60)) else None)))
          else None)"

text \<open>\<^verbatim>\<open>(*Time).UnmarshalJSON\<close>: the strict RFC 3339 form, every field in its range.\<close>

definition parse_time :: "string \<Rightarrow> time option" where
  "parse_time s =
     Option.bind (take_num 4 s) (\<lambda>(y, s).
     Option.bind (expect CHR ''-'' s) (\<lambda>s.
     Option.bind (take_num 2 s) (\<lambda>(m, s).
     Option.bind (expect CHR ''-'' s) (\<lambda>s.
     Option.bind (take_num 2 s) (\<lambda>(d, s).
     Option.bind (expect CHR ''T'' s) (\<lambda>s.
     Option.bind (take_num 2 s) (\<lambda>(hh, s).
     Option.bind (expect CHR '':'' s) (\<lambda>s.
     Option.bind (take_num 2 s) (\<lambda>(mi, s).
     Option.bind (expect CHR '':'' s) (\<lambda>s.
     Option.bind (take_num 2 s) (\<lambda>(sec, s).
     Option.bind (parse_frac s) (\<lambda>(ns, s).
     Option.bind (parse_offset s) (\<lambda>off.
       if 1 \<le> m \<and> m \<le> 12 \<and> 1 \<le> d \<and> int d \<le> days_in (int y) (int m) \<and>
          hh < 24 \<and> mi < 60 \<and> sec < 60
       then Some (days_from_civil (int y) (int m) (int d) * day_ns +
                  (int (hh * 3600 + mi * 60 + sec) - off) * second + int ns)
       else None)))))))))))))"

lemma clock_split:
  fixes sec :: nat
  shows "sec div 3600 * 3600 + sec div 60 mod 60 * 60 + sec mod 60 = sec"
proof -
  have "sec div 3600 = sec div 60 div 60" by (simp add: div_mult2_eq [symmetric])
  then have "sec div 3600 * 3600 + sec div 60 mod 60 * 60 = (sec div 60 div 60 * 60 + sec div 60 mod 60) * 60"
    by (simp only: add_mult_distrib)
  also have "\<dots> = sec div 60 * 60" by (simp only: div_mult_mod_eq)
  finally show ?thesis by (simp only: div_mult_mod_eq)
qed

lemma day_parts:
  assumes "r = nat (t mod day_ns)" and "sec = r div 1000000000"
  shows "r mod 1000000000 < 10 ^ 9" and "sec < 86400"
    and "int sec * second + int (r mod 1000000000) = t mod day_ns"
proof -
  have nn: "0 \<le> t mod day_ns" "t mod day_ns < day_ns" by (simp_all add: day_ns_def)
  then have "r < 86400000000000" using assms(1) by (simp add: day_ns_def nat_less_iff)
  then show "sec < 86400" using assms(2) by (simp add: less_mult_imp_div_less)
  show "r mod 1000000000 < 10 ^ 9" by simp
  have "int r = int (r div 1000000000 * 1000000000 + r mod 1000000000)" by (simp only: div_mult_mod_eq)
  also have "\<dots> = int sec * second + int (r mod 1000000000)" by (simp only: assms(2))
  finally have "int sec * second + int (r mod 1000000000) = int r" ..
  moreover have "int r = t mod day_ns" using assms(1) nn(1) by simp
  ultimately show "int sec * second + int (r mod 1000000000) = t mod day_ns" by simp
qed

lemma parse_time_format_time:
  assumes "0 \<le> year_of t" and "year_of t \<le> 9999"
  shows "parse_time (format_time t) = Some t"
proof -
  obtain y m d where c': "civil_from_days (t div day_ns) = (y, m, d)"
    by (cases "civil_from_days (t div day_ns)")
  note v' = civil_valid [OF c']
  have "0 \<le> y" "0 \<le> m" "0 \<le> d" using assms c' v' by (simp_all add: year_of_def)
  then obtain Y M D where nats: "y = int Y" "m = int M" "d = int D" by (metis nonneg_int_cases)
  note c = c' [unfolded nats] and v = v' [unfolded nats]
  have "D \<le> 31" using v(4) by (auto simp: days_in_def split: if_splits)
  then have n: "Y < 10 ^ 4" "M < 10\<^sup>2" "D < 10\<^sup>2"
    using assms c v by (simp_all add: year_of_def)
  define r where "r = nat (t mod day_ns)"
  define sec where "sec = r div 1000000000"
  note p = day_parts [OF r_def sec_def]
  have s: "sec div 3600 < 24" "sec div 60 mod 60 < 60" "sec mod 60 < 60"
    using p(2) by (simp_all add: less_mult_imp_div_less)
  have w: "sec div 3600 < 10\<^sup>2" "sec div 60 mod 60 < 10\<^sup>2" "sec mod 60 < 10\<^sup>2"
    using s by simp_all
  have z: "days_from_civil (int Y) (int M) (int D) = t div day_ns"
    using civil_roundtrip [of "t div day_ns"] c by simp
  have tot: "t div day_ns * day_ns + int sec * second + int (r mod 1000000000) = t"
    using p(3) by (simp add: add.assoc)
  have ok: "1 \<le> M" "M \<le> 12" "1 \<le> D" "int D \<le> days_in (int Y) (int M)"
    using v by simp_all
  have "parse_time (format_time t) =
     Some (days_from_civil (int Y) (int M) (int D) * day_ns +
           (int (sec div 3600 * 3600 + sec div 60 mod 60 * 60 + sec mod 60) - 0) * second
           + int (r mod 1000000000))"
    unfolding parse_time_def format_time_def c prod.case Let_def r_def [symmetric] sec_def [symmetric]
    using n w s ok
    by (simp add: parse_format_frac [OF p(1) refl] parse_offset_def del: One_nat_def of_nat_add of_nat_mult)
  also have "\<dots> = Some t" unfolding clock_split z using tot by simp
  finally show ?thesis .
qed

text \<open>In JSON a time is the quoted timestamp; years outside 0 to 9999 do not marshal.\<close>

definition time_text :: "time \<Rightarrow> string option" where
  "time_text t = (if 0 \<le> year_of t \<and> year_of t \<le> 9999 then Some (format_time t) else None)"

lemma time_text_roundtrip: "time_text t = Some s \<Longrightarrow> parse_time s = Some t"
  by (auto simp: time_text_def parse_time_format_time split: if_splits)

end
