(* ===== verification/Json.thy ===== *)
theory Json
  imports Rfc3339 "HOL-Library.AList"
begin

text \<open>
  JSON documents as values, with the part of \<^verbatim>\<open>encoding/json\<close> the program relies on:
  the decoding of an object into the fields of a struct, field by field and in the order of
  the document, and the encoding of fields with and without \<^verbatim>\<open>omitempty\<close>. Of the bytes of a
  document only those of its strings are modelled: a body is absent, malformed, or one value.
\<close>

section \<open>Values\<close>

text \<open>
  \<open>JNum\<close> is an integer literal, \<open>JReal\<close> any other number by its literal. A
  \<^verbatim>\<open>json.RawMessage\<close> is \<open>None\<close> when it is the nil slice; the message \<open>null\<close> is
  \<open>Some JNull\<close>, which Go keeps apart from nil. The bytes of a string need not be UTF-8: the
  decoder replaces those that are not when it stores a Go string, and leaves a raw message alone.
\<close>

datatype json =
    JNull
  | JBool bool
  | JNum int
  | JReal string
  | JStr string
  | JArr "json list"
  | JObj "(string \<times> json) list"

type_synonym raw_message = "json option"
type_synonym string_map = "(string \<times> string) list"

text \<open>A request or response body as the decoder meets it.\<close>

datatype http_body = NoBytes | Malformed | Doc json

section \<open>Decoding\<close>

text \<open>Object keys match field names without regard to case (ASCII letters).\<close>

definition fold_code :: "char \<Rightarrow> nat" where
  "fold_code c = (let n = of_char c in if 65 \<le> n \<and> n \<le> 90 then n + 32 else n)"

definition key_eq :: "string \<Rightarrow> string \<Rightarrow> bool" where
  "key_eq k f \<longleftrightarrow> map fold_code k = map fold_code f"

lemmas key_eq_eval = key_eq_def fold_code_def Let_def

lemma key_eq_refl [simp]: "key_eq k k"
  by (simp add: key_eq_def)

fun dec_fields :: "('a \<Rightarrow> string \<Rightarrow> json \<Rightarrow> 'a option) \<Rightarrow> 'a \<Rightarrow> (string \<times> json) list \<Rightarrow> 'a option" where
  "dec_fields f acc [] = Some acc"
| "dec_fields f acc ((k, v) # kvs) =
     (case f acc k v of None \<Rightarrow> None | Some acc' \<Rightarrow> dec_fields f acc' kvs)"

text \<open>A struct: \<open>null\<close> leaves it as it is, anything but an object is a type error.\<close>

fun dec_struct :: "('a \<Rightarrow> string \<Rightarrow> json \<Rightarrow> 'a option) \<Rightarrow> 'a \<Rightarrow> json \<Rightarrow> 'a option" where
  "dec_struct f init JNull = Some init"
| "dec_struct f init (JObj kvs) = dec_fields f init kvs"
| "dec_struct f init j = None"

fun dec_string :: "string \<Rightarrow> json \<Rightarrow> string option" where
  "dec_string cur JNull = Some cur"
| "dec_string cur (JStr s) = Some (to_valid s)"
| "dec_string cur j = None"

fun dec_int :: "int \<Rightarrow> json \<Rightarrow> int option" where
  "dec_int cur JNull = Some cur"
| "dec_int cur (JNum n) = (if int64_ok n then Some n else None)"
| "dec_int cur j = None"

text \<open>Pointers: \<open>null\<close> is the nil pointer.\<close>

fun dec_string_ptr :: "json \<Rightarrow> string option option" where
  "dec_string_ptr JNull = Some None"
| "dec_string_ptr (JStr s) = Some (Some (to_valid s))"
| "dec_string_ptr j = None"

fun dec_int_ptr :: "json \<Rightarrow> int option option" where
  "dec_int_ptr JNull = Some None"
| "dec_int_ptr (JNum n) = (if int64_ok n then Some (Some n) else None)"
| "dec_int_ptr j = None"

fun dec_time :: "time \<Rightarrow> json \<Rightarrow> time option" where
  "dec_time cur JNull = Some cur"
| "dec_time cur (JStr s) = parse_time s"
| "dec_time cur j = None"

fun dec_time_ptr :: "json \<Rightarrow> time option option" where
  "dec_time_ptr JNull = Some None"
| "dec_time_ptr (JStr s) = map_option Some (parse_time s)"
| "dec_time_ptr j = None"

text \<open>Slices: \<open>None\<close> is the nil slice; a \<open>null\<close> element is the zero value.\<close>

fun dec_list :: "(json \<Rightarrow> 'a option) \<Rightarrow> json list \<Rightarrow> 'a list option" where
  "dec_list d [] = Some []"
| "dec_list d (j # js) =
     (case d j of None \<Rightarrow> None | Some x \<Rightarrow> map_option ((#) x) (dec_list d js))"

fun dec_slice :: "(json \<Rightarrow> 'a option) \<Rightarrow> json \<Rightarrow> 'a list option option" where
  "dec_slice d JNull = Some None"
| "dec_slice d (JArr js) = map_option Some (dec_list d js)"
| "dec_slice d j = None"

definition slice_elems :: "'a list option \<Rightarrow> 'a list" where
  "slice_elems xs = (case xs of None \<Rightarrow> [] | Some ys \<Rightarrow> ys)"

lemma slice_elems_simps [simp]: "slice_elems None = []" "slice_elems (Some xs) = xs"
  by (simp_all add: slice_elems_def)

text \<open>\<^verbatim>\<open>map[string]string\<close>: an object's entries are added to the map that is there.\<close>

fun dec_entries :: "string_map \<Rightarrow> (string \<times> json) list \<Rightarrow> string_map option" where
  "dec_entries m [] = Some m"
| "dec_entries m ((k, v) # kvs) =
     (case dec_string [] v of None \<Rightarrow> None | Some s \<Rightarrow> dec_entries (AList.update (to_valid k) s m) kvs)"

fun dec_string_map :: "string_map option \<Rightarrow> json \<Rightarrow> string_map option option" where
  "dec_string_map cur JNull = Some None"
| "dec_string_map cur (JObj kvs) = map_option Some (dec_entries (slice_elems cur) kvs)"
| "dec_string_map cur j = None"

text \<open>\<^verbatim>\<open>json.NewDecoder(body).Decode(&v)\<close>; the end of an empty body is an error of its own.\<close>

datatype decode_error = EOF | BadJson

fun decode_body :: "(json \<Rightarrow> 'a option) \<Rightarrow> http_body \<Rightarrow> decode_error + 'a" where
  "decode_body d NoBytes = Inl EOF"
| "decode_body d Malformed = Inl BadJson"
| "decode_body d (Doc j) = (case d j of None \<Rightarrow> Inl BadJson | Some x \<Rightarrow> Inr x)"

section \<open>Encoding\<close>

definition omit_if :: "bool \<Rightarrow> string \<Rightarrow> json \<Rightarrow> (string \<times> json) list" where
  "omit_if b k v = (if b then [] else [(k, v)])"

text \<open>A Go string is written as UTF-8.\<close>

definition enc_string :: "string \<Rightarrow> json" where
  "enc_string s = JStr (to_valid s)"

fun enc_string_ptr :: "string option \<Rightarrow> json" where
  "enc_string_ptr None = JNull"
| "enc_string_ptr (Some s) = enc_string s"

fun enc_int_ptr :: "int option \<Rightarrow> json" where
  "enc_int_ptr None = JNull"
| "enc_int_ptr (Some n) = JNum n"

fun enc_slice :: "('a \<Rightarrow> json) \<Rightarrow> 'a list option \<Rightarrow> json" where
  "enc_slice e None = JNull"
| "enc_slice e (Some xs) = JArr (map e xs)"

fun enc_raw :: "raw_message \<Rightarrow> json" where
  "enc_raw None = JNull"
| "enc_raw (Some j) = j"

definition enc_string_map :: "string_map \<Rightarrow> json" where
  "enc_string_map m = JObj (map (\<lambda>(k, v). (to_valid k, enc_string v)) m)"

fun enc_string_map_ptr :: "string_map option \<Rightarrow> json" where
  "enc_string_map_ptr None = JNull"
| "enc_string_map_ptr (Some m) = enc_string_map m"

text \<open>A time out of the range of RFC 3339 makes \<^verbatim>\<open>json.Marshal\<close> of the whole value fail.\<close>

definition enc_time :: "time \<Rightarrow> json option" where
  "enc_time t = map_option JStr (time_text t)"

fun enc_time_ptr :: "time option \<Rightarrow> json option" where
  "enc_time_ptr None = Some JNull"
| "enc_time_ptr (Some t) = enc_time t"

section \<open>Round trips\<close>

lemma dec_time_enc: "enc_time t = Some j \<Longrightarrow> dec_time cur j = Some t"
  by (auto simp: enc_time_def dest: time_text_roundtrip)

lemma dec_time_ptr_enc: "enc_time_ptr t = Some j \<Longrightarrow> dec_time_ptr j = Some t"
  by (cases t) (auto simp: enc_time_def dest: time_text_roundtrip)

lemma dec_string_enc [simp]: "dec_string cur (enc_string s) = Some (to_valid s)"
  by (simp add: enc_string_def)

lemma dec_string_ptr_enc [simp]: "dec_string_ptr (enc_string_ptr s) = Some (map_option to_valid s)"
  by (cases s) (simp_all add: enc_string_def)

lemma dec_int_ptr_enc: "(\<And>n. x = Some n \<Longrightarrow> int64_ok n) \<Longrightarrow> dec_int_ptr (enc_int_ptr x) = Some x"
  by (cases x) simp_all

lemma dec_list_map: "(\<And>x. x \<in> set xs \<Longrightarrow> d (e x) = Some (g x)) \<Longrightarrow> dec_list d (map e xs) = Some (map g xs)"
  by (induction xs) auto

lemma dec_slice_enc:
  "(\<And>x. x \<in> set (slice_elems xs) \<Longrightarrow> d (e x) = Some (g x)) \<Longrightarrow>
   dec_slice d (enc_slice e xs) = Some (map_option (map g) xs)"
  by (cases xs) (simp_all add: dec_list_map)

lemma dec_slice_strings [simp]:
  "dec_slice (dec_string []) (enc_slice enc_string xs) = Some (map_option (map to_valid) xs)"
  by (rule dec_slice_enc) simp

text \<open>A map arrives as it was, its texts as UTF-8, if that leaves its keys apart.\<close>

definition valid_map :: "string_map \<Rightarrow> string_map" where
  "valid_map m = map (map_prod to_valid to_valid) m"

lemma valid_map_simps [simp]: "valid_map [] = []" "valid_map ((k, v) # m) = (to_valid k, to_valid v) # valid_map m"
  by (simp_all add: valid_map_def)

lemma dec_entries_distinct:
  "distinct (map fst (m @ valid_map kvs)) \<Longrightarrow>
   dec_entries m (map (\<lambda>(k, v). (to_valid k, enc_string v)) kvs) = Some (m @ valid_map kvs)"
proof (induction kvs arbitrary: m)
  case Nil
  then show ?case by simp
next
  case (Cons kv kvs)
  obtain k v where kv: "kv = (k, v)" by (cases kv)
  have "to_valid k \<notin> fst ` set m" using Cons.prems kv by auto
  then have "AList.update (to_valid k) (to_valid v) m = m @ [(to_valid k, to_valid v)]" by (induction m) auto
  with Cons kv show ?case by simp
qed

lemma dec_string_map_enc:
  "distinct (map fst (valid_map m)) \<Longrightarrow> dec_string_map None (enc_string_map m) = Some (Some (valid_map m))"
  using dec_entries_distinct [of "[]" m] by (simp add: enc_string_map_def)

lemma dec_string_map_enc_Some: "\<exists>m'. dec_string_map cur (enc_string_map m) = Some (Some m')"
proof -
  have "\<exists>m'. dec_entries a (map (\<lambda>(k, v). (to_valid k, enc_string v)) m) = Some m'" for a
    by (induction m arbitrary: a) auto
  then show ?thesis by (auto simp: enc_string_map_def)
qed

lemma valid_map_id: "\<forall>(k, v) \<in> set m. utf8 k \<and> utf8 v \<Longrightarrow> valid_map m = m"
  by (induction m) (auto simp: to_valid_utf8)

section \<open>What PostgreSQL accepts\<close>

text \<open>\<^verbatim>\<open>TEXT\<close> values, and the strings in \<^verbatim>\<open>JSONB\<close> values, are UTF-8 and hold no NUL character.\<close>

definition text_ok :: "string \<Rightarrow> bool" where
  "text_ok s \<longleftrightarrow> CHR 0x00 \<notin> set s \<and> utf8 s"

text \<open>The documented range of \<^verbatim>\<open>numeric\<close>, which holds the numbers of \<^verbatim>\<open>JSONB\<close>: 131072 digits before
  the decimal point and 16383 after it.\<close>

definition is_exp :: "char \<Rightarrow> bool" where
  "is_exp c \<longleftrightarrow> c \<in> {CHR ''e'', CHR ''E''}"

definition exponent :: "string \<Rightarrow> int option" where
  "exponent lit = (case dropWhile (\<lambda>c. \<not> is_exp c) lit of [] \<Rightarrow> Some 0 | _ # ds \<Rightarrow> atoi ds)"

definition numeric_ok :: "string \<Rightarrow> bool" where
  "numeric_ok lit =
     (let m = takeWhile (\<lambda>c. \<not> is_exp c) lit;
          i = dropWhile (\<lambda>c. c \<in> {CHR ''-'', CHR ''0''}) (takeWhile (\<lambda>c. c \<noteq> CHR ''.'') m);
          f = drop 1 (dropWhile (\<lambda>c. c \<noteq> CHR ''.'') m)
      in case exponent lit of None \<Rightarrow> False
         | Some e \<Rightarrow> int (length i) + e \<le> 131072 \<and> int (length f) - e \<le> 16383)"

fun jsonb_ok :: "json \<Rightarrow> bool" where
  "jsonb_ok (JStr s) = text_ok s"
| "jsonb_ok (JNum n) = (length (nat_digits (nat \<bar>n\<bar>)) \<le> 131072)"
| "jsonb_ok (JReal lit) = numeric_ok lit"
| "jsonb_ok (JArr js) = list_all jsonb_ok js"
| "jsonb_ok (JObj kvs) = list_all (\<lambda>(k, v). text_ok k \<and> jsonb_ok v) kvs"
| "jsonb_ok j = True"

lemma length_nat_digits: "n < 10 ^ k \<Longrightarrow> 0 < k \<Longrightarrow> length (nat_digits n) \<le> k"
proof (induction n arbitrary: k rule: nat_digits.induct)
  case (1 n)
  show ?case
  proof (cases "n < 10")
    case True
    then show ?thesis using 1 by (simp add: nat_digits.simps [of n])
  next
    case False
    obtain j where k: "k = Suc j" "0 < j" using 1(2,3) False by (cases k; cases "k - 1") auto
    have "n div 10 < 10 ^ j" using 1(2) k by (simp add: less_mult_imp_div_less mult.commute)
    then show ?thesis using 1(1) [OF False, of j] False k by (simp add: nat_digits.simps [of n])
  qed
qed

lemma jsonb_ok_int64: "int64_ok n \<Longrightarrow> jsonb_ok (JNum n)"
proof -
  assume "int64_ok n"
  then have "nat \<bar>n\<bar> < 10 ^ 20" by (simp add: int64_ok_def nat_less_iff abs_if)
  from length_nat_digits [OF this] show ?thesis by simp
qed

declare jsonb_ok.simps(2) [simp del]

definition opt_ok :: "('a \<Rightarrow> bool) \<Rightarrow> 'a option \<Rightarrow> bool" where
  "opt_ok p x = (case x of None \<Rightarrow> True | Some y \<Rightarrow> p y)"

lemma opt_ok_simps [simp]: "opt_ok p None" "opt_ok p (Some x) = p x"
  by (simp_all add: opt_ok_def)

end
