(* ===== verification/Models.thy ===== *)
theory Models
  imports Json
begin

text \<open>
  The data model of \<^verbatim>\<open>internal/store/models.go\<close> and the rows of the tables of
  \<^verbatim>\<open>internal/store/postgres/migrations\<close>. A struct is a record whose fields carry a
  two-letter prefix; a pointer field is an \<open>option\<close>. Where a table row holds what a struct
  holds (executions, log entries) the row is the struct.
\<close>

section \<open>Identifiers and external code\<close>

text \<open>
  A \<^verbatim>\<open>uuid.UUID\<close> is sixteen bytes, most significant first. The packages outside the
  repository that the handlers call are the fields of \<open>externals\<close>:
  \<^verbatim>\<open>github.com/google/uuid\<close> for the text form, and the SHA-256 sum.
\<close>

type_synonym uuid = "128 word"

record externals =
  uuid_Parse :: "string \<Rightarrow> uuid option"
  uuid_String :: "uuid \<Rightarrow> string"
  sha256_Sum256 :: "string \<Rightarrow> 8 word list"

text \<open>The documented behaviour of the uuid package: parsing inverts formatting.\<close>

definition uuid_law :: "externals \<Rightarrow> bool" where
  "uuid_law E \<longleftrightarrow> (\<forall>u. uuid_Parse E (uuid_String E u) = Some u)"

abbreviation uuid_Nil :: uuid where
  "uuid_Nil \<equiv> 0"

text \<open>The byte of index \<open>i\<close>, as Go's \<^verbatim>\<open>id[i]\<close> reads it.\<close>

definition uuid_byte :: "uuid \<Rightarrow> nat \<Rightarrow> 8 word" where
  "uuid_byte u i = ucast (drop_bit (8 * (15 - i)) u)"

section \<open>Status values\<close>

datatype ExecutionStatus =
    ExecutionStatusPending
  | ExecutionStatusScheduled
  | ExecutionStatusRunning
  | ExecutionStatusCompleted
  | ExecutionStatusFailed
  | ExecutionStatusCancelled

fun status_string :: "ExecutionStatus \<Rightarrow> string" where
  "status_string ExecutionStatusPending = ''PENDING''"
| "status_string ExecutionStatusScheduled = ''SCHEDULED''"
| "status_string ExecutionStatusRunning = ''RUNNING''"
| "status_string ExecutionStatusCompleted = ''SUCCEEDED''"
| "status_string ExecutionStatusFailed = ''FAILED''"
| "status_string ExecutionStatusCancelled = ''CANCELLED''"

lemma status_string_inj: "status_string a = status_string b \<longleftrightarrow> a = b"
  by (cases a; cases b) simp_all

text \<open>The states in which an execution is over.\<close>

definition terminal :: "ExecutionStatus \<Rightarrow> bool" where
  "terminal s \<longleftrightarrow>
     s \<in> {ExecutionStatusCompleted, ExecutionStatusFailed, ExecutionStatusCancelled}"

lemma terminal_simps [simp]:
  "\<not> terminal ExecutionStatusPending" "\<not> terminal ExecutionStatusScheduled"
  "\<not> terminal ExecutionStatusRunning" "terminal ExecutionStatusCompleted"
  "terminal ExecutionStatusFailed" "terminal ExecutionStatusCancelled"
  by (simp_all add: terminal_def)

datatype CallbackStatus = CallbackStatusPending | CallbackStatusDelivered | CallbackStatusFailed

fun callback_status_string :: "CallbackStatus \<Rightarrow> string" where
  "callback_status_string CallbackStatusPending = ''PENDING''"
| "callback_status_string CallbackStatusDelivered = ''DELIVERED''"
| "callback_status_string CallbackStatusFailed = ''FAILED''"

section \<open>Structs\<close>

record tenant =
  tn_ID :: uuid
  tn_Name :: string
  tn_RateLimit :: int
  tn_RateLimitBurst :: int
  tn_MaxConcurrentExecutions :: int
  tn_CallbackURL :: "string option"
  tn_CallbackHeaders :: raw_message
  tn_CreatedAt :: time

record job =
  jb_ID :: uuid
  jb_TenantID :: uuid
  jb_Name :: string
  jb_Image :: string
  jb_Command :: "string list option"
  jb_DefaultTimeout :: int
  jb_Priority :: int
  jb_CallbackURL :: "string option"
  jb_CallbackHeaders :: raw_message
  jb_CreatedAt :: time

record execution =
  ex_ID :: uuid
  ex_JobID :: uuid
  ex_TenantID :: uuid
  ex_Status :: ExecutionStatus
  ex_Priority :: int
  ex_Attempt :: int
  ex_ExitCode :: "int option"
  ex_ErrorMessage :: "string option"
  ex_RetriedFrom :: "uuid option"
  ex_CallbackURL :: "string option"
  ex_CallbackHeaders :: raw_message
  ex_CallbackStatus :: "CallbackStatus option"
  ex_Result :: raw_message
  ex_ScheduledAt :: "time option"
  ex_CreatedAt :: time
  ex_StartedAt :: "time option"
  ex_CompletedAt :: "time option"

record LogEntry =
  lg_ID :: int
  lg_ExecutionID :: uuid
  lg_Content :: string
  lg_CreatedAt :: time

record DLQEntry =
  dq_ID :: int
  dq_ExecutionID :: uuid
  dq_TenantID :: uuid
  dq_JobID :: uuid
  dq_JobName :: string
  dq_Priority :: int
  dq_Payload :: json
  dq_ErrorMessage :: "string option"
  dq_Attempts :: int
  dq_FailedAt :: time

text \<open>\<^verbatim>\<open>store.QueueItem\<close>, what a worker gets for a claimed execution.\<close>

record QueueItem =
  qi_ExecutionID :: uuid
  qi_Payload :: json

section \<open>Rows that differ from the structs\<close>

text \<open>\<open>tenants\<close> has the hash of the key besides the struct; the command of a job is JSON.\<close>

record tenant_row = tenant +
  tr_api_key_hash :: string

record job_row =
  jr_id :: uuid
  jr_tenant_id :: uuid
  jr_name :: string
  jr_image :: string
  jr_default_command :: "json option"
  jr_default_timeout :: int
  jr_priority :: int
  jr_created_at :: time
  jr_callback_url :: "string option"
  jr_callback_headers :: "json option"

record queue_row =
  qr_id :: int
  qr_execution_id :: uuid
  qr_tenant_id :: uuid
  qr_payload :: json
  qr_priority :: int
  qr_attempt :: int
  qr_visible_after :: time
  qr_created_at :: time

record dlq_row =
  dr_id :: int
  dr_execution_id :: uuid
  dr_tenant_id :: uuid
  dr_payload :: json
  dr_error_message :: "string option"
  dr_attempts :: int
  dr_failed_at :: time

section \<open>The database\<close>

text \<open>
  The tables as lists of rows in order of insertion, and the sequences of the
  \<^verbatim>\<open>BIGSERIAL\<close> columns (the value the next row gets).
\<close>

record database =
  tenants :: "tenant_row list"
  jobs :: "job_row list"
  executions :: "execution list"
  queue :: "queue_row list"
  dlq :: "dlq_row list"
  logs :: "LogEntry list"
  queue_seq :: int
  dlq_seq :: int
  logs_seq :: int

definition empty_db :: database where
  "empty_db = \<lparr>tenants = [], jobs = [], executions = [], queue = [], dlq = [], logs = [],
     queue_seq = 1, dlq_seq = 1, logs_seq = 1\<rparr>"

end
