(* ===== verification/Api.thy ===== *)
theory Api
  imports Models
begin

text \<open>
  The messages of \<^verbatim>\<open>pkg/api/api.go\<close>: the structs the command line client, the
  controller and the workers exchange, with their JSON encodings (the struct tags) and
  decodings. The round trips at the end are what a sender and a receiver on either side of
  the HTTP connection rely on.
\<close>

section \<open>Requests\<close>

record CreateTenantRequest =
  ct_Name :: string
  ct_RateLimit :: int
  ct_RateLimitBurst :: int
  ct_MaxConcurrentExecutions :: int
  ct_CallbackURL :: "string option"
  ct_CallbackHeaders :: "string_map option"

text \<open>\<^verbatim>\<open>UpdateTenantRequest\<close> has the same fields.\<close>

type_synonym UpdateTenantRequest = CreateTenantRequest

definition zero_CreateTenantRequest :: CreateTenantRequest where
  "zero_CreateTenantRequest = \<lparr>ct_Name = [], ct_RateLimit = 0, ct_RateLimitBurst = 0,
     ct_MaxConcurrentExecutions = 0, ct_CallbackURL = None, ct_CallbackHeaders = None\<rparr>"

definition set_CreateTenantRequest ::
    "CreateTenantRequest \<Rightarrow> string \<Rightarrow> json \<Rightarrow> CreateTenantRequest option" where
  "set_CreateTenantRequest r k v =
     (if key_eq k ''name'' then map_option (\<lambda>x. r\<lparr>ct_Name := x\<rparr>) (dec_string (ct_Name r) v)
      else if key_eq k ''rate_limit'' then
        map_option (\<lambda>x. r\<lparr>ct_RateLimit := x\<rparr>) (dec_int (ct_RateLimit r) v)
      else if key_eq k ''rate_limit_burst'' then
        map_option (\<lambda>x. r\<lparr>ct_RateLimitBurst := x\<rparr>) (dec_int (ct_RateLimitBurst r) v)
      else if key_eq k ''max_concurrent_executions'' then
        map_option (\<lambda>x. r\<lparr>ct_MaxConcurrentExecutions := x\<rparr>)
          (dec_int (ct_MaxConcurrentExecutions r) v)
      else if key_eq k ''callback_url'' then
        map_option (\<lambda>x. r\<lparr>ct_CallbackURL := x\<rparr>) (dec_string_ptr v)
      else if key_eq k ''callback_headers'' then
        map_option (\<lambda>x. r\<lparr>ct_CallbackHeaders := x\<rparr>) (dec_string_map (ct_CallbackHeaders r) v)
      else Some r)"

definition dec_CreateTenantRequest :: "json \<Rightarrow> CreateTenantRequest option" where
  "dec_CreateTenantRequest = dec_struct set_CreateTenantRequest zero_CreateTenantRequest"

record CreateJobRequest =
  cj_Name :: string
  cj_Image :: string
  cj_Command :: "string list option"
  cj_DefaultTimeout :: int
  cj_Priority :: int
  cj_CallbackURL :: "string option"
  cj_CallbackHeaders :: "string_map option"

definition zero_CreateJobRequest :: CreateJobRequest where
  "zero_CreateJobRequest = \<lparr>cj_Name = [], cj_Image = [], cj_Command = None,
     cj_DefaultTimeout = 0, cj_Priority = 0, cj_CallbackURL = None, cj_CallbackHeaders = None\<rparr>"

definition set_CreateJobRequest ::
    "CreateJobRequest \<Rightarrow> string \<Rightarrow> json \<Rightarrow> CreateJobRequest option" where
  "set_CreateJobRequest r k v =
     (if key_eq k ''name'' then map_option (\<lambda>x. r\<lparr>cj_Name := x\<rparr>) (dec_string (cj_Name r) v)
      else if key_eq k ''image'' then
        map_option (\<lambda>x. r\<lparr>cj_Image := x\<rparr>) (dec_string (cj_Image r) v)
      else if key_eq k ''command'' then
        map_option (\<lambda>x. r\<lparr>cj_Command := x\<rparr>) (dec_slice (dec_string []) v)
      else if key_eq k ''default_timeout'' then
        map_option (\<lambda>x. r\<lparr>cj_DefaultTimeout := x\<rparr>) (dec_int (cj_DefaultTimeout r) v)
      else if key_eq k ''priority'' then
        map_option (\<lambda>x. r\<lparr>cj_Priority := x\<rparr>) (dec_int (cj_Priority r) v)
      else if key_eq k ''callback_url'' then
        map_option (\<lambda>x. r\<lparr>cj_CallbackURL := x\<rparr>) (dec_string_ptr v)
      else if key_eq k ''callback_headers'' then
        map_option (\<lambda>x. r\<lparr>cj_CallbackHeaders := x\<rparr>) (dec_string_map (cj_CallbackHeaders r) v)
      else Some r)"

definition dec_CreateJobRequest :: "json \<Rightarrow> CreateJobRequest option" where
  "dec_CreateJobRequest = dec_struct set_CreateJobRequest zero_CreateJobRequest"

definition enc_CreateJobRequest :: "CreateJobRequest \<Rightarrow> json" where
  "enc_CreateJobRequest r = JObj (
     [(''name'', enc_string (cj_Name r)), (''image'', enc_string (cj_Image r))] @
     omit_if (slice_elems (cj_Command r) = []) ''command'' (enc_slice enc_string (cj_Command r)) @
     omit_if (cj_DefaultTimeout r = 0) ''default_timeout'' (JNum (cj_DefaultTimeout r)) @
     omit_if (cj_Priority r = 0) ''priority'' (JNum (cj_Priority r)) @
     omit_if (cj_CallbackURL r = None) ''callback_url'' (enc_string_ptr (cj_CallbackURL r)) @
     omit_if (slice_elems (cj_CallbackHeaders r) = []) ''callback_headers''
       (enc_string_map_ptr (cj_CallbackHeaders r)))"

record RunJobRequest =
  rj_ScheduledAt :: "time option"
  rj_CallbackURL :: "string option"
  rj_CallbackHeaders :: "string_map option"

definition zero_RunJobRequest :: RunJobRequest where
  "zero_RunJobRequest =
     \<lparr>rj_ScheduledAt = None, rj_CallbackURL = None, rj_CallbackHeaders = None\<rparr>"

definition set_RunJobRequest :: "RunJobRequest \<Rightarrow> string \<Rightarrow> json \<Rightarrow> RunJobRequest option" where
  "set_RunJobRequest r k v =
     (if key_eq k ''scheduled_at'' then
        map_option (\<lambda>x. r\<lparr>rj_ScheduledAt := x\<rparr>) (dec_time_ptr v)
      else if key_eq k ''callback_url'' then
        map_option (\<lambda>x. r\<lparr>rj_CallbackURL := x\<rparr>) (dec_string_ptr v)
      else if key_eq k ''callback_headers'' then
        map_option (\<lambda>x. r\<lparr>rj_CallbackHeaders := x\<rparr>) (dec_string_map (rj_CallbackHeaders r) v)
      else Some r)"

definition dec_RunJobRequest :: "json \<Rightarrow> RunJobRequest option" where
  "dec_RunJobRequest = dec_struct set_RunJobRequest zero_RunJobRequest"

definition enc_RunJobRequest :: "RunJobRequest \<Rightarrow> json option" where
  "enc_RunJobRequest r = map_option (\<lambda>at. JObj (
     [(''scheduled_at'', at)] @
     omit_if (rj_CallbackURL r = None) ''callback_url'' (enc_string_ptr (rj_CallbackURL r)) @
     omit_if (slice_elems (rj_CallbackHeaders r) = []) ''callback_headers''
       (enc_string_map_ptr (rj_CallbackHeaders r)))) (enc_time_ptr (rj_ScheduledAt r))"

record ExecutionResultRequest =
  er_ExitCode :: "int option"
  er_Error :: string
  er_Result :: raw_message

definition zero_ExecutionResultRequest :: ExecutionResultRequest where
  "zero_ExecutionResultRequest = \<lparr>er_ExitCode = None, er_Error = [], er_Result = None\<rparr>"

definition set_ExecutionResultRequest ::
    "ExecutionResultRequest \<Rightarrow> string \<Rightarrow> json \<Rightarrow> ExecutionResultRequest option" where
  "set_ExecutionResultRequest r k v =
     (if key_eq k ''exit_code'' then map_option (\<lambda>x. r\<lparr>er_ExitCode := x\<rparr>) (dec_int_ptr v)
      else if key_eq k ''error'' then
        map_option (\<lambda>x. r\<lparr>er_Error := x\<rparr>) (dec_string (er_Error r) v)
      else if key_eq k ''result'' then Some (r\<lparr>er_Result := Some v\<rparr>)
      else Some r)"

definition dec_ExecutionResultRequest :: "json \<Rightarrow> ExecutionResultRequest option" where
  "dec_ExecutionResultRequest =
     dec_struct set_ExecutionResultRequest zero_ExecutionResultRequest"

definition enc_ExecutionResultRequest :: "ExecutionResultRequest \<Rightarrow> json" where
  "enc_ExecutionResultRequest r = JObj
     [(''exit_code'', enc_int_ptr (er_ExitCode r)), (''error'', enc_string (er_Error r)),
      (''result'', enc_raw (er_Result r))]"

text \<open>Identifiers travel as their text form, which is ASCII.\<close>

fun dec_uuid :: "externals \<Rightarrow> uuid \<Rightarrow> json \<Rightarrow> uuid option" where
  "dec_uuid E cur JNull = Some cur"
| "dec_uuid E cur (JStr s) = uuid_Parse E s"
| "dec_uuid E cur j = None"

abbreviation enc_uuid :: "externals \<Rightarrow> uuid \<Rightarrow> json" where
  "enc_uuid E u \<equiv> JStr (uuid_String E u)"

record DequeueRequest =
  dr_Limit :: int
  dr_TenantIDs :: "uuid list option"

definition zero_DequeueRequest :: DequeueRequest where
  "zero_DequeueRequest = \<lparr>dr_Limit = 0, dr_TenantIDs = None\<rparr>"

definition set_DequeueRequest ::
    "externals \<Rightarrow> DequeueRequest \<Rightarrow> string \<Rightarrow> json \<Rightarrow> DequeueRequest option" where
  "set_DequeueRequest E r k v =
     (if key_eq k ''limit'' then map_option (\<lambda>x. r\<lparr>dr_Limit := x\<rparr>) (dec_int (dr_Limit r) v)
      else if key_eq k ''tenant_ids'' then
        map_option (\<lambda>x. r\<lparr>dr_TenantIDs := x\<rparr>) (dec_slice (dec_uuid E uuid_Nil) v)
      else Some r)"

definition dec_DequeueRequest :: "externals \<Rightarrow> json \<Rightarrow> DequeueRequest option" where
  "dec_DequeueRequest E = dec_struct (set_DequeueRequest E) zero_DequeueRequest"

definition enc_DequeueRequest :: "externals \<Rightarrow> DequeueRequest \<Rightarrow> json" where
  "enc_DequeueRequest E r = JObj (
     [(''limit'', JNum (dr_Limit r))] @
     omit_if (slice_elems (dr_TenantIDs r) = []) ''tenant_ids''
       (enc_slice (enc_uuid E) (dr_TenantIDs r)))"

definition set_AddLogRequest :: "string \<Rightarrow> string \<Rightarrow> json \<Rightarrow> string option" where
  "set_AddLogRequest c k v = (if key_eq k ''content'' then dec_string c v else Some c)"

definition dec_AddLogRequest :: "json \<Rightarrow> string option" where
  "dec_AddLogRequest = dec_struct set_AddLogRequest []"

definition enc_AddLogRequest :: "string \<Rightarrow> json" where
  "enc_AddLogRequest content = JObj [(''content'', enc_string content)]"

section \<open>Responses\<close>

text \<open>Identifiers, keys and the messages of errors are ASCII; names are not.\<close>

definition enc_ErrorResponse :: "string \<Rightarrow> string \<Rightarrow> json" where
  "enc_ErrorResponse err code =
     JObj ([(''error'', JStr err)] @ omit_if (code = []) ''code'' (JStr code))"

definition enc_CreateTenantResponse :: "string \<Rightarrow> string \<Rightarrow> string \<Rightarrow> json" where
  "enc_CreateTenantResponse tid name key =
     JObj [(''tenant_id'', JStr tid), (''name'', enc_string name), (''api_key'', JStr key)]"

definition enc_CreateJobResponse :: "string \<Rightarrow> json" where
  "enc_CreateJobResponse jid = JObj [(''job_id'', JStr jid)]"

definition dec_CreateJobResponse :: "json \<Rightarrow> string option" where
  "dec_CreateJobResponse =
     dec_struct (\<lambda>r k v. if key_eq k ''job_id'' then dec_string r v else Some r) []"

definition enc_RunJobResponse :: "string \<Rightarrow> json" where
  "enc_RunJobResponse eid = JObj [(''execution_id'', JStr eid)]"

definition dec_RunJobResponse :: "json \<Rightarrow> string option" where
  "dec_RunJobResponse =
     dec_struct (\<lambda>r k v. if key_eq k ''execution_id'' then dec_string r v else Some r) []"

definition enc_RetryDQLExecutionResponse :: "string \<Rightarrow> json" where
  "enc_RetryDQLExecutionResponse eid = JObj [(''new_execution_id'', JStr eid)]"

definition dec_RetryDQLExecutionResponse :: "json \<Rightarrow> string option" where
  "dec_RetryDQLExecutionResponse =
     dec_struct (\<lambda>r k v. if key_eq k ''new_execution_id'' then dec_string r v else Some r) []"

section \<open>Round trips\<close>

text \<open>What \<^verbatim>\<open>omitempty\<close> does to a slice or a map: empty is sent as absent, read as nil.\<close>

definition nonempty :: "'a list option \<Rightarrow> 'a list option" where
  "nonempty xs = (if slice_elems xs = [] then None else xs)"

lemma nonempty_elems [simp]: "slice_elems (nonempty xs) = slice_elems xs"
  by (simp add: nonempty_def)

definition map_ok :: "string_map option \<Rightarrow> bool" where
  "map_ok m \<longleftrightarrow> distinct (map fst (valid_map (slice_elems m)))"

lemma nonempty_None [simp]: "nonempty None = None"
  by (simp add: nonempty_def)

lemma dec_string_map_ptr_enc:
  "map_ok m \<Longrightarrow> slice_elems m \<noteq> [] \<Longrightarrow>
   dec_string_map None (enc_string_map_ptr m) = Some (map_option valid_map m)"
  by (cases m) (simp_all add: dec_string_map_enc map_ok_def)

lemma CreateJobRequest_roundtrip:
  assumes "int64_ok (cj_DefaultTimeout r)" and "int64_ok (cj_Priority r)"
    and "map_ok (cj_CallbackHeaders r)"
  shows "dec_CreateJobRequest (enc_CreateJobRequest r) =
     Some (r\<lparr>cj_Name := to_valid (cj_Name r), cj_Image := to_valid (cj_Image r),
             cj_Command := map_option (map to_valid) (nonempty (cj_Command r)),
             cj_CallbackURL := map_option to_valid (cj_CallbackURL r),
             cj_CallbackHeaders := map_option valid_map (nonempty (cj_CallbackHeaders r))\<rparr>)"
  using assms dec_string_map_ptr_enc [OF assms(3)]
  by (simp add: dec_CreateJobRequest_def enc_CreateJobRequest_def set_CreateJobRequest_def
      zero_CreateJobRequest_def omit_if_def nonempty_def key_eq_eval)

lemma RunJobRequest_roundtrip:
  assumes "enc_RunJobRequest r = Some j" and "map_ok (rj_CallbackHeaders r)"
  shows "dec_RunJobRequest j = Some (r\<lparr>rj_CallbackURL := map_option to_valid (rj_CallbackURL r),
    rj_CallbackHeaders := map_option valid_map (nonempty (rj_CallbackHeaders r))\<rparr>)"
proof -
  obtain at where at: "enc_time_ptr (rj_ScheduledAt r) = Some at"
    using assms(1) by (auto simp: enc_RunJobRequest_def)
  then have "dec_time_ptr at = Some (rj_ScheduledAt r)" by (rule dec_time_ptr_enc)
  then show ?thesis
    using assms(1) at dec_string_map_ptr_enc [OF assms(2)]
    by (auto simp: dec_RunJobRequest_def enc_RunJobRequest_def set_RunJobRequest_def
        zero_RunJobRequest_def omit_if_def nonempty_def key_eq_eval)
qed

text \<open>A result that is nil is sent as \<open>null\<close> and read as the message \<open>null\<close>, not as nil.\<close>

lemma ExecutionResultRequest_roundtrip:
  assumes "opt_ok int64_ok (er_ExitCode r)"
  shows "dec_ExecutionResultRequest (enc_ExecutionResultRequest r) =
     Some (r\<lparr>er_Error := to_valid (er_Error r), er_Result := Some (enc_raw (er_Result r))\<rparr>)"
proof -
  have "dec_int_ptr (enc_int_ptr (er_ExitCode r)) = Some (er_ExitCode r)"
    using assms by (intro dec_int_ptr_enc) auto
  then show ?thesis
    by (simp add: dec_ExecutionResultRequest_def enc_ExecutionResultRequest_def
        set_ExecutionResultRequest_def zero_ExecutionResultRequest_def key_eq_eval)
qed

lemma DequeueRequest_roundtrip:
  assumes "uuid_law E" and "int64_ok (dr_Limit r)"
  shows "dec_DequeueRequest E (enc_DequeueRequest E r) =
     Some (r\<lparr>dr_TenantIDs := nonempty (dr_TenantIDs r)\<rparr>)"
proof -
  have "dec_slice (dec_uuid E uuid_Nil) (enc_slice (enc_uuid E) (dr_TenantIDs r)) =
      Some (map_option (map id) (dr_TenantIDs r))"
    using assms(1) by (intro dec_slice_enc) (simp add: uuid_law_def)
  then show ?thesis
    using assms(2)
    by (simp add: dec_DequeueRequest_def enc_DequeueRequest_def set_DequeueRequest_def
        zero_DequeueRequest_def omit_if_def nonempty_def key_eq_eval option.map_id)
qed

text \<open>A log arrives as UTF-8, whatever its bytes.\<close>

lemma AddLogRequest_roundtrip: "dec_AddLogRequest (enc_AddLogRequest c) = Some (to_valid c)"
  by (simp add: dec_AddLogRequest_def enc_AddLogRequest_def set_AddLogRequest_def key_eq_eval)

lemma response_roundtrips:
  "dec_CreateJobResponse (enc_CreateJobResponse x) = Some (to_valid x)"
  "dec_RunJobResponse (enc_RunJobResponse x) = Some (to_valid x)"
  "dec_RetryDQLExecutionResponse (enc_RetryDQLExecutionResponse x) = Some (to_valid x)"
  by (simp_all add: dec_CreateJobResponse_def enc_CreateJobResponse_def dec_RunJobResponse_def
      enc_RunJobResponse_def dec_RetryDQLExecutionResponse_def enc_RetryDQLExecutionResponse_def
      key_eq_eval)

end
