(* ===== verification/Payload.thy ===== *)
theory Payload
  imports Api
begin

text \<open>
  The payload of a queued execution: \<^verbatim>\<open>RunJob\<close> marshals the job definition and the trace
  carrier (\<^verbatim>\<open>internal/controller/handlers/jobs.go\<close>), the worker unmarshals it
  (\<^verbatim>\<open>internal/worker/agent.go\<close>, \<^verbatim>\<open>executionPayload\<close>). \<^verbatim>\<open>store.Job\<close> has no struct
  tags, so the keys are its field names.
\<close>

definition enc_Job :: "externals \<Rightarrow> job \<Rightarrow> json option" where
  "enc_Job E j = map_option (\<lambda>at. JObj
     [(''ID'', enc_uuid E (jb_ID j)), (''TenantID'', enc_uuid E (jb_TenantID j)),
      (''Name'', enc_string (jb_Name j)), (''Image'', enc_string (jb_Image j)),
      (''Command'', enc_slice enc_string (jb_Command j)),
      (''DefaultTimeout'', JNum (jb_DefaultTimeout j)), (''Priority'', JNum (jb_Priority j)),
      (''CallbackURL'', enc_string_ptr (jb_CallbackURL j)),
      (''CallbackHeaders'', enc_raw (jb_CallbackHeaders j)),
      (''CreatedAt'', at)]) (enc_time (jb_CreatedAt j))"

text \<open>The map \<open>{"job": job, "trace": carrier}\<close>.\<close>

definition enc_payload :: "externals \<Rightarrow> job \<Rightarrow> string_map \<Rightarrow> json option" where
  "enc_payload E j carrier =
     map_option (\<lambda>v. JObj [(''job'', v), (''trace'', enc_string_map carrier)]) (enc_Job E j)"

definition zero_Job :: job where
  "zero_Job = \<lparr>jb_ID = uuid_Nil, jb_TenantID = uuid_Nil, jb_Name = [], jb_Image = [],
     jb_Command = None, jb_DefaultTimeout = 0, jb_Priority = 0, jb_CallbackURL = None,
     jb_CallbackHeaders = None, jb_CreatedAt = zero_time\<rparr>"

definition set_Job :: "externals \<Rightarrow> job \<Rightarrow> string \<Rightarrow> json \<Rightarrow> job option" where
  "set_Job E j k v =
     (if key_eq k ''ID'' then map_option (\<lambda>x. j\<lparr>jb_ID := x\<rparr>) (dec_uuid E (jb_ID j) v)
      else if key_eq k ''TenantID'' then
        map_option (\<lambda>x. j\<lparr>jb_TenantID := x\<rparr>) (dec_uuid E (jb_TenantID j) v)
      else if key_eq k ''Name'' then
        map_option (\<lambda>x. j\<lparr>jb_Name := x\<rparr>) (dec_string (jb_Name j) v)
      else if key_eq k ''Image'' then
        map_option (\<lambda>x. j\<lparr>jb_Image := x\<rparr>) (dec_string (jb_Image j) v)
      else if key_eq k ''Command'' then
        map_option (\<lambda>x. j\<lparr>jb_Command := x\<rparr>) (dec_slice (dec_string []) v)
      else if key_eq k ''DefaultTimeout'' then
        map_option (\<lambda>x. j\<lparr>jb_DefaultTimeout := x\<rparr>) (dec_int (jb_DefaultTimeout j) v)
      else if key_eq k ''Priority'' then
        map_option (\<lambda>x. j\<lparr>jb_Priority := x\<rparr>) (dec_int (jb_Priority j) v)
      else if key_eq k ''CallbackURL'' then
        map_option (\<lambda>x. j\<lparr>jb_CallbackURL := x\<rparr>) (dec_string_ptr v)
      else if key_eq k ''CallbackHeaders'' then Some (j\<lparr>jb_CallbackHeaders := Some v\<rparr>)
      else if key_eq k ''CreatedAt'' then
        map_option (\<lambda>x. j\<lparr>jb_CreatedAt := x\<rparr>) (dec_time (jb_CreatedAt j) v)
      else Some j)"

definition dec_Job_into :: "externals \<Rightarrow> job \<Rightarrow> json \<Rightarrow> job option" where
  "dec_Job_into E = dec_struct (set_Job E)"

definition dec_Job :: "externals \<Rightarrow> json \<Rightarrow> job option" where
  "dec_Job E = dec_Job_into E zero_Job"

record executionPayload =
  ep_Job :: job
  ep_Trace :: "string_map option"

definition set_executionPayload ::
    "externals \<Rightarrow> executionPayload \<Rightarrow> string \<Rightarrow> json \<Rightarrow> executionPayload option" where
  "set_executionPayload E p k v =
     (if key_eq k ''job'' then map_option (\<lambda>x. p\<lparr>ep_Job := x\<rparr>) (dec_Job_into E (ep_Job p) v)
      else if key_eq k ''trace'' then
        map_option (\<lambda>x. p\<lparr>ep_Trace := x\<rparr>) (dec_string_map (ep_Trace p) v)
      else Some p)"

definition dec_executionPayload :: "externals \<Rightarrow> json \<Rightarrow> executionPayload option" where
  "dec_executionPayload E =
     dec_struct (set_executionPayload E) \<lparr>ep_Job = zero_Job, ep_Trace = None\<rparr>"

text \<open>
  The job a worker reads is the job the controller wrote, with its texts as UTF-8, which those
  from the database are already; but absent callback headers arrive as the message \<open>null\<close>.
\<close>

definition sent_job :: "job \<Rightarrow> job" where
  "sent_job j = j\<lparr>jb_Name := to_valid (jb_Name j), jb_Image := to_valid (jb_Image j),
     jb_Command := map_option (map to_valid) (jb_Command j), jb_CallbackURL := map_option to_valid (jb_CallbackURL j),
     jb_CallbackHeaders := Some (enc_raw (jb_CallbackHeaders j))\<rparr>"

lemma sent_job_utf8:
  assumes "utf8 (jb_Name j)" and "utf8 (jb_Image j)" and "\<forall>w \<in> set (slice_elems (jb_Command j)). utf8 w"
    and "opt_ok utf8 (jb_CallbackURL j)"
  shows "sent_job j = j\<lparr>jb_CallbackHeaders := Some (enc_raw (jb_CallbackHeaders j))\<rparr>"
proof -
  have "map_option (map to_valid) (jb_Command j) = jb_Command j"
    using assms(3) by (cases "jb_Command j") (auto simp: to_valid_utf8 intro: map_idI)
  moreover have "map_option to_valid (jb_CallbackURL j) = jb_CallbackURL j"
    using assms(4) by (cases "jb_CallbackURL j") (simp_all add: to_valid_utf8)
  ultimately show ?thesis using assms(1,2) by (simp add: sent_job_def to_valid_utf8)
qed

lemma dec_enc_Job:
  assumes "uuid_law E" and "int64_ok (jb_DefaultTimeout j)" and "int64_ok (jb_Priority j)"
    and "enc_Job E j = Some v"
  shows "dec_Job_into E zero_Job v = Some (sent_job j)"
proof -
  obtain at where at: "enc_time (jb_CreatedAt j) = Some at"
    using assms(4) by (auto simp: enc_Job_def)
  have u: "uuid_Parse E (uuid_String E x) = Some x" for x
    using assms(1) by (simp add: uuid_law_def)
  show ?thesis
    using assms at u
    by (auto simp: dec_Job_into_def enc_Job_def set_Job_def zero_Job_def sent_job_def key_eq_eval
        dec_time_enc [OF at])
qed

lemma payload_decodes:
  assumes "uuid_law E" and "int64_ok (jb_DefaultTimeout j)" and "int64_ok (jb_Priority j)"
    and "enc_payload E j carrier = Some p"
  obtains trace where "dec_executionPayload E p = Some \<lparr>ep_Job = sent_job j, ep_Trace = Some trace\<rparr>"
    and "distinct (map fst (valid_map carrier)) \<Longrightarrow> trace = valid_map carrier"
proof -
  obtain v where v: "enc_Job E j = Some v"
    and p: "p = JObj [(''job'', v), (''trace'', enc_string_map carrier)]"
    using assms(4) by (auto simp: enc_payload_def)
  obtain m where m: "dec_string_map None (enc_string_map carrier) = Some (Some m)"
    using dec_string_map_enc_Some by blast
  have "dec_executionPayload E p = Some \<lparr>ep_Job = sent_job j, ep_Trace = Some m\<rparr>"
    using dec_enc_Job [OF assms(1,2,3) v] m
    by (simp add: p dec_executionPayload_def set_executionPayload_def key_eq_eval)
  moreover have "m = valid_map carrier" if "distinct (map fst (valid_map carrier))"
    using m dec_string_map_enc [OF that] by simp
  ultimately show ?thesis by (rule that)
qed

end
