(* ===== verification/Sql.thy ===== *)
theory Sql
  imports Payload
begin

text \<open>
  How a statement reaches PostgreSQL and comes back (\<^verbatim>\<open>internal/store/postgres/postgres.go\<close>
  and the \<^verbatim>\<open>DBTransaction\<close> interface of \<^verbatim>\<open>internal/store/interfaces.go\<close>). A session is
  the database and the fate of the round trips still to come: a round trip is served, refused
  before it has an effect, or its effect happens and the reply is lost, at once or after some
  rows of it have been read. Outside a transaction
  each statement commits by itself; inside one, an early return rolls everything back but the
  sequences, which PostgreSQL never resets.
\<close>

datatype fate = Served | Refused | ReplyLost | RepliesCut nat

datatype sql_error =
    ErrNoRows
  | ErrConn
  | ErrUnique
  | ErrForeignKey
  | ErrNotNull
  | ErrRange
  | ErrEncoding
  | ErrNegative
  | ErrScan
  | ErrMarshal

record session =
  db :: database
  fates :: "fate list"

text \<open>Go's clock and the database's, which are two: \<^verbatim>\<open>time.Now()\<close> and \<^verbatim>\<open>NOW()\<close>.\<close>

record clocks =
  go_now :: time
  db_now :: time

type_synonym 'a sql = "(sql_error, 'a, session) prog"

section \<open>Statements\<close>

definition next_fate :: "session \<Rightarrow> fate" where
  "next_fate s = (case fates s of [] \<Rightarrow> Served | f # fs \<Rightarrow> f)"

definition spend :: "session \<Rightarrow> session" where
  "spend s = s\<lparr>fates := tl (fates s)\<rparr>"

definition stmt :: "(database \<Rightarrow> sql_error + 'a \<times> database) \<Rightarrow> 'a sql" where
  "stmt f s =
     (case next_fate s of
        Refused \<Rightarrow> (Inl ErrConn, spend s)
      | Served \<Rightarrow>
          (case f (db s) of Inl e \<Rightarrow> (Inl e, spend s) | Inr (x, d) \<Rightarrow> (Inr x, (spend s)\<lparr>db := d\<rparr>))
      | _ \<Rightarrow>
          (case f (db s) of Inl e \<Rightarrow> (Inl ErrConn, spend s)
           | Inr (x, d) \<Rightarrow> (Inl ErrConn, (spend s)\<lparr>db := d\<rparr>)))"

text \<open>A query changes nothing; an update always succeeds in the database.\<close>

definition query :: "(database \<Rightarrow> sql_error + 'a) \<Rightarrow> 'a sql" where
  "query f = stmt (\<lambda>d. case f d of Inl e \<Rightarrow> Inl e | Inr x \<Rightarrow> Inr (x, d))"

definition exec :: "(database \<Rightarrow> sql_error + database) \<Rightarrow> unit sql" where
  "exec f = stmt (\<lambda>d. case f d of Inl e \<Rightarrow> Inl e | Inr d' \<Rightarrow> Inr ((), d'))"

text \<open>
  A loop over \<^verbatim>\<open>rows.Next()\<close> that does not ask \<^verbatim>\<open>rows.Err()\<close> afterwards: when the connection
  breaks in the middle of the answer, the rows read so far pass for all of them.
\<close>

definition query_rows :: "(database \<Rightarrow> sql_error + 'a list) \<Rightarrow> 'a list sql" where
  "query_rows f s =
     (case next_fate s of
        RepliesCut n \<Rightarrow>
          (case f (db s) of Inl e \<Rightarrow> (Inl ErrConn, spend s) | Inr xs \<Rightarrow> (Inr (take n xs), spend s))
      | _ \<Rightarrow> query f s)"

section \<open>Transactions\<close>

text \<open>\<^verbatim>\<open>tx.Rollback()\<close>: back to the snapshot, sequences apart.\<close>

definition restore :: "database \<Rightarrow> database \<Rightarrow> database" where
  "restore snap d =
     snap\<lparr>queue_seq := queue_seq d, dlq_seq := dlq_seq d, logs_seq := logs_seq d\<rparr>"

definition rollback :: "database \<Rightarrow> session \<Rightarrow> session" where
  "rollback snap s = s\<lparr>db := restore snap (db s)\<rparr>"

definition begin_tx :: "unit sql" where
  "begin_tx = query (\<lambda>d. Inr ())"

text \<open>
  \<open>with_tx eb ec body\<close>: \<^verbatim>\<open>BeginTx\<close>, the body with \<^verbatim>\<open>defer tx.Rollback()\<close>, then
  \<^verbatim>\<open>Commit\<close>; \<open>eb\<close> and \<open>ec\<close> are what the caller returns when the first or the last fails.
  A lost reply to the commit is an error to the caller, and committed.
\<close>

definition with_tx :: "'e \<Rightarrow> 'e \<Rightarrow> ('e, 'a, session) prog \<Rightarrow> ('e, 'a, session) prog" where
  "with_tx eb ec body s =
     (case begin_tx s of
        (Inl _, s0) \<Rightarrow> (Inl eb, s0)
      | (Inr _, s0) \<Rightarrow>
          (case body s0 of
             (Inl e, s1) \<Rightarrow> (Inl e, rollback (db s0) s1)
           | (Inr x, s1) \<Rightarrow>
               (case next_fate s1 of
                  Served \<Rightarrow> (Inr x, spend s1)
                | Refused \<Rightarrow> (Inl ec, rollback (db s0) (spend s1))
                | _ \<Rightarrow> (Inl ec, spend s1))))"

section \<open>Evaluation\<close>

text \<open>A session in which every round trip is served: the fault-free case.\<close>

definition calm :: "database \<Rightarrow> session" where
  "calm d = \<lparr>db = d, fates = []\<rparr>"

lemma calm_simps [simp]: "db (calm d) = d" "fates (calm d) = []" "calm d = calm d' \<longleftrightarrow> d = d'"
  by (simp_all add: calm_def)

lemma calm_spend [simp]: "spend (calm d) = calm d"
  by (simp add: calm_def spend_def)

lemma next_fate_calm [simp]: "next_fate (calm d) = Served"
  by (simp add: next_fate_def)

lemma calm_update [simp]: "(calm d)\<lparr>db := d'\<rparr> = calm d'"
  by (simp add: calm_def)

lemma db_spend [simp]: "db (spend s) = db s"
  by (simp add: spend_def)

lemma stmt_calm [prog_simps]:
  "stmt f (calm d) = (case f d of Inl e \<Rightarrow> (Inl e, calm d) | Inr (x, d') \<Rightarrow> (Inr x, calm d'))"
  by (simp add: stmt_def split: sum.splits)

lemma query_calm [prog_simps]:
  "query f (calm d) = (case f d of Inl e \<Rightarrow> (Inl e, calm d) | Inr x \<Rightarrow> (Inr x, calm d))"
  by (simp add: query_def stmt_calm split: sum.splits)

lemma exec_calm [prog_simps]:
  "exec f (calm d) = (case f d of Inl e \<Rightarrow> (Inl e, calm d) | Inr d' \<Rightarrow> (Inr (), calm d'))"
  by (simp add: exec_def stmt_calm split: sum.splits)

lemma query_rows_calm [prog_simps]: "query_rows f (calm d) = query f (calm d)"
  by (simp add: query_rows_def)

lemma rollback_calm [simp]: "rollback snap (calm d) = calm (restore snap d)"
  by (simp add: rollback_def)

lemma with_tx_calm [prog_simps]:
  "with_tx eb ec body (calm d) =
     (case body (calm d) of
        (Inl e, s1) \<Rightarrow> (Inl e, rollback d s1)
      | (Inr x, s1) \<Rightarrow>
          (case next_fate s1 of
             Served \<Rightarrow> (Inr x, spend s1)
           | Refused \<Rightarrow> (Inl ec, rollback d (spend s1))
           | _ \<Rightarrow> (Inl ec, spend s1)))"
  by (auto simp: with_tx_def begin_tx_def query_calm split: prod.split sum.split fate.split)

lemma restore_same [simp]: "restore d d = d"
  by (simp add: restore_def)

lemma restore_tables [simp]:
  "tenants (restore a b) = tenants a" "jobs (restore a b) = jobs a"
  "executions (restore a b) = executions a" "queue (restore a b) = queue a"
  "dlq (restore a b) = dlq a" "logs (restore a b) = logs a"
  "queue_seq (restore a b) = queue_seq b" "dlq_seq (restore a b) = dlq_seq b"
  "logs_seq (restore a b) = logs_seq b"
  by (simp_all add: restore_def)

text \<open>A query leaves the database alone, whatever its fate.\<close>

lemma db_query [simp]: "db (snd (query f s)) = db s"
  by (auto simp: query_def stmt_def split: fate.splits sum.splits prod.splits)

lemma db_query_rows [simp]: "db (snd (query_rows f s)) = db s"
  by (simp add: query_rows_def split: fate.split sum.split)

lemma query_Inr: "query f s = (Inr x, t) \<Longrightarrow> f (db s) = Inr x \<and> t = spend s"
  by (auto simp: query_def stmt_def split: fate.splits sum.splits)

lemma stmt_Inr:
  "stmt f s = (Inr x, t) \<Longrightarrow> \<exists>d. f (db s) = Inr (x, d) \<and> t = (spend s)\<lparr>db := d\<rparr>"
  by (auto simp: stmt_def split: fate.splits sum.splits)

lemma exec_Inr:
  "exec f s = (Inr u, t) \<Longrightarrow> \<exists>d. f (db s) = Inr d \<and> t = (spend s)\<lparr>db := d\<rparr>"
  by (auto simp: exec_def stmt_def split: fate.splits sum.splits)

text \<open>How a transaction can end: committed with its result; with an error and rolled back; or
  committed although the caller sees an error, when the reply to the commit is lost.\<close>

lemma with_tx_Inr:
  assumes "with_tx eb ec body s = (Inr x, t)"
  obtains s0 s1 where "db s0 = db s" and "body s0 = (Inr x, s1)" and "db t = db s1"
proof -
  obtain r0 s0 where b: "begin_tx s = (r0, s0)" by (cases "begin_tx s")
  have d0: "db s0 = db s" using b db_query [of "\<lambda>d. Inr ()" s] by (simp add: begin_tx_def)
  obtain r1 s1 where m: "body s0 = (r1, s1)" by (cases "body s0")
  show ?thesis using assms b m d0 that [of s0 s1]
    by (auto simp: with_tx_def split: sum.splits fate.splits)
qed

lemma with_tx_Inl:
  assumes "with_tx eb ec body s = (Inl e, t)"
  obtains (rolled_back) d where "db t = restore (db s) d"
  | (not_begun) "db t = db s"
  | (reply_lost) s0 x s1 where "db s0 = db s" and "body s0 = (Inr x, s1)" and "db t = db s1" and "e = ec"
proof -
  obtain r0 s0 where b: "begin_tx s = (r0, s0)" by (cases "begin_tx s")
  have d0: "db s0 = db s" using b db_query [of "\<lambda>d. Inr ()" s] by (simp add: begin_tx_def)
  obtain r1 s1 where m: "body s0 = (r1, s1)" by (cases "body s0")
  show ?thesis
  proof (cases r1)
    case (Inl e1)
    then show ?thesis using assms b m d0 rolled_back not_begun
      by (auto simp: with_tx_def rollback_def split: sum.splits)
  next
    case (Inr x)
    then show ?thesis using assms b m d0 rolled_back not_begun reply_lost [of s0 x s1]
      by (auto simp: with_tx_def rollback_def split: sum.splits fate.splits)
  qed
qed

section \<open>Invariants across statements and transactions\<close>

text \<open>
  A relation between the database before and after is carried to sessions by \<open>on_db\<close>. A
  transaction respects it when rolling back does.
\<close>

definition on_db :: "(database \<Rightarrow> database \<Rightarrow> bool) \<Rightarrow> session \<Rightarrow> session \<Rightarrow> bool" where
  "on_db R s t \<longleftrightarrow> R (db s) (db t)"

locale db_step_order =
  fixes R :: "database \<Rightarrow> database \<Rightarrow> bool"
  assumes db_refl: "R d d"
    and db_trans: "R d e \<Longrightarrow> R e f \<Longrightarrow> R d f"
    and undo: "R d e \<Longrightarrow> R d (restore d e)"
begin

sublocale step_order "on_db R"
proof
  show "on_db R s s" for s by (simp add: on_db_def db_refl)
  show "on_db R s t \<Longrightarrow> on_db R t u \<Longrightarrow> on_db R s u" for s t u
    by (auto simp: on_db_def intro: db_trans)
qed

lemma keeps_stmt:
  assumes "\<And>d x d'. f d = Inr (x, d') \<Longrightarrow> R d d'"
  shows "keeps (on_db R) (stmt f)"
  by (rule keepsI)
    (auto simp: stmt_def on_db_def db_refl split: fate.splits sum.splits dest: assms)

lemma keeps_query: "keeps (on_db R) (query f)"
  by (rule keepsI) (simp add: on_db_def db_refl)

lemma keeps_query_rows: "keeps (on_db R) (query_rows f)"
  by (rule keepsI) (simp add: on_db_def db_refl)

lemma keeps_exec:
  assumes "\<And>d d'. f d = Inr d' \<Longrightarrow> R d d'"
  shows "keeps (on_db R) (exec f)"
  unfolding exec_def
  by (rule keeps_stmt) (auto split: sum.splits dest: assms)

lemma keeps_with_tx:
  assumes "keeps (on_db R) body"
  shows "keeps (on_db R) (with_tx eb ec body)"
proof (rule keepsI)
  fix s
  obtain r0 s0 where b: "begin_tx s = (r0, s0)" by (cases "begin_tx s")
  have d0: "db s0 = db s" using b db_query [of "\<lambda>d. Inr ()" s] by (simp add: begin_tx_def)
  obtain r1 s1 where m: "body s0 = (r1, s1)" by (cases "body s0")
  from assms m have st: "R (db s0) (db s1)" by (auto dest: keepsD simp: on_db_def)
  show "on_db R s (snd (with_tx eb ec body s))"
    using b m d0 st undo [OF st]
    by (auto simp: with_tx_def on_db_def db_refl rollback_def
        split: sum.splits fate.splits)
qed

lemmas keeps_sql_rules = keeps_rules keeps_query keeps_query_rows keeps_with_tx

end

end
