(* ===== verification/Store_Queue.thy ===== *)
theory Store_Queue
  imports Sql
begin

text \<open>
  The execution queue of \<^verbatim>\<open>internal/store/postgres/queue.go\<close>: enqueueing, the batch claim
  with \<^verbatim>\<open>FOR UPDATE SKIP LOCKED\<close>, completion, failure with retries and the dead letter
  queue, the heartbeat and the counts. Every statement of a function is one round trip, so
  that a function may stop between two of them.
\<close>

section \<open>Constants\<close>

definition MaxRetries :: int where
  "MaxRetries = 5"

definition VisibilityTimeout :: duration where
  "VisibilityTimeout = 5 * minute"

section \<open>Rows by key\<close>

definition find_execution :: "database \<Rightarrow> uuid \<Rightarrow> execution option" where
  "find_execution d eid = find (\<lambda>e. ex_ID e = eid) (executions d)"

definition find_queued :: "database \<Rightarrow> uuid \<Rightarrow> queue_row option" where
  "find_queued d eid = find (\<lambda>q. qr_execution_id q = eid) (queue d)"

definition queued :: "database \<Rightarrow> uuid \<Rightarrow> bool" where
  "queued d eid \<longleftrightarrow> eid \<in> qr_execution_id ` set (queue d)"

definition dead_lettered :: "database \<Rightarrow> uuid \<Rightarrow> bool" where
  "dead_lettered d eid \<longleftrightarrow> eid \<in> dr_execution_id ` set (dlq d)"

section \<open>Enqueue\<close>

text \<open>
  \<^verbatim>\<open>INSERT ... SELECT ... FROM executions WHERE id = $1 RETURNING id\<close>: no row comes back
  when the execution does not exist; \<open>execution_id\<close> is unique, \<open>payload\<close> not null.
\<close>

definition insert_queue ::
    "clocks \<Rightarrow> uuid \<Rightarrow> raw_message \<Rightarrow> time \<Rightarrow> database \<Rightarrow> sql_error + int \<times> database" where
  "insert_queue clk eid payload visible d =
     (case find_execution d eid of
        None \<Rightarrow> Inl ErrNoRows
      | Some e \<Rightarrow>
          (case payload of
             None \<Rightarrow> Inl ErrNotNull
           | Some p \<Rightarrow>
               if \<not> jsonb_ok p then Inl ErrEncoding
               else if queued d eid then Inl ErrUnique
               else Inr (queue_seq d,
                 d\<lparr>queue := queue d @ [\<lparr>qr_id = queue_seq d, qr_execution_id = eid,
                      qr_tenant_id = ex_TenantID e, qr_payload = p, qr_priority = ex_Priority e,
                      qr_attempt = 0, qr_visible_after = visible, qr_created_at = db_now clk\<rparr>],
                   queue_seq := queue_seq d + 1\<rparr>)))"

definition Enqueue :: "clocks \<Rightarrow> uuid \<Rightarrow> raw_message \<Rightarrow> time \<Rightarrow> int sql" where
  "Enqueue clk eid payload visibleAfter =
     stmt (insert_queue clk eid payload
       (if visibleAfter = zero_time then go_now clk else visibleAfter))"

section \<open>DequeueBatch\<close>

text \<open>
  \<open>locked\<close> are the queue rows that other transactions hold; \<^verbatim>\<open>SKIP LOCKED\<close> passes over
  them. Rows that tie on priority and creation time come in table order here, in any order
  from PostgreSQL.
\<close>

definition claimable :: "time \<Rightarrow> int list \<Rightarrow> uuid list \<Rightarrow> queue_row \<Rightarrow> bool" where
  "claimable now locked tids q \<longleftrightarrow>
     qr_visible_after q \<le> now \<and> (tids = [] \<or> qr_tenant_id q \<in> set tids) \<and> qr_id q \<notin> set locked"

definition dequeue_key :: "queue_row \<Rightarrow> int \<times> time" where
  "dequeue_key q = (- qr_priority q, qr_created_at q)"

definition select_batch ::
    "time \<Rightarrow> int list \<Rightarrow> uuid list \<Rightarrow> int \<Rightarrow> database \<Rightarrow> queue_row list" where
  "select_batch now locked tids limit d =
     take (nat limit) (sort_key dequeue_key (filter (claimable now locked tids) (queue d)))"

definition bump_claimed :: "time \<Rightarrow> int list \<Rightarrow> database \<Rightarrow> database" where
  "bump_claimed now ids d = d\<lparr>queue := update_where (\<lambda>q. qr_id q \<in> set ids)
     (\<lambda>q. q\<lparr>qr_attempt := qr_attempt q + 1, qr_visible_after := now + VisibilityTimeout\<rparr>)
     (queue d)\<rparr>"

definition mark_running :: "time \<Rightarrow> queue_row option \<Rightarrow> execution \<Rightarrow> execution" where
  "mark_running now eq e =
     (case eq of
        None \<Rightarrow> e
      | Some q \<Rightarrow> e\<lparr>ex_Status := ExecutionStatusRunning,
          ex_StartedAt := (case ex_StartedAt e of None \<Rightarrow> Some now | Some t \<Rightarrow> Some t),
          ex_Attempt := qr_attempt q\<rparr>)"

definition start_claimed :: "time \<Rightarrow> int list \<Rightarrow> database \<Rightarrow> database" where
  "start_claimed now ids d = d\<lparr>executions := map (\<lambda>e. mark_running now
     (find (\<lambda>q. qr_id q \<in> set ids \<and> qr_execution_id q = ex_ID e) (queue d)) e) (executions d)\<rparr>"

definition queue_item :: "queue_row \<Rightarrow> QueueItem" where
  "queue_item q = \<lparr>qi_ExecutionID = qr_execution_id q, qi_Payload = qr_payload q\<rparr>"

definition DequeueBatch :: "clocks \<Rightarrow> int list \<Rightarrow> uuid list \<Rightarrow> int \<Rightarrow> QueueItem list sql" where
  "DequeueBatch clk locked tids limit =
     (let limit = (if limit \<le> 0 then 1 else limit) in
      early (with_tx (Inl ErrConn) (Inl ErrConn)
        (and_then (on_error Inl (query (\<lambda>d. Inr (select_batch (db_now clk) locked tids limit d))))
          (\<lambda>rows.
             if rows = [] then throw (Inr [])
             else
               (let ids = map qr_id rows in
                and_then (on_error Inl (exec (\<lambda>d. Inr (bump_claimed (db_now clk) ids d)))) (\<lambda>_.
                and_then (on_error Inl (exec (\<lambda>d. Inr (start_claimed (db_now clk) ids d)))) (\<lambda>_.
                ret (map queue_item rows))))))))"

section \<open>Complete\<close>

definition delete_queued :: "uuid \<Rightarrow> database \<Rightarrow> database" where
  "delete_queued eid d = d\<lparr>queue := delete_where (\<lambda>q. qr_execution_id q = eid) (queue d)\<rparr>"

definition complete_execution ::
    "time \<Rightarrow> uuid \<Rightarrow> int \<Rightarrow> raw_message \<Rightarrow> database \<Rightarrow> sql_error + database" where
  "complete_execution now eid exitCode result d =
     (if \<not> int32_ok exitCode then Inl ErrRange
      else if \<not> opt_ok jsonb_ok result then Inl ErrEncoding
      else Inr (d\<lparr>executions := update_where (\<lambda>e. ex_ID e = eid)
        (\<lambda>e. e\<lparr>ex_Status := ExecutionStatusCompleted, ex_ExitCode := Some exitCode,
               ex_Result := result, ex_CompletedAt := Some now\<rparr>) (executions d)\<rparr>))"

definition Complete :: "clocks \<Rightarrow> uuid \<Rightarrow> int \<Rightarrow> raw_message \<Rightarrow> unit sql" where
  "Complete clk eid exitCode result =
     and_then (exec (\<lambda>d. Inr (delete_queued eid d))) (\<lambda>_.
       exec (complete_execution (db_now clk) eid exitCode result))"

section \<open>Fail\<close>

text \<open>The delay before the next attempt: \<^verbatim>\<open>10 * (1 << attempt)\<close> seconds.\<close>

definition fail_backoff :: "int \<Rightarrow> duration" where
  "fail_backoff attempt = 10 * 2 ^ nat attempt * second"

definition postpone :: "uuid \<Rightarrow> time \<Rightarrow> database \<Rightarrow> database" where
  "postpone eid visible d = d\<lparr>queue := update_where (\<lambda>q. qr_execution_id q = eid)
     (\<lambda>q. q\<lparr>qr_visible_after := visible\<rparr>) (queue d)\<rparr>"

definition dead_letter :: "time \<Rightarrow> string \<Rightarrow> int \<Rightarrow> queue_row \<Rightarrow> dlq_row" where
  "dead_letter now errMsg rid q =
     \<lparr>dr_id = rid, dr_execution_id = qr_execution_id q, dr_tenant_id = qr_tenant_id q,
      dr_payload = qr_payload q, dr_error_message = Some errMsg, dr_attempts = qr_attempt q,
      dr_failed_at = now\<rparr>"

text \<open>\<^verbatim>\<open>INSERT INTO execution_dlq ... SELECT ... FROM execution_queue WHERE execution_id = $2\<close>:
  nothing to insert is no error, an execution that is in the table already is one.\<close>

definition insert_dlq :: "time \<Rightarrow> string \<Rightarrow> uuid \<Rightarrow> database \<Rightarrow> sql_error + database" where
  "insert_dlq now errMsg eid d =
     (if \<not> text_ok errMsg then Inl ErrEncoding
      else case find_queued d eid of
        None \<Rightarrow> Inr d
      | Some q \<Rightarrow>
          if dead_lettered d eid then Inl ErrUnique
          else Inr (d\<lparr>dlq := dlq d @ [dead_letter now errMsg (dlq_seq d) q],
                      dlq_seq := dlq_seq d + 1\<rparr>))"

definition fail_execution ::
    "time \<Rightarrow> uuid \<Rightarrow> int option \<Rightarrow> string \<Rightarrow> database \<Rightarrow> sql_error + database" where
  "fail_execution now eid exitCode errMsg d =
     (if \<not> opt_ok int32_ok exitCode then Inl ErrRange
      else if \<not> text_ok errMsg then Inl ErrEncoding
      else Inr (d\<lparr>executions := update_where (\<lambda>e. ex_ID e = eid)
        (\<lambda>e. e\<lparr>ex_Status := ExecutionStatusFailed, ex_ExitCode := exitCode,
               ex_ErrorMessage := Some errMsg, ex_CompletedAt := Some now\<rparr>) (executions d)\<rparr>))"

definition queue_attempt :: "uuid \<Rightarrow> int sql" where
  "queue_attempt eid = query (\<lambda>d. case find_queued d eid of None \<Rightarrow> Inl ErrNoRows
     | Some q \<Rightarrow> Inr (qr_attempt q))"

text \<open>The permanent failure: move to the dead letter queue, leave the queue, close the execution.\<close>

definition Fail_fatal :: "clocks \<Rightarrow> uuid \<Rightarrow> int option \<Rightarrow> string \<Rightarrow> unit sql" where
  "Fail_fatal clk eid exitCode errMsg =
     and_then (exec (insert_dlq (db_now clk) errMsg eid)) (\<lambda>_.
     and_then (exec (\<lambda>d. Inr (delete_queued eid d))) (\<lambda>_.
       exec (fail_execution (db_now clk) eid exitCode errMsg)))"

definition Fail_retry :: "clocks \<Rightarrow> uuid \<Rightarrow> int \<Rightarrow> unit sql" where
  "Fail_retry clk eid att =
     exec (\<lambda>d. Inr (postpone eid (db_now clk + fail_backoff att) d))"

definition Fail :: "clocks \<Rightarrow> uuid \<Rightarrow> int option \<Rightarrow> string \<Rightarrow> unit sql" where
  "Fail clk eid exitCode errMsg =
     and_then (attempting (queue_attempt eid)) (\<lambda>r.
       case r of
         Inl e \<Rightarrow> if e = ErrNoRows then Fail_fatal clk eid exitCode errMsg else throw e
       | Inr att \<Rightarrow>
           if att > MaxRetries then Fail_fatal clk eid exitCode errMsg
           else Fail_retry clk eid att)"

section \<open>Heartbeat and counts\<close>

definition SetVisibleAfter :: "uuid \<Rightarrow> time \<Rightarrow> unit sql" where
  "SetVisibleAfter eid visibleAfter = exec (\<lambda>d. Inr (postpone eid visibleAfter d))"

definition Count :: "int sql" where
  "Count = query (\<lambda>d. Inr (int (length (queue d))))"

text \<open>\<^verbatim>\<open>int32(id[0])<<24 | int32(id[1])<<16 | int32(id[2])<<8 | int32(id[3])\<close>\<close>

definition tenantLockKey :: "uuid \<Rightarrow> 32 word" where
  "tenantLockKey tid =
     or (or (or (push_bit 24 (ucast (uuid_byte tid 0))) (push_bit 16 (ucast (uuid_byte tid 1))))
            (push_bit 8 (ucast (uuid_byte tid 2)))) (ucast (uuid_byte tid 3))"

definition running_of :: "uuid \<Rightarrow> execution list \<Rightarrow> execution list" where
  "running_of tid = filter (\<lambda>e. ex_TenantID e = tid \<and> ex_Status e = ExecutionStatusRunning)"

text \<open>
  The advisory lock is a statement of its own: it blocks the requests of other transactions
  with the same key until this one ends, and has no effect on the tables.
\<close>

definition CountRunningExecutions :: "uuid \<Rightarrow> int sql" where
  "CountRunningExecutions tid =
     and_then (exec (\<lambda>d. Inr d)) (\<lambda>_.
       query (\<lambda>d. Inr (int (length (running_of tid (executions d))))))"

end
