(* ===== verification/Store_Records.thy ===== *)
theory Store_Records
  imports Store_Queue
begin

text \<open>
  The rest of the PostgreSQL store: \<^verbatim>\<open>job.go\<close>, \<^verbatim>\<open>execution.go\<close>, \<^verbatim>\<open>log.go\<close> and
  \<^verbatim>\<open>tenants.go\<close> of \<^verbatim>\<open>internal/store/postgres\<close>. Inserts check what the schema checks:
  keys, references, the range of \<^verbatim>\<open>INT\<close> columns and the characters of \<^verbatim>\<open>TEXT\<close> and
  \<^verbatim>\<open>JSONB\<close>. A nil \<^verbatim>\<open>json.RawMessage\<close> is stored as \<^verbatim>\<open>NULL\<close>.
\<close>

section \<open>Scanning\<close>

text \<open>
  \<^verbatim>\<open>database/sql\<close> stores \<^verbatim>\<open>NULL\<close> into a pointer, into \<^verbatim>\<open>*[]byte\<close> and into \<^verbatim>\<open>*any\<close>;
  a destination of type \<^verbatim>\<open>*json.RawMessage\<close> is none of them, and \<^verbatim>\<open>Scan\<close> returns
  "unsupported Scan, storing driver.Value type <nil>".
\<close>

definition scan_raw :: "json option \<Rightarrow> sql_error + raw_message" where
  "scan_raw c = (case c of None \<Rightarrow> Inl ErrScan | Some j \<Rightarrow> Inr (Some j))"

section \<open>Jobs\<close>

definition find_job :: "database \<Rightarrow> uuid \<Rightarrow> job_row option" where
  "find_job d jid = find (\<lambda>j. jr_id j = jid) (jobs d)"

definition has_tenant :: "database \<Rightarrow> uuid \<Rightarrow> bool" where
  "has_tenant d tid \<longleftrightarrow> tid \<in> tn_ID ` set (tenants d)"

definition job_row_of :: "job \<Rightarrow> job_row" where
  "job_row_of j = \<lparr>jr_id = jb_ID j, jr_tenant_id = jb_TenantID j, jr_name = jb_Name j,
     jr_image = jb_Image j, jr_default_command = Some (enc_slice enc_string (jb_Command j)),
     jr_default_timeout = jb_DefaultTimeout j, jr_priority = jb_Priority j,
     jr_created_at = jb_CreatedAt j, jr_callback_url = jb_CallbackURL j,
     jr_callback_headers = jb_CallbackHeaders j\<rparr>"

definition job_row_ok :: "job_row \<Rightarrow> bool" where
  "job_row_ok r \<longleftrightarrow>
     text_ok (jr_name r) \<and> text_ok (jr_image r) \<and> opt_ok jsonb_ok (jr_default_command r) \<and>
     opt_ok text_ok (jr_callback_url r) \<and> opt_ok jsonb_ok (jr_callback_headers r)"

definition insert_job :: "job \<Rightarrow> database \<Rightarrow> sql_error + database" where
  "insert_job j d =
     (if \<not> (int32_ok (jb_DefaultTimeout j) \<and> int32_ok (jb_Priority j)) then Inl ErrRange
      else if \<not> job_row_ok (job_row_of j) then Inl ErrEncoding
      else if find_job d (jb_ID j) \<noteq> None then Inl ErrUnique
      else if \<not> has_tenant d (jb_TenantID j) then Inl ErrForeignKey
      else Inr (d\<lparr>jobs := jobs d @ [job_row_of j]\<rparr>))"

definition CreateJob :: "job \<Rightarrow> unit sql" where
  "CreateJob j = exec (insert_job j)"

definition job_of_row :: "job_row \<Rightarrow> sql_error + job" where
  "job_of_row r =
     (let mk = (\<lambda>cmd. \<lparr>jb_ID = jr_id r, jb_TenantID = jr_tenant_id r, jb_Name = jr_name r,
            jb_Image = jr_image r, jb_Command = cmd, jb_DefaultTimeout = jr_default_timeout r,
            jb_Priority = jr_priority r, jb_CallbackURL = jr_callback_url r,
            jb_CallbackHeaders = jr_callback_headers r, jb_CreatedAt = jr_created_at r\<rparr>)
      in case jr_default_command r of
           None \<Rightarrow> Inr (mk None)
         | Some c \<Rightarrow> (case dec_slice (dec_string []) c of None \<Rightarrow> Inl ErrMarshal
                     | Some cmd \<Rightarrow> Inr (mk cmd)))"

definition GetJobByID :: "uuid \<Rightarrow> job sql" where
  "GetJobByID jid = query (\<lambda>d. case find_job d jid of None \<Rightarrow> Inl ErrNoRows
     | Some r \<Rightarrow> job_of_row r)"

section \<open>Executions\<close>

definition insert_execution :: "execution \<Rightarrow> database \<Rightarrow> sql_error + database" where
  "insert_execution e d =
     (if \<not> int32_ok (ex_Priority e) then Inl ErrRange
      else if \<not> (opt_ok text_ok (ex_CallbackURL e) \<and> opt_ok jsonb_ok (ex_CallbackHeaders e))
        then Inl ErrEncoding
      else if find_execution d (ex_ID e) \<noteq> None then Inl ErrUnique
      else if find_job d (ex_JobID e) = None \<or> \<not> has_tenant d (ex_TenantID e) \<or>
        \<not> opt_ok (\<lambda>o'. find_execution d o' \<noteq> None) (ex_RetriedFrom e) then Inl ErrForeignKey
      else Inr (d\<lparr>executions := executions d @ [e]\<rparr>))"

text \<open>The columns the statement leaves out take their defaults: attempt 0, the rest null.\<close>

definition CreateExecution :: "execution \<Rightarrow> unit sql" where
  "CreateExecution e = exec (insert_execution
     (e\<lparr>ex_Attempt := 0, ex_ExitCode := None, ex_ErrorMessage := None, ex_RetriedFrom := None,
        ex_Result := None, ex_StartedAt := None, ex_CompletedAt := None\<rparr>))"

definition GetExecutionByID :: "uuid \<Rightarrow> execution sql" where
  "GetExecutionByID eid = query (\<lambda>d.
     case find_execution d eid of
       None \<Rightarrow> Inl ErrNoRows
     | Some e \<Rightarrow>
         (case scan_raw (ex_Result e) of Inl err \<Rightarrow> Inl err
          | Inr _ \<Rightarrow> (case scan_raw (ex_CallbackHeaders e) of Inl err \<Rightarrow> Inl err
                     | Inr _ \<Rightarrow> Inr e)))"

definition UpdateCallbackStatus :: "uuid \<Rightarrow> CallbackStatus \<Rightarrow> unit sql" where
  "UpdateCallbackStatus eid st = exec (\<lambda>d. Inr (d\<lparr>executions :=
     update_where (\<lambda>e. ex_ID e = eid) (\<lambda>e. e\<lparr>ex_CallbackStatus := Some st\<rparr>) (executions d)\<rparr>))"

section \<open>The dead letter queue\<close>

definition dlq_entry :: "database \<Rightarrow> dlq_row \<Rightarrow> DLQEntry option" where
  "dlq_entry d r =
     (case find_execution d (dr_execution_id r) of
        None \<Rightarrow> None
      | Some e \<Rightarrow>
          (case find_job d (ex_JobID e) of
             None \<Rightarrow> None
           | Some j \<Rightarrow> Some \<lparr>dq_ID = dr_id r, dq_ExecutionID = dr_execution_id r,
               dq_TenantID = dr_tenant_id r, dq_JobID = ex_JobID e, dq_JobName = jr_name j,
               dq_Priority = ex_Priority e, dq_Payload = dr_payload r,
               dq_ErrorMessage = dr_error_message r, dq_Attempts = dr_attempts r,
               dq_FailedAt = dr_failed_at r\<rparr>))"

text \<open>Rows that are equal for \<^verbatim>\<open>ORDER BY\<close> come in any order: \<open>ties\<close> ranks them by their identifiers.\<close>

definition select_dlq :: "(int \<Rightarrow> int) \<Rightarrow> uuid \<Rightarrow> int \<Rightarrow> int \<Rightarrow> database \<Rightarrow> DLQEntry list" where
  "select_dlq ties tid limit offset d =
     take (nat limit) (drop (nat offset)
       (sort_key (\<lambda>r. (- dq_FailedAt r, ties (dq_ID r)))
         (List.map_filter (dlq_entry d) (filter (\<lambda>r. dr_tenant_id r = tid) (dlq d)))))"

text \<open>A negative \<^verbatim>\<open>LIMIT\<close> or \<^verbatim>\<open>OFFSET\<close> is an error of the statement.\<close>

definition ListDLQ :: "(int \<Rightarrow> int) \<Rightarrow> uuid \<Rightarrow> int \<Rightarrow> int \<Rightarrow> DLQEntry list sql" where
  "ListDLQ ties tid limit offset = query_rows (\<lambda>d.
     if limit < 0 \<or> offset < 0 then Inl ErrNegative else Inr (select_dlq ties tid limit offset d))"

definition find_dlq :: "database \<Rightarrow> uuid \<Rightarrow> dlq_row option" where
  "find_dlq d eid = find (\<lambda>r. dr_execution_id r = eid) (dlq d)"

definition delete_dlq :: "uuid \<Rightarrow> database \<Rightarrow> database" where
  "delete_dlq eid d = d\<lparr>dlq := delete_where (\<lambda>r. dr_execution_id r = eid) (dlq d)\<rparr>"

text \<open>The new execution: the job, tenant and priority of the old one, no callback, no schedule.\<close>

definition retried_execution :: "time \<Rightarrow> uuid \<Rightarrow> execution \<Rightarrow> execution" where
  "retried_execution now newID e =
     \<lparr>ex_ID = newID, ex_JobID = ex_JobID e, ex_TenantID = ex_TenantID e,
      ex_Status = ExecutionStatusPending, ex_Priority = ex_Priority e, ex_Attempt = 0,
      ex_ExitCode = None, ex_ErrorMessage = None, ex_RetriedFrom = Some (ex_ID e),
      ex_CallbackURL = None, ex_CallbackHeaders = None, ex_CallbackStatus = None,
      ex_Result = None, ex_ScheduledAt = None, ex_CreatedAt = now, ex_StartedAt = None,
      ex_CompletedAt = None\<rparr>"

definition read_dlq :: "uuid \<Rightarrow> (dlq_row \<times> execution) sql" where
  "read_dlq eid = query (\<lambda>d.
     case find_dlq d eid of
       None \<Rightarrow> Inl ErrNoRows
     | Some r \<Rightarrow> (case find_execution d eid of None \<Rightarrow> Inl ErrScan | Some e \<Rightarrow> Inr (r, e)))"

definition RetryFromDLQ :: "clocks \<Rightarrow> uuid \<Rightarrow> uuid \<Rightarrow> uuid sql" where
  "RetryFromDLQ clk newID eid = with_tx ErrConn ErrConn
     (and_then (read_dlq eid) (\<lambda>(r, e).
      and_then (exec (insert_execution (retried_execution (go_now clk) newID e))) (\<lambda>_.
      and_then (Enqueue clk newID (Some (dr_payload r)) (go_now clk)) (\<lambda>_.
      and_then (exec (\<lambda>d. Inr (delete_dlq eid d))) (\<lambda>_.
      ret newID)))))"

section \<open>Logs\<close>

definition insert_log :: "time \<Rightarrow> uuid \<Rightarrow> string \<Rightarrow> database \<Rightarrow> sql_error + database" where
  "insert_log now eid content d =
     (if \<not> text_ok content then Inl ErrEncoding
      else if find_execution d eid = None then Inl ErrForeignKey
      else Inr (d\<lparr>logs := logs d @ [\<lparr>lg_ID = logs_seq d, lg_ExecutionID = eid,
        lg_Content = content, lg_CreatedAt = now\<rparr>], logs_seq := logs_seq d + 1\<rparr>))"

definition AddLogEntry :: "clocks \<Rightarrow> uuid \<Rightarrow> string \<Rightarrow> unit sql" where
  "AddLogEntry clk eid content = exec (insert_log (db_now clk) eid content)"

definition select_logs :: "(int \<Rightarrow> int) \<Rightarrow> uuid \<Rightarrow> int \<Rightarrow> int \<Rightarrow> database \<Rightarrow> LogEntry list" where
  "select_logs ties eid afterID limit d =
     take (nat limit) (sort_key (\<lambda>l. (lg_CreatedAt l, ties (lg_ID l)))
       (filter (\<lambda>l. lg_ExecutionID l = eid \<and> lg_ID l > afterID) (logs d)))"

definition GetExecutionLogs :: "(int \<Rightarrow> int) \<Rightarrow> uuid \<Rightarrow> int \<Rightarrow> int \<Rightarrow> LogEntry list sql" where
  "GetExecutionLogs ties eid afterID limit = query_rows (\<lambda>d.
     if limit < 0 then Inl ErrNegative else Inr (select_logs ties eid afterID limit d))"

text \<open>A connection that breaks under a page of the log leaves a shorter page, and no error.\<close>

lemma GetExecutionLogs_cut:
  assumes "0 \<le> limit"
  shows "GetExecutionLogs ties eid k limit \<lparr>db = d, fates = RepliesCut n # fs\<rparr> =
    (Inr (take n (select_logs ties eid k limit d)), \<lparr>db = d, fates = fs\<rparr>)"
  using assms by (simp add: GetExecutionLogs_def query_rows_def next_fate_def spend_def)

section \<open>Tenants\<close>

definition tenant_ints_ok :: "'a tenant_scheme \<Rightarrow> bool" where
  "tenant_ints_ok t \<longleftrightarrow> int32_ok (tn_RateLimit t) \<and> int32_ok (tn_RateLimitBurst t) \<and>
     int32_ok (tn_MaxConcurrentExecutions t)"

definition tenant_text_ok :: "'a tenant_scheme \<Rightarrow> bool" where
  "tenant_text_ok t \<longleftrightarrow> text_ok (tn_Name t) \<and> opt_ok text_ok (tn_CallbackURL t) \<and>
     opt_ok jsonb_ok (tn_CallbackHeaders t)"

definition tenant_row_of :: "tenant \<Rightarrow> string \<Rightarrow> tenant_row" where
  "tenant_row_of t hash = tenant.extend t (tenant_row.fields hash)"

definition insert_tenant :: "tenant \<Rightarrow> string \<Rightarrow> database \<Rightarrow> sql_error + database" where
  "insert_tenant t hash d =
     (if \<not> tenant_ints_ok t then Inl ErrRange
      else if \<not> tenant_text_ok t then Inl ErrEncoding
      else if has_tenant d (tn_ID t) then Inl ErrUnique
      else Inr (d\<lparr>tenants := tenants d @ [tenant_row_of t hash]\<rparr>))"

definition CreateTenant :: "tenant \<Rightarrow> string \<Rightarrow> unit sql" where
  "CreateTenant t hash = exec (insert_tenant t hash)"

definition assign_tenant :: "tenant \<Rightarrow> tenant_row \<Rightarrow> tenant_row" where
  "assign_tenant t r = r\<lparr>tn_Name := tn_Name t, tn_RateLimit := tn_RateLimit t,
     tn_RateLimitBurst := tn_RateLimitBurst t,
     tn_MaxConcurrentExecutions := tn_MaxConcurrentExecutions t,
     tn_CallbackURL := tn_CallbackURL t, tn_CallbackHeaders := tn_CallbackHeaders t\<rparr>"

definition update_tenant :: "tenant \<Rightarrow> database \<Rightarrow> sql_error + database" where
  "update_tenant t d =
     (if \<not> tenant_ints_ok t then Inl ErrRange
      else if \<not> tenant_text_ok t then Inl ErrEncoding
      else Inr (d\<lparr>tenants := update_where (\<lambda>r. tn_ID r = tn_ID t) (assign_tenant t) (tenants d)\<rparr>))"

definition UpdateTenant :: "tenant \<Rightarrow> unit sql" where
  "UpdateTenant t = exec (update_tenant t)"

definition scan_tenant :: "tenant_row \<Rightarrow> sql_error + tenant" where
  "scan_tenant r =
     (case scan_raw (tn_CallbackHeaders r) of Inl e \<Rightarrow> Inl e | Inr _ \<Rightarrow> Inr (tenant.truncate r))"

definition GetTenantByID :: "uuid \<Rightarrow> tenant sql" where
  "GetTenantByID tid = query (\<lambda>d. case find (\<lambda>r. tn_ID r = tid) (tenants d) of
     None \<Rightarrow> Inl ErrNoRows | Some r \<Rightarrow> scan_tenant r)"

definition GetTenantByAPIKeyHash :: "string \<Rightarrow> tenant sql" where
  "GetTenantByAPIKeyHash hash = query (\<lambda>d. case find (\<lambda>r. tr_api_key_hash r = hash) (tenants d) of
     None \<Rightarrow> Inl ErrNoRows | Some r \<Rightarrow> scan_tenant r)"

end
