(* ===== verification/Responses.thy ===== *)
theory Responses
  imports Api
begin

text \<open>
  The larger answers of \<^verbatim>\<open>pkg/api/api.go\<close>: an execution, its logs, the dead letter queue
  and a claimed batch. The controller encodes them, the command line client and the workers
  decode them; the round trips say that nothing is lost between the two. An encoding is an
  \<open>option\<close> where a timestamp may fall outside the range that marshals.
\<close>

section \<open>An execution\<close>

record ExecutionResponse =
  xr_ID :: string
  xr_Status :: string
  xr_Priority :: int
  xr_Attempt :: int
  xr_ScheduledAt :: "time option"
  xr_StartedAt :: "time option"
  xr_CompletedAt :: "time option"
  xr_ExitCode :: "int option"
  xr_Error :: "string option"
  xr_Result :: raw_message
  xr_CallbackURL :: "string option"
  xr_CallbackStatus :: string

definition zero_ExecutionResponse :: ExecutionResponse where
  "zero_ExecutionResponse = \<lparr>xr_ID = [], xr_Status = [], xr_Priority = 0, xr_Attempt = 0,
     xr_ScheduledAt = None, xr_StartedAt = None, xr_CompletedAt = None, xr_ExitCode = None,
     xr_Error = None, xr_Result = None, xr_CallbackURL = None, xr_CallbackStatus = []\<rparr>"

definition enc_ExecutionResponse :: "ExecutionResponse \<Rightarrow> json option" where
  "enc_ExecutionResponse r =
     (case (enc_time_ptr (xr_ScheduledAt r), enc_time_ptr (xr_StartedAt r),
            enc_time_ptr (xr_CompletedAt r)) of
        (Some sch, Some sta, Some com) \<Rightarrow> Some (JObj (
          [(''id'', enc_string (xr_ID r)), (''status'', enc_string (xr_Status r)),
           (''priority'', JNum (xr_Priority r)), (''attempt'', JNum (xr_Attempt r)),
           (''scheduled_at'', sch)] @
          omit_if (xr_StartedAt r = None) ''started_at'' sta @
          omit_if (xr_CompletedAt r = None) ''completed_at'' com @
          omit_if (xr_ExitCode r = None) ''exit_code'' (enc_int_ptr (xr_ExitCode r)) @
          omit_if (xr_Error r = None) ''error'' (enc_string_ptr (xr_Error r)) @
          omit_if (xr_Result r = None) ''result'' (enc_raw (xr_Result r)) @
          omit_if (xr_CallbackURL r = None) ''callback_url'' (enc_string_ptr (xr_CallbackURL r)) @
          omit_if (xr_CallbackStatus r = []) ''callback_status'' (enc_string (xr_CallbackStatus r))))
      | _ \<Rightarrow> None)"

definition set_ExecutionResponse ::
    "ExecutionResponse \<Rightarrow> string \<Rightarrow> json \<Rightarrow> ExecutionResponse option" where
  "set_ExecutionResponse r k v =
     (if key_eq k ''id'' then map_option (\<lambda>x. r\<lparr>xr_ID := x\<rparr>) (dec_string (xr_ID r) v)
      else if key_eq k ''status'' then
        map_option (\<lambda>x. r\<lparr>xr_Status := x\<rparr>) (dec_string (xr_Status r) v)
      else if key_eq k ''priority'' then
        map_option (\<lambda>x. r\<lparr>xr_Priority := x\<rparr>) (dec_int (xr_Priority r) v)
      else if key_eq k ''attempt'' then
        map_option (\<lambda>x. r\<lparr>xr_Attempt := x\<rparr>) (dec_int (xr_Attempt r) v)
      else if key_eq k ''scheduled_at'' then
        map_option (\<lambda>x. r\<lparr>xr_ScheduledAt := x\<rparr>) (dec_time_ptr v)
      else if key_eq k ''started_at'' then
        map_option (\<lambda>x. r\<lparr>xr_StartedAt := x\<rparr>) (dec_time_ptr v)
      else if key_eq k ''completed_at'' then
        map_option (\<lambda>x. r\<lparr>xr_CompletedAt := x\<rparr>) (dec_time_ptr v)
      else if key_eq k ''exit_code'' then
        map_option (\<lambda>x. r\<lparr>xr_ExitCode := x\<rparr>) (dec_int_ptr v)
      else if key_eq k ''error'' then
        map_option (\<lambda>x. r\<lparr>xr_Error := x\<rparr>) (dec_string_ptr v)
      else if key_eq k ''result'' then Some (r\<lparr>xr_Result := Some v\<rparr>)
      else if key_eq k ''callback_url'' then
        map_option (\<lambda>x. r\<lparr>xr_CallbackURL := x\<rparr>) (dec_string_ptr v)
      else if key_eq k ''callback_status'' then
        map_option (\<lambda>x. r\<lparr>xr_CallbackStatus := x\<rparr>) (dec_string (xr_CallbackStatus r) v)
      else Some r)"

definition dec_ExecutionResponse :: "json \<Rightarrow> ExecutionResponse option" where
  "dec_ExecutionResponse = dec_struct set_ExecutionResponse zero_ExecutionResponse"

section \<open>Log entries\<close>

record ApiLogEntry =
  al_ID :: int
  al_Content :: string
  al_CreatedAt :: time

definition zero_ApiLogEntry :: ApiLogEntry where
  "zero_ApiLogEntry = \<lparr>al_ID = 0, al_Content = [], al_CreatedAt = zero_time\<rparr>"

definition enc_ApiLogEntry :: "ApiLogEntry \<Rightarrow> json option" where
  "enc_ApiLogEntry l = map_option (\<lambda>at. JObj
     [(''id'', JNum (al_ID l)), (''content'', enc_string (al_Content l)), (''created_at'', at)])
     (enc_time (al_CreatedAt l))"

definition set_ApiLogEntry :: "ApiLogEntry \<Rightarrow> string \<Rightarrow> json \<Rightarrow> ApiLogEntry option" where
  "set_ApiLogEntry l k v =
     (if key_eq k ''id'' then map_option (\<lambda>x. l\<lparr>al_ID := x\<rparr>) (dec_int (al_ID l) v)
      else if key_eq k ''content'' then
        map_option (\<lambda>x. l\<lparr>al_Content := x\<rparr>) (dec_string (al_Content l) v)
      else if key_eq k ''created_at'' then
        map_option (\<lambda>x. l\<lparr>al_CreatedAt := x\<rparr>) (dec_time (al_CreatedAt l) v)
      else Some l)"

definition dec_ApiLogEntry :: "json \<Rightarrow> ApiLogEntry option" where
  "dec_ApiLogEntry = dec_struct set_ApiLogEntry zero_ApiLogEntry"

text \<open>The elements of a list all encode, or the whole value does not.\<close>

definition enc_all :: "('a \<Rightarrow> json option) \<Rightarrow> 'a list \<Rightarrow> json option" where
  "enc_all e xs = map_option JArr (those (map e xs))"

definition enc_GetLogsResponse :: "ApiLogEntry list \<Rightarrow> json option" where
  "enc_GetLogsResponse ls = map_option (\<lambda>v. JObj [(''logs'', v)]) (enc_all enc_ApiLogEntry ls)"

definition dec_GetLogsResponse :: "json \<Rightarrow> ApiLogEntry list option option" where
  "dec_GetLogsResponse = dec_struct
     (\<lambda>r k v. if key_eq k ''logs'' then dec_slice dec_ApiLogEntry v else Some r) None"

section \<open>The dead letter queue\<close>

record DLQExecutionResponse =
  xl_ID :: int
  xl_ExecutionID :: string
  xl_JobID :: string
  xl_JobName :: string
  xl_Priority :: int
  xl_ErrorMessage :: "string option"
  xl_Attempts :: int
  xl_FailedAt :: "time option"

definition zero_DLQExecutionResponse :: DLQExecutionResponse where
  "zero_DLQExecutionResponse = \<lparr>xl_ID = 0, xl_ExecutionID = [], xl_JobID = [], xl_JobName = [],
     xl_Priority = 0, xl_ErrorMessage = None, xl_Attempts = 0, xl_FailedAt = None\<rparr>"

definition enc_DLQExecutionResponse :: "DLQExecutionResponse \<Rightarrow> json option" where
  "enc_DLQExecutionResponse r = map_option (\<lambda>at. JObj
     [(''id'', JNum (xl_ID r)), (''execution_id'', enc_string (xl_ExecutionID r)),
      (''job_id'', enc_string (xl_JobID r)), (''job_name'', enc_string (xl_JobName r)),
      (''priority'', JNum (xl_Priority r)), (''error_message'', enc_string_ptr (xl_ErrorMessage r)),
      (''attempts'', JNum (xl_Attempts r)), (''failed_at'', at)]) (enc_time_ptr (xl_FailedAt r))"

definition set_DLQExecutionResponse ::
    "DLQExecutionResponse \<Rightarrow> string \<Rightarrow> json \<Rightarrow> DLQExecutionResponse option" where
  "set_DLQExecutionResponse r k v =
     (if key_eq k ''id'' then map_option (\<lambda>x. r\<lparr>xl_ID := x\<rparr>) (dec_int (xl_ID r) v)
      else if key_eq k ''execution_id'' then
        map_option (\<lambda>x. r\<lparr>xl_ExecutionID := x\<rparr>) (dec_string (xl_ExecutionID r) v)
      else if key_eq k ''job_id'' then
        map_option (\<lambda>x. r\<lparr>xl_JobID := x\<rparr>) (dec_string (xl_JobID r) v)
      else if key_eq k ''job_name'' then
        map_option (\<lambda>x. r\<lparr>xl_JobName := x\<rparr>) (dec_string (xl_JobName r) v)
      else if key_eq k ''priority'' then
        map_option (\<lambda>x. r\<lparr>xl_Priority := x\<rparr>) (dec_int (xl_Priority r) v)
      else if key_eq k ''error_message'' then
        map_option (\<lambda>x. r\<lparr>xl_ErrorMessage := x\<rparr>) (dec_string_ptr v)
      else if key_eq k ''attempts'' then
        map_option (\<lambda>x. r\<lparr>xl_Attempts := x\<rparr>) (dec_int (xl_Attempts r) v)
      else if key_eq k ''failed_at'' then
        map_option (\<lambda>x. r\<lparr>xl_FailedAt := x\<rparr>) (dec_time_ptr v)
      else Some r)"

definition dec_DLQExecutionResponse :: "json \<Rightarrow> DLQExecutionResponse option" where
  "dec_DLQExecutionResponse = dec_struct set_DLQExecutionResponse zero_DLQExecutionResponse"

section \<open>A claimed batch\<close>

record DequeuedExecution =
  de_ExecutionID :: uuid
  de_Payload :: raw_message

definition zero_DequeuedExecution :: DequeuedExecution where
  "zero_DequeuedExecution = \<lparr>de_ExecutionID = uuid_Nil, de_Payload = None\<rparr>"

definition enc_DequeuedExecution :: "externals \<Rightarrow> DequeuedExecution \<Rightarrow> json" where
  "enc_DequeuedExecution E x = JObj
     [(''execution_id'', enc_uuid E (de_ExecutionID x)), (''payload'', enc_raw (de_Payload x))]"

definition set_DequeuedExecution ::
    "externals \<Rightarrow> DequeuedExecution \<Rightarrow> string \<Rightarrow> json \<Rightarrow> DequeuedExecution option" where
  "set_DequeuedExecution E r k v =
     (if key_eq k ''execution_id'' then
        map_option (\<lambda>x. r\<lparr>de_ExecutionID := x\<rparr>) (dec_uuid E (de_ExecutionID r) v)
      else if key_eq k ''payload'' then Some (r\<lparr>de_Payload := Some v\<rparr>)
      else Some r)"

definition enc_DequeueResponse :: "externals \<Rightarrow> DequeuedExecution list option \<Rightarrow> json" where
  "enc_DequeueResponse E xs = JObj [(''executions'', enc_slice (enc_DequeuedExecution E) xs)]"

definition dec_DequeueResponse :: "externals \<Rightarrow> json \<Rightarrow> DequeuedExecution list option option" where
  "dec_DequeueResponse E = dec_struct
     (\<lambda>r k v. if key_eq k ''executions''
        then dec_slice (dec_struct (set_DequeuedExecution E) zero_DequeuedExecution) v
        else Some r) None"

section \<open>Round trips\<close>

lemma set_ExecutionResponse_keys:
  "set_ExecutionResponse r ''id'' v = map_option (\<lambda>x. r\<lparr>xr_ID := x\<rparr>) (dec_string (xr_ID r) v)"
  "set_ExecutionResponse r ''status'' v =
     map_option (\<lambda>x. r\<lparr>xr_Status := x\<rparr>) (dec_string (xr_Status r) v)"
  "set_ExecutionResponse r ''priority'' v =
     map_option (\<lambda>x. r\<lparr>xr_Priority := x\<rparr>) (dec_int (xr_Priority r) v)"
  "set_ExecutionResponse r ''attempt'' v =
     map_option (\<lambda>x. r\<lparr>xr_Attempt := x\<rparr>) (dec_int (xr_Attempt r) v)"
  "set_ExecutionResponse r ''scheduled_at'' v = map_option (\<lambda>x. r\<lparr>xr_ScheduledAt := x\<rparr>) (dec_time_ptr v)"
  "set_ExecutionResponse r ''started_at'' v = map_option (\<lambda>x. r\<lparr>xr_StartedAt := x\<rparr>) (dec_time_ptr v)"
  "set_ExecutionResponse r ''completed_at'' v = map_option (\<lambda>x. r\<lparr>xr_CompletedAt := x\<rparr>) (dec_time_ptr v)"
  "set_ExecutionResponse r ''exit_code'' v = map_option (\<lambda>x. r\<lparr>xr_ExitCode := x\<rparr>) (dec_int_ptr v)"
  "set_ExecutionResponse r ''error'' v = map_option (\<lambda>x. r\<lparr>xr_Error := x\<rparr>) (dec_string_ptr v)"
  "set_ExecutionResponse r ''result'' v = Some (r\<lparr>xr_Result := Some v\<rparr>)"
  "set_ExecutionResponse r ''callback_url'' v =
     map_option (\<lambda>x. r\<lparr>xr_CallbackURL := x\<rparr>) (dec_string_ptr v)"
  "set_ExecutionResponse r ''callback_status'' v =
     map_option (\<lambda>x. r\<lparr>xr_CallbackStatus := x\<rparr>) (dec_string (xr_CallbackStatus r) v)"
  by (simp_all add: set_ExecutionResponse_def key_eq_eval)

text \<open>A field with \<^verbatim>\<open>omitempty\<close>: left out exactly when the decoder has nothing to change.\<close>

lemma dec_fields_omit:
  assumes "b \<Longrightarrow> upd acc = acc" and "\<not> b \<Longrightarrow> f acc k v = Some (upd acc)"
  shows "dec_fields f acc (omit_if b k v @ rest) = dec_fields f (upd acc) rest"
  using assms by (auto simp: omit_if_def)

lemma dec_fields_omit_last:
  assumes "b \<Longrightarrow> upd acc = acc" and "\<not> b \<Longrightarrow> f acc k v = Some (upd acc)"
  shows "dec_fields f acc (omit_if b k v) = Some (upd acc)"
  using assms by (auto simp: omit_if_def)

lemma ExecutionResponse_roundtrip:
  assumes "enc_ExecutionResponse r = Some j"
    and "int64_ok (xr_Priority r)" and "int64_ok (xr_Attempt r)" and "opt_ok int64_ok (xr_ExitCode r)"
    and valid: "utf8 (xr_ID r)" "utf8 (xr_Status r)" "opt_ok utf8 (xr_Error r)" "opt_ok utf8 (xr_CallbackURL r)"
      "utf8 (xr_CallbackStatus r)"
  shows "dec_ExecutionResponse j = Some r"
proof -
  obtain sch sta com where
      t: "enc_time_ptr (xr_ScheduledAt r) = Some sch" "enc_time_ptr (xr_StartedAt r) = Some sta"
         "enc_time_ptr (xr_CompletedAt r) = Some com"
    using assms(1) by (auto simp: enc_ExecutionResponse_def split: option.splits)
  note d = t [THEN dec_time_ptr_enc]
  have x: "dec_int_ptr (enc_int_ptr (xr_ExitCode r)) = Some (xr_ExitCode r)"
    using assms(4) by (intro dec_int_ptr_enc) auto
  have ptr: "map_option to_valid (xr_Error r) = xr_Error r" "map_option to_valid (xr_CallbackURL r) = xr_CallbackURL r"
    using valid by (cases "xr_Error r"; cases "xr_CallbackURL r"; simp add: to_valid_utf8)+
  have raw: "xr_Result r \<noteq> None \<Longrightarrow> Some (enc_raw (xr_Result r)) = xr_Result r"
    by (cases "xr_Result r") simp_all
  let ?f = set_ExecutionResponse
  let ?started = "\<lambda>a :: ExecutionResponse. a\<lparr>xr_StartedAt := xr_StartedAt r\<rparr>"
  let ?completed = "\<lambda>a :: ExecutionResponse. a\<lparr>xr_CompletedAt := xr_CompletedAt r\<rparr>"
  let ?exit = "\<lambda>a :: ExecutionResponse. a\<lparr>xr_ExitCode := xr_ExitCode r\<rparr>"
  let ?error = "\<lambda>a :: ExecutionResponse. a\<lparr>xr_Error := xr_Error r\<rparr>"
  let ?result = "\<lambda>a :: ExecutionResponse. a\<lparr>xr_Result := xr_Result r\<rparr>"
  let ?url = "\<lambda>a :: ExecutionResponse. a\<lparr>xr_CallbackURL := xr_CallbackURL r\<rparr>"
  let ?cb = "\<lambda>a :: ExecutionResponse. a\<lparr>xr_CallbackStatus := xr_CallbackStatus r\<rparr>"
  define a0 where "a0 = zero_ExecutionResponse\<lparr>xr_ID := xr_ID r, xr_Status := xr_Status r,
    xr_Priority := xr_Priority r, xr_Attempt := xr_Attempt r, xr_ScheduledAt := xr_ScheduledAt r\<rparr>"
  note k = set_ExecutionResponse_keys ptr to_valid_utf8 [OF valid(1)] to_valid_utf8 [OF valid(2)] to_valid_utf8 [OF valid(5)]
    and z = a0_def zero_ExecutionResponse_def
  have "dec_ExecutionResponse j = dec_fields ?f a0
     (omit_if (xr_StartedAt r = None) ''started_at'' sta @
      omit_if (xr_CompletedAt r = None) ''completed_at'' com @
      omit_if (xr_ExitCode r = None) ''exit_code'' (enc_int_ptr (xr_ExitCode r)) @
      omit_if (xr_Error r = None) ''error'' (enc_string_ptr (xr_Error r)) @
      omit_if (xr_Result r = None) ''result'' (enc_raw (xr_Result r)) @
      omit_if (xr_CallbackURL r = None) ''callback_url'' (enc_string_ptr (xr_CallbackURL r)) @
      omit_if (xr_CallbackStatus r = []) ''callback_status'' (enc_string (xr_CallbackStatus r)))"
    using assms(1-3) t d(1)
    by (auto simp: dec_ExecutionResponse_def enc_ExecutionResponse_def k z)
  also have "\<dots> = Some (?cb (?url (?result (?error (?exit (?completed (?started a0)))))))"
    by (rule trans [OF dec_fields_omit [where upd = ?started]], simp add: z, simp add: k d x raw,
        rule trans [OF dec_fields_omit [where upd = ?completed]], simp add: z, simp add: k d x raw,
        rule trans [OF dec_fields_omit [where upd = ?exit]], simp add: z, simp add: k d x raw,
        rule trans [OF dec_fields_omit [where upd = ?error]], simp add: z, simp add: k d x raw,
        rule trans [OF dec_fields_omit [where upd = ?result]], simp add: z, simp add: k d x raw,
        rule trans [OF dec_fields_omit [where upd = ?url]], simp add: z, simp add: k d x raw,
        rule dec_fields_omit_last [where upd = ?cb], simp add: z, simp add: k d x raw)
  also have "\<dots> = Some r" by (simp add: z)
  finally show ?thesis .
qed

lemma ApiLogEntry_roundtrip:
  assumes "enc_ApiLogEntry l = Some j" and "int64_ok (al_ID l)" and "utf8 (al_Content l)"
  shows "dec_ApiLogEntry j = Some l"
proof -
  obtain at where at: "enc_time (al_CreatedAt l) = Some at"
    using assms(1) by (auto simp: enc_ApiLogEntry_def)
  then show ?thesis
    using assms
    by (auto simp: dec_ApiLogEntry_def enc_ApiLogEntry_def set_ApiLogEntry_def zero_ApiLogEntry_def
        key_eq_eval dec_time_enc to_valid_utf8)
qed

lemma dec_list_those:
  "those (map e xs) = Some js \<Longrightarrow> (\<And>x j. x \<in> set xs \<Longrightarrow> e x = Some j \<Longrightarrow> d j = Some x) \<Longrightarrow>
   dec_list d js = Some xs"
proof (induction xs arbitrary: js)
  case Nil
  then show ?case by simp
next
  case (Cons x xs)
  then obtain j js' where "e x = Some j" "those (map e xs) = Some js'" "js = j # js'"
    by (auto split: option.splits)
  moreover from this have "dec_list d js' = Some xs"
    using Cons.IH [of js'] Cons.prems(2) by simp
  moreover have "d j = Some x" using Cons.prems(2) [of x j] \<open>e x = Some j\<close> by simp
  ultimately show ?case by simp
qed

lemma GetLogsResponse_roundtrip:
  assumes "enc_GetLogsResponse ls = Some j" and "\<forall>l \<in> set ls. int64_ok (al_ID l) \<and> utf8 (al_Content l)"
  shows "dec_GetLogsResponse j = Some (Some ls)"
proof -
  obtain js where js: "those (map enc_ApiLogEntry ls) = Some js"
    and j: "j = JObj [(''logs'', JArr js)]"
    using assms(1) by (auto simp: enc_GetLogsResponse_def enc_all_def)
  have "dec_list dec_ApiLogEntry js = Some ls"
    using js by (rule dec_list_those) (use assms(2) ApiLogEntry_roundtrip in blast)
  then show ?thesis by (simp add: j dec_GetLogsResponse_def key_eq_eval)
qed

lemma DLQExecutionResponse_roundtrip:
  assumes "enc_DLQExecutionResponse r = Some j"
    and "int64_ok (xl_ID r)" and "int64_ok (xl_Priority r)" and "int64_ok (xl_Attempts r)"
    and valid: "utf8 (xl_ExecutionID r)" "utf8 (xl_JobID r)" "utf8 (xl_JobName r)" "opt_ok utf8 (xl_ErrorMessage r)"
  shows "dec_DLQExecutionResponse j = Some r"
proof -
  obtain at where at: "enc_time_ptr (xl_FailedAt r) = Some at"
    using assms(1) by (auto simp: enc_DLQExecutionResponse_def)
  have "map_option to_valid (xl_ErrorMessage r) = xl_ErrorMessage r"
    using valid(4) by (cases "xl_ErrorMessage r") (simp_all add: to_valid_utf8)
  then show ?thesis
    using assms at dec_time_ptr_enc [OF at]
    by (auto simp: dec_DLQExecutionResponse_def enc_DLQExecutionResponse_def
        set_DLQExecutionResponse_def zero_DLQExecutionResponse_def key_eq_eval to_valid_utf8)
qed

lemma DequeueResponse_roundtrip:
  assumes "uuid_law E" and "\<forall>x \<in> set xs. de_Payload x \<noteq> None"
  shows "dec_DequeueResponse E (enc_DequeueResponse E (Some xs)) = Some (Some xs)"
proof -
  have "dec_list (dec_struct (set_DequeuedExecution E) zero_DequeuedExecution)
          (map (enc_DequeuedExecution E) xs) = Some (map id xs)"
    using assms
    by (intro dec_list_map)
      (auto simp: enc_DequeuedExecution_def set_DequeuedExecution_def zero_DequeuedExecution_def
        uuid_law_def key_eq_eval)
  then show ?thesis by (simp add: dec_DequeueResponse_def enc_DequeueResponse_def key_eq_eval)
qed

end
