(* ===== verification/Http.thy ===== *)
theory Http
  imports Store_Records Responses
begin

text \<open>
  Requests and responses as the handlers see them, and the helpers of
  \<^verbatim>\<open>internal/controller/handlers/handlers.go\<close>. The path value, the query, the
  \<^verbatim>\<open>Authorization\<close> header, the body and its declared length are what the program reads
  of a request.
\<close>

record request =
  rq_path_id :: string
  rq_query :: "(string \<times> string) list"
  rq_authorization :: string
  rq_body :: http_body
  rq_content_length :: int

datatype response_body = EmptyBody | TextBody string | JsonBody json

record response =
  rs_status :: nat
  rs_headers :: "(string \<times> string) list"
  rs_body :: response_body

text \<open>\<^verbatim>\<open>r.URL.Query().Get(key)\<close>: the first value, or the empty string.\<close>

definition query_get :: "request \<Rightarrow> string \<Rightarrow> string" where
  "query_get r k = (case map_of (rq_query r) k of None \<Rightarrow> [] | Some v \<Rightarrow> v)"

definition respondJson :: "nat \<Rightarrow> json option \<Rightarrow> response" where
  "respondJson status payload =
     \<lparr>rs_status = status, rs_headers = [(''Content-Type'', ''application/json'')],
      rs_body = (case payload of None \<Rightarrow> EmptyBody | Some j \<Rightarrow> JsonBody j)\<rparr>"

definition httpError :: "string \<Rightarrow> nat \<Rightarrow> response" where
  "httpError message code =
     respondJson code (Some (enc_ErrorResponse message (itoa (int code))))"

text \<open>\<^verbatim>\<open>http.Error\<close> of the standard library, which the middleware uses, and a bare status.\<close>

definition http_Error :: "string \<Rightarrow> nat \<Rightarrow> response" where
  "http_Error message code =
     \<lparr>rs_status = code, rs_headers = [(''Content-Type'', ''text/plain; charset=utf-8''),
        (''X-Content-Type-Options'', ''nosniff'')],
      rs_body = TextBody (message @ [CHR 0x0A])\<rparr>"

definition bare_status :: "nat \<Rightarrow> response" where
  "bare_status code = \<lparr>rs_status = code, rs_headers = [], rs_body = EmptyBody\<rparr>"

lemma rs_status_simps [simp]:
  "rs_status (respondJson n p) = n" "rs_status (httpError m n) = n"
  "rs_status (http_Error m n) = n" "rs_status (bare_status n) = n"
  by (simp_all add: respondJson_def httpError_def http_Error_def bare_status_def)

text \<open>
  What a handler leaves to be done besides its answer: the callback of an updated tenant and
  the goroutine that delivers a webhook.
\<close>

datatype effect = OnTenantUpdated uuid | TriggerWebhook uuid

type_synonym answer = "response \<times> effect list"

text \<open>The body of a handler: an early return and the normal one are both answers.\<close>

type_synonym 'a handling = "(answer, 'a, session) prog"

definition reply :: "response \<Rightarrow> answer" where
  "reply r = (r, [])"

definition bad :: "string \<Rightarrow> nat \<Rightarrow> answer" where
  "bad message code = reply (httpError message code)"

lemma reply_simps [simp]:
  "fst (reply r) = r" "snd (reply r) = []" "fst (bad m c) = httpError m c" "snd (bad m c) = []"
  by (simp_all add: reply_def bad_def)

text \<open>\<^verbatim>\<open>TenantFromContext\<close> and \<^verbatim>\<open>TenantIDFromContext\<close>: the tenant the middleware stored.\<close>

definition TenantFromContext :: "tenant option \<Rightarrow> tenant option" where
  "TenantFromContext ctx = ctx"

definition TenantIDFromContext :: "tenant option \<Rightarrow> uuid option" where
  "TenantIDFromContext ctx = (case TenantFromContext ctx of None \<Rightarrow> None | Some t \<Rightarrow> Some (tn_ID t))"

text \<open>A statement of the store inside a handler: its error becomes the handler's answer.\<close>

definition or_fail :: "string \<Rightarrow> nat \<Rightarrow> 'a sql \<Rightarrow> 'a handling" where
  "or_fail message code m = on_error (\<lambda>_. bad message code) m"

text \<open>Decoding a body, any error of which is the same answer.\<close>

definition decode_or :: "answer \<Rightarrow> (json \<Rightarrow> 'a option) \<Rightarrow> request \<Rightarrow> 'a handling" where
  "decode_or e d r = (case decode_body d (rq_body r) of Inl _ \<Rightarrow> throw e | Inr x \<Rightarrow> ret x)"

definition handle :: "answer handling \<Rightarrow> session \<Rightarrow> answer \<times> session" where
  "handle = finish"

lemma or_fail_InrD: "or_fail m c p s = (Inr x, t) \<Longrightarrow> p s = (Inr x, t)"
  unfolding or_fail_def by (rule on_error_InrD)

lemma or_fail_calm:
  "or_fail m c p (calm d) = (case p (calm d) of (Inl e, t) \<Rightarrow> (Inl (bad m c), t) | (Inr x, t) \<Rightarrow> (Inr x, t))"
  by (simp add: or_fail_def on_error_def)

lemma decode_or_apply [prog_simps]:
  "decode_or e d r s = (case decode_body d (rq_body r) of Inl _ \<Rightarrow> (Inl e, s) | Inr x \<Rightarrow> (Inr x, s))"
  by (simp add: decode_or_def prog_simps split: sum.split)

context db_step_order
begin

lemma keeps_or_fail: "keeps (on_db R) m \<Longrightarrow> keeps (on_db R) (or_fail msg c m)"
  unfolding or_fail_def by (rule keeps_on_error)

lemma keeps_decode_or: "keeps (on_db R) (decode_or e d r)"
  by (cases "decode_body d (rq_body r)") (simp_all add: decode_or_def keeps_throw keeps_ret)

lemmas keeps_handler_rules = keeps_sql_rules keeps_or_fail keeps_decode_or

end

end
