(* ===== verification/Store_Inv.thy ===== *)
theory Store_Inv
  imports Http
begin

text \<open>
  What every operation of the store keeps of the database. \<open>db_inv\<close> is the well-formedness of
  the tables, \<open>grows\<close> what no statement and no rollback ever takes back, \<open>safe\<close> the
  two together with the finality of finished executions. \<open>safe\<close> is an interpretation of
  the order on which the invariant calculus is built, so that the handlers inherit it.
\<close>

section \<open>The invariant\<close>

text \<open>A queue row and its execution agree; a claimed row is a running execution.\<close>

definition agree :: "queue_row \<Rightarrow> execution \<Rightarrow> bool" where
  "agree q e \<longleftrightarrow> ex_ID e = qr_execution_id q \<and> ex_TenantID e = qr_tenant_id q \<and>
     ex_Priority e = qr_priority q \<and> ex_Attempt e = qr_attempt q \<and> qr_attempt q \<ge> 0 \<and>
     (if qr_attempt q = 0 then ex_Status e \<in> {ExecutionStatusPending, ExecutionStatusScheduled}
      else ex_Status e = ExecutionStatusRunning)"

definition executions_ok :: "database \<Rightarrow> bool" where
  "executions_ok d \<longleftrightarrow> distinct (map ex_ID (executions d)) \<and>
     (\<forall>e \<in> set (executions d).
        (\<exists>j \<in> set (jobs d). jr_id j = ex_JobID e \<and> jr_tenant_id j = ex_TenantID e) \<and>
        (ex_Result e \<noteq> None \<longrightarrow> terminal (ex_Status e)))"

definition queue_ok :: "database \<Rightarrow> bool" where
  "queue_ok d \<longleftrightarrow> distinct (map qr_execution_id (queue d)) \<and> distinct (map qr_id (queue d)) \<and>
     (\<forall>q \<in> set (queue d). qr_id q < queue_seq d \<and> (\<exists>e \<in> set (executions d). agree q e))"

definition dlq_ok :: "database \<Rightarrow> bool" where
  "dlq_ok d \<longleftrightarrow> distinct (map dr_execution_id (dlq d)) \<and> distinct (map dr_id (dlq d)) \<and>
     (\<forall>r \<in> set (dlq d). dr_id r < dlq_seq d \<and> dr_attempts r > MaxRetries \<and>
        (\<exists>e \<in> set (executions d). ex_ID e = dr_execution_id r \<and> ex_TenantID e = dr_tenant_id r))"

definition logs_ok :: "database \<Rightarrow> bool" where
  "logs_ok d \<longleftrightarrow> sorted_wrt (<) (map lg_ID (logs d)) \<and> (\<forall>l \<in> set (logs d). lg_ID l < logs_seq d)"

definition records_ok :: "database \<Rightarrow> bool" where
  "records_ok d \<longleftrightarrow> distinct (map jr_id (jobs d)) \<and> distinct (map tn_ID (tenants d))"

definition db_inv :: "database \<Rightarrow> bool" where
  "db_inv d \<longleftrightarrow> executions_ok d \<and> queue_ok d \<and> dlq_ok d \<and> logs_ok d \<and> records_ok d"

lemmas db_inv_defs = db_inv_def executions_ok_def queue_ok_def dlq_ok_def logs_ok_def records_ok_def

lemma db_inv_empty: "db_inv empty_db"
  by (simp add: db_inv_defs empty_db_def)

section \<open>What only grows\<close>

text \<open>The columns of an execution that no statement updates.\<close>

definition identity_of :: "execution \<Rightarrow>
    (uuid \<times> uuid \<times> uuid) \<times> (int \<times> uuid option \<times> time) \<times> (string option \<times> raw_message \<times> time option)" where
  "identity_of e = ((ex_ID e, ex_JobID e, ex_TenantID e),
     (ex_Priority e, ex_RetriedFrom e, ex_CreatedAt e),
     (ex_CallbackURL e, ex_CallbackHeaders e, ex_ScheduledAt e))"

definition grows :: "database \<Rightarrow> database \<Rightarrow> bool" where
  "grows d d' \<longleftrightarrow>
     queue_seq d \<le> queue_seq d' \<and> dlq_seq d \<le> dlq_seq d' \<and> logs_seq d \<le> logs_seq d' \<and>
     prefix (logs d) (logs d') \<and> prefix (jobs d) (jobs d') \<and>
     prefix (map tn_ID (tenants d)) (map tn_ID (tenants d')) \<and>
     prefix (map tr_api_key_hash (tenants d)) (map tr_api_key_hash (tenants d')) \<and>
     prefix (map identity_of (executions d)) (map identity_of (executions d'))"

interpretation grows: db_step_order grows
proof unfold_locales
  show "grows d d" for d by (simp add: grows_def)
  show "grows d e \<Longrightarrow> grows e f \<Longrightarrow> grows d f" for d e f
    by (auto simp: grows_def intro: prefix_order.trans)
  show "grows d e \<Longrightarrow> grows d (restore d e)" for d e by (simp add: grows_def)
qed

lemma grows_mapI:
  assumes "map identity_of es = map identity_of (executions d)"
  shows "grows d (d\<lparr>executions := es\<rparr>)"
  using assms by (simp add: grows_def)

text \<open>\<open>finished d eid\<close>: the execution is over.\<close>

definition finished :: "database \<Rightarrow> uuid \<Rightarrow> bool" where
  "finished d eid \<longleftrightarrow> (\<exists>e \<in> set (executions d). ex_ID e = eid \<and> terminal (ex_Status e))"

text \<open>Rows of executions that were there are rows that were there: nothing is queued again, and no
  attempt is taken back.\<close>

definition old_rows :: "database \<Rightarrow> database \<Rightarrow> bool" where
  "old_rows d d' \<longleftrightarrow> (\<forall>q' \<in> set (queue d'). qr_execution_id q' \<in> ex_ID ` set (executions d) \<longrightarrow>
     (\<exists>q \<in> set (queue d). qr_execution_id q = qr_execution_id q' \<and> qr_attempt q \<le> qr_attempt q'))"

lemma old_rows_same: "queue d' = queue d \<Longrightarrow> old_rows d d'"
  by (auto simp: old_rows_def)

lemma grows_ids:
  assumes "grows d d'"
  shows "ex_ID ` set (executions d) \<subseteq> ex_ID ` set (executions d')"
proof -
  have "set (map identity_of (executions d)) \<subseteq> set (map identity_of (executions d'))"
    using assms by (intro set_mono_prefix) (simp add: grows_def)
  then have "(fst \<circ> fst) ` identity_of ` set (executions d) \<subseteq> (fst \<circ> fst) ` identity_of ` set (executions d')"
    unfolding list.set_map by (rule image_mono)
  then show ?thesis by (simp add: image_image identity_of_def)
qed

lemma old_rows_trans:
  assumes "old_rows d e" and "old_rows e f" and "grows d e"
  shows "old_rows d f"
  unfolding old_rows_def
proof (intro ballI impI)
  fix q assume q: "q \<in> set (queue f)" and i: "qr_execution_id q \<in> ex_ID ` set (executions d)"
  then have "qr_execution_id q \<in> ex_ID ` set (executions e)" using grows_ids [OF assms(3)] by blast
  then obtain r where r: "r \<in> set (queue e)" "qr_execution_id r = qr_execution_id q" "qr_attempt r \<le> qr_attempt q"
    using assms(2) q by (auto simp: old_rows_def)
  then obtain x where "x \<in> set (queue d)" "qr_execution_id x = qr_execution_id r" "qr_attempt x \<le> qr_attempt r"
    using assms(1) i by (auto simp: old_rows_def)
  then show "\<exists>x \<in> set (queue d). qr_execution_id x = qr_execution_id q \<and> qr_attempt x \<le> qr_attempt q"
    using r by (intro bexI [of _ x]) auto
qed

definition safe :: "database \<Rightarrow> database \<Rightarrow> bool" where
  "safe d d' \<longleftrightarrow> grows d d' \<and> old_rows d d' \<and>
     (db_inv d \<longrightarrow> db_inv d' \<and> (\<forall>eid. finished d eid \<longrightarrow> finished d' eid))"

lemma db_inv_restore:
  assumes "db_inv d" and "grows d e"
  shows "db_inv (restore d e)"
  using assms by (fastforce simp: db_inv_defs grows_def)

lemma finished_restore [simp]: "finished (restore d e) eid = finished d eid"
  by (simp add: finished_def)

interpretation safe: db_step_order safe
proof unfold_locales
  show "safe d d" for d by (simp add: safe_def grows.db_refl old_rows_same)
  show "safe d e \<Longrightarrow> safe e f \<Longrightarrow> safe d f" for d e f
    by (auto simp: safe_def intro: grows.db_trans old_rows_trans)
  show "safe d e \<Longrightarrow> safe d (restore d e)" for d e
    by (auto simp: safe_def intro: grows.undo db_inv_restore old_rows_same)
qed

lemma safeI:
  assumes "grows d d'" and "old_rows d d'" and "db_inv d \<Longrightarrow> db_inv d'"
    and "\<And>eid. db_inv d \<Longrightarrow> finished d eid \<Longrightarrow> finished d' eid"
  shows "safe d d'"
  using assms by (simp add: safe_def)

lemma safe_grows: "safe d d' \<Longrightarrow> grows d d'"
  by (simp add: safe_def)

lemma undo_grown: "grows d e \<Longrightarrow> safe d (restore d e)"
  by (auto simp: safe_def intro: grows.undo db_inv_restore old_rows_same)

text \<open>
  A transaction may pass through states that are not well formed: it is enough that its body
  grows the tables and that a body that succeeds is safe as a whole.
\<close>

lemma keeps_committed:
  assumes g: "keeps (on_db grows) body"
    and ok: "\<And>s x t. body s = (Inr x, t) \<Longrightarrow> safe (db s) (db t)"
  shows "keeps (on_db safe) (with_tx eb ec body)"
proof (rule keepsI)
  fix s
  obtain r0 s0 where b: "begin_tx s = (r0, s0)" by (cases "begin_tx s")
  have d0: "db s0 = db s" using b db_query [of "\<lambda>d. Inr ()" s] by (simp add: begin_tx_def)
  obtain r1 s1 where m: "body s0 = (r1, s1)" by (cases "body s0")
  have gr: "grows (db s0) (db s1)" using keepsD [OF g m] by (simp add: on_db_def)
  show "on_db safe s (snd (with_tx eb ec body s))"
  proof (cases r1)
    case (Inl e)
    then show ?thesis using b m d0 undo_grown [OF gr]
      by (auto simp: with_tx_def on_db_def safe.db_refl rollback_def split: sum.splits)
  next
    case (Inr x)
    then show ?thesis using b m d0 undo_grown [OF gr] ok [of s0 x s1]
      by (auto simp: with_tx_def on_db_def safe.db_refl rollback_def split: sum.splits fate.splits)
  qed
qed

section \<open>Lookups under the invariant\<close>

lemma find_key_iff:
  assumes "distinct (map k rows)"
  shows "find (\<lambda>x. k x = key) rows = Some r \<longleftrightarrow> r \<in> set rows \<and> k r = key"
proof
  show "find (\<lambda>x. k x = key) rows = Some r \<Longrightarrow> r \<in> set rows \<and> k r = key"
    by (rule find_SomeD)
  show "r \<in> set rows \<and> k r = key \<Longrightarrow> find (\<lambda>x. k x = key) rows = Some r"
    using find_key_distinct [OF assms, of r] by auto
qed

lemma find_execution_Some:
  "executions_ok d \<Longrightarrow> find_execution d eid = Some e \<longleftrightarrow> e \<in> set (executions d) \<and> ex_ID e = eid"
  by (simp add: find_execution_def executions_ok_def find_key_iff)

lemma find_execution_None: "find_execution d eid = None \<longleftrightarrow> eid \<notin> ex_ID ` set (executions d)"
  by (auto simp: find_execution_def find_None_iff)

lemma find_queued_Some:
  "queue_ok d \<Longrightarrow> find_queued d eid = Some q \<longleftrightarrow> q \<in> set (queue d) \<and> qr_execution_id q = eid"
  by (simp add: find_queued_def queue_ok_def find_key_iff)

lemma find_queued_None: "find_queued d eid = None \<longleftrightarrow> \<not> queued d eid"
  by (auto simp: find_queued_def find_None_iff queued_def)

lemma queued_execution:
  assumes "db_inv d" and "q \<in> set (queue d)"
  obtains e where "e \<in> set (executions d)" and "agree q e"
  using assms by (auto simp: db_inv_defs)

lemma executions_unique:
  "db_inv d \<Longrightarrow> e \<in> set (executions d) \<Longrightarrow> e' \<in> set (executions d) \<Longrightarrow> ex_ID e = ex_ID e' \<Longrightarrow> e = e'"
  by (auto simp: db_inv_defs dest: distinct_map_eqD)

lemma agree_not_terminal: "agree q e \<Longrightarrow> \<not> terminal (ex_Status e)"
  by (auto simp: agree_def split: if_splits)

text \<open>A finished execution is in nobody's queue.\<close>

lemma finished_not_queued: "db_inv d \<Longrightarrow> finished d eid \<Longrightarrow> \<not> queued d eid"
proof
  assume i: "db_inv d" and f: "finished d eid" and q: "queued d eid"
  obtain e where e: "e \<in> set (executions d)" "ex_ID e = eid" "terminal (ex_Status e)"
    using f by (auto simp: finished_def)
  obtain r where r: "r \<in> set (queue d)" "qr_execution_id r = eid"
    using q by (auto simp: queued_def)
  obtain e' where e': "e' \<in> set (executions d)" "agree r e'"
    using i r(1) by (rule queued_execution)
  then have "e' = e" using executions_unique [OF i e'(1) e(1)] r e by (simp add: agree_def)
  then show False using e e' agree_not_terminal by auto
qed

end
