(* ===== verification/Store_Safe.thy ===== *)
theory Store_Safe
  imports Store_Inv
begin

text \<open>
  Every operation of the store keeps the database safe, whatever the fate of its round trips:
  first the single statements as functions on the database, then the operations built of them.
\<close>

section \<open>Statements on the queue\<close>

lemma queue_ok_map:
  assumes "queue_ok d"
    and "\<And>q. q \<in> set (queue d) \<Longrightarrow> qr_execution_id (f q) = qr_execution_id q \<and> qr_id (f q) = qr_id q \<and>
      (\<forall>e. agree (f q) e = agree q e)"
  shows "queue_ok (d\<lparr>queue := map f (queue d)\<rparr>)"
proof -
  have "map qr_execution_id (map f (queue d)) = map qr_execution_id (queue d)"
    "map qr_id (map f (queue d)) = map qr_id (queue d)"
    using assms(2) by simp_all
  then show ?thesis using assms by (auto simp: queue_ok_def simp del: map_map)
qed

lemma safe_postpone: "safe d (postpone eid v d)"
proof (rule safeI)
  show "grows d (postpone eid v d)" by (simp add: postpone_def grows_def)
  show "old_rows d (postpone eid v d)" by (auto simp: old_rows_def postpone_def set_update_where)
  have "queue_ok d \<Longrightarrow> queue_ok (postpone eid v d)"
    unfolding postpone_def update_where_def by (rule queue_ok_map) (auto simp: agree_def)
  then show "db_inv d \<Longrightarrow> db_inv (postpone eid v d)"
    by (simp add: db_inv_def executions_ok_def dlq_ok_def logs_ok_def records_ok_def postpone_def)
qed (simp add: finished_def postpone_def)

lemma safe_delete_queued: "safe d (delete_queued eid d)"
proof (rule safeI)
  show "grows d (delete_queued eid d)" by (simp add: delete_queued_def grows_def)
  show "old_rows d (delete_queued eid d)" by (auto simp: old_rows_def delete_queued_def set_delete_where)
  show "db_inv d \<Longrightarrow> db_inv (delete_queued eid d)"
    by (auto simp: db_inv_defs delete_queued_def set_delete_where intro: distinct_map_delete_where)
qed (simp add: finished_def delete_queued_def)

lemma not_queued_delete [simp]: "\<not> queued (delete_queued eid d) eid"
  by (auto simp: queued_def delete_queued_def set_delete_where)

section \<open>Statements on executions\<close>

text \<open>An update of one execution that keeps its identity and does not reopen it; while the
  execution is queued the update must keep what the queue row says of it.\<close>

lemma safe_update_execution:
  assumes ident: "\<And>e. identity_of (f e) = identity_of e"
    and over: "\<And>e. terminal (ex_Status e) \<Longrightarrow> terminal (ex_Status (f e))"
    and res: "\<And>e. (ex_Result e \<noteq> None \<Longrightarrow> terminal (ex_Status e)) \<Longrightarrow> ex_Result (f e) \<noteq> None \<Longrightarrow>
      terminal (ex_Status (f e))"
    and agr: "\<And>q e. queued d eid \<Longrightarrow> agree q e \<Longrightarrow> agree q (f e)"
  shows "safe d (d\<lparr>executions := update_where (\<lambda>e. ex_ID e = eid) f (executions d)\<rparr>)" (is "safe d ?d")
proof (rule safeI)
  have id: "ex_ID (f e) = ex_ID e" "ex_JobID (f e) = ex_JobID e" "ex_TenantID (f e) = ex_TenantID e" for e
    using ident [of e] by (simp_all add: identity_of_def)
  have ids: "map identity_of (executions ?d) = map identity_of (executions d)"
    by (simp add: map_update_where_same ident)
  then show "grows d ?d" by (simp add: grows_def)
  show "old_rows d ?d" by (rule old_rows_same) simp
  have ex: "map ex_ID (executions ?d) = map ex_ID (executions d)"
    by (simp add: map_update_where_same id)
  show "finished ?d i" if f: "finished d i" for i
  proof -
    obtain e where e: "e \<in> set (executions d)" "ex_ID e = i" "terminal (ex_Status e)"
      using f by (auto simp: finished_def)
    then have "(if ex_ID e = eid then f e else e) \<in> set (executions ?d)"
      by (auto simp: set_update_where)
    then show ?thesis unfolding finished_def
      by (rule bexI [rotated]) (use e over [of e] id [of e] in simp)
  qed
  assume inv: "db_inv d"
  have "(\<exists>j \<in> set (jobs ?d). jr_id j = ex_JobID e \<and> jr_tenant_id j = ex_TenantID e) \<and>
      (ex_Result e \<noteq> None \<longrightarrow> terminal (ex_Status e))" if e: "e \<in> set (executions ?d)" for e
  proof -
    obtain e0 where e0: "e0 \<in> set (executions d)" "e = (if ex_ID e0 = eid then f e0 else e0)"
      using e by (auto simp: set_update_where)
    have "ex_Result e0 \<noteq> None \<longrightarrow> terminal (ex_Status e0)"
      "\<exists>j \<in> set (jobs d). jr_id j = ex_JobID e0 \<and> jr_tenant_id j = ex_TenantID e0"
      using inv e0(1) by (simp_all add: db_inv_def executions_ok_def)
    then show ?thesis using e0(2) res [of e0] id [of e0] by auto
  qed
  then have 1: "executions_ok ?d"
    using inv unfolding executions_ok_def ex by (simp add: db_inv_def executions_ok_def)
  have 2: "\<exists>e \<in> set (executions ?d). agree q e" if q: "q \<in> set (queue d)" for q
  proof -
    obtain e where e: "e \<in> set (executions d)" "agree q e" using inv q by (rule queued_execution)
    then have "agree q (if ex_ID e = eid then f e else e)"
      using agr [of q e] q by (auto simp: queued_def agree_def)
    moreover have "(if ex_ID e = eid then f e else e) \<in> set (executions ?d)"
      using e(1) by (auto simp: set_update_where)
    ultimately show ?thesis by (rule bexI)
  qed
  have "\<exists>e \<in> set (executions ?d). ex_ID e = dr_execution_id r \<and> ex_TenantID e = dr_tenant_id r"
    if r: "r \<in> set (dlq d)" for r
  proof -
    obtain e where e: "e \<in> set (executions d)" "ex_ID e = dr_execution_id r" "ex_TenantID e = dr_tenant_id r"
      using inv r by (auto simp: db_inv_defs)
    then have "(if ex_ID e = eid then f e else e) \<in> set (executions ?d)"
      by (auto simp: set_update_where)
    then show ?thesis by (rule bexI [rotated]) (use e id [of e] in simp)
  qed
  then have 3: "dlq_ok ?d" using inv by (simp add: db_inv_def dlq_ok_def)
  show "db_inv ?d"
    using inv 1 2 3 by (simp add: db_inv_def queue_ok_def logs_ok_def records_ok_def)
qed

lemma safe_complete_execution:
  assumes "complete_execution now eid c r d = Inr d'" and "\<not> queued d eid"
  shows "safe d d'"
  using assms
  by (auto simp: complete_execution_def identity_of_def split: if_splits intro!: safe_update_execution)

lemma safe_fail_execution:
  assumes "fail_execution now eid c m d = Inr d'" and "\<not> queued d eid"
  shows "safe d d'"
  using assms
  by (auto simp: fail_execution_def identity_of_def split: if_splits intro!: safe_update_execution)

lemma safe_callback_status:
  "safe d (d\<lparr>executions :=
     update_where (\<lambda>e. ex_ID e = eid) (\<lambda>e. e\<lparr>ex_CallbackStatus := Some st\<rparr>) (executions d)\<rparr>)"
  by (rule safe_update_execution) (auto simp: identity_of_def agree_def)

section \<open>Statements on the other tables\<close>

lemma safe_insert_dlq:
  assumes ins: "insert_dlq now m eid d = Inr d'"
    and att: "\<And>q. find_queued d eid = Some q \<Longrightarrow> qr_attempt q > MaxRetries"
  shows "safe d d'"
proof (cases "find_queued d eid")
  case None
  then show ?thesis using ins by (simp add: insert_dlq_def safe.db_refl split: if_splits)
next
  case (Some q)
  let ?r = "dead_letter now m (dlq_seq d) q"
  have d': "d' = d\<lparr>dlq := dlq d @ [?r], dlq_seq := dlq_seq d + 1\<rparr>" and new: "\<not> dead_lettered d eid"
    using ins Some by (auto simp: insert_dlq_def split: if_splits)
  have q: "q \<in> set (queue d)" "qr_execution_id q = eid"
    using Some by (auto simp: find_queued_def dest: find_SomeD)
  show ?thesis
  proof (rule safeI)
    show "grows d d'" by (simp add: d' grows_def)
    show "old_rows d d'" by (rule old_rows_same) (simp add: d')
    show "finished d' i" if "finished d i" for i using that by (simp add: d' finished_def)
    assume inv: "db_inv d"
    obtain e where e: "e \<in> set (executions d)" "agree q e" using inv q(1) by (rule queued_execution)
    then have r: "\<exists>e \<in> set (executions d). ex_ID e = dr_execution_id ?r \<and> ex_TenantID e = dr_tenant_id ?r"
      by (auto simp: dead_letter_def agree_def)
    have k: "dr_execution_id ?r = eid" "dr_attempts ?r > MaxRetries" "dr_id ?r = dlq_seq d"
      using att [OF Some] q(2) by (simp_all add: dead_letter_def)
    have fresh: "dlq_seq d \<notin> dr_id ` set (dlq d)" "eid \<notin> dr_execution_id ` set (dlq d)"
      using inv new by (auto simp: db_inv_defs dead_lettered_def)
    have lt: "\<forall>x \<in> set (dlq d). dr_id x < dlq_seq d + 1"
      using inv by (auto simp: db_inv_defs)
    have "dlq_ok d'"
      using inv r k fresh lt by (auto simp: db_inv_def dlq_ok_def d')
    then show "db_inv d'"
      using inv by (simp add: db_inv_def d' executions_ok_def queue_ok_def logs_ok_def records_ok_def)
  qed
qed

lemma safe_delete_dlq: "safe d (delete_dlq eid d)"
proof (rule safeI)
  show "grows d (delete_dlq eid d)" by (simp add: delete_dlq_def grows_def)
  show "old_rows d (delete_dlq eid d)" by (rule old_rows_same) (simp add: delete_dlq_def)
  show "db_inv d \<Longrightarrow> db_inv (delete_dlq eid d)"
    by (auto simp: db_inv_defs delete_dlq_def set_delete_where intro: distinct_map_delete_where)
qed (simp add: finished_def delete_dlq_def)

lemma safe_insert_log:
  assumes "insert_log now eid c d = Inr d'"
  shows "safe d d'"
proof (rule safeI)
  show "grows d d'" using assms by (auto simp: insert_log_def grows_def split: if_splits)
  show "old_rows d d'" using assms by (auto simp: insert_log_def split: if_splits intro: old_rows_same)
  assume inv: "db_inv d"
  then have "\<forall>l \<in> set (logs d). lg_ID l < logs_seq d \<and> lg_ID l \<le> logs_seq d"
    by (auto simp: db_inv_defs intro: less_imp_le)
  then show "db_inv d'"
    using assms inv by (auto simp: insert_log_def db_inv_defs sorted_wrt_append split: if_splits)
qed (use assms in \<open>auto simp: insert_log_def finished_def split: if_splits\<close>)

lemma safe_insert_job:
  assumes "insert_job j d = Inr d'"
  shows "safe d d'"
proof (rule safeI)
  show "grows d d'" using assms by (auto simp: insert_job_def grows_def split: if_splits)
  show "old_rows d d'" using assms by (auto simp: insert_job_def split: if_splits intro: old_rows_same)
  have "find_job d (jb_ID j) = None" and d': "d' = d\<lparr>jobs := jobs d @ [job_row_of j]\<rparr>"
    using assms by (auto simp: insert_job_def split: if_splits)
  then have "jb_ID j \<notin> jr_id ` set (jobs d)" by (auto simp: find_job_def find_None_iff)
  then have "jr_id (job_row_of j) \<notin> jr_id ` set (jobs d)" by (simp add: job_row_of_def)
  then show "db_inv d \<Longrightarrow> db_inv d'" by (auto simp: d' db_inv_defs)
qed (use assms in \<open>auto simp: insert_job_def finished_def split: if_splits\<close>)

lemma tenant_row_of_simps [simp]:
  "tn_ID (tenant_row_of t h) = tn_ID t" "tr_api_key_hash (tenant_row_of t h) = h"
  by (simp_all add: tenant_row_of_def tenant.defs tenant_row.defs)

lemma safe_insert_tenant:
  assumes "insert_tenant t h d = Inr d'"
  shows "safe d d'"
proof (rule safeI)
  show "grows d d'" using assms by (auto simp: insert_tenant_def grows_def split: if_splits)
  show "old_rows d d'" using assms by (auto simp: insert_tenant_def split: if_splits intro: old_rows_same)
  have "tn_ID t \<notin> tn_ID ` set (tenants d)" and d': "d' = d\<lparr>tenants := tenants d @ [tenant_row_of t h]\<rparr>"
    using assms by (auto simp: insert_tenant_def has_tenant_def split: if_splits)
  then show "db_inv d \<Longrightarrow> db_inv d'" by (auto simp: db_inv_defs)
qed (use assms in \<open>auto simp: insert_tenant_def finished_def split: if_splits\<close>)

lemma safe_update_tenant:
  assumes "update_tenant t d = Inr d'"
  shows "safe d d'"
proof (rule safeI)
  have d': "d' = d\<lparr>tenants := update_where (\<lambda>r. tn_ID r = tn_ID t) (assign_tenant t) (tenants d)\<rparr>"
    using assms by (auto simp: update_tenant_def split: if_splits)
  have m: "map tn_ID (tenants d') = map tn_ID (tenants d)"
    "map tr_api_key_hash (tenants d') = map tr_api_key_hash (tenants d)"
    unfolding d' by (simp_all add: map_update_where_same assign_tenant_def)
  show "grows d d'" using m by (simp add: grows_def d')
  show "old_rows d d'" by (rule old_rows_same) (simp add: d')
  show "db_inv d \<Longrightarrow> db_inv d'" using m by (simp add: db_inv_defs d')
qed (use assms in \<open>auto simp: update_tenant_def finished_def split: if_splits\<close>)

lemma grows_delete_dlq: "grows d (delete_dlq eid d)"
  by (rule safe_grows) (rule safe_delete_dlq)

section \<open>The two statements of a claim\<close>

definition claim :: "time \<Rightarrow> int list \<Rightarrow> database \<Rightarrow> database" where
  "claim now ids d = start_claimed now ids (bump_claimed now ids d)"

definition bumped :: "time \<Rightarrow> int list \<Rightarrow> queue_row \<Rightarrow> queue_row" where
  "bumped now ids q = (if qr_id q \<in> set ids
     then q\<lparr>qr_attempt := qr_attempt q + 1, qr_visible_after := now + VisibilityTimeout\<rparr> else q)"

lemma bumped_simps [simp]:
  "qr_id (bumped now ids q) = qr_id q" "qr_execution_id (bumped now ids q) = qr_execution_id q"
  "qr_tenant_id (bumped now ids q) = qr_tenant_id q" "qr_priority (bumped now ids q) = qr_priority q"
  "qr_payload (bumped now ids q) = qr_payload q" "qr_created_at (bumped now ids q) = qr_created_at q"
  by (simp_all add: bumped_def)

text \<open>The execution after a claim, by the queue row it had before.\<close>

definition claimed_execution :: "time \<Rightarrow> int list \<Rightarrow> database \<Rightarrow> execution \<Rightarrow> execution" where
  "claimed_execution now ids d e = mark_running now
     (map_option (bumped now ids) (find (\<lambda>q. qr_id q \<in> set ids \<and> qr_execution_id q = ex_ID e) (queue d))) e"

lemma find_map_bumped:
  "find (\<lambda>q. qr_id q \<in> set ids \<and> qr_execution_id q = x) (map (bumped now ids) qs) =
   map_option (bumped now ids) (find (\<lambda>q. qr_id q \<in> set ids \<and> qr_execution_id q = x) qs)"
  by (induction qs) auto

lemma claim_eq:
  "claim now ids d = d\<lparr>queue := map (bumped now ids) (queue d),
     executions := map (claimed_execution now ids d) (executions d)\<rparr>"
  by (simp add: claim_def start_claimed_def bump_claimed_def update_where_def bumped_def [abs_def]
      claimed_execution_def [abs_def] find_map_bumped [unfolded bumped_def [abs_def]])

lemma mark_running_identity [simp]: "identity_of (mark_running now q e) = identity_of e"
  by (simp add: mark_running_def identity_of_def split: option.split)

lemma claimed_identity [simp]:
  "identity_of (claimed_execution now ids d e) = identity_of e"
  "ex_ID (claimed_execution now ids d e) = ex_ID e"
  "ex_TenantID (claimed_execution now ids d e) = ex_TenantID e"
  "ex_JobID (claimed_execution now ids d e) = ex_JobID e"
  "ex_Priority (claimed_execution now ids d e) = ex_Priority e"
  by (simp_all add: claimed_execution_def mark_running_def identity_of_def split: option.split)

lemma find_claimed_row:
  assumes "queue_ok d" and "q \<in> set (queue d)"
  shows "find (\<lambda>x. qr_id x \<in> set ids \<and> qr_execution_id x = qr_execution_id q) (queue d) =
    (if qr_id q \<in> set ids then Some q else None)"
proof -
  have u: "x = q" if "x \<in> set (queue d)" "qr_execution_id x = qr_execution_id q" for x
    using assms that by (auto simp: queue_ok_def dest: distinct_map_eqD)
  show ?thesis
  proof (cases "find (\<lambda>x. qr_id x \<in> set ids \<and> qr_execution_id x = qr_execution_id q) (queue d)")
    case None
    then show ?thesis using assms(2) by (auto simp: find_None_iff)
  next
    case (Some x)
    then show ?thesis using u [of x] by (auto dest: find_SomeD)
  qed
qed

lemma claimed_agree:
  assumes "queue_ok d" and "q \<in> set (queue d)" and "agree q e"
  shows "agree (bumped now ids q) (claimed_execution now ids d e)"
proof -
  have "ex_ID e = qr_execution_id q" using assms(3) by (simp add: agree_def)
  then show ?thesis
    using assms(3) find_claimed_row [OF assms(1,2)]
    by (auto simp: claimed_execution_def mark_running_def agree_def bumped_def)
qed

lemma claimed_other:
  assumes "\<not> queued d (ex_ID e)"
  shows "claimed_execution now ids d e = e"
proof -
  have "find (\<lambda>q. qr_id q \<in> set ids \<and> qr_execution_id q = ex_ID e) (queue d) = None"
    using assms by (auto simp: find_None_iff queued_def image_iff)
  then show ?thesis by (simp add: claimed_execution_def mark_running_def)
qed

lemma safe_claim: "safe d (claim now ids d)"
proof (rule safeI)
  have m: "map identity_of (executions (claim now ids d)) = map identity_of (executions d)"
    "map ex_ID (executions (claim now ids d)) = map ex_ID (executions d)"
    by (simp_all add: claim_eq)
  show "grows d (claim now ids d)" unfolding grows_def m by (simp add: claim_eq)
  have "qr_attempt q \<le> qr_attempt (bumped now ids q)" for q by (simp add: bumped_def)
  then show "old_rows d (claim now ids d)" by (force simp: old_rows_def claim_eq)
  assume inv: "db_inv d"
  have same: "claimed_execution now ids d e = e" if "e \<in> set (executions d)" "terminal (ex_Status e)" for e
    using finished_not_queued [OF inv, of "ex_ID e"] that by (auto intro: claimed_other simp: finished_def)
  have res: "ex_Result (claimed_execution now ids d e) = ex_Result e" for e
    by (simp add: claimed_execution_def mark_running_def split: option.split)
  have 1: "executions_ok (claim now ids d)"
    using inv unfolding executions_ok_def m by (auto simp: db_inv_defs claim_eq res same)
  have q: "map qr_execution_id (queue (claim now ids d)) = map qr_execution_id (queue d)"
    "map qr_id (queue (claim now ids d)) = map qr_id (queue d)"
    by (simp_all add: claim_eq)
  have a: "\<exists>e \<in> set (executions (claim now ids d)). agree (bumped now ids r) e"
    if r: "r \<in> set (queue d)" for r
  proof -
    obtain e where "e \<in> set (executions d)" "agree r e" using inv r by (rule queued_execution)
    then show ?thesis using inv r by (auto simp: claim_eq db_inv_def intro: claimed_agree)
  qed
  have 2: "queue_ok (claim now ids d)"
    using inv a unfolding queue_ok_def q by (auto simp: db_inv_def queue_ok_def claim_eq)
  have 3: "dlq_ok (claim now ids d)"
    using inv by (fastforce simp: db_inv_defs claim_eq)
  show "db_inv (claim now ids d)"
    using inv 1 2 3 by (simp add: db_inv_def logs_ok_def records_ok_def claim_eq)
  show "finished (claim now ids d) eid" if f: "finished d eid" for eid
  proof -
    obtain e where e: "e \<in> set (executions d)" "ex_ID e = eid" "terminal (ex_Status e)"
      using f by (auto simp: finished_def)
    then show ?thesis using same [OF e(1,3)] by (force simp: finished_def claim_eq)
  qed
qed

section \<open>A new execution and its queue row\<close>

lemma insert_execution_Inr:
  assumes "insert_execution e d = Inr d'"
  shows "d' = d\<lparr>executions := executions d @ [e]\<rparr>" and "ex_ID e \<notin> ex_ID ` set (executions d)"
  using assms by (auto simp: insert_execution_def find_execution_None split: if_splits)

lemma insert_queue_Inr:
  assumes "insert_queue clk eid payload v d = Inr (n, d')"
  obtains e p where "find_execution d eid = Some e" and "payload = Some p" and "jsonb_ok p"
    and "\<not> queued d eid" and "n = queue_seq d"
    and "d' = d\<lparr>queue := queue d @ [\<lparr>qr_id = queue_seq d, qr_execution_id = eid,
           qr_tenant_id = ex_TenantID e, qr_payload = p, qr_priority = ex_Priority e,
           qr_attempt = 0, qr_visible_after = v, qr_created_at = db_now clk\<rparr>],
         queue_seq := queue_seq d + 1\<rparr>"
  using assms by (auto simp: insert_queue_def split: option.splits if_splits)

lemma grows_insert_execution: "insert_execution e d = Inr d' \<Longrightarrow> grows d d'"
  by (auto dest!: insert_execution_Inr(1) simp: grows_def)

lemma grows_insert_queue: "insert_queue clk eid payload v d = Inr (n, d') \<Longrightarrow> grows d d'"
  by (erule insert_queue_Inr) (simp add: grows_def)

text \<open>The execution of a job of its tenant, not yet run, and the row that queues it.\<close>

lemma find_snoc: "find p (xs @ [x]) = (case find p xs of None \<Rightarrow> if p x then Some x else None | Some y \<Rightarrow> Some y)"
  by (induction xs) auto

lemma find_fresh_execution:
  "ex_ID e \<notin> ex_ID ` set (executions d) \<Longrightarrow>
   find_execution (d\<lparr>executions := executions d @ [e]\<rparr>) (ex_ID e) = Some e"
  using find_execution_None [of d "ex_ID e"] by (simp add: find_execution_def find_snoc)

lemma old_rows_create_enqueue:
  assumes ins: "insert_execution e d = Inr d1" and enq: "insert_queue clk (ex_ID e) payload v d1 = Inr (n, d2)"
  shows "old_rows d d2"
  using enq
  by (rule insert_queue_Inr) (use insert_execution_Inr [OF ins] in \<open>auto simp: old_rows_def\<close>)

lemma safe_create_enqueue:
  assumes job: "\<exists>j \<in> set (jobs d). jr_id j = ex_JobID e \<and> jr_tenant_id j = ex_TenantID e"
    and new: "ex_Attempt e = 0" "ex_Result e = None" "ex_Status e \<in> {ExecutionStatusPending, ExecutionStatusScheduled}"
    and ins: "insert_execution e d = Inr d1" and enq: "insert_queue clk (ex_ID e) payload v d1 = Inr (n, d2)"
  shows "safe d d2"
proof (rule safeI)
  show "grows d d2"
    using grows_insert_execution [OF ins] grows_insert_queue [OF enq] by (rule grows.db_trans)
  show "old_rows d d2" using ins enq by (rule old_rows_create_enqueue)
  note d1 = insert_execution_Inr [OF ins]
  obtain e' p where e': "find_execution d1 (ex_ID e) = Some e'" and nq: "\<not> queued d1 (ex_ID e)"
    and d2: "d2 = d1\<lparr>queue := queue d1 @ [\<lparr>qr_id = queue_seq d1, qr_execution_id = ex_ID e,
           qr_tenant_id = ex_TenantID e', qr_payload = p, qr_priority = ex_Priority e',
           qr_attempt = 0, qr_visible_after = v, qr_created_at = db_now clk\<rparr>],
         queue_seq := queue_seq d1 + 1\<rparr>" (is "_ = d1\<lparr>queue := _ @ [?q], queue_seq := _\<rparr>")
    using enq by (rule insert_queue_Inr)
  have "e' = e" using e' find_fresh_execution [OF d1(2)] d1(1) by simp
  then have a: "agree ?q e" using new(1,3) by (simp add: agree_def)
  show "finished d2 i" if "finished d i" for i using that by (auto simp: d2 d1(1) finished_def)
  assume inv: "db_inv d"
  have 1: "executions_ok d2" using inv job d1(2) new(2) by (auto simp: db_inv_defs d2 d1(1))
  have "qr_execution_id ?q \<notin> qr_execution_id ` set (queue d)" "queue_seq d \<notin> qr_id ` set (queue d)"
    using nq inv by (auto simp: queued_def d1(1) db_inv_defs)
  moreover have "\<forall>q \<in> set (queue d). qr_id q < queue_seq d + 1" using inv by (auto simp: db_inv_defs)
  ultimately have 2: "queue_ok d2" using inv a by (auto simp: db_inv_def queue_ok_def d2 d1(1))
  have 3: "dlq_ok d2" using inv by (fastforce simp: db_inv_def dlq_ok_def d2 d1(1))
  show "db_inv d2" using inv 1 2 3 by (simp add: db_inv_def logs_ok_def records_ok_def d2 d1(1))
qed

section \<open>The operations\<close>

lemma exec_at:
  assumes "\<And>d'. f (db s) = Inr d' \<Longrightarrow> safe (db s) d'"
  shows "on_db safe s (snd (exec f s))"
  using assms by (auto simp: exec_def stmt_def on_db_def safe.db_refl split: fate.splits sum.splits)

lemma exec_Inr_db: "exec f s = (Inr u, t) \<Longrightarrow> f (db s) = Inr (db t)"
  by (auto dest!: exec_Inr)

lemma keeps_Complete: "keeps (on_db safe) (Complete clk eid c r)"
  unfolding Complete_def
proof (rule safe.keeps_bind)
  show "keeps (on_db safe) (exec (\<lambda>d. Inr (delete_queued eid d)))"
    by (rule safe.keeps_exec) (auto intro: safe_delete_queued)
  show "on_db safe t (snd (exec (complete_execution (db_now clk) eid c r) t))"
    if "exec (\<lambda>d. Inr (delete_queued eid d)) s = (Inr u, t)" for s u t
  proof (rule exec_at)
    have "db t = delete_queued eid (db s)" using exec_Inr_db [OF that] by simp
    then show "complete_execution (db_now clk) eid c r (db t) = Inr d' \<Longrightarrow> safe (db t) d'" for d'
      by (auto intro: safe_complete_execution)
  qed
qed

lemma Fail_fatal_at:
  assumes "\<And>q. find_queued (db s) eid = Some q \<Longrightarrow> qr_attempt q > MaxRetries"
  shows "on_db safe s (snd (Fail_fatal clk eid c m s))"
  unfolding Fail_fatal_def
proof (intro safe.bind_at exec_at)
  show "insert_dlq (db_now clk) m eid (db s) = Inr d' \<Longrightarrow> safe (db s) d'" for d'
    by (erule safe_insert_dlq) (rule assms)
  show "Inr (delete_queued eid (db t)) = Inr d' \<Longrightarrow> safe (db t) d'" for t d'
    by (auto intro: safe_delete_queued)
  show "safe (db u) d'"
    if "exec (\<lambda>d. Inr (delete_queued eid d)) t = (Inr y, u)"
      "fail_execution (db_now clk) eid c m (db u) = Inr d'" for t u y d'
  proof -
    have "db u = delete_queued eid (db t)" using exec_Inr_db [OF that(1)] by simp
    then show ?thesis using that(2) by (auto intro: safe_fail_execution)
  qed
qed

lemma keeps_Fail_retry: "keeps (on_db safe) (Fail_retry clk eid a)"
  unfolding Fail_retry_def by (rule safe.keeps_exec) (auto intro: safe_postpone)

lemma keeps_Fail: "keeps (on_db safe) (Fail clk eid c m)"
  unfolding Fail_def
proof (rule safe.keeps_bind)
  show "keeps (on_db safe) (attempting (queue_attempt eid))"
    unfolding queue_attempt_def by (intro safe.keeps_attempting safe.keeps_query)
  fix s x t
  assume a: "attempting (queue_attempt eid) s = (Inr x, t)"
  then have q: "queue_attempt eid s = (x, t)" by (auto simp: attempting_def split: prod.splits)
  have db: "db t = db s"
    using q unfolding queue_attempt_def by (metis db_query snd_conv)
  show "on_db safe t (snd ((case x of
       Inl e \<Rightarrow> if e = ErrNoRows then Fail_fatal clk eid c m else throw e
     | Inr att \<Rightarrow> if att > MaxRetries then Fail_fatal clk eid c m else Fail_retry clk eid att) t))"
  proof (cases x)
    case (Inl e)
    have "find_queued (db t) eid = None" if "e = ErrNoRows"
      using q Inl that db
      by (auto simp: queue_attempt_def query_def stmt_def split: fate.splits sum.splits option.splits)
    then have "on_db safe t (snd (Fail_fatal clk eid c m t))" if "e = ErrNoRows"
      using that by (intro Fail_fatal_at) auto
    then show ?thesis using Inl by (auto simp: throw_apply safe.refl)
  next
    case (Inr att)
    have "find_queued (db t) eid = Some r \<Longrightarrow> qr_attempt r = att" for r
      using q Inr db
      by (auto simp: queue_attempt_def dest!: query_Inr split: option.splits)
    then show ?thesis using Inr keeps_Fail_retry
      by (auto intro!: Fail_fatal_at simp: keeps_def)
  qed
qed

lemma grows_claim_steps:
  "grows d (bump_claimed now ids d)" "grows d (start_claimed now ids d)"
  by (simp_all add: grows_def bump_claimed_def start_claimed_def o_def)

lemma keeps_DequeueBatch: "keeps (on_db safe) (DequeueBatch clk locked tids limit)"
  unfolding DequeueBatch_def Let_def
proof (intro safe.keeps_early keeps_committed)
  let ?n = "if limit \<le> 0 then 1 else limit"
  let ?sel = "query (\<lambda>d. Inr (select_batch (db_now clk) locked tids ?n d)) :: queue_row list sql"
  let ?body = "and_then (on_error Inl ?sel) (\<lambda>rows. if rows = [] then throw (Inr []) else
       and_then (on_error Inl (exec (\<lambda>d. Inr (bump_claimed (db_now clk) (map qr_id rows) d)))) (\<lambda>_.
       and_then (on_error Inl (exec (\<lambda>d. Inr (start_claimed (db_now clk) (map qr_id rows) d)))) (\<lambda>_.
       ret (map queue_item rows)))) :: (sql_error + QueueItem list, QueueItem list, session) prog"
  show "keeps (on_db grows) ?body"
    by (intro grows.keeps_and_then grows.keeps_on_error grows.keeps_query grows.keeps_exec)
      (auto intro!: grows.keeps_throw grows.keeps_and_then grows.keeps_on_error grows.keeps_exec
        grows.keeps_ret grows_claim_steps)
  show "safe (db s) (db t)" if "?body s = (Inr x, t)" for s x t
    using that
    by (auto elim!: and_then_InrE dest!: on_error_InrD query_Inr exec_Inr
        simp: throw_apply ret_apply safe_claim claim_def [symmetric] split: if_splits)
qed

lemma keeps_Enqueue_grows: "keeps (on_db grows) (Enqueue clk eid payload v)"
  unfolding Enqueue_def by (rule grows.keeps_stmt) (rule grows_insert_queue)

lemma keeps_CreateExecution_grows: "keeps (on_db grows) (CreateExecution e)"
  unfolding CreateExecution_def by (rule grows.keeps_exec) (rule grows_insert_execution)

lemma keeps_RetryFromDLQ: "keeps (on_db safe) (RetryFromDLQ clk newID eid)"
  unfolding RetryFromDLQ_def
proof (rule keeps_committed)
  let ?body = "and_then (read_dlq eid) (\<lambda>(r, e).
      and_then (exec (insert_execution (retried_execution (go_now clk) newID e))) (\<lambda>_.
      and_then (Enqueue clk newID (Some (dr_payload r)) (go_now clk)) (\<lambda>_.
      and_then (exec (\<lambda>d. Inr (delete_dlq eid d))) (\<lambda>_. ret newID))))"
  show "keeps (on_db grows) ?body"
    unfolding read_dlq_def
    by (intro grows.keeps_and_then grows.keeps_query)
      (auto intro!: grows.keeps_and_then grows.keeps_exec keeps_Enqueue_grows grows.keeps_ret
        grows_delete_dlq intro: grows_insert_execution)
  show "safe (db s) (db t)" if b: "?body s = (Inr x, t)" for s x t
  proof -
    obtain r e s1 s2 n s3 u s4 where
      q: "read_dlq eid s = (Inr (r, e), s1)"
      and i: "exec (insert_execution (retried_execution (go_now clk) newID e)) s1 = (Inr u, s2)"
      and en: "Enqueue clk newID (Some (dr_payload r)) (go_now clk) s2 = (Inr n, s3)"
      and dl: "exec (\<lambda>d. Inr (delete_dlq eid d)) s3 = (Inr (), s4)" and t: "t = s4"
      using b by (auto elim!: and_then_InrE simp: ret_apply)
    have "db s1 = db s" and e: "e \<in> set (executions (db s))"
      using q by (auto simp: read_dlq_def find_execution_def dest!: query_Inr find_SomeD
          split: option.splits)
    have i': "insert_execution (retried_execution (go_now clk) newID e) (db s) = Inr (db s2)"
      using exec_Inr_db [OF i] \<open>db s1 = db s\<close> by simp
    obtain v where en': "insert_queue clk newID (Some (dr_payload r)) v (db s2) = Inr (n, db s3)"
      using en by (auto simp: Enqueue_def dest!: stmt_Inr)
    have "safe (db s) (db s3)" if inv: "db_inv (db s)"
    proof (rule safe_create_enqueue [OF _ _ _ _ i'])
      show "insert_queue clk (ex_ID (retried_execution (go_now clk) newID e)) (Some (dr_payload r)) v (db s2)
          = Inr (n, db s3)" using en' by (simp add: retried_execution_def)
    qed (use inv e in \<open>auto simp: retried_execution_def db_inv_defs\<close>)
    moreover have "grows (db s) (db s3)"
      using grows_insert_execution [OF i'] grows_insert_queue [OF en'] by (rule grows.db_trans)
    moreover have "old_rows (db s) (db s3)"
      using old_rows_create_enqueue [OF i', of clk "Some (dr_payload r)" v n "db s3"] en'
      by (simp add: retried_execution_def)
    ultimately have "safe (db s) (db s3)" by (auto simp: safe_def)
    moreover have "db t = delete_dlq eid (db s3)" using exec_Inr_db [OF dl] t by simp
    then have "safe (db s3) (db t)" by (simp add: safe_delete_dlq)
    ultimately show ?thesis by (rule safe.db_trans)
  qed
qed

lemma keeps_single_statements:
  "keeps (on_db safe) (SetVisibleAfter eid v)"
  "keeps (on_db safe) (AddLogEntry clk eid content)"
  "keeps (on_db safe) (CreateJob j)"
  "keeps (on_db safe) (CreateTenant tnt h)"
  "keeps (on_db safe) (UpdateTenant tnt)"
  "keeps (on_db safe) (UpdateCallbackStatus eid st)"
  unfolding SetVisibleAfter_def AddLogEntry_def CreateJob_def CreateTenant_def UpdateTenant_def
    UpdateCallbackStatus_def
  by (rule safe.keeps_exec, auto intro: safe_postpone safe_insert_log safe_insert_job safe_insert_tenant
      safe_update_tenant safe_callback_status)+

lemma keeps_reads:
  "keeps (on_db safe) (GetExecutionByID eid)" "keeps (on_db safe) (GetJobByID jid)"
  "keeps (on_db safe) (ListDLQ ties tid l k)" "keeps (on_db safe) (GetExecutionLogs ties eid a l)"
  "keeps (on_db safe) (GetTenantByID tid)" "keeps (on_db safe) (GetTenantByAPIKeyHash h)"
  "keeps (on_db safe) Count" "keeps (on_db safe) (CountRunningExecutions tid)"
  unfolding GetExecutionByID_def GetJobByID_def ListDLQ_def GetExecutionLogs_def GetTenantByID_def
    GetTenantByAPIKeyHash_def Count_def CountRunningExecutions_def
  by (auto intro!: safe.keeps_query safe.keeps_query_rows safe.keeps_and_then safe.keeps_exec simp: safe.db_refl)

lemmas keeps_store = keeps_Complete keeps_Fail keeps_DequeueBatch keeps_RetryFromDLQ
  keeps_single_statements keeps_reads

end
