(* ===== verification/Auth.thy ===== *)
theory Auth
  imports Http
begin

text \<open>
  Authentication: the hash of API keys (\<^verbatim>\<open>internal/auth/keys.go\<close>), the tenant middleware
  (\<^verbatim>\<open>middleware/auth.go\<close>) and the system secret of the worker endpoints
  (\<^verbatim>\<open>middleware/internal_auth.go\<close>). A middleware takes the next handler; the next handler
  takes the tenant of the context.
\<close>

definition HashKey :: "externals \<Rightarrow> string \<Rightarrow> string" where
  "HashKey E key = hex_encode (sha256_Sum256 E (trim_space key))"

text \<open>The credential of a header \<^verbatim>\<open>Bearer <token>\<close>: exactly two parts around one space.\<close>

fun bearer_token :: "string list \<Rightarrow> string option" where
  "bearer_token [scheme, token] = (if scheme = ''Bearer'' then Some token else None)"
| "bearer_token _ = None"

type_synonym ('s, 'r) serve = "request \<Rightarrow> 's \<Rightarrow> 'r \<times> 's"

text \<open>\<open>lookup\<close> is the one operation of the store the middleware calls.\<close>

definition AuthMiddleware ::
    "externals \<Rightarrow> (string \<Rightarrow> 's \<Rightarrow> (sql_error + tenant) \<times> 's) \<Rightarrow>
     (tenant option \<Rightarrow> ('s, answer) serve) \<Rightarrow> ('s, answer) serve" where
  "AuthMiddleware E lookup next r s =
     (if rq_authorization r = [] then (reply (http_Error ''Missing authorization header'' 401), s)
      else case bearer_token (split_on CHR '' '' (rq_authorization r)) of
        None \<Rightarrow> (reply (http_Error ''Invalid authorization header'' 401), s)
      | Some apiKey \<Rightarrow>
          (case lookup (HashKey E apiKey) s of
             (Inl e, s1) \<Rightarrow>
               (if e = ErrNoRows then (reply (http_Error ''Invalid API key'' 401), s1)
                else (reply (http_Error ''internal server error'' 500), s1))
           | (Inr t, s1) \<Rightarrow> next (Some t) r s1))"

definition RequireInternalAuth :: "string \<Rightarrow> ('s, answer) serve \<Rightarrow> ('s, answer) serve" where
  "RequireInternalAuth systemSecret next r s =
     (if rq_authorization r = [] then (reply (http_Error ''Missing authorization header'' 401), s)
      else case bearer_token (split_on CHR '' '' (rq_authorization r)) of
        None \<Rightarrow> (reply (http_Error ''Invalid authorization header'' 401), s)
      | Some token \<Rightarrow>
          if token \<noteq> systemSecret
          then (reply (http_Error ''Invalid authorization token'' 401), s)
          else next r s)"

section \<open>The header\<close>

lemma bearer_token_iff:
  "bearer_token (split_on CHR '' '' h) = Some tok \<longleftrightarrow> h = ''Bearer '' @ tok \<and> CHR '' '' \<notin> set tok"
proof -
  have "bearer_token ps = Some tok \<longleftrightarrow> ps = [''Bearer'', tok]" for ps
    by (induction ps rule: bearer_token.induct) auto
  then have "bearer_token (split_on CHR '' '' h) = Some tok \<longleftrightarrow>
      split_on CHR '' '' h = [''Bearer'', tok]" .
  also have "\<dots> \<longleftrightarrow> h = ''Bearer'' @ CHR '' '' # tok \<and> CHR '' '' \<notin> set ''Bearer'' \<and> CHR '' '' \<notin> set tok"
    by (rule split_on_two)
  finally show ?thesis by simp
qed

lemma HashKey_surround:
  assumes "\<forall>c \<in> set a. is_space c" and "\<forall>c \<in> set b. is_space c" and "\<forall>c \<in> set k. \<not> is_space c"
  shows "HashKey E (a @ k @ b) = HashKey E k"
  using trim_space_surround [OF assms] trim_space_surround [of "[]" "[]" k] assms(3)
  by (simp add: HashKey_def)

section \<open>Guards\<close>

text \<open>
  What the two middlewares have in common: on the requests it does not admit a guard answers
  by itself and leaves the database alone, on the others it calls the next handler.
\<close>

definition denial :: "answer \<Rightarrow> bool" where
  "denial a \<longleftrightarrow> rs_status (fst a) \<ge> 400 \<and> snd a = []"

lemma denial_http_Error [simp]: "denial (reply (http_Error m c)) \<longleftrightarrow> c \<ge> 400"
  by (simp add: denial_def)

locale request_guard =
  fixes mw :: "('c \<Rightarrow> ('s, answer) serve) \<Rightarrow> ('s, answer) serve"
    and admits :: "request \<Rightarrow> 's \<Rightarrow> ('c \<times> 's) option"
    and view :: "'s \<Rightarrow> 'v"
  assumes admitted: "admits r s = Some (c, s') \<Longrightarrow> mw nxt r s = nxt c r s'"
    and denied: "admits r s = None \<Longrightarrow> denial (fst (mw nxt r s)) \<and> view (snd (mw nxt r s)) = view s"
    and admits_view: "admits r s = Some (c, s') \<Longrightarrow> view s' = view s"
begin

text \<open>An answer below 400 can only come from the guarded handler.\<close>

lemma success_is_admitted:
  assumes "rs_status (fst (fst (mw nxt r s))) < 400"
  obtains c s' where "admits r s = Some (c, s')" and "mw nxt r s = nxt c r s'"
proof (cases "admits r s")
  case None
  then show ?thesis using denied [of r s nxt] assms by (simp add: denial_def)
next
  case (Some cs)
  then show ?thesis using that admitted by (cases cs) blast
qed

text \<open>Whatever the guarded handler keeps, the guarded route keeps.\<close>

lemma guarded_keeps:
  assumes "\<And>c t. R (view t) (view (snd (nxt c r t)))" and "\<And>d. R d d"
  shows "R (view s) (view (snd (mw nxt r s)))"
proof (cases "admits r s")
  case None
  then show ?thesis using denied [OF None, of nxt] assms(2) by simp
next
  case (Some cs)
  then obtain c s' where cs: "admits r s = Some (c, s')" by (cases cs) auto
  then show ?thesis using admitted [OF cs] admits_view [OF cs] assms(1) [of s' c] by simp
qed

end

definition tenant_admits ::
    "externals \<Rightarrow> (string \<Rightarrow> 's \<Rightarrow> (sql_error + tenant) \<times> 's) \<Rightarrow> request \<Rightarrow> 's \<Rightarrow>
     (tenant option \<times> 's) option" where
  "tenant_admits E lookup r s =
     (case bearer_token (split_on CHR '' '' (rq_authorization r)) of
        None \<Rightarrow> None
      | Some k \<Rightarrow>
          (case lookup (HashKey E k) s of
             (Inl e, s1) \<Rightarrow> None
           | (Inr t, s1) \<Rightarrow> Some (Some t, s1)))"

definition secret_admits :: "string \<Rightarrow> request \<Rightarrow> 's \<Rightarrow> (unit \<times> 's) option" where
  "secret_admits secret r s =
     (if bearer_token (split_on CHR '' '' (rq_authorization r)) = Some secret then Some ((), s) else None)"

text \<open>The contract of the store that the tenant middleware relies on: looking a key up
  changes nothing.\<close>

locale tenant_lookup =
  fixes lookup :: "string \<Rightarrow> 's \<Rightarrow> (sql_error + tenant) \<times> 's"
    and view :: "'s \<Rightarrow> 'v"
  assumes lookup_view: "lookup h s = (x, s') \<Longrightarrow> view s' = view s"

sublocale tenant_lookup \<subseteq> tenant_guard: request_guard "AuthMiddleware E lookup" "tenant_admits E lookup" view
proof unfold_locales
  fix r s c s' and "next" :: "tenant option \<Rightarrow> ('s, answer) serve"
  assume a: "tenant_admits E lookup r s = Some (c, s')"
  then have "rq_authorization r \<noteq> []"
    by (auto simp: tenant_admits_def)
  with a show "AuthMiddleware E lookup next r s = next c r s'"
    by (auto simp: tenant_admits_def AuthMiddleware_def split: option.splits prod.splits sum.splits)
next
  fix r s and "next" :: "tenant option \<Rightarrow> ('s, answer) serve"
  assume "tenant_admits E lookup r s = None"
  then show "denial (fst (AuthMiddleware E lookup next r s)) \<and>
      view (snd (AuthMiddleware E lookup next r s)) = view s"
    by (auto simp: tenant_admits_def AuthMiddleware_def dest: lookup_view
        split: option.splits sum.splits prod.splits)
next
  fix r s c s'
  assume "tenant_admits E lookup r s = Some (c, s')"
  then show "view s' = view s"
    by (auto simp: tenant_admits_def dest: lookup_view split: option.splits prod.splits sum.splits)
qed

interpretation store_lookup: tenant_lookup GetTenantByAPIKeyHash db
  by unfold_locales (metis GetTenantByAPIKeyHash_def db_query snd_conv)

interpretation secret_guard: request_guard "\<lambda>next. RequireInternalAuth sec (next ())" "secret_admits sec" "\<lambda>s. s"
  by unfold_locales
    (auto simp: secret_admits_def RequireInternalAuth_def split: option.splits if_splits)

end
