(* ===== verification/Handlers.thy ===== *)
theory Handlers
  imports Auth
begin

text \<open>
  The HTTP handlers of \<^verbatim>\<open>internal/controller/handlers\<close>: \<^verbatim>\<open>tenants.go\<close>, \<^verbatim>\<open>jobs.go\<close>,
  \<^verbatim>\<open>executions.go\<close>, \<^verbatim>\<open>logs.go\<close> and \<^verbatim>\<open>health.go\<close>. Each is the whole handler: its
  guards in the order of the code, the store operations, the answer on every path. A handler
  of Go is the definition with the prefix \<open>h_\<close>; what it draws from its surroundings (fresh
  identifiers, random bytes, the clocks, the trace carrier, the rows other transactions have
  locked) are its arguments.
\<close>

definition PriorityMin :: int where
  "PriorityMin = 0"

definition PriorityMax :: int where
  "PriorityMax = 100"

section \<open>Tenants\<close>

definition api_key :: "8 word list \<Rightarrow> string" where
  "api_key raw = ''jp_'' @ hex_encode raw"

definition default_if_zero :: "int \<Rightarrow> int \<Rightarrow> int" where
  "default_if_zero def n = (if n = 0 then def else n)"

definition new_tenant :: "uuid \<Rightarrow> time \<Rightarrow> CreateTenantRequest \<Rightarrow> tenant" where
  "new_tenant tid now req = \<lparr>tn_ID = tid, tn_Name = ct_Name req,
     tn_RateLimit = default_if_zero 100 (ct_RateLimit req),
     tn_RateLimitBurst = default_if_zero 100 (ct_RateLimitBurst req),
     tn_MaxConcurrentExecutions = ct_MaxConcurrentExecutions req,
     tn_CallbackURL = ct_CallbackURL req,
     tn_CallbackHeaders = Some (enc_string_map_ptr (ct_CallbackHeaders req)),
     tn_CreatedAt = now\<rparr>"

text \<open>\<open>entropy\<close> is what \<^verbatim>\<open>rand.Read\<close> yields, nothing when it fails.\<close>

definition h_CreateTenant ::
    "externals \<Rightarrow> clocks \<Rightarrow> uuid \<Rightarrow> 8 word list option \<Rightarrow> (session, answer) serve" where
  "h_CreateTenant E clk tid entropy r = handle (
     and_then (decode_or (bad ''Invalid request body'' 400) dec_CreateTenantRequest r) (\<lambda>req.
     and_then (need (bad ''Entropy failure'' 500) entropy) (\<lambda>raw.
     let apiKey = api_key raw; t = new_tenant tid (go_now clk) req in
     and_then (or_fail ''Failed to create tenant'' 500 (CreateTenant t (HashKey E apiKey))) (\<lambda>_.
     ret (reply (respondJson 201 (Some
       (enc_CreateTenantResponse (uuid_String E tid) (tn_Name t) apiKey))))))))"

text \<open>Empty and zero fields of the request keep what the tenant has; the callback is replaced.\<close>

definition patched_tenant :: "UpdateTenantRequest \<Rightarrow> tenant \<Rightarrow> tenant" where
  "patched_tenant req t = t\<lparr>
     tn_Name := (if ct_Name req = [] then tn_Name t else ct_Name req),
     tn_RateLimit := default_if_zero (tn_RateLimit t) (ct_RateLimit req),
     tn_RateLimitBurst := default_if_zero (tn_RateLimitBurst t) (ct_RateLimitBurst req),
     tn_MaxConcurrentExecutions :=
       default_if_zero (tn_MaxConcurrentExecutions t) (ct_MaxConcurrentExecutions req),
     tn_CallbackURL := ct_CallbackURL req,
     tn_CallbackHeaders := Some (enc_string_map_ptr (ct_CallbackHeaders req))\<rparr>"

definition h_UpdateTenant :: "tenant option \<Rightarrow> (session, answer) serve" where
  "h_UpdateTenant ctx r = handle (
     and_then (decode_or (bad ''Invalid request body'' 400) dec_CreateTenantRequest r) (\<lambda>req.
     and_then (need (bad ''Unauthorized'' 401) (TenantFromContext ctx)) (\<lambda>t.
     and_then (or_fail ''Failed to update tenant'' 500 (UpdateTenant (patched_tenant req t))) (\<lambda>_.
     ret (respondJson 204 None, [OnTenantUpdated (tn_ID t)])))))"

section \<open>Jobs\<close>

text \<open>A value of the request overrides the default it is given.\<close>

definition override :: "'a option \<Rightarrow> 'a option \<Rightarrow> 'a option" where
  "override def x = (case x of None \<Rightarrow> def | Some y \<Rightarrow> Some y)"

definition new_job :: "uuid \<Rightarrow> time \<Rightarrow> tenant \<Rightarrow> CreateJobRequest \<Rightarrow> job" where
  "new_job jid now t req = \<lparr>jb_ID = jid, jb_TenantID = tn_ID t, jb_Name = cj_Name req,
     jb_Image = cj_Image req, jb_Command = cj_Command req,
     jb_DefaultTimeout = cj_DefaultTimeout req, jb_Priority = cj_Priority req,
     jb_CallbackURL = override (tn_CallbackURL t) (cj_CallbackURL req),
     jb_CallbackHeaders = override (tn_CallbackHeaders t)
       (map_option enc_string_map (cj_CallbackHeaders req)),
     jb_CreatedAt = now\<rparr>"

definition h_CreateJob ::
    "externals \<Rightarrow> clocks \<Rightarrow> uuid \<Rightarrow> tenant option \<Rightarrow> (session, answer) serve" where
  "h_CreateJob E clk jid ctx r = handle (
     and_then (decode_or (bad ''Invalid request body'' 400) dec_CreateJobRequest r) (\<lambda>req.
     and_then (guard (\<not> (cj_Name req = [] \<or> cj_Image req = []))
       (bad ''Name and Image are required'' 400)) (\<lambda>_.
     and_then (guard (\<not> (cj_Priority req < PriorityMin \<or> cj_Priority req > PriorityMax))
       (bad (''Priority must be between '' @ itoa PriorityMin @ '' and '' @ itoa PriorityMax) 400)) (\<lambda>_.
     and_then (need (bad ''Unauthorized'' 401) (TenantFromContext ctx)) (\<lambda>t.
     and_then (with_tx (bad ''Internal database error'' 500) (bad ''Failed to commit transaction'' 500)
       (or_fail ''Failed to create job'' 500 (CreateJob (new_job jid (go_now clk) t req)))) (\<lambda>_.
     ret (reply (respondJson 200 (Some (enc_CreateJobResponse (uuid_String E jid)))))))))))"

text \<open>The optional body of a run: absent and empty bodies are the zero request.\<close>

definition run_request :: "request \<Rightarrow> RunJobRequest handling" where
  "run_request r =
     (if rq_content_length r > 0 then
        (case decode_body dec_RunJobRequest (rq_body r) of
           Inr req \<Rightarrow> ret req
         | Inl e \<Rightarrow> if e = EOF then ret zero_RunJobRequest
                   else throw (bad ''Invalid request body'' 400))
      else ret zero_RunJobRequest)"

definition get_own_job :: "tenant \<Rightarrow> uuid \<Rightarrow> job handling" where
  "get_own_job t jid =
     and_then (or_fail ''Related job not found'' 404 (GetJobByID jid)) (\<lambda>j.
     and_then (guard (jb_TenantID j = tn_ID t) (bad ''Related job not found'' 404)) (\<lambda>_.
     ret j))"

text \<open>The status and the time of an execution that is, or is not, scheduled.\<close>

definition schedule :: "time \<Rightarrow> RunJobRequest \<Rightarrow> (ExecutionStatus \<times> time) handling" where
  "schedule now req =
     (case rj_ScheduledAt req of
        None \<Rightarrow> ret (ExecutionStatusPending, now)
      | Some at \<Rightarrow>
          if at < now then throw (bad ''Scheduled time cannot be in the past'' 400)
          else ret (ExecutionStatusScheduled, at))"

definition new_execution ::
    "uuid \<Rightarrow> time \<Rightarrow> tenant \<Rightarrow> job \<Rightarrow> RunJobRequest \<Rightarrow> ExecutionStatus \<Rightarrow> time \<Rightarrow> uuid \<Rightarrow> execution" where
  "new_execution jid now t j req st at eid =
     (let url = override (jb_CallbackURL j) (rj_CallbackURL req) in
      \<lparr>ex_ID = eid, ex_JobID = jid, ex_TenantID = tn_ID t, ex_Status = st,
       ex_Priority = jb_Priority j, ex_Attempt = 0, ex_ExitCode = None, ex_ErrorMessage = None,
       ex_RetriedFrom = None, ex_CallbackURL = url,
       ex_CallbackHeaders = override (jb_CallbackHeaders j)
         (map_option enc_string_map (rj_CallbackHeaders req)),
       ex_CallbackStatus = (case url of None \<Rightarrow> None
         | Some u \<Rightarrow> if u = [] then None else Some CallbackStatusPending),
       ex_Result = None, ex_ScheduledAt = Some at, ex_CreatedAt = now, ex_StartedAt = None,
       ex_CompletedAt = None\<rparr>)"

definition check_concurrency :: "tenant \<Rightarrow> unit handling" where
  "check_concurrency t =
     (if tn_MaxConcurrentExecutions t > 0 then
        and_then (or_fail ''Failed to count running executions'' 500
          (CountRunningExecutions (tn_ID t))) (\<lambda>count.
        guard (\<not> count \<ge> tn_MaxConcurrentExecutions t)
          (bad ''Max concurrent executions for tenant reached'' 429))
      else ret ())"

text \<open>\<open>carrier\<close> is the trace context the propagator injects.\<close>

definition run_tx ::
    "externals \<Rightarrow> clocks \<Rightarrow> string_map \<Rightarrow> tenant \<Rightarrow> job \<Rightarrow> execution \<Rightarrow> time \<Rightarrow> unit handling" where
  "run_tx E clk carrier t j e at =
     with_tx (bad ''Internal database error'' 500) (bad ''Failed to commit transaction'' 500)
      (and_then (check_concurrency t) (\<lambda>_.
       and_then (or_fail ''Failed to create execution'' 500 (CreateExecution e)) (\<lambda>_.
       and_then (or_fail ''Failed to enqueue'' 500
         (Enqueue clk (ex_ID e) (enc_payload E j carrier) at)) (\<lambda>_.
       ret ()))))"

definition h_RunJob ::
    "externals \<Rightarrow> clocks \<Rightarrow> uuid \<Rightarrow> string_map \<Rightarrow> tenant option \<Rightarrow> (session, answer) serve" where
  "h_RunJob E clk eid carrier ctx r = handle (
     and_then (need (bad ''Invalid job id'' 400) (uuid_Parse E (rq_path_id r))) (\<lambda>jid.
     and_then (need (bad ''Unauthorized'' 401) (TenantFromContext ctx)) (\<lambda>t.
     and_then (run_request r) (\<lambda>req.
     and_then (get_own_job t jid) (\<lambda>j.
     and_then (schedule (go_now clk) req) (\<lambda>(st, at).
     let e = new_execution jid (go_now clk) t j req st at eid in
     and_then (run_tx E clk carrier t j e at) (\<lambda>_.
     ret (reply (respondJson 200 (Some (enc_RunJobResponse (uuid_String E eid))))))))))))"

section \<open>Executions\<close>

text \<open>What \<^verbatim>\<open>GetExecution\<close>, the retry and the logs handlers share: not found and not
  owned answer alike.\<close>

definition get_own_execution :: "uuid \<Rightarrow> uuid \<Rightarrow> execution handling" where
  "get_own_execution tid eid =
     and_then (or_fail ''Execution not found'' 404 (GetExecutionByID eid)) (\<lambda>e.
     and_then (guard (ex_TenantID e = tid) (bad ''Execution not found'' 404)) (\<lambda>_.
     ret e))"

definition execution_response :: "externals \<Rightarrow> execution \<Rightarrow> ExecutionResponse" where
  "execution_response E e = \<lparr>xr_ID = uuid_String E (ex_ID e),
     xr_Status = status_string (ex_Status e), xr_Priority = ex_Priority e,
     xr_Attempt = ex_Attempt e, xr_ScheduledAt = ex_ScheduledAt e, xr_StartedAt = ex_StartedAt e,
     xr_CompletedAt = ex_CompletedAt e, xr_ExitCode = ex_ExitCode e,
     xr_Error = ex_ErrorMessage e, xr_Result = ex_Result e, xr_CallbackURL = ex_CallbackURL e,
     xr_CallbackStatus = (case ex_CallbackStatus e of None \<Rightarrow> []
       | Some c \<Rightarrow> callback_status_string c)\<rparr>"

definition h_GetExecution :: "externals \<Rightarrow> tenant option \<Rightarrow> (session, answer) serve" where
  "h_GetExecution E ctx r = handle (
     and_then (need (bad ''Invalid execution id'' 400) (uuid_Parse E (rq_path_id r))) (\<lambda>eid.
     and_then (need (bad ''Unauthorized'' 401) (TenantIDFromContext ctx)) (\<lambda>tid.
     and_then (get_own_execution tid eid) (\<lambda>e.
     ret (reply (respondJson 200 (enc_ExecutionResponse (execution_response E e))))))))"

text \<open>A numeric query parameter: the default unless it parses and is accepted.\<close>

definition query_int :: "request \<Rightarrow> string \<Rightarrow> int \<Rightarrow> (int \<Rightarrow> bool) \<Rightarrow> int" where
  "query_int r k def ok =
     (if query_get r k = [] then def
      else case atoi (query_get r k) of None \<Rightarrow> def | Some n \<Rightarrow> if ok n then n else def)"

definition dlq_response :: "externals \<Rightarrow> DLQEntry \<Rightarrow> DLQExecutionResponse" where
  "dlq_response E d = \<lparr>xl_ID = dq_ID d, xl_ExecutionID = uuid_String E (dq_ExecutionID d),
     xl_JobID = uuid_String E (dq_JobID d), xl_JobName = dq_JobName d,
     xl_Priority = dq_Priority d, xl_ErrorMessage = dq_ErrorMessage d,
     xl_Attempts = dq_Attempts d, xl_FailedAt = Some (dq_FailedAt d)\<rparr>"

text \<open>An empty list is the nil slice, and encodes as \<open>null\<close>.\<close>

definition enc_dlq_list :: "externals \<Rightarrow> DLQEntry list \<Rightarrow> json option" where
  "enc_dlq_list E ds =
     (if ds = [] then Some JNull else enc_all enc_DLQExecutionResponse (map (dlq_response E) ds))"

definition h_GetDQLExecutions :: "externals \<Rightarrow> (int \<Rightarrow> int) \<Rightarrow> tenant option \<Rightarrow> (session, answer) serve" where
  "h_GetDQLExecutions E ties ctx r = handle (
     and_then (need (bad ''Unauthorized'' 401) (TenantIDFromContext ctx)) (\<lambda>tid.
     let limit = query_int r ''limit'' 20 (\<lambda>n. 0 < n \<and> n \<le> 10000);
         offset = query_int r ''offset'' 0 (\<lambda>_. True) in
     and_then (or_fail ''Failed to list DLQ executions'' 500 (ListDLQ ties tid limit offset)) (\<lambda>ds.
     ret (reply (respondJson 200 (enc_dlq_list E ds))))))"

definition h_RetryDQLExecution ::
    "externals \<Rightarrow> clocks \<Rightarrow> uuid \<Rightarrow> tenant option \<Rightarrow> (session, answer) serve" where
  "h_RetryDQLExecution E clk newID ctx r = handle (
     and_then (need (bad ''Unauthorized'' 401) (TenantIDFromContext ctx)) (\<lambda>tid.
     and_then (need (bad ''Invalid execution id'' 400) (uuid_Parse E (rq_path_id r))) (\<lambda>eid.
     and_then (get_own_execution tid eid) (\<lambda>_.
     and_then (or_fail ''Failed to retry DLQ execution'' 500 (RetryFromDLQ clk newID eid)) (\<lambda>n.
     ret (reply (respondJson 200 (Some (enc_RetryDQLExecutionResponse (uuid_String E n))))))))))"

section \<open>Worker endpoints\<close>

definition clamp_limit :: "int \<Rightarrow> int" where
  "clamp_limit n = (let n = (if n \<le> 0 then 1 else n) in if n > 100 then 100 else n)"

definition dequeued :: "QueueItem \<Rightarrow> DequeuedExecution" where
  "dequeued q = \<lparr>de_ExecutionID = qi_ExecutionID q, de_Payload = Some (qi_Payload q)\<rparr>"

definition h_InternalDequeue :: "externals \<Rightarrow> clocks \<Rightarrow> int list \<Rightarrow> (session, answer) serve" where
  "h_InternalDequeue E clk locked r = handle (
     and_then (decode_or (bad ''Invalid request body'' 400) (dec_DequeueRequest E) r) (\<lambda>req.
     and_then (or_fail ''Failed to dequeue executions'' 500
       (DequeueBatch clk locked (slice_elems (dr_TenantIDs req)) (clamp_limit (dr_Limit req)))) (\<lambda>items.
     ret (reply (respondJson 200 (Some (enc_DequeueResponse E (Some (map dequeued items)))))))))"

definition h_InternalHeartbeat ::
    "externals \<Rightarrow> clocks \<Rightarrow> duration \<Rightarrow> (session, answer) serve" where
  "h_InternalHeartbeat E clk extension r = handle (
     and_then (need (bad ''Invalid execution id'' 400) (uuid_Parse E (rq_path_id r))) (\<lambda>eid.
     and_then (or_fail ''Failed to update heartbeat'' 500
       (SetVisibleAfter eid (go_now clk + extension))) (\<lambda>_.
     ret (reply (bare_status 200)))))"

text \<open>Did the worker report success?\<close>

definition succeeded :: "ExecutionResultRequest \<Rightarrow> bool" where
  "succeeded req \<longleftrightarrow> er_ExitCode req = Some 0 \<and> er_Error req = []"

definition h_InternalUpdateResult :: "externals \<Rightarrow> clocks \<Rightarrow> (session, answer) serve" where
  "h_InternalUpdateResult E clk r = handle (
     and_then (need (bad ''Invalid execution id'' 400) (uuid_Parse E (rq_path_id r))) (\<lambda>eid.
     and_then (decode_or (bad ''Invalid body'' 400) dec_ExecutionResultRequest r) (\<lambda>req.
     and_then
       (if succeeded req
        then or_fail ''Failed to mark complete'' 500 (Complete clk eid 0 (er_Result req))
        else or_fail ''Failed to mark failed'' 500 (Fail clk eid (er_ExitCode req) (er_Error req))) (\<lambda>_.
     ret (bare_status 200, [TriggerWebhook eid])))))"

text \<open>The goroutine of the previous handler: the execution to deliver, if any.\<close>

definition triggerWebhook :: "uuid \<Rightarrow> execution option sql" where
  "triggerWebhook eid =
     and_then (GetExecutionByID eid) (\<lambda>e.
     if ex_CallbackURL e = None then ret None else ret (Some e))"

section \<open>Logs\<close>

definition h_InternalAddLogs :: "externals \<Rightarrow> clocks \<Rightarrow> (session, answer) serve" where
  "h_InternalAddLogs E clk r = handle (
     and_then (need (bad ''Invalid execution id'' 400) (uuid_Parse E (rq_path_id r))) (\<lambda>eid.
     and_then (decode_or (bad ''Invalid request body'' 400) dec_AddLogRequest r) (\<lambda>content.
     and_then (or_fail ''Failed to persist log'' 500 (AddLogEntry clk eid content)) (\<lambda>_.
     ret (reply (bare_status 202))))))"

definition log_response :: "LogEntry \<Rightarrow> ApiLogEntry" where
  "log_response l = \<lparr>al_ID = lg_ID l, al_Content = lg_Content l, al_CreatedAt = lg_CreatedAt l\<rparr>"

definition h_GetExecutionLogs :: "externals \<Rightarrow> (int \<Rightarrow> int) \<Rightarrow> tenant option \<Rightarrow> (session, answer) serve" where
  "h_GetExecutionLogs E ties ctx r = handle (
     and_then (need (bad ''Invalid execution id'' 400) (uuid_Parse E (rq_path_id r))) (\<lambda>eid.
     and_then (need (bad ''Unauthorized'' 401) (TenantIDFromContext ctx)) (\<lambda>tid.
     let limit = query_int r ''limit'' 1000 (\<lambda>n. 0 < n \<and> n \<le> 10000);
         after = query_int r ''after_id'' 0 (\<lambda>_. True) in
     and_then (get_own_execution tid eid) (\<lambda>_.
     and_then (or_fail ''Failed to fetch logs'' 500 (GetExecutionLogs ties eid after limit)) (\<lambda>ls.
     ret (reply (respondJson 200 (enc_GetLogsResponse (map log_response ls)))))))))"

section \<open>Probes\<close>

definition h_Healthz :: "(session, answer) serve" where
  "h_Healthz r = handle (ret (reply (respondJson 200 (Some (JObj [(''status'', JStr ''healthy'')])))))"

definition h_Readyz :: "(session, answer) serve" where
  "h_Readyz r = handle (
     and_then (or_fail ''Database unavailable'' 503 (query (\<lambda>d. Inr ()))) (\<lambda>_.
     ret (reply (respondJson 200 (Some (JObj [(''status'', JStr ''ready'')]))))))"

end
