(* ===== verification/RateLimit.thy ===== *)
theory RateLimit
  imports Auth
begin

text \<open>
  The rate limiter of \<^verbatim>\<open>middleware/ratelimit.go\<close>: a cache of token buckets by tenant,
  each good for the limiter's time to live. The buckets themselves are
  \<^verbatim>\<open>golang.org/x/time/rate\<close>, the parameter \<open>rate\<close>; a bucket is shared by reference in Go,
  so a call of \<^verbatim>\<open>Allow\<close> updates the cached one.
\<close>

record 'l rate =
  rate_NewLimiter :: "int \<Rightarrow> int \<Rightarrow> 'l"
  rate_Allow :: "time \<Rightarrow> 'l \<Rightarrow> bool \<times> 'l"

record 'l cachedLimiter =
  cl_limiter :: 'l
  cl_expiresAt :: time

type_synonym 'l limiters = "uuid \<Rightarrow> 'l cachedLimiter option"

text \<open>The controller's state: the database session and the cache.\<close>

record 'l server =
  sv_session :: session
  sv_limiters :: "'l limiters"

definition default_ttl :: duration where
  "default_ttl = 5 * minute"

text \<open>\<^verbatim>\<open>getOrCreateLimiter\<close>: the cache afterwards holds the limiter it returns.\<close>

definition getOrCreateLimiter ::
    "'l rate \<Rightarrow> duration \<Rightarrow> time \<Rightarrow> tenant \<Rightarrow> 'l limiters \<Rightarrow> 'l cachedLimiter \<times> 'l limiters" where
  "getOrCreateLimiter P ttl now t ls =
     (let fresh = \<lparr>cl_limiter = rate_NewLimiter P (tn_RateLimit t) (tn_RateLimitBurst t),
                   cl_expiresAt = now + ttl\<rparr> in
      case ls (tn_ID t) of
        Some c \<Rightarrow> (if now < cl_expiresAt c then (c, ls) else (fresh, ls(tn_ID t \<mapsto> fresh)))
      | None \<Rightarrow> (fresh, ls(tn_ID t \<mapsto> fresh)))"

definition InvalidateTenant :: "uuid \<Rightarrow> 'l limiters \<Rightarrow> 'l limiters" where
  "InvalidateTenant tid ls = ls(tid := None)"

text \<open>One request of the tenant: is it let through, and the cache afterwards.\<close>

definition take_token ::
    "'l rate \<Rightarrow> duration \<Rightarrow> time \<Rightarrow> tenant \<Rightarrow> 'l limiters \<Rightarrow> bool \<times> 'l limiters" where
  "take_token P ttl now t ls =
     (if tn_RateLimit t > 0 then
        (case getOrCreateLimiter P ttl now t ls of
           (c, ls') \<Rightarrow>
             (case rate_Allow P now (cl_limiter c) of
                (ok, l) \<Rightarrow> (ok, ls'(tn_ID t \<mapsto> c\<lparr>cl_limiter := l\<rparr>))))
      else (True, ls))"

definition too_many_requests :: response where
  "too_many_requests = (http_Error ''Too Many Requests'' 429)\<lparr>rs_headers :=
     (''Retry-After'', ''1'') # rs_headers (http_Error ''Too Many Requests'' 429)\<rparr>"

lemma too_many_requests_status [simp]: "rs_status too_many_requests = 429"
  by (simp add: too_many_requests_def)

definition RateMiddleware ::
    "'l rate \<Rightarrow> duration \<Rightarrow> time \<Rightarrow> (tenant option \<Rightarrow> ('l server, answer) serve) \<Rightarrow>
     tenant option \<Rightarrow> ('l server, answer) serve" where
  "RateMiddleware P ttl now next ctx r s =
     (case TenantFromContext ctx of
        None \<Rightarrow> (reply (respondJson 401 (Some (enc_ErrorResponse ''Unauthorized'' ''401''))), s)
      | Some t \<Rightarrow>
          (case take_token P ttl now t (sv_limiters s) of
             (ok, ls) \<Rightarrow>
               if ok then next ctx r (s\<lparr>sv_limiters := ls\<rparr>)
               else (reply too_many_requests, s\<lparr>sv_limiters := ls\<rparr>)))"

section \<open>The cache\<close>

lemma take_token_other:
  "tid \<noteq> tn_ID t \<Longrightarrow> snd (take_token P ttl now t ls) tid = ls tid"
  by (auto simp: take_token_def getOrCreateLimiter_def Let_def split: option.split prod.split)

lemma take_token_unlimited: "tn_RateLimit t \<le> 0 \<Longrightarrow> take_token P ttl now t ls = (True, ls)"
  by (simp add: take_token_def)

lemma take_token_fresh:
  assumes "tn_RateLimit t > 0" and "\<forall>c. ls (tn_ID t) = Some c \<longrightarrow> cl_expiresAt c \<le> now"
  shows "fst (take_token P ttl now t ls) =
     fst (rate_Allow P now (rate_NewLimiter P (tn_RateLimit t) (tn_RateLimitBurst t)))"
  using assms
  by (auto simp: take_token_def getOrCreateLimiter_def Let_def split: option.split prod.split)

lemma take_token_cached:
  assumes "tn_RateLimit t > 0" and "ls (tn_ID t) = Some c" and "now < cl_expiresAt c"
  shows "take_token P ttl now t ls =
     (fst (rate_Allow P now (cl_limiter c)),
      ls(tn_ID t \<mapsto> c\<lparr>cl_limiter := snd (rate_Allow P now (cl_limiter c))\<rparr>))"
  using assms by (simp add: take_token_def getOrCreateLimiter_def split: prod.split)

text \<open>No cached limiter is good for longer than the time to live.\<close>

definition cache_ok :: "duration \<Rightarrow> time \<Rightarrow> 'l limiters \<Rightarrow> bool" where
  "cache_ok ttl now ls \<longleftrightarrow> (\<forall>tid c. ls tid = Some c \<longrightarrow> cl_expiresAt c \<le> now + ttl)"

lemma cache_ok_empty: "cache_ok ttl now (\<lambda>_. None)"
  by (simp add: cache_ok_def)

lemma cache_ok_take_token:
  assumes "cache_ok ttl now ls" and "now \<le> now'"
  shows "cache_ok ttl now' (snd (take_token P ttl now' t ls))"
proof -
  have le: "cl_expiresAt c \<le> now' + ttl" if "ls tid = Some c" for tid c
    using assms that by (force simp: cache_ok_def)
  show ?thesis
    by (auto simp: cache_ok_def take_token_def getOrCreateLimiter_def Let_def
        split: option.splits prod.splits if_splits dest: le)
qed

lemma cache_ok_Invalidate: "cache_ok ttl now ls \<Longrightarrow> cache_ok ttl now (InvalidateTenant tid ls)"
  by (simp add: cache_ok_def InvalidateTenant_def)

section \<open>The limiter as a guard\<close>

text \<open>The requests the limiter lets through, and the context it passes on.\<close>

definition rate_admits ::
    "'l rate \<Rightarrow> duration \<Rightarrow> time \<Rightarrow> tenant option \<Rightarrow> request \<Rightarrow> 'l server \<Rightarrow>
     (tenant option \<times> 'l server) option" where
  "rate_admits P ttl now ctx r s =
     (case ctx of
        None \<Rightarrow> None
      | Some t \<Rightarrow>
          (case take_token P ttl now t (sv_limiters s) of
             (ok, ls) \<Rightarrow> if ok then Some (ctx, s\<lparr>sv_limiters := ls\<rparr>) else None))"

interpretation rate_guard: request_guard
    "\<lambda>next. RateMiddleware P ttl now next ctx" "rate_admits P ttl now ctx" sv_session
  by unfold_locales
    (auto simp: rate_admits_def RateMiddleware_def TenantFromContext_def denial_def
      split: option.splits prod.splits if_splits)

end
