(* ===== verification/Server.thy ===== *)
theory Server
  imports Handlers RateLimit
begin

text \<open>
  The controller of \<^verbatim>\<open>internal/controller/server.go\<close>: the route table, the middleware in
  front of each handler, and what the server does with the effects a handler leaves behind
  (a changed tenant drops its cached limiter, a reported result starts a webhook delivery).
  Requests arrive with a method and the segments of a cleaned path.
\<close>

section \<open>Routing\<close>

datatype segment = Lit string | Wild

datatype route =
    Healthz | Readyz | Metrics
  | PostTenants
  | PatchTenant | PostJobs | PostJobRun | GetExecutionRoute | GetLogsRoute | GetDLQRoute
  | RetryDLQRoute
  | DequeueRoute | HeartbeatRoute | ResultRoute | AddLogsRoute

datatype access = Open | TenantAuth | InternalAuth

fun access_of :: "route \<Rightarrow> access" where
  "access_of Healthz = Open"
| "access_of Readyz = Open"
| "access_of Metrics = Open"
| "access_of PostTenants = Open"
| "access_of DequeueRoute = InternalAuth"
| "access_of HeartbeatRoute = InternalAuth"
| "access_of ResultRoute = InternalAuth"
| "access_of AddLogsRoute = InternalAuth"
| "access_of _ = TenantAuth"

text \<open>\<open>m\<close> says whether the metrics handler is installed.\<close>

definition patterns :: "bool \<Rightarrow> (string \<times> segment list \<times> route) list" where
  "patterns m =
     [(''GET'', [Lit ''healthz''], Healthz),
      (''GET'', [Lit ''readyz''], Readyz),
      (''POST'', [Lit ''tenants''], PostTenants),
      (''PATCH'', [Lit ''tenants'', Wild], PatchTenant),
      (''POST'', [Lit ''jobs''], PostJobs),
      (''POST'', [Lit ''jobs'', Wild, Lit ''run''], PostJobRun),
      (''GET'', [Lit ''executions'', Wild], GetExecutionRoute),
      (''GET'', [Lit ''executions'', Wild, Lit ''logs''], GetLogsRoute),
      (''GET'', [Lit ''executions'', Lit ''dlq''], GetDLQRoute),
      (''POST'', [Lit ''executions'', Lit ''dlq'', Wild, Lit ''retry''], RetryDLQRoute),
      (''POST'', [Lit ''internal'', Lit ''executions'', Lit ''dequeue''], DequeueRoute),
      (''PUT'', [Lit ''internal'', Lit ''executions'', Wild, Lit ''heartbeat''], HeartbeatRoute),
      (''PUT'', [Lit ''internal'', Lit ''executions'', Wild, Lit ''result''], ResultRoute),
      (''POST'', [Lit ''internal'', Lit ''executions'', Wild, Lit ''logs''], AddLogsRoute)] @
     (if m then [(''GET'', [Lit ''metrics''], Metrics)] else [])"

text \<open>A pattern matches a path, or not; the value of its wildcard (every pattern here has at
  most one, called \<^verbatim>\<open>id\<close>) is the path value.\<close>

fun match_path :: "segment list \<Rightarrow> string list \<Rightarrow> bool" where
  "match_path [] [] = True"
| "match_path (Lit l # ps) (x # xs) = (l = x \<and> match_path ps xs)"
| "match_path (Wild # ps) (x # xs) = match_path ps xs"
| "match_path _ _ = False"

fun path_value :: "segment list \<Rightarrow> string list \<Rightarrow> string" where
  "path_value (Wild # ps) (x # xs) = x"
| "path_value (Lit l # ps) (x # xs) = path_value ps xs"
| "path_value _ _ = []"

text \<open>A \<^verbatim>\<open>GET\<close> pattern serves \<^verbatim>\<open>HEAD\<close> as well.\<close>

definition match_method :: "string \<Rightarrow> string \<Rightarrow> bool" where
  "match_method p m \<longleftrightarrow> p = m \<or> p = ''GET'' \<and> m = ''HEAD''"

definition wildcards :: "string \<times> segment list \<times> route \<Rightarrow> nat" where
  "wildcards p = length (filter (\<lambda>s. s = Wild) (fst (snd p)))"

text \<open>\<^verbatim>\<open>ServeMux\<close> takes the most specific of the patterns that match: of two that match one
  path here, the one with fewer wildcards.\<close>

definition routes :: "bool \<Rightarrow> string \<Rightarrow> string list \<Rightarrow> (string \<times> segment list \<times> route) list" where
  "routes m method path = sort_key wildcards
     (filter (\<lambda>p. match_method (fst p) method \<and> match_path (fst (snd p)) path) (patterns m))"

definition route_of :: "bool \<Rightarrow> string \<Rightarrow> string list \<Rightarrow> (route \<times> string) option" where
  "route_of m method path =
     (case routes m method path of [] \<Rightarrow> None | p # _ \<Rightarrow> Some (snd (snd p), path_value (fst (snd p)) path))"

definition unrouted :: "bool \<Rightarrow> string list \<Rightarrow> response" where
  "unrouted m path =
     (if list_ex (\<lambda>p. match_path (fst (snd p)) path) (patterns m)
      then http_Error ''Method Not Allowed'' 405 else http_Error ''404 page not found'' 404)"

section \<open>The server\<close>

text \<open>The configuration, and what one request draws from its surroundings: the clocks, an identifier,
  random bytes, the trace, the rows other transactions hold, and the order of equal rows.\<close>

record 'l controller =
  co_externals :: externals
  co_rate :: "'l rate"
  co_secret :: string
  co_extension :: duration
  co_metrics :: "response option"

record surroundings =
  en_clocks :: clocks
  en_uuid :: uuid
  en_entropy :: "8 word list option"
  en_carrier :: string_map
  en_locked :: "int list"
  en_ties :: "int \<Rightarrow> int"

definition on_session :: "(session \<Rightarrow> 'a \<times> session) \<Rightarrow> 'l server \<Rightarrow> 'a \<times> 'l server" where
  "on_session f s = (case f (sv_session s) of (x, t) \<Rightarrow> (x, s\<lparr>sv_session := t\<rparr>))"

fun open_handler :: "'l controller \<Rightarrow> surroundings \<Rightarrow> route \<Rightarrow> (session, answer) serve" where
  "open_handler C n Healthz = h_Healthz"
| "open_handler C n Readyz = h_Readyz"
| "open_handler C n PostTenants =
     h_CreateTenant (co_externals C) (en_clocks n) (en_uuid n) (en_entropy n)"
| "open_handler C n _ = (\<lambda>r s. (reply (case co_metrics C of None \<Rightarrow> bare_status 404 | Some x \<Rightarrow> x), s))"

fun tenant_handler ::
    "'l controller \<Rightarrow> surroundings \<Rightarrow> route \<Rightarrow> tenant option \<Rightarrow> (session, answer) serve" where
  "tenant_handler C n PatchTenant = h_UpdateTenant"
| "tenant_handler C n PostJobs = h_CreateJob (co_externals C) (en_clocks n) (en_uuid n)"
| "tenant_handler C n PostJobRun =
     h_RunJob (co_externals C) (en_clocks n) (en_uuid n) (en_carrier n)"
| "tenant_handler C n GetLogsRoute = h_GetExecutionLogs (co_externals C) (en_ties n)"
| "tenant_handler C n GetDLQRoute = h_GetDQLExecutions (co_externals C) (en_ties n)"
| "tenant_handler C n RetryDLQRoute =
     h_RetryDQLExecution (co_externals C) (en_clocks n) (en_uuid n)"
| "tenant_handler C n _ = h_GetExecution (co_externals C)"

fun internal_handler :: "'l controller \<Rightarrow> surroundings \<Rightarrow> route \<Rightarrow> (session, answer) serve" where
  "internal_handler C n DequeueRoute =
     h_InternalDequeue (co_externals C) (en_clocks n) (en_locked n)"
| "internal_handler C n HeartbeatRoute =
     h_InternalHeartbeat (co_externals C) (en_clocks n) (co_extension C)"
| "internal_handler C n ResultRoute = h_InternalUpdateResult (co_externals C) (en_clocks n)"
| "internal_handler C n _ = h_InternalAddLogs (co_externals C) (en_clocks n)"

definition server_lookup :: "string \<Rightarrow> 'l server \<Rightarrow> (sql_error + tenant) \<times> 'l server" where
  "server_lookup h = on_session (GetTenantByAPIKeyHash h)"

text \<open>The chains \<^verbatim>\<open>authMW(rateMW(handler))\<close> and \<^verbatim>\<open>internalAuth(handler)\<close>.\<close>

definition tenant_chain ::
    "'l controller \<Rightarrow> surroundings \<Rightarrow> route \<Rightarrow> ('l server, answer) serve" where
  "tenant_chain C n rt = AuthMiddleware (co_externals C) server_lookup
     (RateMiddleware (co_rate C) default_ttl (go_now (en_clocks n))
       (\<lambda>ctx r. on_session (tenant_handler C n rt ctx r)))"

definition internal_chain ::
    "'l controller \<Rightarrow> surroundings \<Rightarrow> route \<Rightarrow> ('l server, answer) serve" where
  "internal_chain C n rt =
     RequireInternalAuth (co_secret C) (\<lambda>r. on_session (internal_handler C n rt r))"

definition open_chain :: "'l controller \<Rightarrow> surroundings \<Rightarrow> route \<Rightarrow> ('l server, answer) serve" where
  "open_chain C n rt r = on_session (open_handler C n rt r)"

fun chain :: "'l controller \<Rightarrow> surroundings \<Rightarrow> access \<Rightarrow> route \<Rightarrow> ('l server, answer) serve" where
  "chain C n Open = open_chain C n"
| "chain C n TenantAuth = tenant_chain C n"
| "chain C n InternalAuth = internal_chain C n"

text \<open>The callback of an updated tenant runs at once; webhook goroutines are handed on.\<close>

fun run_effects :: "effect list \<Rightarrow> 'l server \<Rightarrow> 'l server" where
  "run_effects [] s = s"
| "run_effects (OnTenantUpdated tid # es) s =
     run_effects es (s\<lparr>sv_limiters := InvalidateTenant tid (sv_limiters s)\<rparr>)"
| "run_effects (TriggerWebhook eid # es) s = run_effects es s"

fun webhooks :: "effect list \<Rightarrow> uuid list" where
  "webhooks [] = []"
| "webhooks (TriggerWebhook eid # es) = eid # webhooks es"
| "webhooks (OnTenantUpdated tid # es) = webhooks es"

text \<open>One request: the response and the executions whose webhook is to be delivered.\<close>

definition ServeHTTP ::
    "'l controller \<Rightarrow> surroundings \<Rightarrow> string \<Rightarrow> string list \<Rightarrow> request \<Rightarrow> 'l server \<Rightarrow>
     (response \<times> uuid list) \<times> 'l server" where
  "ServeHTTP C n method path r s =
     (case route_of (co_metrics C \<noteq> None) method path of
        None \<Rightarrow> ((unrouted (co_metrics C \<noteq> None) path, []), s)
      | Some (rt, v) \<Rightarrow>
          (case chain C n (access_of rt) rt (r\<lparr>rq_path_id := v\<rparr>) s of
             ((resp, effs), s') \<Rightarrow> ((resp, webhooks effs), run_effects effs s')))"

text \<open>\<^verbatim>\<open>Shutdown\<close>: the HTTP server first, then the deliveries; the first error counts.\<close>

definition Shutdown_error :: "'e option \<Rightarrow> 'e option \<Rightarrow> 'e option" where
  "Shutdown_error http_err webhook_err = (if http_err = None then webhook_err else http_err)"

section \<open>The chains as guards\<close>

lemma session_run_effects [simp]: "sv_session (run_effects es s) = sv_session s"
  by (induction es s rule: run_effects.induct) simp_all

lemma on_session_db:
  "(\<And>t. R (db t) (db (snd (f t)))) \<Longrightarrow>
   R (db (sv_session s)) (db (sv_session (snd (on_session f s))))"
  by (auto simp: on_session_def split: prod.split) (metis snd_conv)

interpretation server_lookup: tenant_lookup server_lookup "\<lambda>s. db (sv_session s)"
  by unfold_locales
    (auto simp: server_lookup_def on_session_def dest: store_lookup.lookup_view split: prod.splits)

text \<open>
  What a chain keeps of the database is what its handler keeps: the middlewares touch nothing
  of it.
\<close>

lemma tenant_chain_keeps:
  assumes h: "\<And>ctx r t. R (db t) (db (snd (tenant_handler C n rt ctx r t)))"
    and refl: "\<And>d. R d d"
  shows "R (db (sv_session s)) (db (sv_session (snd (tenant_chain C n rt r s))))"
proof -
  have rate: "R (db (sv_session t)) (db (sv_session (snd
      (RateMiddleware (co_rate C) default_ttl (go_now (en_clocks n))
        (\<lambda>ctx r. on_session (tenant_handler C n rt ctx r)) ctx r t))))" for ctx r t
    using rate_guard.guarded_keeps [where R = "\<lambda>x y. R (db x) (db y)" and ctx = ctx
        and nxt = "\<lambda>ctx r. on_session (tenant_handler C n rt ctx r)"]
      on_session_db [of R] h refl by blast
  show ?thesis
    unfolding tenant_chain_def
    by (rule server_lookup.tenant_guard.guarded_keeps [where R = R]) (rule rate, rule refl)
qed

lemma internal_chain_keeps:
  assumes h: "\<And>r t. R (db t) (db (snd (internal_handler C n rt r t)))" and refl: "\<And>d. R d d"
  shows "R (db (sv_session s)) (db (sv_session (snd (internal_chain C n rt r s))))"
  unfolding internal_chain_def
  using secret_guard.guarded_keeps [where R = "\<lambda>x y. R (db (sv_session x)) (db (sv_session y))"
      and nxt = "\<lambda>_ r. on_session (internal_handler C n rt r)"]
    on_session_db [of R] h refl by blast

end
