(* ===== verification/Handlers_Safe.thy ===== *)
theory Handlers_Safe
  imports Store_Safe Server
begin

text \<open>
  No request can break the tables: every handler, and behind its middleware every route of the
  server, keeps the database safe, for every method, path, credential and body and whatever
  happens to the connection between two statements.
\<close>

section \<open>Handlers\<close>

lemma handle_safe: "keeps (on_db safe) m \<Longrightarrow> on_db safe s (snd (handle m s))"
  unfolding handle_def by (rule safe.finish_keeps)

lemmas keeps_handlers =
  safe.keeps_and_then safe.keeps_ret safe.keeps_throw safe.keeps_guard safe.keeps_need
  safe.keeps_or_fail safe.keeps_decode_or safe.keeps_with_tx keeps_store

lemma keeps_if: "keeps R m \<Longrightarrow> keeps R m' \<Longrightarrow> keeps R (if b then m else m')"
  by simp

lemma keeps_run_request: "keeps (on_db safe) (run_request r)"
  by (auto simp: run_request_def intro!: safe.keeps_ret safe.keeps_throw split: sum.split)

lemma keeps_schedule: "keeps (on_db safe) (schedule now req)"
  by (auto simp: schedule_def intro!: safe.keeps_ret safe.keeps_throw split: option.split)

lemma keeps_get_own: "keeps (on_db safe) (get_own_job t jid)" "keeps (on_db safe) (get_own_execution tid eid)"
  unfolding get_own_job_def get_own_execution_def by (intro keeps_handlers)+

text \<open>The job a run works on is a job of the tenant, in the table.\<close>

lemma get_own_job_Inr:
  assumes "get_own_job t jid s = (Inr j, u)"
  shows "db u = db s" and "\<exists>r \<in> set (jobs (db s)). jr_id r = jid \<and> jr_tenant_id r = tn_ID t"
    and "\<exists>r \<in> set (jobs (db s)). jr_id r = jid \<and> job_of_row r = Inr j" and "jb_TenantID j = tn_ID t"
proof -
  obtain v where g: "GetJobByID jid s = (Inr j, v)" and own: "jb_TenantID j = tn_ID t" and u: "u = v"
    using assms by (auto simp: get_own_job_def ret_apply elim!: and_then_InrE dest!: or_fail_InrD guard_InrD)
  obtain r where r: "find_job (db s) jid = Some r" and j: "job_of_row r = Inr j" and v: "v = spend s"
    using g by (auto simp: GetJobByID_def dest!: query_Inr split: option.splits)
  have m: "r \<in> set (jobs (db s))" "jr_id r = jid" using r by (auto simp: find_job_def dest: find_SomeD)
  have "jr_tenant_id r = jb_TenantID j"
    using j by (auto simp: job_of_row_def Let_def split: option.splits)
  then show "\<exists>r \<in> set (jobs (db s)). jr_id r = jid \<and> jr_tenant_id r = tn_ID t"
    using m own by auto
  show "db u = db s" using u v by simp
  show "\<exists>r \<in> set (jobs (db s)). jr_id r = jid \<and> job_of_row r = Inr j" using m j by auto
  show "jb_TenantID j = tn_ID t" by (rule own)
qed

lemma check_concurrency_db: "check_concurrency t s = (Inr u, s') \<Longrightarrow> db s' = db s"
  by (auto simp: check_concurrency_def CountRunningExecutions_def ret_apply split: if_splits
      elim!: and_then_InrE dest!: or_fail_InrD guard_InrD query_Inr exec_Inr)

lemma keeps_check_concurrency: "keeps (on_db grows) (check_concurrency t)"
  unfolding check_concurrency_def CountRunningExecutions_def
  by (auto intro!: grows.keeps_and_then grows.keeps_or_fail grows.keeps_query grows.keeps_exec
      grows.keeps_guard grows.keeps_ret simp: grows.db_refl)

text \<open>What a committed run has done: the insertions of the execution and of its queue row.\<close>

definition run_body ::
    "externals \<Rightarrow> clocks \<Rightarrow> string_map \<Rightarrow> tenant \<Rightarrow> job \<Rightarrow> execution \<Rightarrow> time \<Rightarrow> unit handling" where
  "run_body E clk carrier t j e at =
     and_then (check_concurrency t) (\<lambda>_.
     and_then (or_fail ''Failed to create execution'' 500 (CreateExecution e)) (\<lambda>_.
     and_then (or_fail ''Failed to enqueue'' 500
       (Enqueue clk (ex_ID e) (enc_payload E j carrier) at)) (\<lambda>_.
     ret ())))"

lemma run_body_Inr:
  assumes "run_body E clk carrier t j e at s = (Inr u, s')"
  obtains d1 n where
    "insert_execution (e\<lparr>ex_Attempt := 0, ex_ExitCode := None, ex_ErrorMessage := None,
       ex_RetriedFrom := None, ex_Result := None, ex_StartedAt := None, ex_CompletedAt := None\<rparr>) (db s) = Inr d1"
    and "insert_queue clk (ex_ID e) (enc_payload E j carrier)
       (if at = zero_time then go_now clk else at) d1 = Inr (n, db s')"
proof -
  obtain s1 s2 s3 x n where
    c: "check_concurrency t s = (Inr (), s1)"
    and i: "CreateExecution e s1 = (Inr x, s2)"
    and q: "Enqueue clk (ex_ID e) (enc_payload E j carrier) at s2 = (Inr n, s3)" and s': "s' = s3"
    using assms by (auto simp: run_body_def ret_apply elim!: and_then_InrE dest!: or_fail_InrD)
  show ?thesis
  proof (rule that)
    show "insert_execution (e\<lparr>ex_Attempt := 0, ex_ExitCode := None, ex_ErrorMessage := None,
       ex_RetriedFrom := None, ex_Result := None, ex_StartedAt := None, ex_CompletedAt := None\<rparr>) (db s)
       = Inr (db s2)"
      using i check_concurrency_db [OF c] by (auto simp: CreateExecution_def dest!: exec_Inr)
    show "insert_queue clk (ex_ID e) (enc_payload E j carrier)
       (if at = zero_time then go_now clk else at) (db s2) = Inr (n, db s')"
      using q s' by (auto simp: Enqueue_def dest!: stmt_Inr)
  qed
qed

lemma keeps_run_body: "keeps (on_db grows) (run_body E clk carrier t j e at)"
  unfolding run_body_def
  by (intro grows.keeps_and_then grows.keeps_or_fail keeps_check_concurrency
      keeps_CreateExecution_grows keeps_Enqueue_grows grows.keeps_ret)

lemma run_tx_eq: "run_tx E clk carrier t j e at =
  with_tx (bad ''Internal database error'' 500) (bad ''Failed to commit transaction'' 500)
    (run_body E clk carrier t j e at)"
  by (simp add: run_tx_def run_body_def)

text \<open>The tables of jobs only grow, so the job is there when the transaction commits.\<close>

lemma run_tx_at:
  assumes job: "\<exists>r \<in> set (jobs (db s)). jr_id r = ex_JobID e \<and> jr_tenant_id r = ex_TenantID e"
    and st: "ex_Status e \<in> {ExecutionStatusPending, ExecutionStatusScheduled}"
  shows "on_db safe s (snd (run_tx E clk carrier t j e at s))"
proof -
  obtain r0 s0 where b: "begin_tx s = (r0, s0)" by (cases "begin_tx s")
  have d0: "db s0 = db s" using b db_query [of "\<lambda>d. Inr ()" s] by (simp add: begin_tx_def)
  obtain r1 s1 where m: "run_body E clk carrier t j e at s0 = (r1, s1)"
    by (cases "run_body E clk carrier t j e at s0")
  have gr: "grows (db s0) (db s1)"
    using keepsD [OF keeps_run_body m] by (simp add: on_db_def)
  have ok: "safe (db s0) (db s1)" if "r1 = Inr x" for x
  proof -
    note m' = m [unfolded that]
    let ?e = "e\<lparr>ex_Attempt := 0, ex_ExitCode := None, ex_ErrorMessage := None,
       ex_RetriedFrom := None, ex_Result := None, ex_StartedAt := None, ex_CompletedAt := None\<rparr>"
    obtain d1 n where i: "insert_execution ?e (db s0) = Inr d1"
      and q: "insert_queue clk (ex_ID ?e) (enc_payload E j carrier)
         (if at = zero_time then go_now clk else at) d1 = Inr (n, db s1)"
      using run_body_Inr [OF m'] by auto
    show ?thesis using _ _ _ _ i q
      by (rule safe_create_enqueue) (use job st d0 in auto)
  qed
  show ?thesis using b m d0 ok undo_grown [OF gr]
    by (cases r1) (auto simp: run_tx_eq with_tx_def on_db_def safe.db_refl rollback_def
        split: sum.splits fate.splits)
qed

lemma new_execution_simps [simp]:
  "ex_ID (new_execution jid now t j req st at eid) = eid"
  "ex_JobID (new_execution jid now t j req st at eid) = jid"
  "ex_TenantID (new_execution jid now t j req st at eid) = tn_ID t"
  "ex_Status (new_execution jid now t j req st at eid) = st"
  "ex_Priority (new_execution jid now t j req st at eid) = jb_Priority j"
  by (simp_all add: new_execution_def Let_def)

lemma schedule_Inr:
  "schedule now req s = (Inr (st, at), s') \<Longrightarrow>
   s' = s \<and> st \<in> {ExecutionStatusPending, ExecutionStatusScheduled} \<and> at \<ge> now"
  by (auto simp: schedule_def ret_apply throw_apply split: option.splits if_splits)

lemma keeps_RunJob_body:
  "keeps (on_db safe)
     (and_then (get_own_job t jid) (\<lambda>j.
      and_then (schedule (go_now clk) req) (\<lambda>(st, at).
      let e = new_execution jid (go_now clk) t j req st at eid in
      and_then (run_tx E clk carrier t j e at) (\<lambda>_.
      ret (reply (respondJson 200 (Some (enc_RunJobResponse (uuid_String E eid)))))))))"
proof (rule safe.keeps_bind [OF keeps_get_own(1)])
  fix s j u
  assume g: "get_own_job t jid s = (Inr j, u)"
  note job = get_own_job_Inr [OF g]
  show "on_db safe u (snd ((\<lambda>j. and_then (schedule (go_now clk) req) (\<lambda>(st, at).
      let e = new_execution jid (go_now clk) t j req st at eid in
      and_then (run_tx E clk carrier t j e at) (\<lambda>_.
      ret (reply (respondJson 200 (Some (enc_RunJobResponse (uuid_String E eid)))))))) j u))"
  proof (rule safe.bind_at)
    show "on_db safe u (snd (schedule (go_now clk) req u))"
      using keeps_schedule by (simp add: keeps_def)
    fix x v
    assume sch: "schedule (go_now clk) req u = (Inr x, v)"
    obtain st at where x: "x = (st, at)" by (cases x)
    note st = schedule_Inr [OF sch [unfolded x]]
    let ?e = "new_execution jid (go_now clk) t j req st at eid"
    have "on_db safe v (snd (run_tx E clk carrier t j ?e at v))"
      using job(1,2) st by (intro run_tx_at) auto
    then show "on_db safe v (snd ((case x of (st, at) \<Rightarrow>
        let e = new_execution jid (go_now clk) t j req st at eid in
        and_then (run_tx E clk carrier t j e at) (\<lambda>_.
        ret (reply (respondJson 200 (Some (enc_RunJobResponse (uuid_String E eid))))))) v))"
      by (auto simp: x Let_def ret_apply safe.refl intro: safe.bind_at)
  qed
qed

lemma RunJob_safe: "on_db safe s (snd (h_RunJob E clk eid carrier ctx r s))"
  unfolding h_RunJob_def
  by (intro handle_safe safe.keeps_and_then safe.keeps_need keeps_run_request keeps_RunJob_body)

lemma handlers_safe:
  "on_db safe s (snd (h_CreateTenant E clk tid entropy r s))"
  "on_db safe s (snd (h_UpdateTenant ctx r s))"
  "on_db safe s (snd (h_CreateJob E clk jid ctx r s))"
  "on_db safe s (snd (h_GetExecution E ctx r s))"
  "on_db safe s (snd (h_GetDQLExecutions E ties ctx r s))"
  "on_db safe s (snd (h_RetryDQLExecution E clk newID ctx r s))"
  "on_db safe s (snd (h_InternalDequeue E clk locked r s))"
  "on_db safe s (snd (h_InternalHeartbeat E clk extn r s))"
  "on_db safe s (snd (h_InternalUpdateResult E clk r s))"
  "on_db safe s (snd (h_InternalAddLogs E clk r s))"
  "on_db safe s (snd (h_GetExecutionLogs E ties ctx r s))"
  "on_db safe s (snd (h_Healthz r s))"
  "on_db safe s (snd (h_Readyz r s))"
  unfolding h_CreateTenant_def h_UpdateTenant_def h_CreateJob_def h_GetExecution_def
    h_GetDQLExecutions_def h_RetryDQLExecution_def h_InternalDequeue_def h_InternalHeartbeat_def
    h_InternalUpdateResult_def h_InternalAddLogs_def h_GetExecutionLogs_def h_Healthz_def
    h_Readyz_def Let_def
  by (intro handle_safe keeps_handlers keeps_get_own keeps_if safe.keeps_query)+

section \<open>Routes\<close>

lemma open_handler_safe: "on_db safe s (snd (open_handler C n rt r s))"
  by (cases rt) (simp_all add: handlers_safe safe.refl)

lemma tenant_handler_safe: "on_db safe s (snd (tenant_handler C n rt ctx r s))"
  by (cases rt) (simp_all add: handlers_safe RunJob_safe)

lemma internal_handler_safe: "on_db safe s (snd (internal_handler C n rt r s))"
  by (cases rt) (simp_all add: handlers_safe)

lemmas handler_safe_db =
  open_handler_safe [unfolded on_db_def] tenant_handler_safe [unfolded on_db_def]
  internal_handler_safe [unfolded on_db_def]

lemma chain_safe: "safe (db (sv_session s)) (db (sv_session (snd (chain C n a rt r s))))"
proof (cases a)
  case Open
  have "safe (db (sv_session s)) (db (sv_session (snd (on_session (open_handler C n rt r) s))))"
    by (rule on_session_db) (rule handler_safe_db)
  then show ?thesis by (simp add: Open open_chain_def)
next
  case TenantAuth
  have "safe (db (sv_session s)) (db (sv_session (snd (tenant_chain C n rt r s))))"
    by (rule tenant_chain_keeps) (rule handler_safe_db safe.db_refl)+
  then show ?thesis by (simp add: TenantAuth)
next
  case InternalAuth
  have "safe (db (sv_session s)) (db (sv_session (snd (internal_chain C n rt r s))))"
    by (rule internal_chain_keeps) (rule handler_safe_db safe.db_refl)+
  then show ?thesis by (simp add: InternalAuth)
qed

text \<open>A served request is a route and its chain, or the answer of the multiplexer.\<close>

lemma ServeHTTP_db:
  "db (sv_session (snd (ServeHTTP C n method path r s))) =
     (case route_of (co_metrics C \<noteq> None) method path of
        None \<Rightarrow> db (sv_session s)
      | Some (rt, v) \<Rightarrow> db (sv_session (snd (chain C n (access_of rt) rt (r\<lparr>rq_path_id := v\<rparr>) s))))"
  by (auto simp: ServeHTTP_def split: option.split prod.split)

lemma ServeHTTP_safe:
  "safe (db (sv_session s)) (db (sv_session (snd (ServeHTTP C n method path r s))))"
  by (auto simp: ServeHTTP_db safe.db_refl chain_safe split: option.split)

end
