(* ===== verification/Retry.thy ===== *)
theory Retry
  imports Golib
begin

text \<open>
  The loops of the program that try again after a failure: the webhook dispatcher's
  \<^verbatim>\<open>deliverWithRetry\<close> and the worker's \<^verbatim>\<open>doWithRetry\<close>. Both run attempts with the
  numbers 0, 1, ... up to a limit, each of which either ends the loop with a result or lets it
  go on. The locale holds what follows from that shape alone.
\<close>

text \<open>What such a loop does to the world, in order.\<close>

datatype step = Pause duration | Attempt nat

definition pauses :: "step list \<Rightarrow> duration list" where
  "pauses es = List.map_filter (\<lambda>e. case e of Pause d \<Rightarrow> Some d | Attempt n \<Rightarrow> None) es"

definition attempts :: "step list \<Rightarrow> nat list" where
  "attempts es = List.map_filter (\<lambda>e. case e of Pause d \<Rightarrow> None | Attempt n \<Rightarrow> Some n) es"

lemma pauses_simps [simp]:
  "pauses [] = []" "pauses (Pause d # es) = d # pauses es" "pauses (Attempt n # es) = pauses es"
  "pauses (es @ fs) = pauses es @ pauses fs"
  by (simp_all add: pauses_def List.map_filter_def)

lemma attempts_simps [simp]:
  "attempts [] = []" "attempts (Pause d # es) = attempts es"
  "attempts (Attempt n # es) = n # attempts es" "attempts (es @ fs) = attempts es @ attempts fs"
  by (simp_all add: attempts_def List.map_filter_def)

text \<open>One exchange with a peer: the request could not be built, no reply came, or a reply with
  a status.\<close>

datatype post_outcome = NoRequest | NoReply | Reply nat

locale retry_loop =
  fixes loop :: "nat \<Rightarrow> step list \<times> 'r"
    and visit :: "nat \<Rightarrow> step list \<times> 'r option"
    and limit :: nat
    and exhausted :: 'r
  assumes over: "n > limit \<Longrightarrow> loop n = ([], exhausted)"
    and stop: "n \<le> limit \<Longrightarrow> visit n = (es, Some r) \<Longrightarrow> loop n = (es, r)"
    and again: "n \<le> limit \<Longrightarrow> visit n = (es, None) \<Longrightarrow>
      loop n = (es @ fst (loop (Suc n)), snd (loop (Suc n)))"
    and one_attempt: "attempts (fst (visit n)) \<in> {[], [n]}"
begin

definition goes_on :: "nat \<Rightarrow> nat \<Rightarrow> bool" where
  "goes_on n k \<longleftrightarrow> (\<forall>i. n \<le> i \<and> i < k \<longrightarrow> snd (visit i) = None)"

text \<open>The loop ends at the first attempt that has a result.\<close>

lemma ends_at:
  assumes "n \<le> k" and "k \<le> limit" and "goes_on n k" and "visit k = (es, Some r)"
  shows "loop n = (concat (map (\<lambda>i. fst (visit i)) [n..<k]) @ es, r)"
  using assms
proof (induction "k - n" arbitrary: n)
  case 0
  then show ?case using stop by simp
next
  case (Suc m)
  then have "n < k" by simp
  then have v: "visit n = (fst (visit n), None)"
    using Suc.prems(3) by (cases "visit n") (force simp: goes_on_def)
  have "goes_on (Suc n) k" using Suc.prems(3) by (simp add: goes_on_def)
  then have "loop (Suc n) = (concat (map (\<lambda>i. fst (visit i)) [Suc n..<k]) @ es, r)"
    using Suc \<open>n < k\<close> by simp
  then show ?case
    using again [OF _ v] Suc.prems(2) \<open>n < k\<close> by (simp add: upt_conv_Cons)
qed

text \<open>It gives up when no attempt has one.\<close>

lemma gives_up:
  assumes "n \<le> Suc limit" and "goes_on n (Suc limit)"
  shows "loop n = (concat (map (\<lambda>i. fst (visit i)) [n..<Suc limit]), exhausted)"
  using assms
proof (induction "Suc limit - n" arbitrary: n)
  case 0
  then show ?case using over by simp
next
  case (Suc m)
  then have "n \<le> limit" by simp
  then have v: "visit n = (fst (visit n), None)"
    using Suc.prems(2) by (cases "visit n") (force simp: goes_on_def)
  have "goes_on (Suc n) (Suc limit)" using Suc.prems(2) by (simp add: goes_on_def)
  then have "loop (Suc n) = (concat (map (\<lambda>i. fst (visit i)) [Suc n..<Suc limit]), exhausted)"
    using Suc \<open>n \<le> limit\<close> by simp
  then show ?case
    using again [OF \<open>n \<le> limit\<close> v] \<open>n \<le> limit\<close> by (simp add: upt_conv_Cons del: upt_Suc)
qed

text \<open>One of the two happens.\<close>

lemma outcome_cases:
  assumes "n \<le> limit"
  obtains (ends) k es r where "n \<le> k" and "k \<le> limit" and "goes_on n k" and "visit k = (es, Some r)"
    and "snd (loop n) = r"
  | (exhausted) "goes_on n (Suc limit)" and "snd (loop n) = exhausted"
proof (cases "goes_on n (Suc limit)")
  case True
  then show ?thesis using that(2) gives_up [of n] assms by simp
next
  case False
  define k where "k = (LEAST i. n \<le> i \<and> i < Suc limit \<and> snd (visit i) \<noteq> None)"
  have ex: "\<exists>i. n \<le> i \<and> i < Suc limit \<and> snd (visit i) \<noteq> None"
    using False by (auto simp: goes_on_def)
  have k: "n \<le> k" "k < Suc limit" "snd (visit k) \<noteq> None"
    using LeastI_ex [OF ex] by (auto simp: k_def)
  have g: "goes_on n k"
    unfolding goes_on_def
  proof (intro allI impI)
    fix i assume i: "n \<le> i \<and> i < k"
    then have "\<not> (n \<le> i \<and> i < Suc limit \<and> snd (visit i) \<noteq> None)"
      unfolding k_def by (intro not_less_Least) simp
    then show "snd (visit i) = None" using i k(2) by simp
  qed
  obtain es r where v: "visit k = (es, Some r)" using k(3) by (cases "visit k") auto
  show ?thesis using that(1) [OF k(1) _ g v] ends_at [OF k(1) _ g v] k(2) by simp
qed

text \<open>Attempts come in order and never beyond the limit.\<close>

lemma attempts_ordered: "sorted_wrt (<) (attempts (fst (loop n))) \<and> set (attempts (fst (loop n))) \<subseteq> {n..limit}"
proof (induction "Suc limit - n" arbitrary: n)
  case 0
  then show ?case using over by simp
next
  case (Suc m)
  then have n: "n \<le> limit" by simp
  obtain es v where vis: "visit n = (es, v)" by (cases "visit n")
  have es: "attempts es \<in> {[], [n]}" using one_attempt [of n] vis by simp
  show ?case
  proof (cases v)
    case None
    have "sorted_wrt (<) (attempts (fst (loop (Suc n)))) \<and>
        set (attempts (fst (loop (Suc n)))) \<subseteq> {Suc n..limit}"
      using Suc by (intro Suc.hyps(1)) simp
    then show ?thesis using again [OF n] vis None es n by (auto simp: sorted_wrt_append)
  next
    case (Some r)
    then show ?thesis using stop [OF n] vis es n by auto
  qed
qed

lemma attempts_bounded: "length (attempts (fst (loop 0))) \<le> Suc limit"
proof -
  have "distinct (attempts (fst (loop 0)))"
    using attempts_ordered [of 0] by (simp add: strict_sorted_iff)
  then have "length (attempts (fst (loop 0))) = card (set (attempts (fst (loop 0))))"
    by (simp add: distinct_card)
  also have "\<dots> \<le> card {0..limit}" using attempts_ordered [of 0] by (intro card_mono) auto
  finally show ?thesis by simp
qed

text \<open>The time spent waiting is at most what all visits together wait.\<close>

lemma pauses_bounded:
  assumes nn: "\<And>i p. p \<in> set (pauses (fst (visit i))) \<Longrightarrow> 0 \<le> p"
  shows "sum_list (pauses (fst (loop n))) \<le> (\<Sum>i \<leftarrow> [n..<Suc limit]. sum_list (pauses (fst (visit i))))"
proof (induction "Suc limit - n" arbitrary: n)
  case 0
  then show ?case using over by simp
next
  case (Suc m)
  then have n: "n \<le> limit" by simp
  obtain es v where vis: "visit n = (es, v)" by (cases "visit n")
  have up: "[n..<Suc limit] = n # [Suc n..<Suc limit]" using n by (simp add: upt_conv_Cons del: upt_Suc)
  have rest: "0 \<le> (\<Sum>i \<leftarrow> [Suc n..<Suc limit]. sum_list (pauses (fst (visit i))))"
    using nn by (intro sum_list_nonneg) (auto intro: sum_list_nonneg)
  show ?case
  proof (cases v)
    case None
    have "sum_list (pauses (fst (loop (Suc n)))) \<le>
        (\<Sum>i \<leftarrow> [Suc n..<Suc limit]. sum_list (pauses (fst (visit i))))"
      using Suc by (intro Suc.hyps(1)) simp
    then show ?thesis using again [OF n] vis None unfolding up by simp
  next
    case (Some r)
    then show ?thesis using stop [OF n] vis rest unfolding up by simp
  qed
qed

end

end
