(* ===== verification/Webhook.thy ===== *)
theory Webhook
  imports Retry Handlers
begin

text \<open>
  The webhook dispatcher of \<^verbatim>\<open>internal/controller/webhook/webhook.go\<close>: the payload it
  builds, one POST and the classification of its outcome, the retry loop, and the goroutine of
  \<^verbatim>\<open>Deliver\<close> with the status it stores. The peer is a function from the number of the
  attempt to what comes back.
\<close>

definition webhook_maxRetries :: nat where
  "webhook_maxRetries = 3"

definition webhook_maxConcurrent :: nat where
  "webhook_maxConcurrent = 10"

definition retryBackoffs :: "duration list" where
  "retryBackoffs = [1 * second, 5 * second, 25 * second]"

section \<open>The payload\<close>

text \<open>Go's integer division truncates towards zero.\<close>

definition go_div :: "int \<Rightarrow> int \<Rightarrow> int" where
  "go_div a b = sgn a * sgn b * (\<bar>a\<bar> div \<bar>b\<bar>)"

definition event_of :: "execution \<Rightarrow> string" where
  "event_of e = (if ex_Status e = ExecutionStatusFailed then ''execution.failed''
     else ''execution.completed'')"

definition duration_ms :: "execution \<Rightarrow> int" where
  "duration_ms e =
     (case (ex_StartedAt e, ex_CompletedAt e) of
        (Some s, Some c) \<Rightarrow> go_div (c - s) millisecond
      | _ \<Rightarrow> 0)"

definition buildPayload :: "externals \<Rightarrow> time \<Rightarrow> execution \<Rightarrow> json option" where
  "buildPayload E now e = map_option (\<lambda>at. JObj (
     [(''event'', JStr (event_of e)), (''execution_id'', enc_uuid E (ex_ID e)),
      (''job_id'', enc_uuid E (ex_JobID e)), (''status'', JStr (status_string (ex_Status e)))] @
     omit_if (ex_ExitCode e = None) ''exit_code'' (enc_int_ptr (ex_ExitCode e)) @
     omit_if (ex_Result e = None) ''result'' (enc_raw (ex_Result e)) @
     [(''duration'', JNum (duration_ms e)), (''timestamp'', at)])) (enc_time now)"

text \<open>The custom headers: a map of strings; an entry of another type is left empty, and
  anything but an object leaves no headers.\<close>

definition custom_headers :: "execution \<Rightarrow> string_map" where
  "custom_headers e =
     (case ex_CallbackHeaders e of
        Some (JObj kvs) \<Rightarrow> fold (\<lambda>(k, v) m. AList.update k
          (case dec_string [] v of None \<Rightarrow> [] | Some s \<Rightarrow> s) m) kvs []
      | _ \<Rightarrow> [])"

section \<open>One attempt\<close>

datatype delivery_error = PlainError | DeliveryError nat bool

definition retryable_status :: "nat \<Rightarrow> bool" where
  "retryable_status c \<longleftrightarrow> c \<ge> 500 \<or> c = 429"

fun doPost :: "post_outcome \<Rightarrow> delivery_error option" where
  "doPost NoRequest = Some PlainError"
| "doPost NoReply = Some (DeliveryError 0 True)"
| "doPost (Reply c) = (if 200 \<le> c \<and> c < 300 then None else Some (DeliveryError c (retryable_status c)))"

text \<open>Only a delivery error can stop the loop; any other error is tried again.\<close>

fun gives_up :: "delivery_error \<Rightarrow> bool" where
  "gives_up PlainError = False"
| "gives_up (DeliveryError c retryable) = (\<not> retryable)"

section \<open>The retry loop\<close>

definition backoff_before :: "nat \<Rightarrow> step list" where
  "backoff_before n = (if n > 0 then [Pause (retryBackoffs ! (n - 1))] else [])"

function deliver_from :: "(nat \<Rightarrow> post_outcome) \<Rightarrow> nat \<Rightarrow> step list \<times> bool" where
  "deliver_from peer n =
     (if n \<le> webhook_maxRetries then
        (case doPost (peer n) of
           None \<Rightarrow> (backoff_before n @ [Attempt n], True)
         | Some err \<Rightarrow>
             if gives_up err then (backoff_before n @ [Attempt n], False)
             else (case deliver_from peer (Suc n) of
                     (es, ok) \<Rightarrow> (backoff_before n @ [Attempt n] @ es, ok)))
      else ([], False))"
  by pat_completeness auto
termination by (relation "measure (\<lambda>(peer, n). Suc webhook_maxRetries - n)") auto

declare deliver_from.simps [simp del]

definition deliverWithRetry :: "(nat \<Rightarrow> post_outcome) \<Rightarrow> step list \<times> bool" where
  "deliverWithRetry peer = deliver_from peer 0"

text \<open>What \<^verbatim>\<open>Deliver\<close> does with an execution: nothing without a URL, otherwise the
  deliveries and the status that ends them.\<close>

definition deliverable :: "execution \<Rightarrow> bool" where
  "deliverable e \<longleftrightarrow> (\<exists>u. ex_CallbackURL e = Some u \<and> u \<noteq> [])"

definition callback_status_of :: "bool \<Rightarrow> CallbackStatus" where
  "callback_status_of delivered = (if delivered then CallbackStatusDelivered else CallbackStatusFailed)"

definition deliver_goroutine :: "(nat \<Rightarrow> post_outcome) \<Rightarrow> execution \<Rightarrow> unit sql" where
  "deliver_goroutine peer e =
     UpdateCallbackStatus (ex_ID e) (callback_status_of (snd (deliverWithRetry peer)))"

section \<open>The loop as a retry loop\<close>

definition visit_peer :: "(nat \<Rightarrow> post_outcome) \<Rightarrow> nat \<Rightarrow> step list \<times> bool option" where
  "visit_peer peer n = (backoff_before n @ [Attempt n],
     case doPost (peer n) of None \<Rightarrow> Some True
     | Some err \<Rightarrow> if gives_up err then Some False else None)"

interpretation webhook: retry_loop "deliver_from peer" "visit_peer peer" webhook_maxRetries False
proof unfold_locales
  fix n es r
  show "n > webhook_maxRetries \<Longrightarrow> deliver_from peer n = ([], False)"
    by (subst deliver_from.simps) simp
  show "n \<le> webhook_maxRetries \<Longrightarrow> visit_peer peer n = (es, Some r) \<Longrightarrow> deliver_from peer n = (es, r)"
    by (subst deliver_from.simps) (auto simp: visit_peer_def split: option.splits if_splits)
  show "n \<le> webhook_maxRetries \<Longrightarrow> visit_peer peer n = (es, None) \<Longrightarrow>
      deliver_from peer n = (es @ fst (deliver_from peer (Suc n)), snd (deliver_from peer (Suc n)))"
    by (subst deliver_from.simps) (auto simp: visit_peer_def split: option.splits if_splits prod.splits)
  show "attempts (fst (visit_peer peer n)) \<in> {[], [n]}"
    by (simp add: visit_peer_def backoff_before_def)
qed

lemma doPost_cases:
  "doPost p = None \<longleftrightarrow> (\<exists>c. p = Reply c \<and> 200 \<le> c \<and> c < 300)"
  "(\<exists>err. doPost p = Some err \<and> gives_up err) \<longleftrightarrow>
     (\<exists>c. p = Reply c \<and> \<not> (200 \<le> c \<and> c < 300) \<and> \<not> retryable_status c)"
  by (cases p; simp)+

text \<open>Delivered: some attempt met a success and all before it a failure worth a retry.\<close>

definition worth_retry :: "post_outcome \<Rightarrow> bool" where
  "worth_retry p \<longleftrightarrow> (case p of NoRequest \<Rightarrow> True | NoReply \<Rightarrow> True
     | Reply c \<Rightarrow> \<not> (200 \<le> c \<and> c < 300) \<and> retryable_status c)"

lemma visit_goes_on: "snd (visit_peer peer n) = None \<longleftrightarrow> worth_retry (peer n)"
  by (cases "peer n") (auto simp: visit_peer_def worth_retry_def)

text \<open>C35: A webhook counts as delivered exactly when one of the at most four attempts is answered
  with a status from 200 to 299 and every attempt before it failed in a way worth a retry: no
  reply, a status of 500 and above, or 429; a status like 404 ends the delivery.\<close>

theorem delivered_iff:
  "snd (deliverWithRetry peer) \<longleftrightarrow>
     (\<exists>k \<le> webhook_maxRetries. (\<exists>c. peer k = Reply c \<and> 200 \<le> c \<and> c < 300) \<and>
        (\<forall>i < k. worth_retry (peer i)))" (is "_ \<longleftrightarrow> ?R")
proof
  assume d: "snd (deliverWithRetry peer)"
  have "0 \<le> webhook_maxRetries" by simp
  then show ?R
  proof (cases rule: webhook.outcome_cases [of 0 peer])
    case (ends k es r)
    then have "r" using d by (simp add: deliverWithRetry_def)
    then show ?thesis
      using ends doPost_cases(1) [of "peer k"] visit_goes_on
      by (auto simp: visit_peer_def webhook.goes_on_def split: option.splits if_splits)
  next
    case exhausted
    then show ?thesis using d by (simp add: deliverWithRetry_def)
  qed
next
  assume ?R
  then obtain k c where k: "k \<le> webhook_maxRetries" "peer k = Reply c" "200 \<le> c" "c < 300"
    "\<forall>i < k. worth_retry (peer i)" by blast
  have "visit_peer peer k = (backoff_before k @ [Attempt k], Some True)"
    using k(2-4) by (simp add: visit_peer_def)
  moreover have "webhook.goes_on peer 0 k" using k(5) visit_goes_on by (simp add: webhook.goes_on_def)
  ultimately show "snd (deliverWithRetry peer)"
    using webhook.ends_at [of 0 k peer] k(1) by (simp add: deliverWithRetry_def)
qed

text \<open>A peer that never answers is tried four times, one, five and twenty-five seconds
  apart, and the delivery has failed.\<close>

lemma unreachable_schedule:
  assumes "\<forall>i \<le> webhook_maxRetries. worth_retry (peer i)"
  shows "deliverWithRetry peer =
     ([Attempt 0, Pause (1 * second), Attempt 1, Pause (5 * second), Attempt 2, Pause (25 * second),
       Attempt 3], False)"
proof -
  have "webhook.goes_on peer 0 (Suc webhook_maxRetries)"
    using assms visit_goes_on by (simp add: webhook.goes_on_def)
  then show ?thesis
    using webhook.gives_up [of 0 peer]
    by (simp add: deliverWithRetry_def webhook_maxRetries_def visit_peer_def backoff_before_def
        retryBackoffs_def upt_rec numeral_nat)
qed

lemma keeps_deliver_goroutine_db:
  "deliver_goroutine peer e s = (Inr u, t) \<Longrightarrow>
   executions (db t) = update_where (\<lambda>x. ex_ID x = ex_ID e)
     (\<lambda>x. x\<lparr>ex_CallbackStatus := Some (callback_status_of (snd (deliverWithRetry peer)))\<rparr>)
     (executions (db s))"
  by (auto simp: deliver_goroutine_def UpdateCallbackStatus_def dest!: exec_Inr)

end
