(* ===== verification/System.thy ===== *)
theory System
  imports Handlers_Safe Webhook
begin

text \<open>
  The control plane as a whole: the server that answers requests, the goroutines its result
  handler starts, and the dispatcher with its ten slots, as a step relation. A step is one
  request served or, in the background, one callback looked up, one slot taken, one delivery
  finished, or the connection to the database changing its mood. The peers, the clocks and the fates of the
  round trips are arbitrary at every step.
\<close>

record 'l system =
  sy_server :: "'l server"
  sy_triggered :: "uuid list"
  sy_waiting :: "execution list"
  sy_sending :: "execution list"

definition sy_db :: "'l system \<Rightarrow> database" where
  "sy_db s = db (sv_session (sy_server s))"

text \<open>The lookup of \<^verbatim>\<open>triggerWebhook\<close> and the guard of \<^verbatim>\<open>Deliver\<close>.\<close>

definition spawned :: "sql_error + execution option \<Rightarrow> execution list" where
  "spawned res = (case res of Inr (Some e) \<Rightarrow> if deliverable e then [e] else [] | _ \<Rightarrow> [])"

inductive background_step :: "'l system \<Rightarrow> 'l system \<Rightarrow> bool" where
  trigger: "sy_triggered s = xs @ eid # ys \<Longrightarrow>
    on_session (triggerWebhook eid) (sy_server s) = (res, v) \<Longrightarrow>
    background_step s (s\<lparr>sy_server := v, sy_triggered := xs @ ys, sy_waiting := sy_waiting s @ spawned res\<rparr>)"
| acquire: "sy_waiting s = xs @ e # ys \<Longrightarrow> length (sy_sending s) < webhook_maxConcurrent \<Longrightarrow>
    background_step s (s\<lparr>sy_waiting := xs @ ys, sy_sending := sy_sending s @ [e]\<rparr>)"
| delivered: "sy_sending s = xs @ e # ys \<Longrightarrow>
    on_session (deliver_goroutine peer e) (sy_server s) = (res, v) \<Longrightarrow>
    background_step s (s\<lparr>sy_server := v, sy_sending := xs @ ys\<rparr>)"
| connection: "background_step s (s\<lparr>sy_server := (sy_server s)\<lparr>sv_session :=
    (sv_session (sy_server s))\<lparr>fates := fs\<rparr>\<rparr>\<rparr>)"

inductive sys_step :: "'l controller \<Rightarrow> 'l system \<Rightarrow> 'l system \<Rightarrow> bool" for C where
  request: "ServeHTTP C n method path r (sy_server s) = ((resp, hooks), v) \<Longrightarrow>
    sys_step C s (s\<lparr>sy_server := v, sy_triggered := sy_triggered s @ hooks\<rparr>)"
| background: "background_step s t \<Longrightarrow> sys_step C s t"

inductive_cases sys_stepE: "sys_step C s t"

definition boot :: "'l system" where
  "boot = \<lparr>sy_server = \<lparr>sv_session = calm empty_db, sv_limiters = (\<lambda>_. None)\<rparr>,
     sy_triggered = [], sy_waiting = [], sy_sending = []\<rparr>"

inductive sys_reach :: "'l controller \<Rightarrow> 'l system \<Rightarrow> 'l system \<Rightarrow> bool" for C where
  here: "sys_reach C s s"
| further: "sys_reach C s t \<Longrightarrow> sys_step C t u \<Longrightarrow> sys_reach C s u"

lemma sys_reach_trans: "sys_reach C s t \<Longrightarrow> sys_reach C t u \<Longrightarrow> sys_reach C s u"
  by (rotate_tac 1, induction rule: sys_reach.induct) (auto intro: sys_reach.intros)

section \<open>Steps are safe\<close>

lemma keeps_triggerWebhook: "keeps (on_db safe) (triggerWebhook eid)"
  unfolding triggerWebhook_def
  by (intro safe.keeps_and_then keeps_store keeps_if safe.keeps_ret)

lemma on_session_keeps:
  assumes "keeps (on_db safe) m" and "on_session m v = (x, w)"
  shows "safe (db (sv_session v)) (db (sv_session w))"
  using on_session_db [of safe m v] assms by (simp add: keeps_def on_db_def)

lemma background_step_safe: "background_step s t \<Longrightarrow> safe (sy_db s) (sy_db t)"
proof (induction rule: background_step.induct)
  case (trigger s xs eid ys res v)
  then show ?case using on_session_keeps [OF keeps_triggerWebhook] by (simp add: sy_db_def)
next
  case (acquire s xs e ys)
  then show ?case by (simp add: sy_db_def safe.db_refl)
next
  case (delivered s xs e ys peer res v)
  have "keeps (on_db safe) (deliver_goroutine peer e)"
    unfolding deliver_goroutine_def by (rule keeps_store)
  then show ?case using delivered on_session_keeps by (simp add: sy_db_def)
next
  case (connection s fs)
  then show ?case by (simp add: sy_db_def safe.db_refl)
qed

lemma sys_step_safe: "sys_step C s t \<Longrightarrow> safe (sy_db s) (sy_db t)"
proof (induction rule: sys_step.induct)
  case (request n meth path r s resp hooks v)
  then show ?case using ServeHTTP_safe [of "sy_server s" C n meth path r] by (simp add: sy_db_def)
qed (rule background_step_safe)

lemma sys_reach_safe: "sys_reach C s t \<Longrightarrow> safe (sy_db s) (sy_db t)"
  by (induction rule: sys_reach.induct) (auto intro: safe.db_refl safe.db_trans sys_step_safe)

lemma boot_inv: "db_inv (sy_db boot)"
  by (simp add: boot_def sy_db_def db_inv_empty)

lemma reachable_inv: "sys_reach C boot s \<Longrightarrow> db_inv (sy_db s)"
  using sys_reach_safe [of C boot s] by (simp add: safe_def boot_inv)

section \<open>The dispatcher\<close>

text \<open>An execution handed to the dispatcher was read back: it has a result and a URL, and it
  was over.\<close>

definition callback_ready :: "execution \<Rightarrow> bool" where
  "callback_ready e \<longleftrightarrow> deliverable e \<and> ex_Result e \<noteq> None \<and> terminal (ex_Status e)"

lemma GetExecutionByID_Inr:
  "GetExecutionByID eid s = (Inr e, t) \<Longrightarrow>
   find_execution (db s) eid = Some e \<and> ex_Result e \<noteq> None \<and> ex_CallbackHeaders e \<noteq> None \<and> db t = db s"
  by (auto simp: GetExecutionByID_def scan_raw_def dest!: query_Inr split: option.splits sum.splits)

lemma triggered_ready:
  assumes inv: "db_inv (db s)" and res: "triggerWebhook eid s = (r, t)" and e: "e \<in> set (spawned r)"
  shows "callback_ready e \<and> ex_ID e = eid"
proof -
  have r: "r = Inr (Some e)" and d: "deliverable e"
    using e by (auto simp: spawned_def split: sum.splits option.splits if_splits)
  then obtain u where "GetExecutionByID eid s = (Inr e, u)"
    using res by (auto simp: triggerWebhook_def ret_apply elim!: and_then_InrE split: if_splits)
  from GetExecutionByID_Inr [OF this] have f: "find_execution (db s) eid = Some e" "ex_Result e \<noteq> None"
    by simp_all
  then have "e \<in> set (executions (db s))" "ex_ID e = eid"
    by (auto simp: find_execution_def dest: find_SomeD)
  with f d inv show ?thesis by (auto simp: callback_ready_def db_inv_defs)
qed

definition dispatcher_inv :: "'l system \<Rightarrow> bool" where
  "dispatcher_inv s \<longleftrightarrow> length (sy_sending s) \<le> webhook_maxConcurrent \<and>
     (\<forall>e \<in> set (sy_waiting s) \<union> set (sy_sending s). callback_ready e)"

lemma background_step_dispatcher:
  "background_step s t \<Longrightarrow> db_inv (sy_db s) \<Longrightarrow> dispatcher_inv s \<Longrightarrow> dispatcher_inv t"
proof (induction rule: background_step.induct)
  case (trigger s xs eid ys res v)
  obtain w where "triggerWebhook eid (sv_session (sy_server s)) = (res, w)"
    using trigger(2) by (auto simp: on_session_def split: prod.splits)
  then have "\<forall>e \<in> set (spawned res). callback_ready e"
    using trigger.prems(1) triggered_ready by (auto simp: sy_db_def)
  then show ?case using trigger.prems(2) by (auto simp: dispatcher_inv_def)
qed (auto simp: dispatcher_inv_def)

lemma sys_step_dispatcher:
  "sys_step C s t \<Longrightarrow> db_inv (sy_db s) \<Longrightarrow> dispatcher_inv s \<Longrightarrow> dispatcher_inv t"
proof (induction rule: sys_step.induct)
  case (request n meth path r s resp hooks v)
  then show ?case by (simp add: dispatcher_inv_def)
qed (rule background_step_dispatcher)

lemma reachable_dispatcher: "sys_reach C boot s \<Longrightarrow> dispatcher_inv s"
proof -
  assume "sys_reach C boot s"
  then have "db_inv (sy_db s) \<and> dispatcher_inv s"
  proof (induction "boot :: 'a system" s rule: sys_reach.induct)
    case here
    show ?case using boot_inv by (simp add: dispatcher_inv_def boot_def)
  next
    case (further t u)
    then show ?case using sys_step_safe [of C t u] sys_step_dispatcher [of C t u] by (auto simp: safe_def)
  qed
  then show ?thesis by simp
qed

section \<open>What stays as it was\<close>

text \<open>The columns no statement updates: an execution found later has those it had.\<close>

lemma grows_identity:
  assumes g: "grows d d'" and i: "executions_ok d'" and e: "e \<in> set (executions d)"
    and e': "find_execution d' (ex_ID e) = Some e'"
  shows "identity_of e' = identity_of e"
proof -
  have "identity_of e \<in> set (map identity_of (executions d))" using e by simp
  then have "identity_of e \<in> set (map identity_of (executions d'))"
    using g set_mono_prefix unfolding grows_def by blast
  then obtain e2 where e2: "e2 \<in> set (executions d')" "identity_of e2 = identity_of e" by auto
  then have "ex_ID e2 = ex_ID e" by (simp add: identity_of_def)
  then have "find_execution d' (ex_ID e) = Some e2" using e2(1) i find_execution_Some by blast
  then show ?thesis using e' e2(2) by simp
qed

lemma grows_keeps_execution:
  assumes "grows d d'" and "executions_ok d'" and "e \<in> set (executions d)"
  obtains e' where "find_execution d' (ex_ID e) = Some e'" and "identity_of e' = identity_of e"
proof -
  have "identity_of e \<in> set (map identity_of (executions d))" using assms(3) by simp
  then have "identity_of e \<in> set (map identity_of (executions d'))"
    using assms(1) set_mono_prefix unfolding grows_def by blast
  then obtain e2 where "e2 \<in> set (executions d')" "identity_of e2 = identity_of e" by auto
  moreover from this have "ex_ID e2 = ex_ID e" by (simp add: identity_of_def)
  ultimately show ?thesis using that assms(2) find_execution_Some by blast
qed

end
