(* ===== verification/Queue_Theorems.thy ===== *)
theory Queue_Theorems
  imports System "HOL-Library.Multiset"
begin

text \<open>
  What the queue promises: a claim takes the best claimable rows and nobody else gets them until
  they time out, failures are retried with a growing delay and end in the dead letter queue,
  and what is left behind when the connection fails between two statements.
\<close>

section \<open>Claiming\<close>

lemma take_sorted_best:
  fixes k :: "'a \<Rightarrow> 'k::linorder"
  assumes "x \<in> set (take n (sort_key k xs))" and "y \<in> set (drop n (sort_key k xs))"
  shows "k x \<le> k y"
proof -
  have "sorted (map k (take n (sort_key k xs) @ drop n (sort_key k xs)))" by simp
  then show ?thesis using assms unfolding map_append sorted_append by auto
qed

text \<open>The higher priority goes first and, among equals, the older row.\<close>

definition goes_before :: "queue_row \<Rightarrow> queue_row \<Rightarrow> bool" where
  "goes_before x y \<longleftrightarrow> qr_priority x > qr_priority y \<or>
     qr_priority x = qr_priority y \<and> qr_created_at x \<le> qr_created_at y"

definition best_first :: "queue_row list \<Rightarrow> queue_row list \<Rightarrow> bool" where
  "best_first rows rest \<longleftrightarrow> sorted_wrt goes_before rows \<and> (\<forall>x \<in> set rows. \<forall>y \<in> set rest. goes_before x y)"

lemma goes_before_key: "goes_before x y \<longleftrightarrow> dequeue_key x \<le> dequeue_key y"
  by (auto simp: goes_before_def dequeue_key_def)

lemma sorted_goes_before: "sorted_wrt goes_before rows \<longleftrightarrow> sorted (map dequeue_key rows)"
  by (simp add: sorted_wrt_map goes_before_key [abs_def])

lemma select_batch_split:
  obtains rest where "mset (select_batch now locked tids n d @ rest) = mset (filter (claimable now locked tids) (queue d))"
    and "best_first (select_batch now locked tids n d) rest"
    and "length (select_batch now locked tids n d) =
      min (nat n) (length (filter (claimable now locked tids) (queue d)))"
proof -
  let ?s = "sort_key dequeue_key (filter (claimable now locked tids) (queue d))"
  have app: "select_batch now locked tids n d @ drop (nat n) ?s = ?s" by (simp add: select_batch_def)
  have "mset (select_batch now locked tids n d @ drop (nat n) ?s) = mset (filter (claimable now locked tids) (queue d))"
    unfolding app by simp
  moreover have "best_first (select_batch now locked tids n d) (drop (nat n) ?s)"
    unfolding best_first_def sorted_goes_before goes_before_key select_batch_def
    using take_sorted_best [of _ "nat n" dequeue_key "filter (claimable now locked tids) (queue d)"]
    by (auto simp: take_map [symmetric] intro: sorted_wrt_take)
  moreover have "length (select_batch now locked tids n d) =
      min (nat n) (length (filter (claimable now locked tids) (queue d)))"
    by (simp add: select_batch_def min.commute)
  ultimately show ?thesis by (rule that)
qed

definition at_least_one :: "int \<Rightarrow> int" where
  "at_least_one n = (if n \<le> 0 then 1 else n)"

text \<open>The outcomes of a claim: the batch and its effect, or an error with all or nothing of it.\<close>

definition claim_body ::
    "clocks \<Rightarrow> int list \<Rightarrow> uuid list \<Rightarrow> int \<Rightarrow> (sql_error + QueueItem list, QueueItem list, session) prog" where
  "claim_body clk locked tids n =
     and_then (on_error Inl (query (\<lambda>d. Inr (select_batch (db_now clk) locked tids n d)))) (\<lambda>rows.
     if rows = [] then throw (Inr [])
     else
       (let ids = map qr_id rows in
        and_then (on_error Inl (exec (\<lambda>d. Inr (bump_claimed (db_now clk) ids d)))) (\<lambda>_.
        and_then (on_error Inl (exec (\<lambda>d. Inr (start_claimed (db_now clk) ids d)))) (\<lambda>_.
        ret (map queue_item rows)))))"

lemma DequeueBatch_eq:
  "DequeueBatch clk locked tids limit =
     early (with_tx (Inl ErrConn) (Inl ErrConn) (claim_body clk locked tids (at_least_one limit)))"
  by (simp add: DequeueBatch_def claim_body_def at_least_one_def Let_def)

lemma claim_none: "claim now [] d = d"
proof -
  have "find (\<lambda>q. False) qs = None" for qs :: "queue_row list" by (induction qs) simp_all
  then show ?thesis
    by (simp add: claim_eq claimed_execution_def [abs_def] mark_running_def bumped_def [abs_def])
qed

lemma claim_body_Inr:
  assumes "claim_body clk locked tids n s = (Inr items, t)"
  shows "items = map queue_item (select_batch (db_now clk) locked tids n (db s))"
    and "db t = claim (db_now clk) (map qr_id (select_batch (db_now clk) locked tids n (db s))) (db s)"
  using assms
  by (auto simp: claim_body_def Let_def claim_def ret_apply throw_apply split: if_splits
      elim!: and_then_InrE dest!: on_error_InrD query_Inr exec_Inr)

lemma claim_body_early:
  assumes "claim_body clk locked tids n s = (Inl (Inr items), t)"
  shows "items = [] \<and> select_batch (db_now clk) locked tids n (db s) = []"
  using assms
  by (auto simp: claim_body_def Let_def and_then_def on_error_def ret_apply throw_apply
      dest!: query_Inr split: if_splits prod.splits sum.splits)

lemma claim_tables: "tenants (claim now ids d) = tenants d" "jobs (claim now ids d) = jobs d"
  "dlq (claim now ids d) = dlq d" "logs (claim now ids d) = logs d"
  "queue_seq (claim now ids d) = queue_seq d" "dlq_seq (claim now ids d) = dlq_seq d"
  "logs_seq (claim now ids d) = logs_seq d"
  by (simp_all add: claim_eq)

lemma DequeueBatch_Inr:
  assumes d: "DequeueBatch clk locked tids limit s = (Inr items, t)"
  shows "items = map queue_item (select_batch (db_now clk) locked tids (at_least_one limit) (db s))"
    and "db t = claim (db_now clk)
      (map qr_id (select_batch (db_now clk) locked tids (at_least_one limit) (db s))) (db s)"
proof -
  let ?b = "claim_body clk locked tids (at_least_one limit)"
  let ?w = "with_tx (Inl ErrConn) (Inl ErrConn) ?b s"
  consider "?w = (Inr items, t)" | "?w = (Inl (Inr items), t)"
    using d by (auto simp: DequeueBatch_eq early_def split: prod.splits sum.splits)
  then have "items = map queue_item (select_batch (db_now clk) locked tids (at_least_one limit) (db s)) \<and>
    db t = claim (db_now clk)
      (map qr_id (select_batch (db_now clk) locked tids (at_least_one limit) (db s))) (db s)"
  proof cases
    case 1
    then obtain s0 s1 where "db s0 = db s" "?b s0 = (Inr items, s1)" "db t = db s1"
      by (rule with_tx_Inr)
    then show ?thesis using claim_body_Inr [of clk locked tids _ s0 items s1] by simp
  next
    case 2
    obtain r0 s0 where b0: "begin_tx s = (r0, s0)" by (cases "begin_tx s")
    have d0: "db s0 = db s" using b0 db_query [of "\<lambda>d. Inr ()" s] by (simp add: begin_tx_def)
    obtain r1 s1 where m: "?b s0 = (r1, s1)" by (cases "?b s0")
    have b: "db s0 = db s" "?b s0 = (Inl (Inr items), s1)" "t = rollback (db s0) s1"
      using 2 b0 m d0 by (auto simp: with_tx_def split: sum.splits fate.splits)
    have e: "items = []" "select_batch (db_now clk) locked tids (at_least_one limit) (db s) = []"
      using claim_body_early [OF b(2)] b(1) by simp_all
    have "s1 = spend s0 \<or> db s1 = db s0"
      using b(2) e(2) b(1)
      by (auto simp: claim_body_def and_then_def on_error_def throw_apply dest!: query_Inr
          split: prod.splits sum.splits if_splits)
    then show ?thesis using b e by (auto simp: rollback_def claim_none)
  qed
  then show "items = map queue_item (select_batch (db_now clk) locked tids (at_least_one limit) (db s))"
    and "db t = claim (db_now clk)
      (map qr_id (select_batch (db_now clk) locked tids (at_least_one limit) (db s))) (db s)"
    by simp_all
qed

lemma no_sequences_restore:
  "queue_seq d = queue_seq a \<Longrightarrow> dlq_seq d = dlq_seq a \<Longrightarrow> logs_seq d = logs_seq a \<Longrightarrow> restore a d = a"
  by (simp add: restore_def)

lemma select_batch_in_queue: "q \<in> set (select_batch now locked tids n d) \<Longrightarrow> q \<in> set (queue d) \<and> claimable now locked tids q"
  by (auto simp: select_batch_def dest!: in_set_takeD)

lemma find_queued_claim:
  assumes "queue_ok d" and "find_queued d eid = Some q"
  shows "find_queued (claim now ids d) eid = Some (bumped now ids q)"
proof -
  have "find (\<lambda>x. qr_execution_id x = eid) (map (bumped now ids) qs) =
      map_option (bumped now ids) (find (\<lambda>x. qr_execution_id x = eid) qs)" for qs
    by (induction qs) simp_all
  then show ?thesis using assms(2) by (simp add: find_queued_def claim_eq)
qed

lemma find_execution_claim:
  assumes inv: "db_inv d" and q: "find_queued d eid = Some q" and e: "find_execution d eid = Some e"
  shows "find_execution (claim now ids d) eid =
    Some (if qr_id q \<in> set ids then mark_running now (Some (bumped now ids q)) e else e)"
proof -
  have qs: "queue_ok d" "executions_ok d" using inv by (simp_all add: db_inv_def)
  have q': "q \<in> set (queue d)" "qr_execution_id q = eid" using q qs find_queued_Some by blast+
  have e': "ex_ID e = eid" using e qs find_execution_Some by blast
  have "find (\<lambda>x. ex_ID x = eid) (map (claimed_execution now ids d) es) =
      map_option (claimed_execution now ids d) (find (\<lambda>x. ex_ID x = eid) es)" for es
    by (induction es) simp_all
  then have "find_execution (claim now ids d) eid = Some (claimed_execution now ids d e)"
    using e by (simp add: find_execution_def claim_eq)
  moreover have "claimed_execution now ids d e =
      (if qr_id q \<in> set ids then mark_running now (Some (bumped now ids q)) e else e)"
    using find_claimed_row [OF qs(1) q'(1), of ids] q'(2) e'
    by (simp add: claimed_execution_def mark_running_def)
  ultimately show ?thesis by simp
qed

text \<open>C4: A successful dequeue hands out the highest priorities first and, among equals, the
  oldest rows: as many as the limit allows of the rows that are visible, of a requested tenant
  and not locked; and exactly those count one attempt more and are hidden for the visibility
  timeout.\<close>

theorem dequeue_takes_best:
  assumes "DequeueBatch clk locked tids limit s = (Inr items, t)"
  shows "\<exists>rows rest. items = map queue_item rows \<and>
    mset (rows @ rest) = mset (filter (\<lambda>q. qr_visible_after q \<le> db_now clk \<and>
      (tids = [] \<or> qr_tenant_id q \<in> set tids) \<and> qr_id q \<notin> set locked) (queue (db s))) \<and>
    best_first rows rest \<and>
    length rows = min (nat (at_least_one limit)) (length rows + length rest) \<and>
    queue (db t) = map (\<lambda>q. if qr_id q \<in> set (map qr_id rows)
      then q\<lparr>qr_attempt := qr_attempt q + 1, qr_visible_after := db_now clk + VisibilityTimeout\<rparr> else q) (queue (db s))"
proof -
  let ?rows = "select_batch (db_now clk) locked tids (at_least_one limit) (db s)"
  obtain rest where r: "mset (?rows @ rest) = mset (filter (claimable (db_now clk) locked tids) (queue (db s)))"
    "best_first ?rows rest"
    "length ?rows = min (nat (at_least_one limit)) (length (filter (claimable (db_now clk) locked tids) (queue (db s))))"
    by (rule select_batch_split)
  have "length (filter (claimable (db_now clk) locked tids) (queue (db s))) = length ?rows + length rest"
    using r(1) by (metis length_append size_mset)
  then have "length ?rows = min (nat (at_least_one limit)) (length ?rows + length rest)"
    using r(3) by simp
  moreover have "queue (db t) = map (\<lambda>q. if qr_id q \<in> set (map qr_id ?rows)
      then q\<lparr>qr_attempt := qr_attempt q + 1, qr_visible_after := db_now clk + VisibilityTimeout\<rparr> else q) (queue (db s))"
    using DequeueBatch_Inr(2) [OF assms] by (simp add: claim_def start_claimed_def bump_claimed_def update_where_def)
  ultimately show ?thesis
    using r(1,2) DequeueBatch_Inr(1) [OF assms] unfolding claimable_def [abs_def] by blast
qed

text \<open>What a claim does to one queued execution: a claimed row has one attempt more and is
  hidden for the visibility timeout, its execution is running with that attempt and keeps its
  first start; a row that was not claimed and its execution are as before.\<close>

lemma claim_effect:
  assumes "db_inv d" and "find_queued d eid = Some q" and "find_execution d eid = Some e"
  shows "find_queued (claim now ids d) eid = Some (if qr_id q \<in> set ids
      then q\<lparr>qr_attempt := qr_attempt q + 1, qr_visible_after := now + VisibilityTimeout\<rparr> else q) \<and>
    find_execution (claim now ids d) eid = Some (if qr_id q \<in> set ids
      then e\<lparr>ex_Status := ExecutionStatusRunning, ex_Attempt := qr_attempt q + 1,
             ex_StartedAt := Some (case ex_StartedAt e of None \<Rightarrow> now | Some t0 \<Rightarrow> t0)\<rparr> else e)"
  using find_queued_claim [OF _ assms(2), of now ids] find_execution_claim [OF assms, of now ids] assms(1)
  by (simp add: db_inv_def mark_running_def bumped_def split: option.split)

text \<open>While a claim lasts nobody else gets the execution: a second dequeue before the
  visibility timeout has passed returns none of the executions of the first.\<close>

lemma dequeues_disjoint:
  assumes inv: "db_inv (db s)"
    and one: "DequeueBatch clk locked tids limit s = (Inr items, t)"
    and two: "DequeueBatch clk' locked' tids' limit' t = (Inr items', u)"
    and time: "db_now clk' < db_now clk + VisibilityTimeout"
  shows "qi_ExecutionID ` set items \<inter> qi_ExecutionID ` set items' = {}"
proof (rule ccontr)
  let ?rows = "select_batch (db_now clk) locked tids (at_least_one limit) (db s)"
  let ?rows' = "select_batch (db_now clk') locked' tids' (at_least_one limit') (db t)"
  assume "qi_ExecutionID ` set items \<inter> qi_ExecutionID ` set items' \<noteq> {}"
  then obtain q q' where q: "q \<in> set ?rows" and q': "q' \<in> set ?rows'"
    and same: "qr_execution_id q = qr_execution_id q'"
    using DequeueBatch_Inr(1) [OF one] DequeueBatch_Inr(1) [OF two] by (auto simp: queue_item_def)
  have t: "db t = claim (db_now clk) (map qr_id ?rows) (db s)" by (rule DequeueBatch_Inr(2) [OF one])
  obtain q0 where q0: "q0 \<in> set (queue (db s))" and b: "q' = bumped (db_now clk) (map qr_id ?rows) q0"
    and vis: "qr_visible_after q' \<le> db_now clk'"
    using select_batch_in_queue [OF q'] by (auto simp: t claim_eq claimable_def)
  have "q = q0"
    using inv q0 select_batch_in_queue [OF q] same b
    by (auto simp: db_inv_def queue_ok_def dest: distinct_map_eqD)
  then have "qr_visible_after q' = db_now clk + VisibilityTimeout" using b q by (auto simp: bumped_def)
  then show False using vis time by simp
qed

lemma due_row_is_returned:
  assumes d: "DequeueBatch clk [] [] limit s = (Inr items, t)"
    and q: "find_queued (db s) eid = Some q" and due: "qr_visible_after q \<le> db_now clk"
    and enough: "int (length (queue (db s))) \<le> limit"
  shows "eid \<in> qi_ExecutionID ` set items"
proof -
  let ?c = "filter (claimable (db_now clk) [] []) (queue (db s))"
  have "q \<in> set ?c" "qr_execution_id q = eid"
    using q due by (auto simp: find_queued_def claimable_def dest: find_SomeD)
  moreover have "length ?c \<le> nat (at_least_one limit)"
  proof -
    have "length ?c \<le> length (queue (db s))" by (rule length_filter_le)
    moreover have "int (length (queue (db s))) \<le> at_least_one limit"
      using enough by (simp add: at_least_one_def)
    ultimately show ?thesis by linarith
  qed
  ultimately have "q \<in> set (select_batch (db_now clk) [] [] (at_least_one limit) (db s))"
    by (simp add: select_batch_def)
  then show ?thesis
    using DequeueBatch_Inr(1) [OF d] \<open>qr_execution_id q = eid\<close> by (force simp: queue_item_def)
qed

text \<open>While nothing fails a claim hands out what it selects, and that is nothing only when no row is
  claimable.\<close>

lemma DequeueBatch_calm:
  assumes "rows = select_batch (db_now clk) locked tids (at_least_one limit) d" and "rows \<noteq> []"
  shows "DequeueBatch clk locked tids limit (calm d) = (Inr (map queue_item rows), calm (claim (db_now clk) (map qr_id rows) d))"
  using assms(2)
  by (simp add: DequeueBatch_eq claim_body_def assms(1) [symmetric] prog_simps and_then_def on_error_def early_def
      claim_def Let_def)

lemma DequeueBatch_calm_Inr:
  "\<exists>items d'. DequeueBatch clk locked tids limit (calm d) = (Inr items, calm d')"
proof (cases "select_batch (db_now clk) locked tids (at_least_one limit) d = []")
  case True
  then show ?thesis
    by (simp add: DequeueBatch_eq claim_body_def prog_simps and_then_def on_error_def early_def throw_apply)
next
  case False
  then show ?thesis using DequeueBatch_calm [OF refl] by blast
qed

lemma select_batch_nonempty:
  assumes "q \<in> set (queue d)" and "claimable now locked tids q"
  shows "select_batch now locked tids (at_least_one limit) d \<noteq> []"
proof -
  have "q \<in> set (filter (claimable now locked tids) (queue d))" using assms by simp
  then have "0 < length (filter (claimable now locked tids) (queue d))" by (rule length_pos_if_in_set)
  then have "0 < length (select_batch now locked tids (at_least_one limit) d)"
    by (auto simp: select_batch_def at_least_one_def)
  then show ?thesis by blast
qed

section \<open>Failing\<close>

lemma queue_attempt_calm:
  "queue_attempt eid (calm d) = ((case find_queued d eid of None \<Rightarrow> Inl ErrNoRows | Some q \<Rightarrow> Inr (qr_attempt q)), calm d)"
  by (simp add: queue_attempt_def query_calm split: option.split)

lemma Fail_calm_retry:
  assumes "find_queued d eid = Some q" and "qr_attempt q \<le> MaxRetries"
  shows "Fail clk eid c m (calm d) = (Inr (), calm (postpone eid (db_now clk + fail_backoff (qr_attempt q)) d))"
  using assms by (simp add: Fail_def and_then_def attempting_def queue_attempt_calm Fail_retry_def exec_calm)

definition buried :: "clocks \<Rightarrow> uuid \<Rightarrow> int option \<Rightarrow> string \<Rightarrow> queue_row \<Rightarrow> database \<Rightarrow> database" where
  "buried clk eid c m q d = d\<lparr>
     dlq := dlq d @ [dead_letter (db_now clk) m (dlq_seq d) q], dlq_seq := dlq_seq d + 1,
     queue := delete_where (\<lambda>r. qr_execution_id r = eid) (queue d),
     executions := update_where (\<lambda>e. ex_ID e = eid)
       (\<lambda>e. e\<lparr>ex_Status := ExecutionStatusFailed, ex_ExitCode := c, ex_ErrorMessage := Some m,
              ex_CompletedAt := Some (db_now clk)\<rparr>) (executions d)\<rparr>"

lemma finished_buried:
  assumes "e \<in> set (executions d)" and "ex_ID e = eid"
  shows "finished (buried clk eid c m q d) eid"
  unfolding finished_def
proof (rule bexI)
  let ?f = "\<lambda>e. e\<lparr>ex_Status := ExecutionStatusFailed, ex_ExitCode := c, ex_ErrorMessage := Some m,
              ex_CompletedAt := Some (db_now clk)\<rparr>"
  show "?f e \<in> set (executions (buried clk eid c m q d))"
    using assms by (auto simp: buried_def set_update_where)
  show "ex_ID (?f e) = eid \<and> terminal (ex_Status (?f e))" using assms by simp
qed

lemma Fail_calm_fatal:
  assumes "find_queued d eid = Some q" and "qr_attempt q > MaxRetries" and "\<not> dead_lettered d eid"
    and "text_ok m" and "opt_ok int32_ok c"
  shows "Fail clk eid c m (calm d) = (Inr (), calm (buried clk eid c m q d))"
  using assms
  by (simp add: Fail_def and_then_def attempting_def queue_attempt_calm Fail_fatal_def exec_calm
      insert_dlq_def delete_queued_def fail_execution_def buried_def)

text \<open>C18: A reported failure is retried while the row has used at most five attempts: it
  stays queued and becomes visible again after ten seconds doubled once per attempt. After
  that it moves to the dead letter queue and the execution is failed.\<close>

theorem Fail_outcome:
  assumes q: "find_queued d eid = Some q" and ok: "text_ok m" "opt_ok int32_ok c"
    and new: "\<not> dead_lettered d eid"
  shows "Fail clk eid c m (calm d) = (Inr (), calm (
     if qr_attempt q \<le> 5
     then d\<lparr>queue := update_where (\<lambda>r. qr_execution_id r = eid)
            (\<lambda>r. r\<lparr>qr_visible_after := db_now clk + 10 * 2 ^ nat (qr_attempt q) * second\<rparr>) (queue d)\<rparr>
     else buried clk eid c m q d))"
  using Fail_calm_retry [OF q] Fail_calm_fatal [OF q _ new ok]
  by (simp add: MaxRetries_def postpone_def fail_backoff_def)

text \<open>One round: a dequeue that returns the execution, and the report that it failed.\<close>

definition failing_round ::
    "clocks \<times> int list \<times> uuid list \<times> int \<Rightarrow> uuid \<Rightarrow> int option \<Rightarrow> string \<Rightarrow> database \<Rightarrow> database option" where
  "failing_round r eid c m d = (case r of (clk, locked, tids, limit) \<Rightarrow>
     (case DequeueBatch clk locked tids limit (calm d) of
        (Inl e, t) \<Rightarrow> None
      | (Inr items, t) \<Rightarrow>
          if eid \<in> qi_ExecutionID ` set items then Some (db (snd (Fail clk eid c m (calm (db t))))) else None))"

fun failing_rounds ::
    "(clocks \<times> int list \<times> uuid list \<times> int) list \<Rightarrow> uuid \<Rightarrow> int option \<Rightarrow> string \<Rightarrow> database \<Rightarrow> database option" where
  "failing_rounds [] eid c m d = Some d"
| "failing_rounds (r # rs) eid c m d =
     (case failing_round r eid c m d of None \<Rightarrow> None | Some d' \<Rightarrow> failing_rounds rs eid c m d')"

lemma failing_round_step:
  assumes inv: "db_inv d" and q: "find_queued d eid = Some q" and r: "failing_round r eid c m d = Some d'"
    and ok: "text_ok m" "opt_ok int32_ok c" and new: "\<not> dead_lettered d eid"
  shows "db_inv d'"
    and "qr_attempt q < MaxRetries \<Longrightarrow> dlq d' = dlq d \<and>
      (\<exists>q'. find_queued d' eid = Some q' \<and> qr_attempt q' = qr_attempt q + 1 \<and> qr_payload q' = qr_payload q)"
    and "qr_attempt q \<ge> MaxRetries \<Longrightarrow> \<not> queued d' eid \<and> finished d' eid \<and>
      (\<exists>x \<in> set (dlq d'). dr_execution_id x = eid \<and> dr_attempts x = qr_attempt q + 1 \<and>
         dr_payload x = qr_payload q \<and> dr_error_message x = Some m)"
proof -
  obtain clk locked tids limit where rr: "r = (clk, locked, tids, limit)" by (cases r)
  obtain items t where dq: "DequeueBatch clk locked tids limit (calm d) = (Inr items, t)"
    and mem: "eid \<in> qi_ExecutionID ` set items" and d': "d' = db (snd (Fail clk eid c m (calm (db t))))"
    using r by (auto simp: failing_round_def rr split: prod.splits sum.splits if_splits)
  let ?rows = "select_batch (db_now clk) locked tids (at_least_one limit) d"
  have t: "db t = claim (db_now clk) (map qr_id ?rows) d" and items: "items = map queue_item ?rows"
    using DequeueBatch_Inr [OF dq] by simp_all
  have qs: "queue_ok d" using inv by (simp add: db_inv_def)
  obtain q1 where q1: "q1 \<in> set ?rows" "qr_execution_id q1 = eid"
    using mem by (auto simp: items queue_item_def)
  then have "q1 = q"
    using q select_batch_in_queue [OF q1(1)] find_queued_Some [OF qs, of eid] by fastforce
  then have in_ids: "qr_id q \<in> set (map qr_id ?rows)" using q1 by auto
  let ?q = "bumped (db_now clk) (map qr_id ?rows) q"
  have fq: "find_queued (db t) eid = Some ?q" using find_queued_claim [OF qs q] t by simp
  have att: "qr_attempt ?q = qr_attempt q + 1" using in_ids by (simp add: bumped_def)
  have inv_t: "db_inv (db t)" using inv t safe_claim by (simp add: safe_def)
  show inv': "db_inv d'"
    using keeps_Fail [of clk eid c m] inv_t by (simp add: keeps_def on_db_def safe_def d')
  have new': "\<not> dead_lettered (db t) eid" using new t by (simp add: dead_lettered_def claim_tables)
  show "dlq d' = dlq d \<and>
      (\<exists>q'. find_queued d' eid = Some q' \<and> qr_attempt q' = qr_attempt q + 1 \<and> qr_payload q' = qr_payload q)"
    if "qr_attempt q < MaxRetries"
  proof -
    have "d' = postpone eid (db_now clk + fail_backoff (qr_attempt ?q)) (db t)"
      using Fail_calm_retry [OF fq] att that by (simp add: d')
    moreover from this have "find_queued d' eid = Some (?q\<lparr>qr_visible_after := db_now clk + fail_backoff (qr_attempt ?q)\<rparr>)"
      using fq by (auto simp: postpone_def find_queued_def find_update_where dest: find_SomeD)
    ultimately show ?thesis using att by (simp add: postpone_def t claim_tables)
  qed
  show "\<not> queued d' eid \<and> finished d' eid \<and>
      (\<exists>x \<in> set (dlq d'). dr_execution_id x = eid \<and> dr_attempts x = qr_attempt q + 1 \<and>
         dr_payload x = qr_payload q \<and> dr_error_message x = Some m)"
    if "qr_attempt q \<ge> MaxRetries"
  proof -
    have b: "d' = buried clk eid c m ?q (db t)"
      using Fail_calm_fatal [OF fq _ new' ok] att that by (simp add: d')
    have "?q \<in> set (queue (db t))" "qr_execution_id ?q = eid"
      using fq by (auto simp: find_queued_def dest: find_SomeD)
    then obtain e where "e \<in> set (executions (db t))" "ex_ID e = eid"
      using queued_execution [OF inv_t, of ?q] by (auto simp: agree_def)
    then have "finished d' eid" unfolding b by (rule finished_buried)
    moreover have "\<not> queued d' eid" by (auto simp: b buried_def queued_def set_delete_where)
    moreover have "qr_execution_id q = eid" using \<open>q1 = q\<close> q1 by simp
    ultimately show ?thesis using att by (simp add: b buried_def dead_letter_def)
  qed
qed

text \<open>C7: An execution that fails every time is attempted exactly six times: after up to five
  failed rounds it is still queued with that many attempts, after the sixth it is out of the
  queue, failed, and in the dead letter queue with its payload and six attempts.\<close>

theorem six_attempts_then_dead_letter:
  assumes "db_inv d" and "find_queued d eid = Some q" and "qr_attempt q = 0"
    and "\<not> dead_lettered d eid" and "text_ok m" and "opt_ok int32_ok c"
    and "failing_rounds rs eid c m d = Some d'"
  shows "(length rs \<le> 5 \<longrightarrow> (\<exists>q'. find_queued d' eid = Some q' \<and> qr_attempt q' = int (length rs))) \<and>
    (length rs = 6 \<longrightarrow> \<not> queued d' eid \<and> finished d' eid \<and>
      (\<exists>x \<in> set (dlq d'). dr_execution_id x = eid \<and> dr_attempts x = 6 \<and> dr_payload x = qr_payload q))"
proof -
  have gen: "(qr_attempt q0 + int (length rs) \<le> 5 \<longrightarrow>
        (\<exists>q'. find_queued d' eid = Some q' \<and> qr_attempt q' = qr_attempt q0 + int (length rs))) \<and>
      (qr_attempt q0 + int (length rs) = 6 \<and> rs \<noteq> [] \<longrightarrow> \<not> queued d' eid \<and> finished d' eid \<and>
      (\<exists>x \<in> set (dlq d'). dr_execution_id x = eid \<and> dr_attempts x = 6 \<and> dr_payload x = qr_payload q0))"
    if "db_inv d0" "find_queued d0 eid = Some q0" "\<not> dead_lettered d0 eid"
      "failing_rounds rs eid c m d0 = Some d'" for rs d0 q0
    using that
  proof (induction rs arbitrary: d0 q0)
    case Nil
    then show ?case by simp
  next
    case (Cons r rs)
    obtain d1 where r: "failing_round r eid c m d0 = Some d1" and rs: "failing_rounds rs eid c m d1 = Some d'"
      using Cons.prems(4) by (auto split: option.splits)
    note st = failing_round_step [OF Cons.prems(1,2) r assms(5,6) Cons.prems(3)]
    show ?case
    proof (cases "qr_attempt q0 < 5")
      case True
      then obtain q1 where q1: "dlq d1 = dlq d0" "find_queued d1 eid = Some q1"
        "qr_attempt q1 = qr_attempt q0 + 1" "qr_payload q1 = qr_payload q0"
        using st(2) by (auto simp: MaxRetries_def)
      have "\<not> dead_lettered d1 eid" using q1(1) Cons.prems(3) by (simp add: dead_lettered_def)
      from Cons.IH [OF st(1) q1(2) this rs] show ?thesis using q1 True by (cases rs) auto
    next
      case False
      then show ?thesis using st(3) rs by (cases rs) (auto simp: MaxRetries_def)
    qed
  qed
  show ?thesis using gen [OF assms(1,2,4,7)] assms(3) by (cases rs) simp_all
qed

end
