(* ===== verification/Recovery_Theorems.thy ===== *)
theory Recovery_Theorems
  imports Queue_Theorems
begin

text \<open>
  Reports of results and retries from the dead letter queue: what they do when all goes well,
  which of them are atomic and what the others leave behind when the connection breaks between
  two of their statements.
\<close>

section \<open>Completing\<close>

definition completed_db :: "time \<Rightarrow> uuid \<Rightarrow> int \<Rightarrow> raw_message \<Rightarrow> database \<Rightarrow> database" where
  "completed_db now eid c r d = d\<lparr>queue := delete_where (\<lambda>q. qr_execution_id q = eid) (queue d),
     executions := update_where (\<lambda>e. ex_ID e = eid)
       (\<lambda>e. e\<lparr>ex_Status := ExecutionStatusCompleted, ex_ExitCode := Some c, ex_Result := r,
              ex_CompletedAt := Some now\<rparr>) (executions d)\<rparr>"

lemma Complete_calm:
  assumes "int32_ok c" and "opt_ok jsonb_ok r"
  shows "Complete clk eid c r (calm d) = (Inr (), calm (completed_db (db_now clk) eid c r d))"
  using assms
  by (simp add: Complete_def and_then_def exec_calm complete_execution_def delete_queued_def completed_db_def)

lemma find_execution_update:
  "find_execution (d\<lparr>executions := update_where (\<lambda>e. ex_ID e = eid) f (executions d)\<rparr>) eid =
     map_option f (find_execution d eid)" if "\<And>e. ex_ID (f e) = ex_ID e"
proof -
  have "find (\<lambda>e. ex_ID e = eid) (update_where (\<lambda>e. ex_ID e = eid) f es) =
      map_option f (find (\<lambda>e. ex_ID e = eid) es)" for es
    by (induction es) (simp_all add: that)
  then show ?thesis by (simp add: find_execution_def)
qed

lemma update_where_twice:
  assumes "\<And>x. p (f x) = p x" and "\<And>x. g (f x) = g x"
  shows "update_where p g (update_where p f xs) = update_where p g xs"
  by (induction xs) (simp_all add: assms)

lemma delete_where_idem [simp]: "delete_where p (delete_where p xs) = delete_where p xs"
  by (induction xs) simp_all

lemma completed_closed:
  assumes "find_execution d eid = Some e"
  shows "\<not> queued (completed_db now eid c r d) eid \<and>
    find_execution (completed_db now eid c r d) eid = Some (e\<lparr>ex_Status := ExecutionStatusCompleted,
      ex_ExitCode := Some c, ex_Result := r, ex_CompletedAt := Some now\<rparr>)"
  using find_execution_update [where d = d and eid = eid and f = "\<lambda>e. e\<lparr>ex_Status := ExecutionStatusCompleted,
       ex_ExitCode := Some c, ex_Result := r, ex_CompletedAt := Some now\<rparr>"] assms
  by (auto simp: completed_db_def find_execution_def queued_def set_delete_where)

text \<open>C20: A successful result closes the execution: out of the queue, succeeded, with the
  exit code, the result and the time of completion; nothing else of it changes.\<close>

theorem Complete_outcome:
  assumes "find_execution d eid = Some e" and "int32_ok c" and "opt_ok jsonb_ok r"
  shows "\<exists>d'. Complete clk eid c r (calm d) = (Inr (), calm d') \<and> \<not> queued d' eid \<and>
     find_execution d' eid = Some (e\<lparr>ex_Status := ExecutionStatusCompleted, ex_ExitCode := Some c,
       ex_Result := r, ex_CompletedAt := Some (db_now clk)\<rparr>)"
  using Complete_calm [OF assms(2,3)] completed_closed [OF assms(1)] by blast

text \<open>C28: Completing is not atomic. When the connection breaks after the first statement, the
  execution has left the queue but is still marked running, and no dequeue will ever return
  it; only repeating the report repairs it, and that has the effect of the first one.\<close>

theorem interrupted_Complete:
  assumes inv: "db_inv d" and q: "find_queued d eid = Some q" and run: "qr_attempt q > 0"
    and ok: "int32_ok c" "opt_ok jsonb_ok r"
  shows "\<exists>t e. Complete clk eid c r \<lparr>db = d, fates = [Served, Refused]\<rparr> = (Inl ErrConn, t) \<and>
     find_execution (db t) eid = Some e \<and> ex_Status e = ExecutionStatusRunning \<and>
     (\<forall>clk' locked tids limit items u.
        DequeueBatch clk' locked tids limit t = (Inr items, u) \<longrightarrow> eid \<notin> qi_ExecutionID ` set items) \<and>
     Complete clk' eid c r (calm (db t)) = Complete clk' eid c r (calm d)"
proof -
  let ?t = "\<lparr>db = delete_queued eid d, fates = []\<rparr>"
  have c1: "Complete clk eid c r \<lparr>db = d, fates = [Served, Refused]\<rparr> = (Inl ErrConn, ?t)"
    by (simp add: Complete_def and_then_def exec_def stmt_def next_fate_def spend_def)
  have qs: "queue_ok d" "executions_ok d" using inv by (simp_all add: db_inv_def)
  have q': "q \<in> set (queue d)" "qr_execution_id q = eid" using q find_queued_Some [OF qs(1)] by auto
  obtain e where e: "e \<in> set (executions d)" "agree q e" using inv q'(1) by (rule queued_execution)
  have fe: "find_execution d eid = Some e"
    using e q'(2) find_execution_Some [OF qs(2)] by (simp add: agree_def)
  have st: "ex_Status e = ExecutionStatusRunning" using e(2) run by (simp add: agree_def)
  have lost: "eid \<notin> qi_ExecutionID ` set items"
    if "DequeueBatch clk' locked tids limit ?t = (Inr items, u)" for clk' locked tids limit items u
  proof
    assume "eid \<in> qi_ExecutionID ` set items"
    then have "queued (db ?t) eid"
      using DequeueBatch_Inr(1) [OF that] select_batch_in_queue
      by (fastforce simp: queue_item_def queued_def)
    then show False by simp
  qed
  have again: "Complete clk' eid c r (calm (db ?t)) = Complete clk' eid c r (calm d)"
    using ok by (simp add: Complete_calm completed_db_def delete_queued_def)
  have "find_execution (db ?t) eid = Some e"
    using fe by (simp add: find_execution_def delete_queued_def)
  then show ?thesis using c1 st lost again by blast
qed

section \<open>Failing for good\<close>

text \<open>Nor is the move to the dead letter queue. When the connection breaks after its
  insertion, the execution is in both tables, and every later report of a failure stops at
  the uniqueness of the dead letter row and changes nothing.\<close>

lemma interrupted_burial:
  assumes q: "find_queued d eid = Some q" and over: "qr_attempt q > MaxRetries"
    and new: "\<not> dead_lettered d eid" and ok: "text_ok m" "text_ok m'"
  shows "\<exists>t. Fail clk eid c m \<lparr>db = d, fates = [Served, Served, Refused]\<rparr> = (Inl ErrConn, t) \<and>
     queued (db t) eid \<and> dead_lettered (db t) eid \<and>
     Fail clk' eid c' m' (calm (db t)) = (Inl ErrUnique, calm (db t))"
proof -
  let ?d = "d\<lparr>dlq := dlq d @ [dead_letter (db_now clk) m (dlq_seq d) q], dlq_seq := dlq_seq d + 1\<rparr>"
  have id: "qr_execution_id q = eid" using q by (auto simp: find_queued_def dest: find_SomeD)
  have 1: "Fail clk eid c m \<lparr>db = d, fates = [Served, Served, Refused]\<rparr> = (Inl ErrConn, \<lparr>db = ?d, fates = []\<rparr>)"
    using q over new ok(1)
    by (simp add: Fail_def Fail_fatal_def and_then_def attempting_def queue_attempt_def query_def exec_def
        stmt_def next_fate_def spend_def insert_dlq_def)
  have q2: "find_queued ?d eid = Some q" using q by (simp add: find_queued_def)
  have dl: "dead_lettered ?d eid" using id by (simp add: dead_lettered_def dead_letter_def)
  have "Fail clk' eid c' m' (calm ?d) = (Inl ErrUnique, calm ?d)"
    using q2 over ok(2) dl
    by (simp add: Fail_def Fail_fatal_def and_then_def attempting_def queue_attempt_calm exec_calm insert_dlq_def)
  moreover have "queued ?d eid" using q2 find_queued_None [of ?d eid] by auto
  ultimately show ?thesis using 1 dl by auto
qed

text \<open>C30: A report that comes late overwrites: a failure reported for an execution that is no
  longer queued, even one that has succeeded, marks it failed, leaves its result in place and
  puts nothing into the dead letter queue.\<close>

theorem late_failure_overwrites:
  assumes e: "find_execution d eid = Some e" and nq: "\<not> queued d eid"
    and ok: "text_ok m" "opt_ok int32_ok c"
  shows "\<exists>d'. Fail clk eid c m (calm d) = (Inr (), calm d') \<and> dlq d' = dlq d \<and> queue d' = queue d \<and>
     find_execution d' eid = Some (e\<lparr>ex_Status := ExecutionStatusFailed, ex_ExitCode := c,
       ex_ErrorMessage := Some m, ex_CompletedAt := Some (db_now clk)\<rparr>)"
proof -
  let ?f = "\<lambda>e. e\<lparr>ex_Status := ExecutionStatusFailed, ex_ExitCode := c,
       ex_ErrorMessage := Some m, ex_CompletedAt := Some (db_now clk)\<rparr>"
  let ?d = "d\<lparr>executions := update_where (\<lambda>e. ex_ID e = eid) ?f (executions d)\<rparr>"
  have n: "find_queued d eid = None" using nq find_queued_None by auto
  have "delete_where (\<lambda>q. qr_execution_id q = eid) (queue d) = queue d"
    using nq by (intro delete_where_none) (auto simp: queued_def)
  then have "Fail clk eid c m (calm d) = (Inr (), calm ?d)"
    using n ok
    by (simp add: Fail_def Fail_fatal_def and_then_def attempting_def queue_attempt_calm exec_calm
        insert_dlq_def delete_queued_def fail_execution_def)
  then show ?thesis using find_execution_update [where f = ?f and d = d and eid = eid] e by auto
qed

section \<open>Retrying from the dead letter queue\<close>

definition retried_db :: "clocks \<Rightarrow> uuid \<Rightarrow> dlq_row \<Rightarrow> execution \<Rightarrow> database \<Rightarrow> database" where
  "retried_db clk newID r e d = d\<lparr>
     executions := executions d @ [retried_execution (go_now clk) newID e],
     queue := queue d @ [\<lparr>qr_id = queue_seq d, qr_execution_id = newID, qr_tenant_id = ex_TenantID e,
       qr_payload = dr_payload r, qr_priority = ex_Priority e, qr_attempt = 0,
       qr_visible_after = go_now clk, qr_created_at = db_now clk\<rparr>],
     queue_seq := queue_seq d + 1,
     dlq := delete_where (\<lambda>x. dr_execution_id x = dr_execution_id r) (dlq d)\<rparr>"

lemma queued_insert_execution: "insert_execution e d = Inr d' \<Longrightarrow> queued d' eid = queued d eid"
  by (auto dest!: insert_execution_Inr(1) simp: queued_def)

definition retry_body :: "clocks \<Rightarrow> uuid \<Rightarrow> uuid \<Rightarrow> uuid sql" where
  "retry_body clk newID eid =
     and_then (read_dlq eid) (\<lambda>(r, e).
      and_then (exec (insert_execution (retried_execution (go_now clk) newID e))) (\<lambda>_.
      and_then (Enqueue clk newID (Some (dr_payload r)) (go_now clk)) (\<lambda>_.
      and_then (exec (\<lambda>d. Inr (delete_dlq eid d))) (\<lambda>_.
      ret newID))))"

lemma retry_body_Inr:
  assumes "retry_body clk newID eid s = (Inr x, t)" and clock: "go_now clk \<noteq> zero_time"
  shows "x = newID \<and> (\<exists>r e. find_dlq (db s) eid = Some r \<and> find_execution (db s) eid = Some e \<and>
     db t = retried_db clk newID r e (db s))"
proof -
  obtain r e s1 where
    q: "read_dlq eid s = (Inr (r, e), s1)"
    and rest: "and_then (exec (insert_execution (retried_execution (go_now clk) newID e))) (\<lambda>_.
      and_then (Enqueue clk newID (Some (dr_payload r)) (go_now clk)) (\<lambda>_.
      and_then (exec (\<lambda>d. Inr (delete_dlq eid d))) (\<lambda>_. ret newID))) s1 = (Inr x, t)"
    using assms(1) unfolding retry_body_def by (elim and_then_InrE) (simp split: prod.splits)
  obtain u s2 n s3 v s4 where
    i: "exec (insert_execution (retried_execution (go_now clk) newID e)) s1 = (Inr u, s2)"
    and en: "Enqueue clk newID (Some (dr_payload r)) (go_now clk) s2 = (Inr n, s3)"
    and dl: "exec (\<lambda>d. Inr (delete_dlq eid d)) s3 = (Inr v, s4)" and "(Inr newID :: sql_error + uuid, s4) = (Inr x, t)"
    using rest by (elim and_then_InrE) (unfold ret_apply, rule that)
  then have t: "t = s4" "x = newID" by simp_all
  have s1: "db s1 = db s" and f: "find_dlq (db s) eid = Some r" "find_execution (db s) eid = Some e"
    using q by (auto simp: read_dlq_def dest!: query_Inr split: option.splits)
  let ?e = "retried_execution (go_now clk) newID e"
  have i': "insert_execution ?e (db s) = Inr (db s2)" using exec_Inr_db [OF i] s1 by simp
  note d2 = insert_execution_Inr [OF i']
  have "insert_queue clk newID (Some (dr_payload r)) (go_now clk) (db s2) = Inr (n, db s3)"
    using en clock by (auto simp: Enqueue_def dest!: stmt_Inr)
  then obtain e' where "find_execution (db s2) newID = Some e'"
    and d3: "db s3 = db s2\<lparr>queue := queue (db s2) @ [\<lparr>qr_id = queue_seq (db s2), qr_execution_id = newID,
           qr_tenant_id = ex_TenantID e', qr_payload = dr_payload r, qr_priority = ex_Priority e',
           qr_attempt = 0, qr_visible_after = go_now clk, qr_created_at = db_now clk\<rparr>],
         queue_seq := queue_seq (db s2) + 1\<rparr>"
    by (rule insert_queue_Inr) auto
  moreover have "find_execution (db s2) newID = Some ?e"
    using find_fresh_execution [OF d2(2)] d2(1) by (simp add: retried_execution_def)
  ultimately have "e' = ?e" by simp
  have rid: "dr_execution_id r = eid" using f(1) by (auto simp: find_dlq_def dest: find_SomeD)
  have "db t = delete_dlq eid (db s3)" using exec_Inr_db [OF dl] t by simp
  then have "db t = retried_db clk newID r e (db s)"
    using d3 d2(1) \<open>e' = ?e\<close> rid by (simp add: delete_dlq_def retried_db_def retried_execution_def)
  then show ?thesis using f t by blast
qed

lemma RetryFromDLQ_Inr:
  assumes "RetryFromDLQ clk newID eid s = (Inr x, t)" and "go_now clk \<noteq> zero_time"
  shows "x = newID \<and> (\<exists>r e. find_dlq (db s) eid = Some r \<and> find_execution (db s) eid = Some e \<and>
    db t = retried_db clk newID r e (db s))"
proof -
  have "with_tx ErrConn ErrConn (retry_body clk newID eid) s = (Inr x, t)"
    using assms(1) by (simp add: RetryFromDLQ_def retry_body_def)
  then obtain s0 s1 where b: "db s0 = db s" "retry_body clk newID eid s0 = (Inr x, s1)" "db t = db s1"
    by (rule with_tx_Inr)
  from retry_body_Inr [OF b(2) assms(2)] b(1,3) show ?thesis by simp
qed

text \<open>C21: A retry from the dead letter queue is all or nothing, whatever the connection does: it
  answers with the new execution and has inserted it, queued it with the payload of the dead
  letter and removed that; or it answers with an error, and the tables are as they were, or
  all of it has happened and only the reply to the commit was lost.\<close>

theorem RetryFromDLQ_atomic:
  assumes "RetryFromDLQ clk newID eid s = (res, t)" and "go_now clk \<noteq> zero_time"
  shows "(res = Inr newID \<or> (\<exists>err. res = Inl err)) \<and>
     (\<exists>r e. find_dlq (db s) eid = Some r \<and> find_execution (db s) eid = Some e \<and>
        db t = retried_db clk newID r e (db s)) \<or>
     (\<exists>err. res = Inl err) \<and> (\<exists>d. db t = restore (db s) d)"
proof -
  have eq: "RetryFromDLQ clk newID eid = with_tx ErrConn ErrConn (retry_body clk newID eid)"
    by (simp add: RetryFromDLQ_def retry_body_def)
  show ?thesis
  proof (cases res)
    case (Inr x)
    then show ?thesis using RetryFromDLQ_Inr [of clk newID eid s x t] assms by auto
  next
    case (Inl err)
    have "with_tx ErrConn ErrConn (retry_body clk newID eid) s = (Inl err, t)"
      using assms(1) eq Inl by simp
    then show ?thesis
    proof (cases rule: with_tx_Inl)
      case (rolled_back d)
      then show ?thesis using Inl by auto
    next
      case not_begun
      then show ?thesis using Inl restore_same [of "db s"] by metis
    next
      case (reply_lost s0 x s1)
      from retry_body_Inr [OF reply_lost(2) assms(2)] reply_lost(1,3) Inl show ?thesis by auto
    qed
  qed
qed

section \<open>The lock of a tenant\<close>

lemma bit_uuid_byte: "bit (uuid_byte u i) n \<longleftrightarrow> n < 8 \<and> bit u (n + 8 * (15 - i))"
  by (auto simp: uuid_byte_def bit_simps add.commute)

text \<open>The advisory lock key of a tenant is the first four bytes of its identifier: tenants
  whose identifiers start alike share the lock, and no shift loses or overlaps a byte.\<close>

lemma tenantLockKey_prefix: "tenantLockKey tid = ucast (drop_bit 96 tid)"
proof (rule bit_word_eqI)
  fix n assume n: "n < LENGTH(32)"
  then consider "n < 8" | "8 \<le> n" "n < 16" | "16 \<le> n" "n < 24" | "24 \<le> n" "n < 32" by force
  then show "bit (tenantLockKey tid) n = bit (ucast (drop_bit 96 tid) :: 32 word) n"
    by cases (auto simp: tenantLockKey_def bit_simps bit_uuid_byte add.commute)
qed

end
