(* ===== verification/Handler_Theorems.thy ===== *)
theory Handler_Theorems
  imports Recovery_Theorems
begin

text \<open>
  The HTTP interface seen from outside: who may do what, what a run leaves in the tables, what
  a tenant can and cannot see.
\<close>

section \<open>Running a job\<close>

definition run_db :: "clocks \<Rightarrow> execution \<Rightarrow> json \<Rightarrow> time \<Rightarrow> database \<Rightarrow> database" where
  "run_db clk e p at d = d\<lparr>executions := executions d @ [e],
     queue := queue d @ [\<lparr>qr_id = queue_seq d, qr_execution_id = ex_ID e, qr_tenant_id = ex_TenantID e,
       qr_payload = p, qr_priority = ex_Priority e, qr_attempt = 0, qr_visible_after = at,
       qr_created_at = db_now clk\<rparr>],
     queue_seq := queue_seq d + 1\<rparr>"

lemma new_execution_fresh:
  "(new_execution jid now t j req st at eid)\<lparr>ex_Attempt := 0, ex_ExitCode := None, ex_ErrorMessage := None,
     ex_RetriedFrom := None, ex_Result := None, ex_StartedAt := None, ex_CompletedAt := None\<rparr> =
   new_execution jid now t j req st at eid"
  by (simp add: new_execution_def Let_def)

definition below_limit :: "tenant \<Rightarrow> database \<Rightarrow> bool" where
  "below_limit t d \<longleftrightarrow> (tn_MaxConcurrentExecutions t > 0 \<longrightarrow>
     int (length (running_of (tn_ID t) (executions d))) < tn_MaxConcurrentExecutions t)"

lemma check_concurrency_Inr:
  "check_concurrency t s = (Inr u, s') \<Longrightarrow> below_limit t (db s)"
  by (auto simp: check_concurrency_def CountRunningExecutions_def below_limit_def split: if_splits
      elim!: and_then_InrE dest!: or_fail_InrD guard_InrD query_Inr exec_Inr)

lemma run_body_new:
  assumes b: "run_body E clk carrier t j (new_execution jid now t j req st at eid) at s = (Inr u, s')"
    and clock: "at \<noteq> zero_time"
  shows "below_limit t (db s) \<and> (\<exists>p. enc_payload E j carrier = Some p \<and>
     db s' = run_db clk (new_execution jid now t j req st at eid) p at (db s))"
proof -
  have lim: "below_limit t (db s)"
    using b by (auto simp: run_body_def elim!: and_then_InrE dest: check_concurrency_Inr)
  let ?e = "new_execution jid now t j req st at eid"
  obtain d1 n where i: "insert_execution ?e (db s) = Inr d1"
    and q: "insert_queue clk (ex_ID ?e) (enc_payload E j carrier) at d1 = Inr (n, db s')"
    using run_body_Inr [OF b] clock unfolding new_execution_fresh by auto
  note d1 = insert_execution_Inr [OF i]
  obtain e' p where e': "find_execution d1 (ex_ID ?e) = Some e'" and p: "enc_payload E j carrier = Some p"
    and d': "db s' = d1\<lparr>queue := queue d1 @ [\<lparr>qr_id = queue_seq d1, qr_execution_id = ex_ID ?e,
           qr_tenant_id = ex_TenantID e', qr_payload = p, qr_priority = ex_Priority e',
           qr_attempt = 0, qr_visible_after = at, qr_created_at = db_now clk\<rparr>],
         queue_seq := queue_seq d1 + 1\<rparr>"
    using q by (rule insert_queue_Inr)
  have "e' = ?e" using e' find_fresh_execution [OF d1(2)] d1(1) by simp
  then have "db s' = run_db clk ?e p at (db s)"
    using d' d1(1) by (simp add: run_db_def)
  then show ?thesis using p lim by blast
qed

text \<open>What a committed run consists of.\<close>

definition run_effect ::
    "externals \<Rightarrow> clocks \<Rightarrow> uuid \<Rightarrow> string_map \<Rightarrow> tenant \<Rightarrow> request \<Rightarrow> database \<Rightarrow> database \<Rightarrow> bool" where
  "run_effect E clk eid carrier t r d d' \<longleftrightarrow>
     (\<exists>jid row j req st at p. uuid_Parse E (rq_path_id r) = Some jid \<and>
        row \<in> set (jobs d) \<and> jr_id row = jid \<and> job_of_row row = Inr j \<and> jb_TenantID j = tn_ID t \<and>
        (st, at) = (case rj_ScheduledAt req of None \<Rightarrow> (ExecutionStatusPending, go_now clk)
                    | Some w \<Rightarrow> (ExecutionStatusScheduled, w)) \<and> go_now clk \<le> at \<and>
        enc_payload E j carrier = Some p \<and> below_limit t d \<and>
        d' = run_db clk (new_execution jid (go_now clk) t j req st at eid) p at d)"

text \<open>The checks at the head of a handler: an early answer is an error, and the tables stay.\<close>

definition refused :: "database \<Rightarrow> answer \<Rightarrow> session \<Rightarrow> bool" where
  "refused d a t \<longleftrightarrow> rs_status (fst a) \<ge> 400 \<and> db t = d"

lemma refused_bad [simp]: "refused d (bad m c) t \<longleftrightarrow> c \<ge> 400 \<and> db t = d"
  by (simp add: refused_def)

lemma need_yields:
  "c \<ge> 400 \<Longrightarrow> db s = d \<Longrightarrow> yields (need (bad m c) v) s (\<lambda>x t. v = Some x \<and> db t = d) (refused d)"
  by (rule yields_need) simp_all

lemma query_yields:
  assumes "c \<ge> 400" and "db s = d"
  shows "yields (or_fail m c (query f)) s (\<lambda>x t. f d = Inr x \<and> db t = d) (refused d)"
  unfolding or_fail_def
proof (rule yields_on_error, rule yieldsI)
  show "query f s = (Inr x, t) \<Longrightarrow> f d = Inr x \<and> db t = d" for x t
    using assms(2) by (auto dest!: query_Inr)
  show "query f s = (Inl e, t) \<Longrightarrow> refused d (bad m c) t" for e t
    using assms db_query [of f s] by simp
qed

lemma decode_yields:
  "rs_status (fst e) \<ge> 400 \<Longrightarrow> db s = d \<Longrightarrow>
   yields (decode_or e f r) s (\<lambda>x t. decode_body f (rq_body r) = Inr x \<and> db t = d) (refused d)"
  by (auto simp: decode_or_def refused_def intro!: yields_ret yields_throw split: sum.split)

lemma run_request_yields: "db s = d \<Longrightarrow> yields (run_request r) s (\<lambda>x t. db t = d) (refused d)"
  by (auto simp: run_request_def intro!: yields_ret yields_throw split: sum.split)

lemma get_own_job_yields:
  assumes "db s = d"
  shows "yields (get_own_job t jid) s
     (\<lambda>j u. (\<exists>row \<in> set (jobs d). jr_id row = jid \<and> job_of_row row = Inr j) \<and> jb_TenantID j = tn_ID t \<and> db u = d)
     (refused d)"
  unfolding get_own_job_def GetJobByID_def
proof (rule yields_bind [OF query_yields [OF _ assms]])
  fix j and u :: session
  assume j: "(case find_job d jid of None \<Rightarrow> Inl ErrNoRows | Some r \<Rightarrow> job_of_row r) = Inr j \<and> db u = d"
  then have "\<exists>row \<in> set (jobs d). jr_id row = jid \<and> job_of_row row = Inr j"
    by (auto simp: find_job_def split: option.splits dest: find_SomeD)
  then show "yields (and_then (guard (jb_TenantID j = tn_ID t) (bad ''Related job not found'' 404)) (\<lambda>_. ret j)) u
     (\<lambda>j u. (\<exists>row \<in> set (jobs d). jr_id row = jid \<and> job_of_row row = Inr j) \<and> jb_TenantID j = tn_ID t \<and> db u = d)
     (refused d)"
    using j by (auto simp: yields_def and_then_def guard_apply ret_apply)
qed simp

lemma schedule_yields:
  "db s = d \<Longrightarrow> yields (schedule now req) s
     (\<lambda>sa u. sa = (case rj_ScheduledAt req of None \<Rightarrow> (ExecutionStatusPending, now)
                    | Some w \<Rightarrow> (ExecutionStatusScheduled, w)) \<and> now \<le> snd sa \<and> db u = d) (refused d)"
  by (auto simp: schedule_def intro!: yields_ret yields_throw split: option.split)

lemma run_tx_outcome:
  assumes "run_tx E clk carrier t j (new_execution jid now t j req st at eid) at s = (res, s')"
    and "at \<noteq> zero_time"
  shows "(\<exists>p. enc_payload E j carrier = Some p \<and> below_limit t (db s) \<and>
       db s' = run_db clk (new_execution jid now t j req st at eid) p at (db s)) \<or>
     (\<exists>a. res = Inl a) \<and> (\<exists>d. db s' = restore (db s) d)"
proof (cases res)
  case (Inr u)
  then obtain s0 s1 where b: "db s0 = db s"
      "run_body E clk carrier t j (new_execution jid now t j req st at eid) at s0 = (Inr u, s1)" "db s' = db s1"
    using assms(1) unfolding run_tx_eq by (auto elim: with_tx_Inr)
  from run_body_new [OF b(2) assms(2)] b(1,3) show ?thesis by simp
next
  case (Inl a)
  have "with_tx (bad ''Internal database error'' 500) (bad ''Failed to commit transaction'' 500)
    (run_body E clk carrier t j (new_execution jid now t j req st at eid) at) s = (Inl a, s')"
    using assms(1) Inl by (simp add: run_tx_eq)
  then show ?thesis
  proof (cases rule: with_tx_Inl)
    case (rolled_back d)
    then show ?thesis using Inl by auto
  next
    case not_begun
    then show ?thesis using Inl restore_same [of "db s"] by metis
  next
    case (reply_lost s0 x s1)
    from run_body_new [OF reply_lost(2) assms(2)] reply_lost(1,3) show ?thesis by simp
  qed
qed

lemma with_tx_error:
  assumes "with_tx eb ec body s = (Inl a, t)"
  shows "a = eb \<or> a = ec \<or> (\<exists>s0 s1. body s0 = (Inl a, s1))"
proof -
  obtain r0 s0 where b: "begin_tx s = (r0, s0)" by (cases "begin_tx s")
  obtain r1 s1 where m: "body s0 = (r1, s1)" by (cases "body s0")
  show ?thesis using assms b m by (auto simp: with_tx_def split: sum.splits fate.splits)
qed

lemma or_fail_yields: "yields (or_fail m c p) s (\<lambda>_ _. True) (\<lambda>a _. a = bad m c)"
  unfolding or_fail_def by (rule yields_on_error) (simp add: yields_def split: prod.split sum.split)

lemma run_tx_refuses:
  assumes "run_tx E clk carrier t j e at s = (Inl a, s')"
  shows "rs_status (fst a) \<ge> 400"
proof -
  let ?E = "\<lambda>a (_ :: session). rs_status (fst a) \<ge> 400"
  have fail: "yields (or_fail m c p) u (\<lambda>_ _. True) ?E" if "c \<ge> 400" for m c u and p :: "'a sql"
    by (rule yields_mono [OF or_fail_yields]) (use that in auto)
  have "yields (check_concurrency t) u (\<lambda>_ _. True) ?E" for u
    by (auto simp: check_concurrency_def intro!: yields_ret yields_bind [OF fail] yields_guard)
  then have "yields (run_body E clk carrier t j e at) u (\<lambda>_ _. True) ?E" for u
    unfolding run_body_def
    by (intro yields_bind [where Q' = "\<lambda>_ _. True"] yields_ret) (auto intro: fail
      simp: yields_def or_fail_def on_error_def split: prod.split sum.split)
  then show ?thesis
    using with_tx_error [OF assms [unfolded run_tx_eq]] by (auto dest: yields_InlD)
qed

lemma refused_bind:
  assumes "yields m s Q' (refused d)" and "\<And>x t. Q' x t \<Longrightarrow> yields (f x) t Q F"
    and "\<And>a t. refused d a t \<Longrightarrow> F a t"
  shows "yields (and_then m f) s Q F"
  by (rule yields_bind [OF yields_mono [OF assms(1)]]) (use assms in auto)

definition run_outcome ::
    "externals \<Rightarrow> clocks \<Rightarrow> uuid \<Rightarrow> string_map \<Rightarrow> tenant option \<Rightarrow> request \<Rightarrow> database \<Rightarrow>
     answer \<Rightarrow> session \<Rightarrow> bool" where
  "run_outcome E clk eid carrier ctx r d a u \<longleftrightarrow>
     (\<exists>t. ctx = Some t \<and> run_effect E clk eid carrier t r d (db u)) \<and>
       (fst a = respondJson 200 (Some (enc_RunJobResponse (uuid_String E eid))) \<or> rs_status (fst a) \<ge> 400) \<or>
     rs_status (fst a) \<ge> 400 \<and> (\<exists>d'. db u = restore d d')"

lemma refused_run_outcome: "refused d a u \<Longrightarrow> run_outcome E clk eid carrier ctx r d a u"
  unfolding refused_def run_outcome_def by (metis restore_same)

lemma run_tail_yields:
  assumes "uuid_Parse E (rq_path_id r) = Some jid" and "ctx = Some t" and "db u = d"
    and "\<exists>row \<in> set (jobs d). jr_id row = jid \<and> job_of_row row = Inr j" and "jb_TenantID j = tn_ID t"
    and "sa = (case rj_ScheduledAt req of None \<Rightarrow> (ExecutionStatusPending, go_now clk)
                    | Some w \<Rightarrow> (ExecutionStatusScheduled, w))" and "go_now clk \<le> snd sa"
    and clock: "zero_time < go_now clk"
  shows "yields (case sa of (st, at) \<Rightarrow>
     let e = new_execution jid (go_now clk) t j req st at eid in
     and_then (run_tx E clk carrier t j e at) (\<lambda>_.
     ret (reply (respondJson 200 (Some (enc_RunJobResponse (uuid_String E eid))))))) u
     (run_outcome E clk eid carrier ctx r d) (run_outcome E clk eid carrier ctx r d)"
proof -
  obtain st at where sa: "sa = (st, at)" by (cases sa)
  let ?e = "new_execution jid (go_now clk) t j req st at eid"
  obtain res v where tx: "run_tx E clk carrier t j ?e at u = (res, v)"
    by (cases "run_tx E clk carrier t j ?e at u")
  have "at \<noteq> zero_time" using assms(7) clock sa by simp
  note out = run_tx_outcome [OF tx this]
  have eff: "run_effect E clk eid carrier t r d (db v)"
    if "enc_payload E j carrier = Some p" "below_limit t d" "db v = run_db clk ?e p at d" for p
    unfolding run_effect_def using assms that sa by (metis snd_conv)
  show ?thesis
    using out tx eff assms(2,3) run_tx_refuses [of E clk carrier t j ?e at u]
    by (cases res) (auto simp: sa yields_def and_then_def ret_apply run_outcome_def)
qed

text \<open>C3: Running a job is all or nothing. A request answered with 200 has added one execution,
  owned by the authenticated tenant, of a job of that tenant, and one queue row that carries the
  job as it is stored, visible from the scheduled time on, never in the past, when fewer
  executions of the tenant than its limit were running. With any other
  answer the tables are as before, unless the commit happened and only its reply was lost.\<close>

theorem RunJob_atomic:
  assumes h: "h_RunJob E clk eid carrier ctx r s = (a, s')" and clock: "zero_time < go_now clk"
  shows "(\<exists>t. ctx = Some t \<and> run_effect E clk eid carrier t r (db s) (db s')) \<and>
       (fst a = respondJson 200 (Some (enc_RunJobResponse (uuid_String E eid))) \<or> rs_status (fst a) \<ge> 400) \<or>
     rs_status (fst a) \<ge> 400 \<and> (\<exists>d. db s' = restore (db s) d)"
proof -
  have "run_outcome E clk eid carrier ctx r (db s) a s'"
    by (rule yields_finish [where P = "run_outcome E clk eid carrier ctx r (db s)"],
      rule h [unfolded h_RunJob_def handle_def],
      rule refused_bind [OF need_yields], simp, rule refl, elim conjE,
      rule refused_bind [OF need_yields], simp, assumption, unfold TenantFromContext_def, elim conjE,
      rule refused_bind [OF run_request_yields], assumption,
      rule refused_bind [OF get_own_job_yields], assumption, elim conjE,
      rule refused_bind [OF schedule_yields], assumption, elim conjE,
      rule run_tail_yields [OF _ _ _ _ _ _ _ clock], assumption+)
      (erule refused_run_outcome)+
  then show ?thesis by (simp add: run_outcome_def)
qed

section \<open>Creating a job\<close>

definition job_outcome ::
    "externals \<Rightarrow> clocks \<Rightarrow> uuid \<Rightarrow> tenant option \<Rightarrow> request \<Rightarrow> database \<Rightarrow> answer \<Rightarrow> session \<Rightarrow> bool" where
  "job_outcome E clk jid ctx r d a u \<longleftrightarrow>
     (\<exists>t req. ctx = Some t \<and> decode_body dec_CreateJobRequest (rq_body r) = Inr req \<and>
        cj_Name req \<noteq> [] \<and> cj_Image req \<noteq> [] \<and> 0 \<le> cj_Priority req \<and> cj_Priority req \<le> 100 \<and>
        int32_ok (cj_DefaultTimeout req) \<and>
        db u = d\<lparr>jobs := jobs d @ [job_row_of (new_job jid (go_now clk) t req)]\<rparr>) \<and>
       (fst a = respondJson 200 (Some (enc_CreateJobResponse (uuid_String E jid))) \<or> rs_status (fst a) \<ge> 400) \<or>
     rs_status (fst a) \<ge> 400 \<and> (\<exists>d'. db u = restore d d')"

lemma refused_job_outcome: "refused d a u \<Longrightarrow> job_outcome E clk jid ctx r d a u"
  unfolding refused_def job_outcome_def by (metis restore_same)

lemma CreateJob_Inr: "CreateJob j s = (Inr u, t) \<Longrightarrow>
   db t = (db s)\<lparr>jobs := jobs (db s) @ [job_row_of j]\<rparr> \<and> int32_ok (jb_DefaultTimeout j)"
  by (auto simp: CreateJob_def insert_job_def dest!: exec_Inr split: if_splits)

lemma create_job_tail:
  assumes "decode_body dec_CreateJobRequest (rq_body r) = Inr req" and "cj_Name req \<noteq> []" and "cj_Image req \<noteq> []"
    and "0 \<le> cj_Priority req" and "cj_Priority req \<le> 100" and "ctx = Some t" and "db u = d"
  shows "yields (and_then (with_tx (bad ''Internal database error'' 500) (bad ''Failed to commit transaction'' 500)
       (or_fail ''Failed to create job'' 500 (CreateJob (new_job jid (go_now clk) t req)))) (\<lambda>_.
     ret (reply (respondJson 200 (Some (enc_CreateJobResponse (uuid_String E jid))))))) u
     (job_outcome E clk jid ctx r d) (job_outcome E clk jid ctx r d)"
proof (rule yields_bind [where Q' = "\<lambda>_ v. db v = d\<lparr>jobs := jobs d @ [job_row_of (new_job jid (go_now clk) t req)]\<rparr> \<and>
      int32_ok (cj_DefaultTimeout req)"], rule yieldsI)
  let ?j = "new_job jid (go_now clk) t req"
  let ?tx = "with_tx (bad ''Internal database error'' 500) (bad ''Failed to commit transaction'' 500)
       (or_fail ''Failed to create job'' 500 (CreateJob ?j)) :: unit handling"
  have made: "db v = d\<lparr>jobs := jobs d @ [job_row_of ?j]\<rparr> \<and> int32_ok (cj_DefaultTimeout req)"
    if "db s0 = d" "or_fail ''Failed to create job'' 500 (CreateJob ?j) s0 = (Inr (), s1)" "db v = db s1" for v s0 s1
    using CreateJob_Inr [OF or_fail_InrD [OF that(2)]] that by (simp add: new_job_def)
  show "db v = d\<lparr>jobs := jobs d @ [job_row_of ?j]\<rparr> \<and> int32_ok (cj_DefaultTimeout req)"
    if "?tx u = (Inr x, v)" for x v
    using that assms(7) made by (auto elim!: with_tx_Inr)
  show "job_outcome E clk jid ctx r d e v" if tx: "?tx u = (Inl e, v)" for e v
  proof -
    have st: "rs_status (fst e) \<ge> 400"
      using with_tx_error [OF tx] by (auto dest!: yields_InlD [OF or_fail_yields])
    from tx show ?thesis
    proof (cases rule: with_tx_Inl)
      case (rolled_back d')
      then show ?thesis using st assms(7) by (auto simp: job_outcome_def)
    next
      case not_begun
      then show ?thesis using st assms(7) by (intro refused_job_outcome) (simp add: refused_def)
    next
      case (reply_lost s0 x s1)
      then show ?thesis using st assms made by (auto simp: job_outcome_def)
    qed
  qed
qed (use assms in \<open>auto simp: job_outcome_def intro!: yields_ret\<close>)

text \<open>C31: A job definition is accepted only with a name, an image, a priority from 0 to 100, a
  timeout that fits the column and an authenticated tenant, who becomes its owner; otherwise the
  tables stay as they are, unless only the reply to the commit was lost.\<close>

theorem CreateJob_validated:
  assumes "h_CreateJob E clk jid ctx r s = (a, s')"
  shows "(\<exists>t req. ctx = Some t \<and> decode_body dec_CreateJobRequest (rq_body r) = Inr req \<and>
        cj_Name req \<noteq> [] \<and> cj_Image req \<noteq> [] \<and> 0 \<le> cj_Priority req \<and> cj_Priority req \<le> 100 \<and>
        int32_ok (cj_DefaultTimeout req) \<and>
        db s' = (db s)\<lparr>jobs := jobs (db s) @ [job_row_of (new_job jid (go_now clk) t req)]\<rparr>) \<and>
       (fst a = respondJson 200 (Some (enc_CreateJobResponse (uuid_String E jid))) \<or> rs_status (fst a) \<ge> 400) \<or>
     rs_status (fst a) \<ge> 400 \<and> (\<exists>d'. db s' = restore (db s) d')"
proof -
  have g: "yields (guard b (bad m 400)) u (\<lambda>_ v. b \<and> db v = db s) (refused (db s))" if "db u = db s" for b m u
    by (rule yields_guard) (use that in simp_all)
  have "job_outcome E clk jid ctx r (db s) a s'"
    by (rule yields_finish [where P = "job_outcome E clk jid ctx r (db s)"],
      rule assms [unfolded h_CreateJob_def handle_def],
      rule refused_bind [OF decode_yields], simp, rule refl, elim conjE,
      rule refused_bind [OF g], assumption, elim conjE,
      rule refused_bind [OF g], assumption, elim conjE,
      rule refused_bind [OF need_yields], simp, assumption, unfold TenantFromContext_def, elim conjE,
      rule create_job_tail, assumption, simp, simp, simp add: PriorityMin_def, simp add: PriorityMax_def,
      assumption+)
      (erule refused_job_outcome)+
  then show ?thesis by (simp add: job_outcome_def)
qed

section \<open>The limit on running executions\<close>

text \<open>The limit holds when a job is run, not when its execution starts: which executions a
  dequeue claims and marks running does not depend on the tenants and their limits at all.\<close>

lemma dequeue_ignores_limits:
  "DequeueBatch clk locked tids limit (calm (d\<lparr>tenants := ts\<rparr>)) =
     (case DequeueBatch clk locked tids limit (calm d) of
        (res, t) \<Rightarrow> (res, t\<lparr>db := (db t)\<lparr>tenants := ts\<rparr>\<rparr>))"
proof -
  have sel: "select_batch now locked tids n (d\<lparr>tenants := ts\<rparr>) = select_batch now locked tids n d" for now n
    by (simp add: select_batch_def)
  have up: "(calm x)\<lparr>db := y\<rparr> = calm y" for x y by simp
  have b: "bump_claimed now ids (d\<lparr>tenants := ts\<rparr>) = (bump_claimed now ids d)\<lparr>tenants := ts\<rparr>" for now ids
    by (simp add: bump_claimed_def)
  have s: "start_claimed now ids (x\<lparr>tenants := ts\<rparr>) = (start_claimed now ids x)\<lparr>tenants := ts\<rparr>" for now ids x
    by (simp add: start_claimed_def)
  show ?thesis
    by (simp add: DequeueBatch_eq early_def with_tx_calm claim_body_def and_then_def on_error_def query_calm
        exec_calm throw_apply ret_apply sel b s Let_def)
qed

section \<open>What a tenant sees\<close>

text \<open>The rows of a tenant: what the read endpoints are to show, and all they may show.\<close>

definition own_view :: "uuid \<Rightarrow> database \<Rightarrow>
    execution list \<times> dlq_row list \<times> LogEntry list \<times> (uuid \<times> job_row option) list" where
  "own_view tid d =
     (let es = filter (\<lambda>e. ex_TenantID e = tid) (executions d) in
      (es, filter (\<lambda>r. dr_tenant_id r = tid) (dlq d),
       filter (\<lambda>l. lg_ExecutionID l \<in> ex_ID ` set es) (logs d),
       map (\<lambda>e. (ex_ID e, find_job d (ex_JobID e))) es))"

text \<open>The status and body of the answer.\<close>

definition answers :: "('a \<Rightarrow> session \<Rightarrow> answer \<times> session) \<Rightarrow> 'a \<Rightarrow> database \<Rightarrow> answer" where
  "answers h r d = fst (h r (calm d))"

lemma own_execution:
  assumes i: "executions_ok d" and v: "filter (\<lambda>e. ex_TenantID e = tid) (executions d) = es"
  shows "(case find_execution d eid of None \<Rightarrow> None | Some e \<Rightarrow> if ex_TenantID e = tid then Some e else None) =
    find (\<lambda>e. ex_ID e = eid) es"
proof (cases "find (\<lambda>e. ex_ID e = eid) es")
  case None
  then have "find_execution d eid = Some e \<Longrightarrow> ex_TenantID e \<noteq> tid" for e
    using find_execution_Some [OF i] v by (auto simp: find_None_iff)
  then show ?thesis using None by (auto split: option.split)
next
  case (Some e)
  then have "e \<in> set es" "ex_ID e = eid" by (auto dest: find_SomeD)
  then have "find_execution d eid = Some e" "ex_TenantID e = tid"
    using v find_execution_Some [OF i] by auto
  then show ?thesis using Some by simp
qed

lemma get_own_execution_calm:
  assumes "executions_ok d"
  shows "get_own_execution tid eid (calm d) =
    (case find (\<lambda>e. ex_ID e = eid) (filter (\<lambda>e. ex_TenantID e = tid) (executions d)) of
       None \<Rightarrow> (Inl (bad ''Execution not found'' 404), calm d)
     | Some e \<Rightarrow> if ex_Result e = None \<or> ex_CallbackHeaders e = None
                 then (Inl (bad ''Execution not found'' 404), calm d) else (Inr e, calm d))"
  unfolding own_execution [OF assms refl, symmetric]
  by (auto simp: get_own_execution_def GetExecutionByID_def and_then_def or_fail_def on_error_def query_calm
      guard_apply ret_apply scan_raw_def split: option.split)

lemma GetExecution_view:
  assumes "executions_ok d"
  shows "answers (h_GetExecution E (Some t)) r d =
    (case uuid_Parse E (rq_path_id r) of
       None \<Rightarrow> bad ''Invalid execution id'' 400
     | Some eid \<Rightarrow>
         (case find (\<lambda>e. ex_ID e = eid) (fst (own_view (tn_ID t) d)) of
            None \<Rightarrow> bad ''Execution not found'' 404
          | Some e \<Rightarrow> if ex_Result e = None \<or> ex_CallbackHeaders e = None
                 then bad ''Execution not found'' 404
                 else reply (respondJson 200 (enc_ExecutionResponse (execution_response E e)))))"
  by (auto simp: answers_def h_GetExecution_def handle_def finish_def and_then_def need_apply ret_apply
      TenantIDFromContext_def TenantFromContext_def get_own_execution_calm [OF assms] own_view_def Let_def
      split: option.split)

lemma map_filter_cong:
  "(\<And>x. x \<in> set xs \<Longrightarrow> f x = g x) \<Longrightarrow> List.map_filter f xs = List.map_filter g xs"
  by (induction xs) (simp_all add: List.map_filter_simps split: option.split)

lemma dlq_entry_view:
  assumes i: "db_inv d" and r: "r \<in> set (dlq d)" "dr_tenant_id r = tid"
  shows "dlq_entry d r =
    (case find (\<lambda>e. ex_ID e = dr_execution_id r) (fst (own_view tid d)) of
       None \<Rightarrow> None
     | Some e \<Rightarrow>
        (case Option.bind (map_of (snd (snd (snd (own_view tid d)))) (dr_execution_id r)) id of
           None \<Rightarrow> None
         | Some j \<Rightarrow> Some \<lparr>dq_ID = dr_id r, dq_ExecutionID = dr_execution_id r,
               dq_TenantID = dr_tenant_id r, dq_JobID = ex_JobID e, dq_JobName = jr_name j,
               dq_Priority = ex_Priority e, dq_Payload = dr_payload r,
               dq_ErrorMessage = dr_error_message r, dq_Attempts = dr_attempts r,
               dq_FailedAt = dr_failed_at r\<rparr>))"
proof -
  have ok: "executions_ok d" using i by (simp add: db_inv_def)
  obtain e where e: "e \<in> set (executions d)" "ex_ID e = dr_execution_id r" "ex_TenantID e = tid"
    using i r by (auto simp: db_inv_defs)
  have fe: "find_execution d (dr_execution_id r) = Some e" using e find_execution_Some [OF ok] by auto
  let ?es = "filter (\<lambda>e. ex_TenantID e = tid) (executions d)"
  have fv: "find (\<lambda>e. ex_ID e = dr_execution_id r) ?es = Some e"
    using own_execution [OF ok refl, where eid = "dr_execution_id r" and tid = tid] fe e(3) by simp
  have "distinct (map ex_ID (executions d))" using ok by (simp add: executions_ok_def)
  then have "distinct (map ex_ID ?es)" by (rule distinct_map_filter)
  then have "distinct (map fst (map (\<lambda>e. (ex_ID e, find_job d (ex_JobID e))) ?es))" by (simp add: o_def)
  then have "map_of (map (\<lambda>e. (ex_ID e, find_job d (ex_JobID e))) ?es) (dr_execution_id r)
      = Some (find_job d (ex_JobID e))"
    by (rule map_of_is_SomeI) (use e in force)
  then show ?thesis using fe fv by (simp add: dlq_entry_def own_view_def Let_def)
qed

text \<open>C8: Tenants are isolated. The answers of the read endpoints (an execution, its logs, the
  dead letter queue) to a tenant depend only on the tenant's own rows: two databases that agree on
  these give the same answers, so whatever other tenants own, and even whether an identifier of
  theirs exists, cannot be told.\<close>

theorem tenant_isolation:
  assumes "db_inv d" and "db_inv d'" and "own_view (tn_ID t) d = own_view (tn_ID t) d'"
  shows "answers (h_GetExecution E (Some t)) r d = answers (h_GetExecution E (Some t)) r d' \<and>
    answers (h_GetExecutionLogs E ties (Some t)) r d = answers (h_GetExecutionLogs E ties (Some t)) r d' \<and>
    answers (h_GetDQLExecutions E ties (Some t)) r d = answers (h_GetDQLExecutions E ties (Some t)) r d'"
proof (intro conjI)
  have ok: "executions_ok d" "executions_ok d'" using assms(1,2) by (simp_all add: db_inv_def)
  show "answers (h_GetExecution E (Some t)) r d = answers (h_GetExecution E (Some t)) r d'"
    unfolding GetExecution_view [OF ok(1)] GetExecution_view [OF ok(2)] assms(3) by (rule refl)
  let ?f = "\<lambda>d. filter (\<lambda>e. ex_TenantID e = tn_ID t) (executions d)"
  have es: "?f d = ?f d'" and dl: "filter (\<lambda>r. dr_tenant_id r = tn_ID t) (dlq d) = filter (\<lambda>r. dr_tenant_id r = tn_ID t) (dlq d')"
    and ls: "filter (\<lambda>l. lg_ExecutionID l \<in> ex_ID ` set (?f d)) (logs d) = filter (\<lambda>l. lg_ExecutionID l \<in> ex_ID ` set (?f d')) (logs d')"
    using assms(3) unfolding own_view_def Let_def prod.inject by blast+
  have logs: "filter (\<lambda>l. lg_ExecutionID l = eid \<and> lg_ID l > a) (logs d) = filter (\<lambda>l. lg_ExecutionID l = eid \<and> lg_ID l > a) (logs d')"
    if "eid \<in> ex_ID ` set (?f d)" for eid a
  proof -
    have "filter (\<lambda>l. lg_ExecutionID l = eid \<and> lg_ID l > a) (logs x) =
        filter (\<lambda>l. lg_ExecutionID l = eid \<and> lg_ID l > a) (filter (\<lambda>l. lg_ExecutionID l \<in> ex_ID ` set (?f x)) (logs x))"
      if "eid \<in> ex_ID ` set (?f x)" for x
      using that by (auto intro: filter_cong)
    note split = this
    have "eid \<in> ex_ID ` set (?f d')" using that unfolding es .
    show ?thesis unfolding split [OF that] split [OF \<open>eid \<in> ex_ID ` set (?f d')\<close>] ls by (rule refl)
  qed
  show "answers (h_GetExecutionLogs E ties (Some t)) r d = answers (h_GetExecutionLogs E ties (Some t)) r d'"
  proof (cases "uuid_Parse E (rq_path_id r)")
    case None
    then show ?thesis by (simp add: answers_def h_GetExecutionLogs_def handle_def finish_def and_then_def throw_apply)
  next
    case (Some eid)
    let ?a = "query_int r ''after_id'' 0 (\<lambda>_. True)" and ?l = "query_int r ''limit'' 1000 (\<lambda>n. 0 < n \<and> n \<le> 10000)"
    have "select_logs ties eid ?a ?l d = select_logs ties eid ?a ?l d'" if "find (\<lambda>e. ex_ID e = eid) (?f d) = Some e" for e
      using logs [of eid ?a] that by (auto simp: select_logs_def dest!: find_SomeD)
    then show ?thesis using Some
      by (auto simp: answers_def h_GetExecutionLogs_def handle_def finish_def and_then_def need_apply ret_apply
          TenantIDFromContext_def TenantFromContext_def get_own_execution_calm [OF ok(1)]
          get_own_execution_calm [OF ok(2)] es GetExecutionLogs_def or_fail_def on_error_def query_rows_calm query_calm Let_def
          split: option.split)
  qed
  have "select_dlq ties (tn_ID t) l k d = select_dlq ties (tn_ID t) l k d'" for l k
  proof -
    have "List.map_filter (dlq_entry d) (filter (\<lambda>r. dr_tenant_id r = tn_ID t) (dlq d)) =
        List.map_filter (dlq_entry d') (filter (\<lambda>r. dr_tenant_id r = tn_ID t) (dlq d))"
    proof (rule map_filter_cong)
      fix x assume x: "x \<in> set (filter (\<lambda>r. dr_tenant_id r = tn_ID t) (dlq d))"
      then have m: "x \<in> set (dlq d)" "dr_tenant_id x = tn_ID t" by simp_all
      have m': "x \<in> set (dlq d')" using x unfolding dl by simp
      show "dlq_entry d x = dlq_entry d' x"
        unfolding dlq_entry_view [OF assms(1) m] dlq_entry_view [OF assms(2) m' m(2)] assms(3) by (rule refl)
    qed
    then show ?thesis using dl by (simp add: select_dlq_def)
  qed
  then show "answers (h_GetDQLExecutions E ties (Some t)) r d = answers (h_GetDQLExecutions E ties (Some t)) r d'"
    by (simp add: answers_def h_GetDQLExecutions_def handle_def finish_def and_then_def need_apply ret_apply
          TenantIDFromContext_def TenantFromContext_def ListDLQ_def or_fail_def on_error_def query_rows_calm query_calm Let_def)
qed

end
