(* ===== verification/Access_Theorems.thy ===== *)
theory Access_Theorems
  imports Handler_Theorems
begin

text \<open>
  Who gets in: keys and secrets at the door of every route, the life of an API key, the updates
  of a tenant, the isolation of the rate limiters; and the executions that nobody can read.
\<close>

section \<open>Credentials\<close>

definition bears :: "request \<Rightarrow> string \<Rightarrow> bool" where
  "bears r key \<longleftrightarrow> rq_authorization r = ''Bearer '' @ key \<and> CHR '' '' \<notin> set key"

lemma bears_path [simp]: "bears (r\<lparr>rq_path_id := v\<rparr>) key = bears r key"
  by (simp add: bears_def)

text \<open>The request carries the key of the tenant \<open>t\<close>.\<close>

definition authenticates :: "externals \<Rightarrow> request \<Rightarrow> session \<Rightarrow> tenant \<Rightarrow> bool" where
  "authenticates E r s t \<longleftrightarrow> (\<exists>key u. bears r key \<and> GetTenantByAPIKeyHash (HashKey E key) s = (Inr t, u))"

lemma tenant_admits_iff:
  "tenant_admits E server_lookup r s = Some (ctx, u) \<Longrightarrow>
     \<exists>t. ctx = Some t \<and> authenticates E r (sv_session s) t \<and> sv_limiters u = sv_limiters s"
  by (auto simp: tenant_admits_def server_lookup_def on_session_def authenticates_def bears_def bearer_token_iff
      split: option.splits sum.splits prod.splits)

text \<open>Reads leave the tables alone: equality is an order of steps, too.\<close>

interpretation same_db: db_step_order "\<lambda>d d'. d' = d"
  by unfold_locales simp_all

lemma open_handler_db:
  assumes "rt \<noteq> PostTenants"
  shows "db (snd (open_handler C n rt r s)) = db s"
proof -
  have "keeps (on_db (\<lambda>d d'. d' = d)) (and_then (or_fail ''Database unavailable'' 503 (query (\<lambda>d. Inr ()))) (\<lambda>_.
     ret (reply (respondJson 200 (Some (JObj [(''status'', JStr ''ready'')]))))))"
    by (intro same_db.keeps_and_then same_db.keeps_or_fail same_db.keeps_query same_db.keeps_ret)
  then have "db (snd (h_Readyz r s)) = db s"
    unfolding h_Readyz_def handle_def using same_db.finish_keeps [where s = s] by (auto simp: on_db_def)
  then show ?thesis using assms
    by (cases rt) (simp_all add: h_Healthz_def handle_def finish_def ret_apply)
qed

text \<open>C9: Nothing in the database changes without a credential. If serving a request has changed
  it, the request created a tenant, or it carried the key of a tenant on a tenant route, or the
  system secret on a worker route, as the only token after Bearer.\<close>

theorem changes_need_credentials:
  assumes changed: "db (sv_session (snd (ServeHTTP C n method path r s))) \<noteq> db (sv_session s)"
  shows "\<exists>rt v. route_of (co_metrics C \<noteq> None) method path = Some (rt, v) \<and>
    (rt = PostTenants \<or>
     access_of rt = TenantAuth \<and> (\<exists>t. authenticates (co_externals C) r (sv_session s) t) \<or>
     access_of rt = InternalAuth \<and> bears r (co_secret C))"
proof -
  obtain rt v where rt: "route_of (co_metrics C \<noteq> None) method path = Some (rt, v)"
    and ch: "db (sv_session (snd (chain C n (access_of rt) rt (r\<lparr>rq_path_id := v\<rparr>) s))) \<noteq> db (sv_session s)"
    using changed by (auto simp: ServeHTTP_db split: option.splits)
  let ?r = "r\<lparr>rq_path_id := v\<rparr>"
  have "rt = PostTenants \<or>
     access_of rt = TenantAuth \<and> (\<exists>t. authenticates (co_externals C) r (sv_session s) t) \<or>
     access_of rt = InternalAuth \<and> bears r (co_secret C)"
  proof (cases "access_of rt")
    case Open
    have "db (sv_session (snd (on_session (open_handler C n rt ?r) s))) = db (sv_session s)" if "rt \<noteq> PostTenants"
      by (rule on_session_db [where R = "\<lambda>x y. y = x"]) (rule open_handler_db [OF that])
    then show ?thesis using ch Open by (auto simp: open_chain_def)
  next
    case TenantAuth
    have "tenant_admits (co_externals C) server_lookup ?r s \<noteq> None"
    proof
      assume n: "tenant_admits (co_externals C) server_lookup ?r s = None"
      show False using server_lookup.tenant_guard.denied [OF n] ch TenantAuth
        by (auto simp: tenant_chain_def)
    qed
    then obtain ctx u where "tenant_admits (co_externals C) server_lookup ?r s = Some (ctx, u)" by auto
    then show ?thesis using tenant_admits_iff TenantAuth
      by (fastforce simp: authenticates_def)
  next
    case InternalAuth
    have "secret_admits (co_secret C) ?r s \<noteq> None"
    proof
      assume n: "secret_admits (co_secret C) ?r s = None"
      show False
        using secret_guard.denied [OF n, where nxt = "\<lambda>_ r. on_session (internal_handler C n rt r)"] ch InternalAuth
        by (auto simp: internal_chain_def)
    qed
    then show ?thesis using InternalAuth
      by (auto simp: secret_admits_def bears_def bearer_token_iff split: if_splits)
  qed
  then show ?thesis using rt by blast
qed

text \<open>C10: A worker route answers with a success only to the exact system secret; in particular
  the key of a tenant does not open it.\<close>

theorem worker_routes_need_secret:
  assumes "route_of (co_metrics C \<noteq> None) method path = Some (rt, v)" and "access_of rt = InternalAuth"
    and "rs_status (fst (fst (ServeHTTP C n method path r s))) < 400"
  shows "bears r (co_secret C)"
proof -
  let ?r = "r\<lparr>rq_path_id := v\<rparr>"
  have "rs_status (fst (fst (internal_chain C n rt ?r s))) < 400"
    using assms by (auto simp: ServeHTTP_def split: prod.splits)
  then obtain u :: unit and s' where "secret_admits (co_secret C) ?r s = Some (u, s')"
    unfolding internal_chain_def
    using secret_guard.success_is_admitted [where nxt = "\<lambda>_ r. on_session (internal_handler C n rt r)"
        and sec = "co_secret C" and r = ?r and s = s] by blast
  then show ?thesis by (auto simp: secret_admits_def bears_def bearer_token_iff split: if_splits)
qed

section \<open>The key of a tenant\<close>

lemma api_key_no_space: "c \<in> set (api_key raw) \<Longrightarrow> \<not> is_space c"
  using hex_encode_not_space by (auto simp: api_key_def is_space_def)

lemma space_is_space: "is_space CHR '' ''"
  by (simp add: is_space_def)

text \<open>A string in the object that is the body of an answer.\<close>

definition body_field :: "string \<Rightarrow> response \<Rightarrow> string option" where
  "body_field k resp =
     (case rs_body resp of
        JsonBody (JObj kvs) \<Rightarrow> (case map_of kvs k of Some (JStr v) \<Rightarrow> Some v | _ \<Rightarrow> None)
      | _ \<Rightarrow> None)"

text \<open>C32: The answer to the creation of a tenant shows its key, this once: a request that bears the
  text under \<^verbatim>\<open>api_key\<close> in the body of the answer is passed on as one of the tenant just made,
  with the name and the limits asked for, provided no older key has the same hash.\<close>

theorem created_key_authenticates:
  assumes h: "h_CreateTenant E clk tid entropy r (calm d) = (a, s')" and st: "rs_status (fst a) = 201"
  shows "\<exists>key req. body_field ''api_key'' (fst a) = Some key \<and>
     body_field ''tenant_id'' (fst a) = Some (uuid_String E tid) \<and>
     decode_body dec_CreateTenantRequest (rq_body r) = Inr req \<and>
     ((\<forall>row \<in> set (tenants d). tr_api_key_hash row \<noteq> HashKey E key) \<longrightarrow>
      (\<forall>r'. rq_authorization r' = ''Bearer '' @ key \<longrightarrow>
         AuthMiddleware E GetTenantByAPIKeyHash nxt r' s' = nxt (Some (new_tenant tid (go_now clk) req)) r' s'))"
proof -
  obtain req where req: "decode_body dec_CreateTenantRequest (rq_body r) = Inr req"
    using h st by (auto simp: h_CreateTenant_def handle_def finish_def and_then_def decode_or_apply split: sum.splits)
  obtain raw where raw: "entropy = Some raw"
    using h st req by (cases entropy) (auto simp: h_CreateTenant_def handle_def finish_def and_then_def decode_or_apply
        need_apply throw_apply)
  let ?key = "api_key raw"
  let ?t = "new_tenant tid (go_now clk) req" and ?h = "HashKey E ?key"
  obtain d' where ins: "insert_tenant ?t ?h d = Inr d'" and s': "s' = calm d'"
    and a: "a = reply (respondJson 201 (Some (enc_CreateTenantResponse (uuid_String E tid) (tn_Name ?t) ?key)))"
    using h st req raw
    by (auto simp: h_CreateTenant_def handle_def finish_def and_then_def decode_or_apply or_fail_calm
        CreateTenant_def exec_calm Let_def ret_apply split: sum.splits)
  have body: "body_field ''api_key'' (fst a) = Some ?key" "body_field ''tenant_id'' (fst a) = Some (uuid_String E tid)"
    by (simp_all add: a body_field_def reply_def respondJson_def enc_CreateTenantResponse_def)
  have "AuthMiddleware E GetTenantByAPIKeyHash nxt r' s' = nxt (Some ?t) r' s'"
    if fresh: "\<forall>row \<in> set (tenants d). tr_api_key_hash row \<noteq> ?h" and key: "rq_authorization r' = ''Bearer '' @ ?key" for r'
  proof -
    have d': "tenants d' = tenants d @ [tenant_row_of ?t ?h]"
      using ins by (auto simp: insert_tenant_def split: if_splits)
    have "find (\<lambda>r. tr_api_key_hash r = ?h) (tenants d) = None"
      using fresh by (auto simp: find_None_iff)
    then have "find (\<lambda>r. tr_api_key_hash r = ?h) (tenants d') = Some (tenant_row_of ?t ?h)"
      by (simp add: d' find_snoc)
    moreover have "scan_tenant (tenant_row_of ?t ?h) = Inr ?t"
      by (simp add: scan_tenant_def scan_raw_def tenant_row_of_def new_tenant_def tenant.defs tenant_row.defs)
    ultimately have l: "GetTenantByAPIKeyHash ?h s' = (Inr ?t, s')"
      by (simp add: GetTenantByAPIKeyHash_def query_calm s')
    have "CHR '' '' \<notin> set ?key" using api_key_no_space space_is_space by blast
    then have "bearer_token (split_on CHR '' '' (rq_authorization r')) = Some ?key"
      by (intro iffD2 [OF bearer_token_iff]) (simp add: key)
    then show ?thesis using l key by (simp add: AuthMiddleware_def)
  qed
  then show ?thesis using body req by blast
qed

text \<open>C37: An update changes the tenant that sent it, whatever identifier the path names: its
  name and limits where the request gives a value, its callback always, even to nothing; no other
  tenant changes, and the cached rate limiter of this one is dropped.\<close>

theorem UpdateTenant_outcome:
  assumes "decode_body dec_CreateTenantRequest (rq_body r) = Inr req"
    and "tenant_ints_ok (patched_tenant req t)" and "tenant_text_ok (patched_tenant req t)"
  shows "\<exists>d'. h_UpdateTenant (Some t) (r\<lparr>rq_path_id := v\<rparr>) (calm d) =
      ((respondJson 204 None, [OnTenantUpdated (tn_ID t)]), calm d') \<and>
    tenants d' = map (\<lambda>row. if tn_ID row = tn_ID t then row\<lparr>
        tn_Name := (if ct_Name req = [] then tn_Name t else ct_Name req),
        tn_RateLimit := (if ct_RateLimit req = 0 then tn_RateLimit t else ct_RateLimit req),
        tn_RateLimitBurst := (if ct_RateLimitBurst req = 0 then tn_RateLimitBurst t else ct_RateLimitBurst req),
        tn_MaxConcurrentExecutions :=
          (if ct_MaxConcurrentExecutions req = 0 then tn_MaxConcurrentExecutions t else ct_MaxConcurrentExecutions req),
        tn_CallbackURL := ct_CallbackURL req,
        tn_CallbackHeaders := Some (enc_string_map_ptr (ct_CallbackHeaders req))\<rparr> else row) (tenants d) \<and>
    d' = d\<lparr>tenants := tenants d'\<rparr>"
proof -
  let ?d = "d\<lparr>tenants := update_where (\<lambda>r. tn_ID r = tn_ID t) (assign_tenant (patched_tenant req t)) (tenants d)\<rparr>"
  have "h_UpdateTenant (Some t) (r\<lparr>rq_path_id := v\<rparr>) (calm d) =
      ((respondJson 204 None, [OnTenantUpdated (tn_ID t)]), calm ?d)"
    using assms
    by (simp add: h_UpdateTenant_def handle_def finish_def and_then_def decode_or_apply TenantFromContext_def
        ret_apply or_fail_calm UpdateTenant_def exec_calm update_tenant_def patched_tenant_def)
  then show ?thesis
    by (intro exI [of _ ?d])
      (auto simp: update_where_def assign_tenant_def patched_tenant_def default_if_zero_def)
qed

section \<open>Rate limiters\<close>

text \<open>What an answer may leave to be done: checked for every path through a handler.\<close>

definition errs :: "(answer \<Rightarrow> bool) \<Rightarrow> 'a handling \<Rightarrow> bool" where
  "errs P m \<longleftrightarrow> (\<forall>s. yields m s (\<lambda>_ _. True) (\<lambda>a _. P a))"

definition gives :: "(answer \<Rightarrow> bool) \<Rightarrow> answer handling \<Rightarrow> bool" where
  "gives P m \<longleftrightarrow> (\<forall>s. yields m s (\<lambda>a _. P a) (\<lambda>a _. P a))"

definition updates_only :: "uuid option \<Rightarrow> answer \<Rightarrow> bool" where
  "updates_only tid a \<longleftrightarrow> (\<forall>x. OnTenantUpdated x \<in> set (snd a) \<longrightarrow> tid = Some x)"

lemma updates_only_simps [simp]:
  "updates_only tid (reply r)" "updates_only tid (bad m c)"
  "updates_only tid (r, [TriggerWebhook e])" "updates_only tid (r, [OnTenantUpdated x]) = (tid = Some x)"
  by (simp_all add: updates_only_def reply_def bad_def)

lemma errs_rules:
  "P e \<Longrightarrow> errs P (need e v)" "P e \<Longrightarrow> errs P (guard b e)" "errs P (ret x)" "P e \<Longrightarrow> errs P (throw e)"
  "P e \<Longrightarrow> errs P (decode_or e f r)" "P (bad m c) \<Longrightarrow> errs P (or_fail m c p)"
  "errs P p1 \<Longrightarrow> errs P p2 \<Longrightarrow> errs P (if b then p1 else p2)"
  using or_fail_yields
  by (auto simp: errs_def decode_or_def yields_def or_fail_def on_error_def guard_apply need_apply ret_apply throw_apply
      split: option.split sum.split prod.split)

lemma errs_and_then: "errs P m \<Longrightarrow> (\<And>x. errs P (f x)) \<Longrightarrow> errs P (and_then m f)"
  unfolding errs_def by (blast intro: yields_bind)

lemma errs_with_tx: "P eb \<Longrightarrow> P ec \<Longrightarrow> errs P body \<Longrightarrow> errs P (with_tx eb ec body)"
  unfolding errs_def by (auto intro!: yieldsI dest!: with_tx_error dest: yields_InlD)

lemma gives_and_then: "errs P m \<Longrightarrow> (\<And>x. gives P (f x)) \<Longrightarrow> gives P (and_then m f)"
  unfolding errs_def gives_def by (blast intro: yields_bind)

lemma gives_ret: "P a \<Longrightarrow> gives P (ret a)"
  by (simp add: gives_def yields_ret)

lemma gives_handle: "gives P m \<Longrightarrow> P (fst (handle m s))"
  unfolding gives_def handle_def by (metis yields_finish prod.collapse)

lemma errs_parts:
  "errs (updates_only o') (run_request r)" "errs (updates_only o') (get_own_job t jid)"
  "errs (updates_only o') (get_own_execution tid eid)" "errs (updates_only o') (schedule now req)"
  "errs (updates_only o') (run_tx E clk carrier t j e at)"
  unfolding run_request_def get_own_job_def get_own_execution_def schedule_def run_tx_def check_concurrency_def
  by (auto intro!: errs_and_then errs_with_tx errs_rules split: sum.split option.split)

lemma UpdateTenant_updates: "updates_only (map_option tn_ID ctx) (fst (h_UpdateTenant ctx r s))"
  unfolding h_UpdateTenant_def
proof (rule gives_handle [where P = "updates_only (map_option tn_ID ctx)"], rule gives_and_then)
  show "gives (updates_only (map_option tn_ID ctx))
     (and_then (need (bad ''Unauthorized'' 401) (TenantFromContext ctx)) (\<lambda>t.
      and_then (or_fail ''Failed to update tenant'' 500 (UpdateTenant (patched_tenant req t))) (\<lambda>_.
      ret (respondJson 204 None, [OnTenantUpdated (tn_ID t)]))))" for req
    by (cases ctx) (auto simp: TenantFromContext_def gives_def yields_def and_then_def or_fail_def on_error_def
        ret_apply throw_apply split: prod.split sum.split)
qed (simp add: errs_rules)

lemma handlers_update_none:
  "updates_only o' (fst (h_CreateTenant E clk tid entropy r s))"
  "updates_only o' (fst (h_CreateJob E clk jid ctx r s))"
  "updates_only o' (fst (h_RunJob E clk eid carrier ctx r s))"
  "updates_only o' (fst (h_GetExecution E ctx r s))"
  "updates_only o' (fst (h_GetDQLExecutions E ties ctx r s))"
  "updates_only o' (fst (h_RetryDQLExecution E clk newID ctx r s))"
  "updates_only o' (fst (h_InternalDequeue E clk locked r s))"
  "updates_only o' (fst (h_InternalHeartbeat E clk extn r s))"
  "updates_only o' (fst (h_InternalUpdateResult E clk r s))"
  "updates_only o' (fst (h_InternalAddLogs E clk r s))"
  "updates_only o' (fst (h_GetExecutionLogs E ties ctx r s))"
  "updates_only o' (fst (h_Healthz r s))"
  "updates_only o' (fst (h_Readyz r s))"
  unfolding h_CreateTenant_def h_CreateJob_def h_RunJob_def h_GetExecution_def
    h_GetDQLExecutions_def h_RetryDQLExecution_def h_InternalDequeue_def h_InternalHeartbeat_def
    h_InternalUpdateResult_def h_InternalAddLogs_def h_GetExecutionLogs_def h_Healthz_def
    h_Readyz_def Let_def case_prod_unfold
  by (rule gives_handle [where P = "updates_only o'"];
      intro gives_and_then gives_ret errs_parts errs_with_tx errs_rules; simp)+

lemma tenant_handler_updates:
  "updates_only (map_option tn_ID ctx) (fst (tenant_handler C n rt ctx r s))"
  by (cases rt) (simp_all add: UpdateTenant_updates handlers_update_none)

lemma other_handlers_update_none:
  "updates_only None (fst (open_handler C n rt r s))" "updates_only None (fst (internal_handler C n rt r s))"
  by (cases rt; simp add: handlers_update_none)+

lemma limiters_run_effects:
  "OnTenantUpdated tid \<notin> set es \<Longrightarrow> sv_limiters (run_effects es s) tid = sv_limiters s tid"
  by (induction es s rule: run_effects.induct) (auto simp: InvalidateTenant_def)

lemma limiters_on_session [simp]: "sv_limiters (snd (on_session f s)) = sv_limiters s"
  by (simp add: on_session_def split: prod.split)

lemma fst_on_session: "fst (on_session f s) = fst (f (sv_session s))"
  by (simp add: on_session_def split: prod.split)

text \<open>The limiters after a chain: only the tenant that authenticated can have used one.\<close>

lemma rate_limiters:
  assumes "sv_limiters (snd (RateMiddleware P ttl now (\<lambda>ctx r. on_session (f ctx r)) (Some t) r s)) tid \<noteq> sv_limiters s tid"
  shows "tn_ID t = tid"
proof (rule ccontr)
  assume "tn_ID t \<noteq> tid"
  then have "snd (take_token P ttl now t (sv_limiters s)) tid = sv_limiters s tid"
    using take_token_other [of tid t] by auto
  then show False using assms
    by (auto simp: RateMiddleware_def TenantFromContext_def split: prod.splits if_splits)
qed

lemma rate_effects:
  assumes "\<And>s. updates_only (Some (tn_ID t)) (fst (f (Some t) r s))"
  shows "updates_only (Some (tn_ID t)) (fst (RateMiddleware P ttl now (\<lambda>ctx r. on_session (f ctx r)) (Some t) r s))"
  using assms by (auto simp: RateMiddleware_def TenantFromContext_def fst_on_session split: prod.split)

text \<open>Rate limits are per tenant: serving a request changes the cached limiter of a tenant
  only if the request carried the key of that tenant.\<close>

lemma limiters_are_isolated:
  assumes changed: "sv_limiters (snd (ServeHTTP C n method path r s)) tid \<noteq> sv_limiters s tid"
  shows "\<exists>t. authenticates (co_externals C) r (sv_session s) t \<and> tn_ID t = tid"
proof -
  obtain rt v where rt: "route_of (co_metrics C \<noteq> None) method path = Some (rt, v)"
    using changed by (auto simp: ServeHTTP_def split: option.splits)
  let ?r = "r\<lparr>rq_path_id := v\<rparr>"
  obtain a u where ch: "chain C n (access_of rt) rt ?r s = (a, u)"
    by (cases "chain C n (access_of rt) rt ?r s")
  have ch2: "sv_limiters (run_effects (snd a) u) tid \<noteq> sv_limiters s tid"
    using changed rt ch by (auto simp: ServeHTTP_def split: prod.splits)
  show ?thesis
  proof (cases "access_of rt")
    case Open
    have "updates_only None a" "sv_limiters u = sv_limiters s"
      using ch Open other_handlers_update_none(1) fst_on_session limiters_on_session
      by (metis chain.simps(1) fst_conv open_chain_def snd_conv)+
    then show ?thesis using ch2 limiters_run_effects [of tid "snd a" u] by (auto simp: updates_only_def)
  next
    case InternalAuth
    have "updates_only None a \<and> sv_limiters u = sv_limiters s"
    proof (cases "secret_admits (co_secret C) ?r s")
      case None
      from secret_guard.denied [OF None, where nxt = "\<lambda>_ r. on_session (internal_handler C n rt r)"]
      show ?thesis using ch InternalAuth by (auto simp: internal_chain_def denial_def updates_only_def)
    next
      case (Some cs)
      then have "secret_admits (co_secret C) ?r s = Some ((), s)" by (auto simp: secret_admits_def split: if_splits)
      from secret_guard.admitted [OF this, where nxt = "\<lambda>_ r. on_session (internal_handler C n rt r)"]
      have "(a, u) = on_session (internal_handler C n rt ?r) s"
        using ch InternalAuth by (simp add: internal_chain_def)
      then show ?thesis using other_handlers_update_none(2) fst_on_session limiters_on_session
        by (metis fst_conv snd_conv)
    qed
    then show ?thesis using ch2 limiters_run_effects [of tid "snd a" u] by (auto simp: updates_only_def)
  next
    case TenantAuth
    let ?n = "RateMiddleware (co_rate C) default_ttl (go_now (en_clocks n))
        (\<lambda>ctx r. on_session (tenant_handler C n rt ctx r))"
    have au: "AuthMiddleware (co_externals C) server_lookup ?n ?r s = (a, u)"
      using ch TenantAuth by (simp add: tenant_chain_def)
    show ?thesis
    proof (cases "tenant_admits (co_externals C) server_lookup ?r s")
      case None
      have "a = fst (AuthMiddleware (co_externals C) server_lookup ?n ?r s)" using au by simp
      then have e: "snd a = []" using server_lookup.tenant_guard.denied [OF None] by (simp add: denial_def)
      have "sv_limiters u = sv_limiters s"
        using None au by (auto simp: tenant_admits_def AuthMiddleware_def server_lookup_def on_session_def
            split: if_splits option.splits prod.splits sum.splits)
      then show ?thesis using ch2 e by simp
    next
      case (Some cs)
      obtain ctx w where cs: "tenant_admits (co_externals C) server_lookup ?r s = Some (ctx, w)"
        using Some by (cases cs) auto
      obtain t where t: "ctx = Some t" and au_t: "authenticates (co_externals C) ?r (sv_session s) t"
        and w: "sv_limiters w = sv_limiters s"
        using tenant_admits_iff [OF cs] by blast
      have nx: "?n (Some t) ?r w = (a, u)"
        using server_lookup.tenant_guard.admitted [OF cs, of ?n] au t by simp
      have "updates_only (Some (tn_ID t)) (fst (?n (Some t) ?r w))"
        by (rule rate_effects) (use tenant_handler_updates [of "Some t"] in simp)
      then have "updates_only (Some (tn_ID t)) a" using nx by simp
      then have "tn_ID t = tid \<or> sv_limiters (snd (?n (Some t) ?r w)) tid \<noteq> sv_limiters w tid"
        using ch2 limiters_run_effects [of tid "snd a" u] nx w
        by (cases "OnTenantUpdated tid \<in> set (snd a)") (auto simp: updates_only_def)
      then have "tn_ID t = tid" using rate_limiters by blast
      then show ?thesis using au_t by (auto simp: authenticates_def)
    qed
  qed
qed

section \<open>Executions that cannot be read\<close>

lemma GetExecutionByID_unreadable:
  assumes e: "find_execution (db s) eid = Some e" and n: "ex_Result e = None \<or> ex_CallbackHeaders e = None"
  obtains err u where "GetExecutionByID eid s = (Inl err, u)" and "db u = db s"
    and "get_own_execution tid eid s = (Inl (bad ''Execution not found'' 404), u)"
proof -
  obtain res u where g: "GetExecutionByID eid s = (res, u)" by (cases "GetExecutionByID eid s")
  have no: "res \<noteq> Inr x" for x using g GetExecutionByID_Inr [of eid s x u] e n by auto
  obtain err where "res = Inl err" using no by (cases res) blast+
  then have err: "GetExecutionByID eid s = (Inl err, u)" using g by simp
  moreover have "db (snd (GetExecutionByID eid s)) = db s" by (simp add: GetExecutionByID_def)
  then have "db u = db s" using err by simp
  moreover have "get_own_execution tid eid s = (Inl (bad ''Execution not found'' 404), u)"
    using err by (simp add: get_own_execution_def and_then_def or_fail_def on_error_def)
  ultimately show ?thesis by (rule that)
qed

text \<open>C38: The API cannot show an execution without a result or without callback headers. To its
  own tenant, both the execution and its retry from the dead letter queue are not found, its
  tables stay as they are, and no webhook is delivered for it. An execution that has only failed
  has no result, so all this is true of it.\<close>

theorem unreadable_executions:
  assumes e: "find_execution (db s) eid = Some e" and n: "ex_Result e = None \<or> ex_CallbackHeaders e = None"
    and r: "uuid_Parse E (rq_path_id r) = Some eid"
  shows "fst (h_GetExecution E (Some t) r s) = bad ''Execution not found'' 404 \<and>
    fst (h_GetExecutionLogs E ties (Some t) r s) = bad ''Execution not found'' 404 \<and>
    fst (h_RetryDQLExecution E clk newID (Some t) r s) = bad ''Execution not found'' 404 \<and>
    db (snd (h_RetryDQLExecution E clk newID (Some t) r s)) = db s \<and>
    (\<forall>x u. triggerWebhook eid s \<noteq> (Inr x, u))"
proof -
  obtain err u where err: "GetExecutionByID eid s = (Inl err, u)" and db: "db u = db s"
    and own: "get_own_execution (tn_ID t) eid s = (Inl (bad ''Execution not found'' 404), u)"
    using e n by (rule GetExecutionByID_unreadable)
  show ?thesis
    using own err r db
    by (simp add: h_GetExecution_def h_GetExecutionLogs_def h_RetryDQLExecution_def handle_def finish_def
        and_then_def ret_apply TenantIDFromContext_def TenantFromContext_def Let_def triggerWebhook_def)
qed

text \<open>An execution retried from the dead letter queue of a well-formed database is created
  without callback headers and stays so: at no later point of the life of the system, not even once it has succeeded, does the
  API find it.\<close>

lemma retried_never_found:
  assumes inv0: "db_inv (sy_db s0)" and clock: "go_now clk \<noteq> zero_time"
    and retry: "RetryFromDLQ clk newID eid (sv_session (sy_server s0)) = (Inr newID, v)"
    and later: "sys_reach C (s0\<lparr>sy_server := (sy_server s0)\<lparr>sv_session := v\<rparr>\<rparr>) s"
    and r: "uuid_Parse E (rq_path_id r) = Some newID"
  shows "fst (h_GetExecution E (Some t) r (sv_session (sy_server s))) = bad ''Execution not found'' 404"
proof -
  let ?d0 = "db (sv_session (sy_server s0))"
  have saf: "safe ?d0 (db v)"
    using keepsD [OF keeps_RetryFromDLQ retry] by (simp add: on_db_def)
  obtain x e where d1: "db v = retried_db clk newID x e ?d0"
    using RetryFromDLQ_Inr [OF retry clock] by auto
  let ?n = "retried_execution (go_now clk) newID e"
  have new: "?n \<in> set (executions (db v))" by (simp add: d1 retried_db_def)
  have s: "safe (db v) (sy_db s)" using sys_reach_safe [OF later] by (simp add: sy_db_def)
  then have inv: "db_inv (sy_db s)" using saf inv0 by (simp add: safe_def sy_db_def)
  have g: "grows (db v) (sy_db s)" using s by (rule safe_grows)
  obtain e' where e': "find_execution (sy_db s) (ex_ID ?n) = Some e'" and id: "identity_of e' = identity_of ?n"
    using g _ new by (rule grows_keeps_execution) (use inv in \<open>simp add: db_inv_def\<close>)
  have "ex_CallbackHeaders e' = None" using id by (simp add: identity_of_def retried_execution_def)
  moreover have "find_execution (db (sv_session (sy_server s))) newID = Some e'"
    using e' by (simp add: sy_db_def retried_execution_def)
  ultimately obtain u where
    "get_own_execution (tn_ID t) newID (sv_session (sy_server s)) = (Inl (bad ''Execution not found'' 404), u)"
    using GetExecutionByID_unreadable [of "sv_session (sy_server s)" newID e' "tn_ID t"] by metis
  then show ?thesis
    using r by (simp add: h_GetExecution_def handle_def finish_def and_then_def ret_apply
        TenantIDFromContext_def TenantFromContext_def)
qed

end
