(* ===== verification/Examples.thy ===== *)
theory Examples
  imports Access_Theorems
begin

text \<open>
  A small installation, and the properties of the control plane at work in it: two tenants, one
  job, two queued executions, a failed one in the dead letter queue. The uuid package writes
  the identifier \<open>n\<close> as \<open>n\<close> letters, and the hash of a key is the key.
\<close>

section \<open>The installation\<close>

definition demo_E :: externals where
  "demo_E = \<lparr>uuid_Parse = (\<lambda>s. if set s \<subseteq> {CHR ''u''} then Some (word_of_nat (length s)) else None),
     uuid_String = (\<lambda>u. replicate (unat u) CHR ''u''),
     sha256_Sum256 = (\<lambda>s. map of_char s)\<rparr>"

lemma demo_uuid_law: "uuid_law demo_E"
  by (auto simp: uuid_law_def demo_E_def)

definition tick :: "time \<Rightarrow> clocks" where
  "tick t = \<lparr>go_now = t, db_now = t\<rparr>"

lemma tick_simps [simp]: "go_now (tick t) = t" "db_now (tick t) = t"
  by (simp_all add: tick_def)

definition demo_tenant :: tenant where
  "demo_tenant = \<lparr>tn_ID = 1, tn_Name = ''acme'', tn_RateLimit = 100, tn_RateLimitBurst = 100,
     tn_MaxConcurrentExecutions = 2, tn_CallbackURL = None, tn_CallbackHeaders = Some JNull,
     tn_CreatedAt = 0\<rparr>"

definition demo_row :: tenant_row where
  "demo_row = tenant_row_of demo_tenant (HashKey demo_E ''key'')"

definition demo_job :: job_row where
  "demo_job = \<lparr>jr_id = 2, jr_tenant_id = 1, jr_name = ''build'', jr_image = ''alpine'',
     jr_default_command = Some (JArr [JStr ''make'']), jr_default_timeout = 60, jr_priority = 5,
     jr_created_at = 0, jr_callback_url = None, jr_callback_headers = Some JNull\<rparr>"

definition demo_execution :: "uuid \<Rightarrow> int \<Rightarrow> execution" where
  "demo_execution eid p = \<lparr>ex_ID = eid, ex_JobID = 2, ex_TenantID = 1, ex_Status = ExecutionStatusPending,
     ex_Priority = p, ex_Attempt = 0, ex_ExitCode = None, ex_ErrorMessage = None, ex_RetriedFrom = None,
     ex_CallbackURL = None, ex_CallbackHeaders = Some JNull, ex_CallbackStatus = None, ex_Result = None,
     ex_ScheduledAt = Some 0, ex_CreatedAt = 0, ex_StartedAt = None, ex_CompletedAt = None\<rparr>"

definition demo_queued :: "int \<Rightarrow> uuid \<Rightarrow> int \<Rightarrow> queue_row" where
  "demo_queued n eid p = \<lparr>qr_id = n, qr_execution_id = eid, qr_tenant_id = 1, qr_payload = JNull,
     qr_priority = p, qr_attempt = 0, qr_visible_after = 0, qr_created_at = 0\<rparr>"

text \<open>An execution that has failed six times, and its dead letter.\<close>

definition demo_failed :: execution where
  "demo_failed = (demo_execution 5 5)\<lparr>ex_Status := ExecutionStatusFailed, ex_Attempt := 6,
     ex_ErrorMessage := Some ''boom''\<rparr>"

definition demo_letter :: dlq_row where
  "demo_letter = \<lparr>dr_id = 1, dr_execution_id = 5, dr_tenant_id = 1, dr_payload = JNull,
     dr_error_message = Some ''boom'', dr_attempts = 6, dr_failed_at = 0\<rparr>"

definition demo_db :: database where
  "demo_db = \<lparr>tenants = [demo_row], jobs = [demo_job],
     executions = [demo_execution 3 5, demo_execution 4 9, demo_failed],
     queue = [demo_queued 1 3 5, demo_queued 2 4 9], dlq = [demo_letter], logs = [],
     queue_seq = 4, dlq_seq = 2, logs_seq = 1\<rparr>"

lemmas demo_rows = demo_tenant_def demo_row_def demo_job_def demo_execution_def demo_queued_def
  demo_failed_def demo_letter_def tenant_row_of_def tenant.defs tenant_row.defs

lemmas demo_defs = demo_rows demo_db_def

lemma demo_inv: "db_inv demo_db"
  by (simp add: db_inv_defs demo_defs agree_def MaxRetries_def)

lemma demo_tables:
  "find_queued demo_db 3 = Some (demo_queued 1 3 5)" "find_queued demo_db 4 = Some (demo_queued 2 4 9)"
  "find_execution demo_db 3 = Some (demo_execution 3 5)" "find_execution demo_db 4 = Some (demo_execution 4 9)"
  "find_execution demo_db 5 = Some demo_failed" "find_dlq demo_db 5 = Some demo_letter"
  "\<not> dead_lettered demo_db 3" "\<not> dead_lettered demo_db 4" "\<not> queued demo_db 5"
  "find_job demo_db 2 = Some demo_job"
  by (simp_all add: find_queued_def find_execution_def find_dlq_def find_job_def dead_lettered_def
      queued_def demo_defs)

section \<open>Dequeueing\<close>

lemmas claim_eval = prog_simps and_then_def on_error_def early_def Let_def claim_def bump_claimed_def
  start_claimed_def mark_running_def queue_item_def claimable_def dequeue_key_def VisibilityTimeout_def

lemma demo_select_one: "select_batch t [] [] 1 demo_db = [demo_queued 2 4 9]" if "0 \<le> t"
  using that by (simp add: select_batch_def demo_defs claimable_def dequeue_key_def)

lemma demo_dequeue_one:
  "DequeueBatch (tick 0) [] [] 1 (calm demo_db) =
     (Inr [queue_item (demo_queued 2 4 9)], calm (claim 0 [2] demo_db))"
  by (simp add: DequeueBatch_def prog_simps and_then_def on_error_def early_def demo_select_one Let_def claim_def)
    (simp add: demo_queued_def)

lemma dequeue_takes_best_witness:
  "\<exists>rows rest. [queue_item (demo_queued 2 4 9)] = map queue_item rows \<and> best_first rows rest \<and>
    mset (rows @ rest) = {#demo_queued 1 3 5, demo_queued 2 4 9#}"
proof -
  have f: "filter (\<lambda>q. qr_visible_after q \<le> db_now (tick 0) \<and> ([] = [] \<or> qr_tenant_id q \<in> set []) \<and> qr_id q \<notin> set [])
      (queue demo_db) = [demo_queued 1 3 5, demo_queued 2 4 9]"
    by (simp add: demo_db_def) (simp add: demo_queued_def)
  obtain rows rest where "[queue_item (demo_queued 2 4 9)] = map queue_item rows" "best_first rows rest"
    "mset (rows @ rest) = mset [demo_queued 1 3 5, demo_queued 2 4 9]"
    using dequeue_takes_best [OF demo_dequeue_one] unfolding calm_simps(1) f by (elim exE conjE) (rule that)
  then show ?thesis by (intro exI [of _ rows] exI [of _ rest]) simp
qed

lemma demo_dequeue_again:
  "DequeueBatch (tick 1) [] [] 1 (calm (claim 0 [2] demo_db)) =
     (Inr [queue_item (demo_queued 1 3 5)], calm (claim 1 [1] (claim 0 [2] demo_db)))"
proof -
  have "select_batch 1 [] [] 1 (claim 0 [2] demo_db) = [demo_queued 1 3 5]"
    by (simp add: select_batch_def claim_eval demo_defs)
  then show ?thesis
    by (simp add: DequeueBatch_def prog_simps and_then_def on_error_def early_def Let_def claim_def)
      (simp add: demo_queued_def)
qed

lemma demo_redeliver:
  "DequeueBatch (tick VisibilityTimeout) [] [] 2 (calm (claim 0 [2] demo_db)) =
     (Inr [queue_item ((demo_queued 2 4 9)\<lparr>qr_attempt := 1, qr_visible_after := VisibilityTimeout\<rparr>),
           queue_item (demo_queued 1 3 5)], calm (claim VisibilityTimeout [2, 1] (claim 0 [2] demo_db)))"
proof -
  have "select_batch VisibilityTimeout [] [] 2 (claim 0 [2] demo_db) =
      [(demo_queued 2 4 9)\<lparr>qr_attempt := 1, qr_visible_after := VisibilityTimeout\<rparr>, demo_queued 1 3 5]"
    by (simp add: select_batch_def claim_eval demo_defs)
  then show ?thesis
    by (simp add: DequeueBatch_def prog_simps and_then_def on_error_def early_def Let_def claim_def)
      (simp add: demo_queued_def)
qed

section \<open>Results and failures\<close>

lemma Fail_outcome_witness:
  "Fail (tick 0) 3 (Some 1) ''boom'' (calm demo_db) = (Inr (), calm (demo_db\<lparr>queue :=
     [(demo_queued 1 3 5)\<lparr>qr_visible_after := 10 * second\<rparr>, demo_queued 2 4 9]\<rparr>))"
  using Fail_outcome [OF demo_tables(1), of "''boom''" "Some 1" "tick 0"] demo_tables(7)
  by (simp add: text_ok_def int32_ok_def) (simp add: demo_db_def demo_queued_def)

definition demo_round :: "int \<Rightarrow> clocks \<times> int list \<times> uuid list \<times> int" where
  "demo_round k = (tick (k * hour), [], [], 1)"

definition demo_alone :: "int \<Rightarrow> time \<Rightarrow> database" where
  "demo_alone k t = demo_db\<lparr>
     executions := [(demo_execution 3 5)\<lparr>ex_Attempt := k,
       ex_Status := (if k = 0 then ExecutionStatusPending else ExecutionStatusRunning),
       ex_StartedAt := (if k = 0 then None else Some 0)\<rparr>],
     queue := [(demo_queued 1 3 5)\<lparr>qr_attempt := k, qr_visible_after := t\<rparr>], dlq := []\<rparr>"

lemma demo_round_step:
  assumes "0 \<le> k" and "k < 5" and "t \<le> k * hour"
  shows "failing_round (demo_round k) 3 None ''boom'' (demo_alone k t) =
    Some (demo_alone (k + 1) (k * hour + fail_backoff (k + 1)))"
proof -
  have "select_batch (k * hour) [] [] 1 (demo_alone k t) =
      [(demo_queued 1 3 5)\<lparr>qr_attempt := k, qr_visible_after := t\<rparr>]"
    using assms by (simp add: select_batch_def demo_alone_def claimable_def demo_queued_def)
  then have "DequeueBatch (tick (k * hour)) [] [] 1 (calm (demo_alone k t)) =
      (Inr [queue_item (demo_queued 1 3 5)], calm (demo_alone (k + 1) (k * hour + VisibilityTimeout)))"
    using assms
    by (simp add: DequeueBatch_def claim_eval)
      (auto simp: demo_alone_def demo_defs)
  moreover have "Fail (tick (k * hour)) 3 None ''boom'' (calm (demo_alone (k + 1) u)) =
      (Inr (), calm (demo_alone (k + 1) (k * hour + fail_backoff (k + 1))))" for u
    using assms
    by (simp add: Fail_def attempting_def queue_attempt_def prog_simps and_then_def find_queued_def
        Fail_retry_def postpone_def MaxRetries_def demo_alone_def demo_queued_def)
  ultimately show ?thesis
    by (simp add: failing_round_def demo_round_def queue_item_def demo_queued_def)
qed

definition demo_dead :: database where
  "demo_dead = demo_db\<lparr>
     executions := [(demo_execution 3 5)\<lparr>ex_Attempt := 6, ex_Status := ExecutionStatusFailed,
       ex_StartedAt := Some 0, ex_ErrorMessage := Some ''boom'', ex_CompletedAt := Some (5 * hour)\<rparr>],
     queue := [], dlq := [\<lparr>dr_id = 2, dr_execution_id = 3, dr_tenant_id = 1, dr_payload = JNull,
       dr_error_message = Some ''boom'', dr_attempts = 6, dr_failed_at = 5 * hour\<rparr>], dlq_seq := 3\<rparr>"

lemma demo_last_round:
  assumes "t \<le> 5 * hour"
  shows "failing_round (demo_round 5) 3 None ''boom'' (demo_alone 5 t) = Some demo_dead"
proof -
  have "select_batch (5 * hour) [] [] 1 (demo_alone 5 t) =
      [(demo_queued 1 3 5)\<lparr>qr_attempt := 5, qr_visible_after := t\<rparr>]"
    using assms by (simp add: select_batch_def demo_alone_def claimable_def demo_queued_def)
  then have "DequeueBatch (tick (5 * hour)) [] [] 1 (calm (demo_alone 5 t)) =
      (Inr [queue_item (demo_queued 1 3 5)], calm (demo_alone 6 (5 * hour + VisibilityTimeout)))"
    by (simp add: DequeueBatch_def claim_eval) (simp add: demo_alone_def demo_defs)
  moreover have "Fail (tick (5 * hour)) 3 None ''boom'' (calm (demo_alone 6 u)) = (Inr (), calm demo_dead)" for u
    by (simp add: Fail_def attempting_def queue_attempt_def prog_simps and_then_def find_queued_def
        Fail_fatal_def insert_dlq_def text_ok_def dead_lettered_def delete_queued_def fail_execution_def
        dead_letter_def MaxRetries_def demo_alone_def demo_defs demo_dead_def)
  ultimately show ?thesis
    by (simp add: failing_round_def demo_round_def queue_item_def demo_queued_def)
qed

lemma demo_six_rounds:
  "failing_rounds (map demo_round [0, 1, 2, 3, 4, 5]) 3 None ''boom'' (demo_alone 0 0) = Some demo_dead"
  using demo_round_step [of 0 0] demo_round_step [of 1 "fail_backoff 1"]
    demo_round_step [of 2 "1 * hour + fail_backoff 2"] demo_round_step [of 3 "2 * hour + fail_backoff 3"]
    demo_round_step [of 4 "3 * hour + fail_backoff 4"] demo_last_round [of "4 * hour + fail_backoff 5"]
  by (simp add: fail_backoff_def eval_nat_numeral)

lemma six_attempts_then_dead_letter_witness:
  "\<not> queued demo_dead 3 \<and> finished demo_dead 3 \<and>
   (\<exists>x \<in> set (dlq demo_dead). dr_execution_id x = 3 \<and> dr_attempts x = 6 \<and> dr_payload x = JNull)"
proof -
  have inv: "db_inv (demo_alone 0 0)"
    by (simp add: db_inv_defs demo_alone_def demo_defs agree_def MaxRetries_def)
  have "find_queued (demo_alone 0 0) 3 = Some (demo_queued 1 3 5)" "\<not> dead_lettered (demo_alone 0 0) 3"
    by (simp_all add: find_queued_def dead_lettered_def demo_alone_def demo_queued_def)
  from six_attempts_then_dead_letter [OF inv this(1) _ this(2) _ _ demo_six_rounds]
  show ?thesis by (simp add: demo_queued_def text_ok_def)
qed

lemma Complete_outcome_witness:
  "\<exists>d'. Complete (tick 9) 3 0 (Some (JNum 1)) (calm demo_db) = (Inr (), calm d') \<and> \<not> queued d' 3 \<and>
     find_execution d' 3 = Some ((demo_execution 3 5)\<lparr>ex_Status := ExecutionStatusCompleted,
       ex_ExitCode := Some 0, ex_Result := Some (JNum 1), ex_CompletedAt := Some 9\<rparr>)"
  using Complete_outcome [OF demo_tables(3), of 0 "Some (JNum 1)" "tick 9"]
  by (simp add: int32_ok_def jsonb_ok_int64 int64_ok_def)

definition demo_running :: database where
  "demo_running = claim 0 [1] demo_db"

lemma demo_running: "db_inv demo_running"
    "find_queued demo_running 3 = Some ((demo_queued 1 3 5)\<lparr>qr_attempt := 1, qr_visible_after := VisibilityTimeout\<rparr>)"
    "find_execution demo_running 3 = Some ((demo_execution 3 5)\<lparr>ex_Status := ExecutionStatusRunning,
      ex_Attempt := 1, ex_StartedAt := Some 0\<rparr>)"
  by (simp_all add: demo_running_def claim_eval db_inv_defs agree_def MaxRetries_def find_queued_def
      find_execution_def demo_defs)

lemma interrupted_Complete_witness:
  "\<exists>t e. Complete (tick 9) 3 0 None \<lparr>db = demo_running, fates = [Served, Refused]\<rparr> = (Inl ErrConn, t) \<and>
     find_execution (db t) 3 = Some e \<and> ex_Status e = ExecutionStatusRunning"
  using interrupted_Complete [OF demo_running(1,2), of 0 None "tick 9"] by (fastforce simp: int32_ok_def)

definition demo_spent :: database where
  "demo_spent = demo_db\<lparr>queue := [(demo_queued 1 3 5)\<lparr>qr_attempt := 6\<rparr>]\<rparr>"

lemma late_failure_overwrites_witness:
  "\<exists>d'. Fail (tick 7) 5 None ''late'' (calm demo_db) = (Inr (), calm d') \<and> dlq d' = [demo_letter] \<and>
     queue d' = queue demo_db \<and>
     find_execution d' 5 = Some (demo_failed\<lparr>ex_ErrorMessage := Some ''late'', ex_CompletedAt := Some 7\<rparr>)"
  using late_failure_overwrites [OF demo_tables(5,9), of "''late''" None "tick 7"]
  by (simp add: text_ok_def) (simp add: demo_db_def demo_failed_def demo_execution_def)

lemma demo_retry:
  "RetryFromDLQ (tick 0) 6 5 (calm demo_db) =
     (Inr 6, calm (retried_db (tick 0) 6 demo_letter demo_failed demo_db))"
  by (simp add: RetryFromDLQ_def prog_simps and_then_def read_dlq_def demo_tables insert_execution_def
      retried_execution_def Enqueue_def insert_queue_def delete_dlq_def retried_db_def)
    (simp add: demo_defs find_execution_def find_job_def has_tenant_def int32_ok_def queued_def zero_time_def
      prog_simps and_then_def)

lemma RetryFromDLQ_atomic_witness:
  "go_now (tick 0) \<noteq> zero_time \<and> (\<exists>r e. find_dlq demo_db 5 = Some r \<and> find_execution demo_db 5 = Some e \<and>
     retried_db (tick 0) 6 demo_letter demo_failed demo_db = retried_db (tick 0) 6 r e demo_db)"
  using RetryFromDLQ_atomic [OF demo_retry] by (simp add: zero_time_def)

section \<open>Requests\<close>

definition demo_request :: "string \<Rightarrow> string \<Rightarrow> http_body \<Rightarrow> request" where
  "demo_request pid auth b = \<lparr>rq_path_id = pid, rq_query = [], rq_authorization = auth, rq_body = b,
     rq_content_length = 0\<rparr>"

lemma demo_request_simps [simp]:
  "rq_path_id (demo_request p a b) = p" "rq_query (demo_request p a b) = []"
  "rq_authorization (demo_request p a b) = a" "rq_body (demo_request p a b) = b"
  "rq_content_length (demo_request p a b) = 0"
  "(demo_request p a b)\<lparr>rq_path_id := q\<rparr> = demo_request q a b"
  by (simp_all add: demo_request_def)

lemma demo_E_simps [simp]:
  "uuid_Parse demo_E ''uu'' = Some 2" "uuid_Parse demo_E ''uuuuu'' = Some 5" "uuid_Parse demo_E ''uuuuuu'' = Some 6"
  by (simp_all add: demo_E_def)

lemma pad_two_four:
  "pad 2 n = [digit_char (n div 10 mod 10), digit_char (n mod 10)]"
  "pad 4 n = [digit_char (n div 10 div 10 div 10 mod 10), digit_char (n div 10 div 10 mod 10),
     digit_char (n div 10 mod 10), digit_char (n mod 10)]"
proof -
  have two: "2 = Suc (Suc 0)" and four: "4 = Suc (Suc (Suc (Suc 0)))" by simp_all
  show "pad 2 n = [digit_char (n div 10 mod 10), digit_char (n mod 10)]"
    by (simp only: two pad.simps append.simps)
  show "pad 4 n = [digit_char (n div 10 div 10 div 10 mod 10), digit_char (n div 10 div 10 mod 10),
     digit_char (n div 10 mod 10), digit_char (n mod 10)]"
    by (simp only: four pad.simps append.simps)
qed

lemma civil_epoch: "civil_from_days 0 = (1970, 1, 1)"
  unfolding civil_from_days_def split_era_def Let_def by simp

lemma digits: "digit_char 0 = CHR ''0''" "digit_char (Suc 0) = CHR ''1''" "digit_char 7 = CHR ''7''" "digit_char 9 = CHR ''9''"
  by code_simp+

lemma epoch_text: "enc_time 0 = Some (JStr ''1970-01-01T00:00:00Z'')"
  by (simp add: enc_time_def time_text_def year_of_def format_time_def civil_epoch
      format_frac_def digits pad_two_four)

lemmas handler_eval = prog_simps and_then_def on_error_def handle_def finish_def or_fail_def decode_or_def
  Let_def TenantFromContext_def TenantIDFromContext_def

definition demo_job_read :: job where
  "demo_job_read = \<lparr>jb_ID = 2, jb_TenantID = 1, jb_Name = ''build'', jb_Image = ''alpine'',
     jb_Command = Some [''make''], jb_DefaultTimeout = 60, jb_Priority = 5, jb_CallbackURL = None,
     jb_CallbackHeaders = Some JNull, jb_CreatedAt = 0\<rparr>"

lemma demo_get_job: "get_own_job demo_tenant 2 (calm demo_db) = (Inr demo_job_read, calm demo_db)"
  by (simp add: get_own_job_def GetJobByID_def handler_eval demo_tables)
    (simp add: job_of_row_def demo_job_def demo_job_read_def demo_tenant_def handler_eval)

definition demo_payload :: json where
  "demo_payload = the (enc_payload demo_E demo_job_read [])"

lemma demo_payload: "enc_payload demo_E demo_job_read [] = Some demo_payload" "jsonb_ok demo_payload"
  by (simp_all add: demo_payload_def enc_payload_def enc_Job_def demo_job_read_def epoch_text enc_string_map_def
      enc_string_def text_ok_def demo_E_def jsonb_ok_int64 int64_ok_def)

definition demo_new :: execution where
  "demo_new = new_execution 2 0 demo_tenant demo_job_read zero_RunJobRequest ExecutionStatusPending 0 7"

lemma demo_new: "demo_new = (demo_execution 7 5)\<lparr>ex_CallbackHeaders := Some JNull\<rparr>"
  by (simp add: demo_new_def new_execution_def demo_job_read_def demo_tenant_def demo_execution_def
      zero_RunJobRequest_def override_def)

lemma demo_insert: "insert_execution demo_new demo_db = Inr (demo_db\<lparr>executions := executions demo_db @ [demo_new]\<rparr>)"
  by (simp add: insert_execution_def demo_new find_execution_def find_job_def has_tenant_def int32_ok_def demo_defs)

lemma demo_enqueue:
  "Enqueue (tick 0) 7 (Some demo_payload) 0 (calm (demo_db\<lparr>executions := executions demo_db @ [demo_new]\<rparr>)) =
     (Inr 4, calm (run_db (tick 0) demo_new demo_payload 0 demo_db))"
proof -
  have "find_execution (demo_db\<lparr>executions := executions demo_db @ [demo_new]\<rparr>) 7 = Some demo_new"
    by (simp add: find_execution_def demo_new demo_defs)
  moreover have "\<not> queued (demo_db\<lparr>executions := executions demo_db @ [demo_new]\<rparr>) 7"
    by (simp add: queued_def demo_defs)
  ultimately show ?thesis
    using demo_payload(2)
    by (simp add: Enqueue_def insert_queue_def prog_simps zero_time_def run_db_def)
      (simp add: demo_db_def demo_new demo_execution_def)
qed

lemma demo_run_tx:
  "run_tx demo_E (tick 0) [] demo_tenant demo_job_read demo_new 0 (calm demo_db) =
     (Inr (), calm (run_db (tick 0) demo_new demo_payload 0 demo_db))"
proof -
  have "check_concurrency demo_tenant (calm demo_db) = (Inr (), calm demo_db)"
    by (simp add: check_concurrency_def CountRunningExecutions_def running_of_def handler_eval demo_defs)
  moreover have "CreateExecution demo_new (calm demo_db) =
      (Inr (), calm (demo_db\<lparr>executions := executions demo_db @ [demo_new]\<rparr>))"
    using demo_insert by (simp add: CreateExecution_def prog_simps demo_new demo_execution_def)
  moreover have "ex_ID demo_new = 7" by (simp add: demo_new demo_execution_def)
  ultimately show ?thesis
    by (simp add: run_tx_def handler_eval demo_payload demo_enqueue)
qed

lemma demo_uuid_7: "uuid_String demo_E 7 = ''uuuuuuu''"
  by (simp add: demo_E_def) (simp add: eval_nat_numeral)

definition demo_run_request :: request where
  "demo_run_request = demo_request ''uu'' ''Bearer key'' NoBytes"

lemma demo_run:
  "h_RunJob demo_E (tick 0) 7 [] (Some demo_tenant) demo_run_request (calm demo_db) =
     (reply (respondJson 200 (Some (enc_RunJobResponse ''uuuuuuu''))),
      calm (run_db (tick 0) demo_new demo_payload 0 demo_db))"
  using demo_run_tx
  by (simp add: h_RunJob_def demo_run_request_def handler_eval run_request_def demo_get_job schedule_def
      zero_RunJobRequest_def demo_new_def demo_uuid_7)

lemma demo_status [simp]: "rs_status (respondJson c p) = c" "rs_status (httpError m c) = c"
  by (simp_all add: respondJson_def httpError_def)

lemma RunJob_atomic_witness:
  "run_effect demo_E (tick 0) 7 [] demo_tenant demo_run_request demo_db
     (run_db (tick 0) demo_new demo_payload 0 demo_db)"
  using RunJob_atomic [OF demo_run] by (simp add: zero_time_def demo_status)

definition demo_job_body :: json where
  "demo_job_body = JObj [(''name'', JStr ''build''), (''image'', JStr ''alpine'')]"

definition demo_job_request :: CreateJobRequest where
  "demo_job_request = zero_CreateJobRequest\<lparr>cj_Name := ''build'', cj_Image := ''alpine''\<rparr>"

lemma demo_job_body: "dec_CreateJobRequest demo_job_body = Some demo_job_request"
  by (simp add: demo_job_body_def demo_job_request_def dec_CreateJobRequest_def set_CreateJobRequest_def
      zero_CreateJobRequest_def key_eq_eval)

definition demo_new_job :: job where
  "demo_new_job = new_job 8 0 demo_tenant demo_job_request"

lemma demo_create_job:
  "h_CreateJob demo_E (tick 0) 8 (Some demo_tenant) (demo_request [] [] (Doc demo_job_body)) (calm demo_db) =
     (reply (respondJson 200 (Some (enc_CreateJobResponse (uuid_String demo_E 8)))),
      calm (demo_db\<lparr>jobs := jobs demo_db @ [job_row_of demo_new_job]\<rparr>))"
proof -
  have "insert_job demo_new_job demo_db = Inr (demo_db\<lparr>jobs := jobs demo_db @ [job_row_of demo_new_job]\<rparr>)"
    by (simp add: insert_job_def demo_new_job_def new_job_def demo_job_request_def zero_CreateJobRequest_def
        override_def job_row_of_def job_row_ok_def int32_ok_def text_ok_def find_job_def has_tenant_def demo_defs)
  then have "CreateJob (new_job 8 0 demo_tenant demo_job_request) (calm demo_db) =
      (Inr (), calm (demo_db\<lparr>jobs := jobs demo_db @ [job_row_of demo_new_job]\<rparr>))"
    by (simp add: CreateJob_def prog_simps demo_new_job_def)
  then show ?thesis
    by (simp add: h_CreateJob_def handler_eval demo_job_body)
      (simp add: demo_job_request_def zero_CreateJobRequest_def PriorityMin_def PriorityMax_def handler_eval)
qed

lemma CreateJob_validated_witness:
  "\<exists>t req. Some demo_tenant = Some t \<and> dec_CreateJobRequest demo_job_body = Some req \<and>
     cj_Name req \<noteq> [] \<and> cj_Image req \<noteq> [] \<and> 0 \<le> cj_Priority req \<and> cj_Priority req \<le> 100 \<and>
     int32_ok (cj_DefaultTimeout req)"
  using CreateJob_validated [OF demo_create_job] by (auto simp: demo_job_body)

text \<open>A second tenant arrives, with a job and an execution of its own.\<close>

definition demo_other :: database where
  "demo_other = demo_db\<lparr>tenants := [demo_row, demo_row\<lparr>tn_ID := 9\<rparr>],
     jobs := [demo_job, demo_job\<lparr>jr_id := 10, jr_tenant_id := 9\<rparr>],
     executions := executions demo_db @ [(demo_execution 11 5)\<lparr>ex_JobID := 10, ex_TenantID := 9\<rparr>]\<rparr>"

lemma tenant_isolation_witness:
  "answers (h_GetExecution demo_E (Some demo_tenant)) (demo_request ''uuuuu'' [] NoBytes) demo_db =
   answers (h_GetExecution demo_E (Some demo_tenant)) (demo_request ''uuuuu'' [] NoBytes) demo_other"
proof -
  have "db_inv demo_other"
    by (simp add: db_inv_defs demo_other_def demo_defs agree_def MaxRetries_def)
  moreover have "own_view (tn_ID demo_tenant) demo_db = own_view (tn_ID demo_tenant) demo_other"
    by (simp add: own_view_def demo_other_def demo_defs find_job_def Let_def)
  ultimately show ?thesis using tenant_isolation [OF demo_inv] by blast
qed

section \<open>The server\<close>

definition demo_rate :: "int rate" where
  "demo_rate = \<lparr>rate_NewLimiter = (\<lambda>limit burst. burst), rate_Allow = (\<lambda>now l. (0 < l, l - 1))\<rparr>"

definition demo_C :: "int controller" where
  "demo_C = \<lparr>co_externals = demo_E, co_rate = demo_rate, co_secret = ''hush'', co_extension = 5 * minute,
     co_metrics = None\<rparr>"

definition demo_around :: "uuid \<Rightarrow> surroundings" where
  "demo_around u = \<lparr>en_clocks = tick 0, en_uuid = u, en_entropy = Some [1, 2], en_carrier = [], en_locked = [], en_ties = id\<rparr>"

definition demo_server :: "int server" where
  "demo_server = \<lparr>sv_session = calm demo_db, sv_limiters = (\<lambda>_. None)\<rparr>"

lemmas server_defs = demo_C_def demo_around_def demo_server_def

lemma demo_routes:
  "route_of False ''POST'' [''jobs'', ''uu'', ''run''] = Some (PostJobRun, ''uu'')"
  "route_of False ''POST'' [''internal'', ''executions'', ''dequeue''] = Some (DequeueRoute, [])"
  by (simp_all add: route_of_def routes_def patterns_def match_method_def wildcards_def)

lemma demo_key: "GetTenantByAPIKeyHash (HashKey demo_E ''key'') (calm demo_db) = (Inr demo_tenant, calm demo_db)"
  by (simp add: GetTenantByAPIKeyHash_def prog_simps scan_tenant_def scan_raw_def)
    (simp add: demo_defs tenant.truncate_def scan_tenant_def scan_raw_def)

lemma demo_bearer:
  "bearer_token (split_on CHR '' '' ''Bearer key'') = Some ''key''"
  "bearer_token (split_on CHR '' '' ''Bearer hush'') = Some ''hush''"
  by simp_all

lemma demo_serve_run:
  "ServeHTTP demo_C (demo_around 7) ''POST'' [''jobs'', ''uu'', ''run''] demo_run_request demo_server =
     ((respondJson 200 (Some (enc_RunJobResponse ''uuuuuuu'')), []),
      \<lparr>sv_session = calm (run_db (tick 0) demo_new demo_payload 0 demo_db),
       sv_limiters = [1 \<mapsto> \<lparr>cl_limiter = 99, cl_expiresAt = 5 * minute\<rparr>]\<rparr>)"
proof -
  have "take_token demo_rate default_ttl 0 demo_tenant (\<lambda>_. None) =
      (True, [1 \<mapsto> \<lparr>cl_limiter = 99, cl_expiresAt = 5 * minute\<rparr>])"
    by (simp add: take_token_def getOrCreateLimiter_def demo_rate_def demo_tenant_def default_ttl_def Let_def)
  then show ?thesis
    using demo_run demo_key demo_bearer
    by (simp add: ServeHTTP_def server_defs demo_routes tenant_chain_def AuthMiddleware_def server_lookup_def
        on_session_def RateMiddleware_def TenantFromContext_def demo_run_request_def reply_def)
qed

lemma changes_need_credentials_witness:
  "db (sv_session (snd (ServeHTTP demo_C (demo_around 7) ''POST'' [''jobs'', ''uu'', ''run''] demo_run_request
     demo_server))) \<noteq> demo_db \<and>
   (\<exists>t. authenticates demo_E demo_run_request (calm demo_db) t)"
proof -
  have ch: "db (sv_session (snd (ServeHTTP demo_C (demo_around 7) ''POST'' [''jobs'', ''uu'', ''run'']
      demo_run_request demo_server))) \<noteq> db (sv_session demo_server)"
    by (simp add: demo_serve_run run_db_def) (simp add: demo_server_def demo_db_def)
  from changes_need_credentials [OF ch] show ?thesis
    using ch by (simp add: demo_routes server_defs)
qed

lemma demo_serve_dequeue:
  "fst (fst (ServeHTTP demo_C (demo_around 7) ''POST'' [''internal'', ''executions'', ''dequeue'']
     (demo_request [] ''Bearer hush'' (Doc (JObj []))) demo_server)) =
   respondJson 200 (Some (enc_DequeueResponse demo_E (Some [dequeued (queue_item (demo_queued 2 4 9))])))"
  using demo_dequeue_one demo_bearer
  by (simp add: ServeHTTP_def server_defs demo_routes internal_chain_def RequireInternalAuth_def on_session_def
      h_InternalDequeue_def handler_eval dec_DequeueRequest_def zero_DequeueRequest_def clamp_limit_def reply_def)

lemma worker_routes_need_secret_witness:
  "bears (demo_request [] ''Bearer hush'' (Doc (JObj []))) ''hush''"
proof -
  have rt: "route_of (co_metrics demo_C \<noteq> None) ''POST'' [''internal'', ''executions'', ''dequeue''] =
      Some (DequeueRoute, [])" by (simp add: demo_C_def demo_routes)
  from worker_routes_need_secret [OF rt, of "demo_around 7" "demo_request [] ''Bearer hush'' (Doc (JObj []))" demo_server]
  show ?thesis by (simp add: demo_serve_dequeue) (simp add: demo_C_def)
qed

definition demo_tenant_body :: json where
  "demo_tenant_body = JObj [(''name'', JStr ''beta'')]"

definition demo_tenant_request :: CreateTenantRequest where
  "demo_tenant_request = zero_CreateTenantRequest\<lparr>ct_Name := ''beta''\<rparr>"

lemma demo_tenant_body: "dec_CreateTenantRequest demo_tenant_body = Some demo_tenant_request"
  by (simp add: demo_tenant_body_def demo_tenant_request_def dec_CreateTenantRequest_def
      set_CreateTenantRequest_def zero_CreateTenantRequest_def key_eq_eval)

definition demo_created :: "answer \<times> session" where
  "demo_created = h_CreateTenant demo_E (tick 0) 9 (Some [1, 2]) (demo_request [] [] (Doc demo_tenant_body)) (calm demo_db)"

lemma demo_hash_differs: "HashKey demo_E ''key'' \<noteq> HashKey demo_E (api_key [1, 2])"
  by (simp add: HashKey_def demo_E_def trim_space_def is_space_def api_key_def hex_char_def)

lemma demo_created: "rs_status (fst (fst demo_created)) = 201"
  by (simp add: demo_created_def h_CreateTenant_def handler_eval demo_tenant_body CreateTenant_def insert_tenant_def
      new_tenant_def demo_tenant_request_def zero_CreateTenantRequest_def default_if_zero_def tenant_ints_ok_def
      int32_ok_def tenant_text_ok_def text_ok_def has_tenant_def demo_db_def demo_row_def tenant_row_of_def
      demo_tenant_def tenant.defs)

definition demo_whoami :: "tenant option \<Rightarrow> (session, answer) serve" where
  "demo_whoami ctx r s = (reply (respondJson 200 (map_option (\<lambda>t. JStr (tn_Name t)) ctx)), s)"

lemma created_key_authenticates_witness:
  "\<exists>key req. body_field ''api_key'' (fst (fst demo_created)) = Some key \<and>
     decode_body dec_CreateTenantRequest (Doc demo_tenant_body) = Inr req \<and>
     (HashKey demo_E ''key'' \<noteq> HashKey demo_E key \<longrightarrow>
      AuthMiddleware demo_E GetTenantByAPIKeyHash demo_whoami (demo_request [] (''Bearer '' @ key) NoBytes) (snd demo_created) =
        (reply (respondJson 200 (Some (JStr (tn_Name (new_tenant 9 0 req))))), snd demo_created))"
proof -
  have h: "h_CreateTenant demo_E (tick 0) 9 (Some [1, 2]) (demo_request [] [] (Doc demo_tenant_body))
      (calm demo_db) = (fst demo_created, snd demo_created)" by (simp add: demo_created_def)
  have keys: "(\<forall>row \<in> set (tenants demo_db). tr_api_key_hash row \<noteq> x) \<longleftrightarrow> HashKey demo_E ''key'' \<noteq> x" for x
    by (simp add: demo_defs)
  from created_key_authenticates [OF h demo_created, where nxt = demo_whoami]
  obtain key req where k: "body_field ''api_key'' (fst (fst demo_created)) = Some key"
    "decode_body dec_CreateTenantRequest (Doc demo_tenant_body) = Inr req"
    "HashKey demo_E ''key'' \<noteq> HashKey demo_E key \<longrightarrow> (\<forall>r'. rq_authorization r' = ''Bearer '' @ key \<longrightarrow>
      AuthMiddleware demo_E GetTenantByAPIKeyHash demo_whoami r' (snd demo_created) =
        demo_whoami (Some (new_tenant 9 0 req)) r' (snd demo_created))"
    unfolding keys by (simp only: demo_request_simps tick_simps) blast
  then show ?thesis by (intro exI [of _ key] exI [of _ req]) (simp add: demo_whoami_def demo_request_simps)
qed

lemma UpdateTenant_outcome_witness:
  "\<exists>d'. h_UpdateTenant (Some demo_tenant) (demo_request ''ignored'' [] (Doc demo_tenant_body)) (calm demo_db) =
     ((respondJson 204 None, [OnTenantUpdated 1]), calm d') \<and> map tn_Name (tenants d') = [''beta'']"
proof -
  have "decode_body dec_CreateTenantRequest (rq_body (demo_request [] [] (Doc demo_tenant_body))) = Inr demo_tenant_request"
    by (simp add: demo_tenant_body)
  moreover have "tenant_ints_ok (patched_tenant demo_tenant_request demo_tenant)"
    "tenant_text_ok (patched_tenant demo_tenant_request demo_tenant)"
    by (simp_all add: tenant_ints_ok_def tenant_text_ok_def patched_tenant_def default_if_zero_def int32_ok_def
        text_ok_def demo_tenant_request_def zero_CreateTenantRequest_def demo_tenant_def)
  ultimately obtain d' where d': "h_UpdateTenant (Some demo_tenant)
      ((demo_request [] [] (Doc demo_tenant_body))\<lparr>rq_path_id := ''ignored''\<rparr>) (calm demo_db) =
      ((respondJson 204 None, [OnTenantUpdated (tn_ID demo_tenant)]), calm d')"
    and "tenants d' = map (\<lambda>row. if tn_ID row = tn_ID demo_tenant then row\<lparr>
        tn_Name := (if ct_Name demo_tenant_request = [] then tn_Name demo_tenant else ct_Name demo_tenant_request),
        tn_RateLimit := (if ct_RateLimit demo_tenant_request = 0 then tn_RateLimit demo_tenant
          else ct_RateLimit demo_tenant_request),
        tn_RateLimitBurst := (if ct_RateLimitBurst demo_tenant_request = 0 then tn_RateLimitBurst demo_tenant
          else ct_RateLimitBurst demo_tenant_request),
        tn_MaxConcurrentExecutions := (if ct_MaxConcurrentExecutions demo_tenant_request = 0
          then tn_MaxConcurrentExecutions demo_tenant else ct_MaxConcurrentExecutions demo_tenant_request),
        tn_CallbackURL := ct_CallbackURL demo_tenant_request,
        tn_CallbackHeaders := Some (enc_string_map_ptr (ct_CallbackHeaders demo_tenant_request))\<rparr> else row) (tenants demo_db)"
    using UpdateTenant_outcome by blast
  then have "map tn_Name (tenants d') = [''beta'']"
    by (simp add: demo_tenant_request_def demo_defs)
  then show ?thesis using d' by (simp add: demo_tenant_def)
qed

lemma unreadable_executions_witness:
  "fst (h_GetExecution demo_E (Some demo_tenant) (demo_request ''uuuuu'' [] NoBytes) (calm demo_db)) =
     bad ''Execution not found'' 404"
proof -
  have "find_execution (db (calm demo_db)) 5 = Some demo_failed" by (simp add: demo_tables)
  from unreadable_executions [OF this, of demo_E "demo_request ''uuuuu'' [] NoBytes" demo_tenant]
  show ?thesis by (simp add: demo_failed_def demo_execution_def)
qed

definition demo_system :: "int system" where
  "demo_system = \<lparr>sy_server = demo_server, sy_triggered = [], sy_waiting = [], sy_sending = []\<rparr>"

end
