(* ===== verification/Wire.thy ===== *)
theory Wire
  imports Server
begin

text \<open>
  Requests on their way from a client, the worker agent or \<^verbatim>\<open>jobctl\<close>, to the controller: what
  \<^verbatim>\<open>net/http\<close> makes of a request built by \<^verbatim>\<open>http.NewRequest\<close> when its handler sees it, for
  targets without escapes, and the routes of the worker.
\<close>

section \<open>Requests as clients make them\<close>

record client_request =
  cq_Method :: string
  cq_URL :: string
  cq_Header :: "(string \<times> string) list"
  cq_Body :: "json option"

text \<open>The path and the query of a target without escapes.\<close>

definition url_segments :: "string \<Rightarrow> string list" where
  "url_segments t = filter (\<lambda>w. w \<noteq> []) (split_on CHR ''/'' (takeWhile (\<lambda>c. c \<noteq> CHR ''?'') t))"

definition query_pair :: "string \<Rightarrow> string \<times> string" where
  "query_pair w = (takeWhile (\<lambda>c. c \<noteq> CHR ''='') w, drop 1 (dropWhile (\<lambda>c. c \<noteq> CHR ''='') w))"

definition url_query :: "string \<Rightarrow> (string \<times> string) list" where
  "url_query t = map query_pair (filter (\<lambda>w. w \<noteq> [])
     (split_on CHR ''&'' (drop 1 (dropWhile (\<lambda>c. c \<noteq> CHR ''?'') t))))"

text \<open>\<open>render\<close> gives the text of a JSON value.\<close>

definition received :: "(json \<Rightarrow> string) \<Rightarrow> string \<Rightarrow> client_request \<Rightarrow> request" where
  "received render target rq = \<lparr>rq_path_id = [], rq_query = url_query target,
     rq_authorization = (case map_of (cq_Header rq) ''Authorization'' of None \<Rightarrow> [] | Some v \<Rightarrow> v),
     rq_body = (case cq_Body rq of None \<Rightarrow> NoBytes | Some j \<Rightarrow> Doc j),
     rq_content_length = (case cq_Body rq of None \<Rightarrow> 0 | Some j \<Rightarrow> int (length (render j)))\<rparr>"

text \<open>The controller is reached under the address \<open>base\<close>.\<close>

definition served ::
    "(json \<Rightarrow> string) \<Rightarrow> 'l controller \<Rightarrow> surroundings \<Rightarrow> string \<Rightarrow> client_request \<Rightarrow> 'l server \<Rightarrow>
     (response \<times> uuid list) \<times> 'l server" where
  "served render C n base rq s =
     (let target = drop (length base) (cq_URL rq) in
      ServeHTTP C n (cq_Method rq) (url_segments target) (received render target rq) s)"

text \<open>An identifier that stands for itself in a target.\<close>

definition plain_id :: "string \<Rightarrow> bool" where
  "plain_id w \<longleftrightarrow> w \<noteq> [] \<and> CHR ''/'' \<notin> set w \<and> CHR ''?'' \<notin> set w"

lemma received_simps [simp]:
  "rq_authorization (received render t rq) =
     (case map_of (cq_Header rq) ''Authorization'' of None \<Rightarrow> [] | Some v \<Rightarrow> v)"
  "rq_body (received render t rq) = (case cq_Body rq of None \<Rightarrow> NoBytes | Some j \<Rightarrow> Doc j)"
  "rq_query (received render t rq) = url_query t"
  by (simp_all add: received_def)

section \<open>The routes of the worker\<close>

lemma worker_target:
  assumes "plain_id w" and "plain_id op"
  shows "url_segments (''/internal/executions/'' @ w @ ''/'' @ op) = [''internal'', ''executions'', w, op]"
proof -
  have w: "\<forall>c \<in> set w. c \<noteq> CHR ''?''" "CHR ''/'' \<notin> set w" "w \<noteq> []"
    and o: "\<forall>c \<in> set op. c \<noteq> CHR ''?''" "CHR ''/'' \<notin> set op" "op \<noteq> []"
    using assms by (auto simp: plain_id_def)
  have t: "takeWhile (\<lambda>c. c \<noteq> CHR ''?'') (''/internal/executions/'' @ w @ ''/'' @ op) =
      ''/internal/executions/'' @ w @ ''/'' @ op"
    using w(1) o(1) by (simp add: takeWhile_eq_all_conv)
  have "split_on CHR ''/'' (w @ ''/'' @ op) = [w, op]"
    using split_on_append [OF w(2), of op] split_on_no_sep [OF o(2)] by simp
  then show ?thesis using w(3) o(3) unfolding url_segments_def t by simp
qed

lemma worker_routes:
  "route_of m ''PUT'' [''internal'', ''executions'', w, ''heartbeat''] = Some (HeartbeatRoute, w)"
  "route_of m ''PUT'' [''internal'', ''executions'', w, ''result''] = Some (ResultRoute, w)"
  "route_of m ''POST'' [''internal'', ''executions'', w, ''logs''] = Some (AddLogsRoute, w)"
  "route_of m ''POST'' [''internal'', ''executions'', ''dequeue''] = Some (DequeueRoute, [])"
  by (cases m; simp add: route_of_def routes_def patterns_def match_method_def wildcards_def)+

text \<open>A request with the secret of the controller gets to the handler of its route.\<close>

lemma served_internal:
  assumes seg: "url_segments target = segs" and rt: "route_of (co_metrics C \<noteq> None) meth segs = Some (rt, v)"
    and a: "access_of rt = InternalAuth"
    and url: "cq_URL rq = base @ target" "cq_Method rq = meth"
    and auth: "map_of (cq_Header rq) ''Authorization'' = Some (''Bearer '' @ co_secret C)"
    and sp: "CHR '' '' \<notin> set (co_secret C)"
  obtains r where "rq_path_id r = v" and "rq_body r = (case cq_Body rq of None \<Rightarrow> NoBytes | Some j \<Rightarrow> Doc j)"
    and "served render C n base rq s = (case internal_handler C n rt r (sv_session s) of
      ((resp, effs), t) \<Rightarrow> ((resp, webhooks effs), run_effects effs (s\<lparr>sv_session := t\<rparr>)))"
proof -
  define r where "r = (received render target rq)\<lparr>rq_path_id := v\<rparr>"
  have drop: "drop (length base) (cq_URL rq) = target" using url(1) by simp
  have h: "rq_authorization r = ''Bearer '' @ co_secret C" using auth by (simp add: r_def)
  have "bearer_token (split_on CHR '' '' (rq_authorization r)) = Some (co_secret C)"
    unfolding h bearer_token_iff using sp by simp
  then have "internal_chain C n rt r s = on_session (internal_handler C n rt r) s"
    using h by (simp add: internal_chain_def RequireInternalAuth_def)
  then have "served render C n base rq s = (case internal_handler C n rt r (sv_session s) of
      ((resp, effs), t) \<Rightarrow> ((resp, webhooks effs), run_effects effs (s\<lparr>sv_session := t\<rparr>)))"
    using rt a url(2) unfolding served_def ServeHTTP_def Let_def drop seg
    by (simp add: r_def [symmetric] on_session_def split: prod.split)
  then show ?thesis using that [of r] by (simp add: r_def)
qed

text \<open>What a client reads of an answer.\<close>

definition answer_body :: "response \<Rightarrow> http_body" where
  "answer_body resp =
     (case rs_body resp of EmptyBody \<Rightarrow> NoBytes | TextBody s \<Rightarrow> Malformed | JsonBody j \<Rightarrow> Doc j)"

end
