(* ===== verification/Duration.thy ===== *)
theory Duration
  imports Rfc3339
begin

text \<open>
  \<^verbatim>\<open>time.Duration.String\<close> of the standard library, which the worker puts into the message of
  an execution that timed out.
\<close>

text \<open>A fraction of \<open>10^p\<close> without its trailing zeros, nothing at all for zero.\<close>

definition frac_digits :: "nat \<Rightarrow> nat \<Rightarrow> string" where
  "frac_digits p v = (if v = 0 then [] else CHR ''.'' # trim_zeros (pad p v))"

definition below_second :: "nat \<Rightarrow> string" where
  "below_second u =
     (if u = 0 then ''0s''
      else if u < 1000 then nat_digits u @ ''ns''
      else if u < 1000000 then nat_digits (u div 1000) @ frac_digits 3 (u mod 1000) @ [CHR 0xC2, CHR 0xB5, CHR ''s'']
      else nat_digits (u div 1000000) @ frac_digits 6 (u mod 1000000) @ ''ms'')"

definition from_second :: "nat \<Rightarrow> string" where
  "from_second u =
     (let s = u div 1000000000; m = s div 60; h = m div 60 in
      (if h > 0 then nat_digits h @ ''h'' else []) @
      (if m > 0 then nat_digits (m mod 60) @ ''m'' else []) @
      nat_digits (s mod 60) @ frac_digits 9 (u mod 1000000000) @ ''s'')"

definition duration_string :: "duration \<Rightarrow> string" where
  "duration_string d =
     (let u = nat \<bar>d\<bar> in
      (if d < 0 then ''-'' else []) @ (if u < 1000000000 then below_second u else from_second u))"

lemma duration_string_half_hour: "duration_string (30 * minute) = ''30m0s''"
proof -
  have "nat_digits 0 = ''0''" "nat_digits 30 = ''30''"
    by (simp_all add: nat_digits.simps digit_char_def) code_simp+
  then show ?thesis by (simp add: duration_string_def from_second_def frac_digits_def Let_def)
qed

end
