(* ===== verification/Agent.thy ===== *)
theory Agent
  imports Retry Payload Wire Duration
begin

text \<open>
  The worker agent of \<^verbatim>\<open>internal/worker/agent.go\<close>, but for its pull loop: the defaults of
  \<^verbatim>\<open>New\<close>, requests with retries, the processing of one execution from its payload to the
  report of its result, the heartbeat and the log stream. The controller, the runtime and the
  clock are what the definitions take as arguments; what the agent does to them is the list of
  actions it returns.
\<close>

section \<open>Configuration\<close>

record AgentConfig =
  ac_ID :: string
  ac_Concurrency :: int
  ac_PollInterval :: duration
  ac_ControllerURL :: string
  ac_MaxBackoff :: duration
  ac_HeartbeatInterval :: duration
  ac_SystemSecret :: string

definition positive_or :: "int \<Rightarrow> int \<Rightarrow> int" where
  "positive_or def n = (if n \<le> 0 then def else n)"

definition drop_slash :: "string \<Rightarrow> string" where
  "drop_slash u = (if length u > 0 \<and> last u = CHR ''/'' then butlast u else u)"

text \<open>The configuration \<^verbatim>\<open>New\<close> stores.\<close>

definition New_config :: "AgentConfig \<Rightarrow> AgentConfig" where
  "New_config c = c\<lparr>
     ac_Concurrency := positive_or 1 (ac_Concurrency c),
     ac_PollInterval := positive_or (1 * second) (ac_PollInterval c),
     ac_MaxBackoff := positive_or (30 * second) (ac_MaxBackoff c),
     ac_HeartbeatInterval := positive_or (2 * minute) (ac_HeartbeatInterval c),
     ac_ControllerURL := drop_slash (ac_ControllerURL c)\<rparr>"

lemma New_config_positive:
  "1 \<le> ac_Concurrency (New_config c)" "0 < ac_PollInterval (New_config c)"
  "0 < ac_MaxBackoff (New_config c)" "0 < ac_HeartbeatInterval (New_config c)"
  by (simp_all add: New_config_def positive_or_def)

section \<open>Requests with retries\<close>

definition agent_maxRetries :: nat where
  "agent_maxRetries = 5"

definition agent_baseBackoff :: duration where
  "agent_baseBackoff = 1 * second"

definition agent_maxBackoff :: duration where
  "agent_maxBackoff = 30 * second"

text \<open>The delay before attempt \<open>n > 0\<close>, jitter apart.\<close>

definition retry_backoff :: "nat \<Rightarrow> duration" where
  "retry_backoff n = min (agent_baseBackoff * 2 ^ (n - 1)) agent_maxBackoff"

datatype send_error = CreateFailed | BackoffCancelled | FatalStatus nat | RetriesExceeded

definition retriable :: "post_outcome \<Rightarrow> bool" where
  "retriable p \<longleftrightarrow> (case p of NoRequest \<Rightarrow> False | NoReply \<Rightarrow> True | Reply c \<Rightarrow> c \<ge> 500 \<or> c = 429)"

text \<open>
  \<open>stopped n\<close>: the context is done before the pause of attempt \<open>n\<close> is over; \<open>jitter n\<close> is
  the random addition to that pause; \<open>peer n\<close> is what attempt \<open>n\<close> meets.
\<close>

record surround =
  su_stopped :: "nat \<Rightarrow> bool"
  su_jitter :: "nat \<Rightarrow> duration"
  su_peer :: "nat \<Rightarrow> post_outcome"

definition retry_pause :: "surround \<Rightarrow> nat \<Rightarrow> step list" where
  "retry_pause u n = (if n > 0 then [Pause (retry_backoff n + su_jitter u n)] else [])"

function do_from :: "surround \<Rightarrow> nat \<Rightarrow> step list \<times> (send_error + nat)" where
  "do_from u n =
     (if n \<le> agent_maxRetries then
        (if n > 0 \<and> su_stopped u n then ([], Inl BackoffCancelled)
         else case su_peer u n of
           NoRequest \<Rightarrow> (retry_pause u n, Inl CreateFailed)
         | NoReply \<Rightarrow>
             (case do_from u (Suc n) of (es, r) \<Rightarrow> (retry_pause u n @ [Attempt n] @ es, r))
         | Reply c \<Rightarrow>
             if c \<ge> 500 \<or> c = 429 then
               (case do_from u (Suc n) of (es, r) \<Rightarrow> (retry_pause u n @ [Attempt n] @ es, r))
             else if c \<ge> 400 then (retry_pause u n @ [Attempt n], Inl (FatalStatus c))
             else (retry_pause u n @ [Attempt n], Inr c))
      else ([], Inl RetriesExceeded))"
  by pat_completeness auto
termination by (relation "measure (\<lambda>(u, n). Suc agent_maxRetries - n)") auto

declare do_from.simps [simp del]

definition doWithRetry :: "surround \<Rightarrow> step list \<times> (send_error + nat)" where
  "doWithRetry u = do_from u 0"

text \<open>One round of the loop: its steps, and the result when it ends the loop.\<close>

definition visit_request :: "surround \<Rightarrow> nat \<Rightarrow> step list \<times> (send_error + nat) option" where
  "visit_request u n =
     (if n > 0 \<and> su_stopped u n then ([], Some (Inl BackoffCancelled))
      else case su_peer u n of
        NoRequest \<Rightarrow> (retry_pause u n, Some (Inl CreateFailed))
      | NoReply \<Rightarrow> (retry_pause u n @ [Attempt n], None)
      | Reply c \<Rightarrow> (retry_pause u n @ [Attempt n],
          if c \<ge> 500 \<or> c = 429 then None else if c \<ge> 400 then Some (Inl (FatalStatus c)) else Some (Inr c)))"

interpretation request: retry_loop "do_from u" "visit_request u" agent_maxRetries "Inl RetriesExceeded"
proof unfold_locales
  fix n es r
  show "n > agent_maxRetries \<Longrightarrow> do_from u n = ([], Inl RetriesExceeded)"
    by (subst do_from.simps) simp
  show "n \<le> agent_maxRetries \<Longrightarrow> visit_request u n = (es, Some r) \<Longrightarrow> do_from u n = (es, r)"
    by (subst do_from.simps) (auto simp: visit_request_def split: post_outcome.splits if_splits)
  show "n \<le> agent_maxRetries \<Longrightarrow> visit_request u n = (es, None) \<Longrightarrow>
      do_from u n = (es @ fst (do_from u (Suc n)), snd (do_from u (Suc n)))"
    by (subst do_from.simps) (auto simp: visit_request_def split: post_outcome.splits if_splits prod.splits)
  show "attempts (fst (visit_request u n)) \<in> {[], [n]}"
    by (simp add: visit_request_def retry_pause_def split: post_outcome.split)
qed

lemma request_goes_on:
  "snd (visit_request u n) = None \<longleftrightarrow> \<not> (n > 0 \<and> su_stopped u n) \<and> retriable (su_peer u n)"
  by (auto simp: visit_request_def retriable_def split: post_outcome.split)

lemma request_succeeds:
  "snd (visit_request u n) = Some (Inr c) \<longleftrightarrow>
     \<not> (n > 0 \<and> su_stopped u n) \<and> su_peer u n = Reply c \<and> c < 400"
  by (auto simp: visit_request_def split: post_outcome.split)

section \<open>Requests to the controller\<close>

definition agent_request :: "AgentConfig \<Rightarrow> string \<Rightarrow> string \<Rightarrow> json option \<Rightarrow> client_request" where
  "agent_request A meth path b = \<lparr>cq_Method = meth, cq_URL = ac_ControllerURL A @ path,
     cq_Header = [(''Content-Type'', ''application/json''), (''Authorization'', ''Bearer '' @ ac_SystemSecret A)],
     cq_Body = b\<rparr>"

text \<open>What \<^verbatim>\<open>fetchWork\<close>, \<^verbatim>\<open>sendResultWithResult\<close>, \<^verbatim>\<open>runHeartbeat\<close> and \<^verbatim>\<open>sendLogs\<close> send; the two in
  the middle with retries.\<close>

definition execution_path :: "externals \<Rightarrow> uuid \<Rightarrow> string \<Rightarrow> string" where
  "execution_path E eid op = ''/internal/executions/'' @ uuid_String E eid @ ''/'' @ op"

definition fetch_request :: "externals \<Rightarrow> AgentConfig \<Rightarrow> uuid list option \<Rightarrow> int \<Rightarrow> client_request" where
  "fetch_request E A tids limit = agent_request A ''POST'' ''/internal/executions/dequeue''
     (Some (enc_DequeueRequest E \<lparr>dr_Limit = limit, dr_TenantIDs = tids\<rparr>))"

definition result_request :: "externals \<Rightarrow> AgentConfig \<Rightarrow> uuid \<Rightarrow> ExecutionResultRequest \<Rightarrow> client_request" where
  "result_request E A eid rep =
     agent_request A ''PUT'' (execution_path E eid ''result'') (Some (enc_ExecutionResultRequest rep))"

definition heartbeat_request :: "externals \<Rightarrow> AgentConfig \<Rightarrow> uuid \<Rightarrow> client_request" where
  "heartbeat_request E A eid = agent_request A ''PUT'' (execution_path E eid ''heartbeat'') None"

definition logs_request :: "externals \<Rightarrow> AgentConfig \<Rightarrow> uuid \<Rightarrow> string \<Rightarrow> client_request" where
  "logs_request E A eid content =
     agent_request A ''POST'' (execution_path E eid ''logs'') (Some (enc_AddLogRequest content))"

text \<open>\<^verbatim>\<open>sendLogs\<close> makes one attempt and expects 202.\<close>

definition sendLogs :: "post_outcome \<Rightarrow> bool" where
  "sendLogs p \<longleftrightarrow> p = Reply 202"

section \<open>Claiming work\<close>

datatype fetch_error = FetchFailed | FetchStatus nat | FetchUndecodable

text \<open>\<open>ans\<close> is the status and the body of the answer, nothing when none came.\<close>

definition fetchWork :: "externals \<Rightarrow> (nat \<times> http_body) option \<Rightarrow> fetch_error + DequeuedExecution list" where
  "fetchWork E ans =
     (case ans of
        None \<Rightarrow> Inl FetchFailed
      | Some (status, b) \<Rightarrow>
          if status \<noteq> 200 then Inl (FetchStatus status)
          else case decode_body (dec_DequeueResponse E) b of
            Inl _ \<Rightarrow> Inl FetchUndecodable
          | Inr xs \<Rightarrow> Inr (slice_elems xs))"

section \<open>Results\<close>

text \<open>The file \<^verbatim>\<open>result.json\<close>: its size in bytes, and the JSON value it holds, if it does.\<close>

datatype file_state = FileMissing | FileUnreadable | FileData nat "json option"

datatype file_error = NotRead | NotJson

definition getResultFromFile :: "string \<Rightarrow> file_state \<Rightarrow> file_error + raw_message" where
  "getResultFromFile dir file =
     (if dir = [] then Inr None
      else case file of
        FileMissing \<Rightarrow> Inl NotRead
      | FileUnreadable \<Rightarrow> Inl NotRead
      | FileData bytes content \<Rightarrow>
          if bytes > 2 ^ 20 then Inr None
          else case content of None \<Rightarrow> Inl NotJson | Some j \<Rightarrow> Inr (Some j))"

definition result_report :: "int option \<Rightarrow> string \<Rightarrow> raw_message \<Rightarrow> ExecutionResultRequest" where
  "result_report code err res = \<lparr>er_ExitCode = code, er_Error = err, er_Result = res\<rparr>"

section \<open>Processing one execution\<close>

record StartOptions =
  so_Image :: string
  so_Command :: "string list option"
  so_Env :: string_map
  so_Timeout :: int

record ExitResult =
  xt_ExitCode :: int
  xt_Error :: "string option"

text \<open>
  What the run of one execution meets: why the runtime does not start, if it does not; what
  waiting returns and when; where results are, and the result file; the cancellations of the
  contexts; the text of the decoder's error.
\<close>

record run_env =
  re_start :: "string option"
  re_wait :: "string + ExitResult"
  re_began :: time
  re_waited :: time
  re_dir :: string
  re_file :: file_state
  re_cancelled :: "string \<rightharpoonup> time"
  re_json_error :: string

datatype action =
    StartRuntime StartOptions
  | StartHeartbeat
  | StartLogs ctx
  | StopRuntime
  | Report ctx ExecutionResultRequest
  | CancelHeartbeat
  | Cleanup

text \<open>The job of a payload, in the present form or the old one.\<close>

definition payload_job :: "externals \<Rightarrow> raw_message \<Rightarrow> job option" where
  "payload_job E payload =
     (case payload of
        None \<Rightarrow> None
      | Some p \<Rightarrow>
          (case dec_executionPayload E p of
             Some w \<Rightarrow> if jb_ID (ep_Job w) \<noteq> uuid_Nil then Some (ep_Job w) else dec_Job E p
           | None \<Rightarrow> dec_Job E p))"

definition start_options :: "externals \<Rightarrow> uuid \<Rightarrow> job \<Rightarrow> StartOptions" where
  "start_options E eid j = \<lparr>so_Image = jb_Image j, so_Command = jb_Command j,
     so_Env = [(''JOBPLANE_EXECUTION_ID'', uuid_String E eid), (''JOBPLANE_JOB_ID'', uuid_String E (jb_ID j))],
     so_Timeout = jb_DefaultTimeout j\<rparr>"

definition job_timeout :: "job \<Rightarrow> duration" where
  "job_timeout j =
     (if jb_DefaultTimeout j > 0 then wrap64 (jb_DefaultTimeout j * second) else 30 * minute)"

text \<open>The context of the execution: a deadline on the context the agent runs with.\<close>

definition exec_context :: "ctx \<Rightarrow> time \<Rightarrow> job \<Rightarrow> ctx" where
  "exec_context c began j = WithDeadline (began + job_timeout j) c"

definition wait_outcome :: "ctx \<Rightarrow> run_env \<Rightarrow> job \<Rightarrow> action list" where
  "wait_outcome c env j =
     (case re_wait env of
        Inl msg \<Rightarrow>
          if ctx_err (re_cancelled env) (re_waited env) (exec_context c (re_began env) j) = Some DeadlineExceeded
          then [StopRuntime, Report Background
            (result_report None (''Execution timed out after '' @ duration_string (job_timeout j)) None)]
          else [Report Background (result_report None (''Runtime waiting error: '' @ msg) None)]
      | Inr r \<Rightarrow>
          if xt_ExitCode r = 0 then
            [Report Background (result_report (Some (xt_ExitCode r)) []
              (case getResultFromFile (re_dir env) (re_file env) of Inl _ \<Rightarrow> None | Inr res \<Rightarrow> res))]
          else
            [Report Background (result_report (Some (xt_ExitCode r))
              (case xt_Error r of None \<Rightarrow> ''Exit code '' @ itoa (xt_ExitCode r) | Some e \<Rightarrow> e) None)])"

definition processItem :: "externals \<Rightarrow> ctx \<Rightarrow> uuid \<Rightarrow> raw_message \<Rightarrow> run_env \<Rightarrow> action list" where
  "processItem E c eid payload env =
     (case payload_job E payload of
        None \<Rightarrow> [Report c (result_report None (''Invalid payload: '' @ re_json_error env) None)]
      | Some j \<Rightarrow>
          StartRuntime (start_options E eid j) #
          (case re_start env of
             Some err \<Rightarrow>
               [Report Background (result_report None (''Failed to start runtime. '' @ err) None)]
           | None \<Rightarrow>
               [StartHeartbeat, StartLogs c] @ wait_outcome c env j @ [CancelHeartbeat, Cleanup]))"

section \<open>Heartbeat\<close>

text \<open>What the select of \<^verbatim>\<open>runHeartbeat\<close> picks, in order; a tick is one request with retries, in
  what it meets, and a failure of it ends nothing.\<close>

datatype beat = Tick surround | BeatDone

fun runHeartbeat :: "beat list \<Rightarrow> (step list \<times> (send_error + nat)) list" where
  "runHeartbeat [] = []"
| "runHeartbeat (BeatDone # bs) = []"
| "runHeartbeat (Tick u # bs) = doWithRetry u # runHeartbeat bs"

section \<open>Log streaming\<close>

definition logBatchSize :: nat where
  "logBatchSize = 100"

text \<open>
  \<^verbatim>\<open>bufio.Scanner\<close> with \<^verbatim>\<open>ScanLines\<close>: lines without their end, and nothing after a line
  that does not fit its buffer of 64 KiB.
\<close>

definition max_line :: nat where
  "max_line = 65536"

definition drop_cr :: "string \<Rightarrow> string" where
  "drop_cr s = (if s \<noteq> [] \<and> last s = CHR 0x0D then butlast s else s)"

definition raw_lines :: "string \<Rightarrow> string list" where
  "raw_lines s = (let ls = split_on CHR 0x0A s in if last ls = [] then butlast ls else ls)"

definition scan_lines :: "string \<Rightarrow> string list" where
  "scan_lines s = map drop_cr (takeWhile (\<lambda>l. length l < max_line) (raw_lines s))"

text \<open>The scanner goroutine: each line without its NUL characters.\<close>

definition clean_lines :: "string \<Rightarrow> string list" where
  "clean_lines s = map strip_nul (scan_lines s)"

text \<open>The select of \<^verbatim>\<open>streamLogs\<close>: a line, the end of the stream, the flush ticker, the end of the
  context; and the moment the context ends, which the select may notice later.\<close>

datatype log_event = LogLine string | LogEnd | FlushTick | LogStop | ContextEnds

text \<open>A batch is shipped with the context: when that has ended, the request is not sent.\<close>

definition flush_batch :: "bool \<Rightarrow> string list \<Rightarrow> (bool \<times> string list) list" where
  "flush_batch live batch = (if batch = [] then [] else [(live, batch)])"

text \<open>The batches flushed, from the batch collected so far, each with whether its context lives.\<close>

fun streamLogs :: "bool \<Rightarrow> string list \<Rightarrow> log_event list \<Rightarrow> (bool \<times> string list) list" where
  "streamLogs live batch [] = []"
| "streamLogs live batch (LogLine l # es) =
     (let b = batch @ [l] in
      if length b \<ge> logBatchSize then flush_batch live b @ streamLogs live [] es else streamLogs live b es)"
| "streamLogs live batch (LogEnd # es) = flush_batch live batch"
| "streamLogs live batch (FlushTick # es) = flush_batch live batch @ streamLogs live [] es"
| "streamLogs live batch (LogStop # es) = flush_batch False batch"
| "streamLogs live batch (ContextEnds # es) = streamLogs False batch es"

definition shipped :: "(bool \<times> string list) list \<Rightarrow> string list list" where
  "shipped bs = map snd (filter fst bs)"

definition log_content :: "string list \<Rightarrow> string" where
  "log_content batch = join_with [CHR 0x0A] batch"

text \<open>What the events hand to the stream before it ends.\<close>

fun streamed :: "log_event list \<Rightarrow> string list" where
  "streamed [] = []"
| "streamed (LogLine l # es) = l # streamed es"
| "streamed (LogEnd # es) = []"
| "streamed (FlushTick # es) = streamed es"
| "streamed (LogStop # es) = []"
| "streamed (ContextEnds # es) = streamed es"

lemma concat_flush_batch [simp]: "concat (map snd (flush_batch live b)) = b"
  by (simp add: flush_batch_def)

lemma streamLogs_concat:
  "LogEnd \<in> set es \<or> LogStop \<in> set es \<Longrightarrow> concat (map snd (streamLogs live b es)) = b @ streamed es"
  by (induction live b es rule: streamLogs.induct) (auto simp: Let_def)

lemma streamLogs_dead: "\<forall>x \<in> set (streamLogs False b es). \<not> fst x"
  by (induction "False" b es rule: streamLogs.induct) (auto simp: Let_def flush_batch_def)

text \<open>Once a batch has not been sent, none is any more; while the context lives all are.\<close>

lemma streamLogs_split:
  "\<exists>dead. streamLogs live b es = filter fst (streamLogs live b es) @ dead \<and>
     (live \<and> LogStop \<notin> set es \<and> ContextEnds \<notin> set es \<longrightarrow> dead = [])"
proof (induction live b es rule: streamLogs.induct)
  case (2 live batch l es)
  then show ?case
    using streamLogs_dead [of "[]" es] by (cases live) (auto simp: Let_def flush_batch_def filter_empty_conv)
next
  case (4 live batch es)
  then show ?case
    using streamLogs_dead [of "[]" es] by (cases live) (auto simp: flush_batch_def filter_empty_conv)
qed (auto simp: flush_batch_def)

lemma streamLogs_batches:
  "length b < logBatchSize \<Longrightarrow> \<forall>c \<in> set (streamLogs live b es). snd c \<noteq> [] \<and> length (snd c) \<le> logBatchSize"
proof (induction live b es rule: streamLogs.induct)
  case (2 live batch l es)
  have "0 < logBatchSize" by (simp add: logBatchSize_def)
  then show ?case using 2 by (auto simp: Let_def flush_batch_def)
next
  case (4 live batch es)
  have "0 < logBatchSize" by (simp add: logBatchSize_def)
  then show ?case using 4 by (auto simp: flush_batch_def)
qed (auto simp: flush_batch_def)

lemma split_log_content:
  assumes "b \<noteq> []" and "\<forall>l \<in> set b. CHR 0x0A \<notin> set l"
  shows "split_on CHR 0x0A (log_content b) = b"
  using assms unfolding log_content_def
proof (induction "[CHR 0x0A]" b rule: join_with.induct)
  case (2 w)
  then show ?case by (simp add: split_on_no_sep)
next
  case (3 w v ws)
  then show ?case by (simp add: split_on_append)
qed simp

text \<open>A cleaned line holds no NUL and no line feed.\<close>

lemma clean_line_chars:
  assumes "l \<in> set (clean_lines s)"
  shows "CHR 0x00 \<notin> set l \<and> CHR 0x0A \<notin> set l"
proof -
  obtain w where w: "w \<in> set (raw_lines s)" and l: "l = strip_nul (drop_cr w)"
    using assms by (auto simp: clean_lines_def scan_lines_def dest: set_takeWhileD)
  have "w \<in> set (split_on CHR 0x0A s)"
    using w by (auto simp: raw_lines_def Let_def dest: in_set_butlastD split: if_splits)
  then have "CHR 0x0A \<notin> set w" by (rule split_on_parts)
  then show ?thesis
    unfolding l by (auto simp: strip_nul_def drop_cr_def dest: in_set_butlastD split: if_splits)
qed

text \<open>A batch travels as UTF-8, line by line, and is then a text for the database.\<close>

lemma log_content_utf8: "to_valid (log_content b) = log_content (map to_valid b)"
  unfolding log_content_def by (rule to_valid_join) simp

lemma text_ok_log_content:
  assumes "\<forall>l \<in> set b. CHR 0x00 \<notin> set l"
  shows "text_ok (to_valid (log_content b))"
proof -
  have "CHR 0x00 \<notin> set (log_content b)"
    using assms unfolding log_content_def by (induction "[CHR 0x0A]" b rule: join_with.induct) auto
  then show ?thesis by (simp add: text_ok_def utf8_to_valid to_valid_ascii_iff)
qed

section \<open>Reports of a run\<close>

fun is_report :: "action \<Rightarrow> bool" where
  "is_report (Report c r) = True"
| "is_report a = False"

lemma wait_outcome_report:
  obtains rep where "wait_outcome c env j = [Report Background rep]"
  | rep where "wait_outcome c env j = [StopRuntime, Report Background rep]"
proof (cases "re_wait env")
  case (Inl msg)
  then show ?thesis
    using that
    by (cases "ctx_err (re_cancelled env) (re_waited env) (exec_context c (re_began env) j) = Some DeadlineExceeded")
      (simp_all add: wait_outcome_def)
next
  case (Inr r)
  then show ?thesis
    using that(1) by (cases "xt_ExitCode r = 0") (simp_all add: wait_outcome_def)
qed

end
