(* ===== verification/Agent_Loop.thy ===== *)
theory Agent_Loop
  imports Agent "HOL-Library.Multiset"
begin

text \<open>
  The pull loop \<^verbatim>\<open>Agent.Run\<close> of \<^verbatim>\<open>internal/worker/agent.go\<close> as a step relation. The
  state is the loop's: the executions that hold a slot of the semaphore, the one-place channel
  \<^verbatim>\<open>pollNow\<close>, the current backoff, the timer of the select, the batch being handed to
  goroutines, and where the shutdown stands. A step is the evaluation of \<^verbatim>\<open>time.After\<close> on the way
  into the select, time passing while no case of it is ready, one case of it, one turn of the
  dispatch loop, or one goroutine ending. The select picks any case that is ready.
\<close>

record loop_state =
  lp_running :: "uuid list"
  lp_pollNow :: bool
  lp_backoff :: duration
  lp_timer :: "duration option"
  lp_pending :: "uuid list"
  lp_again :: bool
  lp_stopping :: bool
  lp_done :: bool

text \<open>\<^verbatim>\<open>min(currentBackoff*2, MaxBackoff)\<close>, the product as a 64-bit integer.\<close>

definition next_backoff :: "AgentConfig \<Rightarrow> duration \<Rightarrow> duration" where
  "next_backoff C b = min (wrap64 (b * 2)) (ac_MaxBackoff C)"

definition loop_start :: "AgentConfig \<Rightarrow> loop_state" where
  "loop_start C = \<lparr>lp_running = [], lp_pollNow = True, lp_backoff = ac_PollInterval C, lp_timer = None,
     lp_pending = [], lp_again = False, lp_stopping = False, lp_done = False\<rparr>"

definition slots :: "AgentConfig \<Rightarrow> loop_state \<Rightarrow> int" where
  "slots C s = ac_Concurrency C - int (length (lp_running s))"

text \<open>The body of the \<^verbatim>\<open>pollNow\<close> case up to the dispatch, given what \<^verbatim>\<open>fetchWork\<close> returned.\<close>

definition on_poll :: "AgentConfig \<Rightarrow> fetch_error + uuid list \<Rightarrow> loop_state \<Rightarrow> loop_state" where
  "on_poll C fetched s =
     (let s = s\<lparr>lp_pollNow := False\<rparr> in
      if slots C s \<le> 0 then s
      else case fetched of
        Inl _ \<Rightarrow> s
      | Inr items \<Rightarrow>
          if items = [] then s\<lparr>lp_backoff := next_backoff C (lp_backoff s)\<rparr>
          else s\<lparr>lp_backoff := ac_PollInterval C, lp_pending := items,
                 lp_again := int (length items) < slots C s\<rparr>)"

text \<open>The batch that a poll claims: nothing without a slot or when the request fails.\<close>

definition claimed_by :: "AgentConfig \<Rightarrow> fetch_error + uuid list \<Rightarrow> loop_state \<Rightarrow> uuid list" where
  "claimed_by C fetched s =
     (if slots C s \<le> 0 then [] else case fetched of Inl _ \<Rightarrow> [] | Inr items \<Rightarrow> items)"

text \<open>
  The loop is in its select exactly while the timer made for this turn exists: \<open>Some r\<close> fires
  when another \<open>r\<close> nanoseconds have passed; the channel of a turn that is over is never read.
\<close>

definition at_top :: "loop_state \<Rightarrow> bool" where
  "at_top s \<longleftrightarrow> lp_timer s = None \<and> lp_pending s = [] \<and> \<not> lp_again s \<and> \<not> lp_stopping s"

datatype loop_event =
    Arm
  | Wait duration
  | Timer
  | Poll "uuid list"
  | Dispatch uuid
  | PollAgain
  | Finish uuid
  | Stop
  | Finished

inductive loop_step :: "AgentConfig \<Rightarrow> loop_state \<Rightarrow> loop_event \<Rightarrow> loop_state \<Rightarrow> bool" for C where
  arm: "at_top s \<Longrightarrow> loop_step C s Arm (s\<lparr>lp_timer := Some (lp_backoff s)\<rparr>)"
| wait: "lp_timer s = Some r \<Longrightarrow> \<not> lp_pollNow s \<Longrightarrow> 0 < x \<Longrightarrow> x \<le> r \<Longrightarrow>
    loop_step C s (Wait x) (s\<lparr>lp_timer := Some (r - x)\<rparr>)"
| timer: "lp_timer s = Some r \<Longrightarrow> r \<le> 0 \<Longrightarrow>
    loop_step C s Timer (s\<lparr>lp_timer := None, lp_pollNow := True\<rparr>)"
| poll: "lp_timer s = Some r \<Longrightarrow> lp_pollNow s \<Longrightarrow>
    loop_step C s (Poll (claimed_by C fetched s)) (on_poll C fetched (s\<lparr>lp_timer := None\<rparr>))"
| dispatch: "lp_pending s = x # xs \<Longrightarrow> int (length (lp_running s)) < ac_Concurrency C \<Longrightarrow>
    loop_step C s (Dispatch x) (s\<lparr>lp_pending := xs, lp_running := lp_running s @ [x]\<rparr>)"
| again: "lp_pending s = [] \<Longrightarrow> lp_again s \<Longrightarrow>
    loop_step C s PollAgain (s\<lparr>lp_again := False, lp_pollNow := True\<rparr>)"
| finish: "lp_running s = xs @ x # ys \<Longrightarrow>
    loop_step C s (Finish x) (s\<lparr>lp_running := xs @ ys, lp_pollNow := True\<rparr>)"
| stop: "lp_timer s = Some r \<Longrightarrow> loop_step C s Stop (s\<lparr>lp_timer := None, lp_stopping := True\<rparr>)"
| finished: "lp_stopping s \<Longrightarrow> \<not> lp_done s \<Longrightarrow> lp_running s = [] \<Longrightarrow>
    loop_step C s Finished (s\<lparr>lp_done := True\<rparr>)"

inductive_cases loop_stepE: "loop_step C s ev t"

text \<open>Runs, with the executions claimed and processed so far, and the time waited in the select since
  the last poll.\<close>

record history =
  hs_claimed :: "uuid multiset"
  hs_processed :: "uuid multiset"
  hs_idle :: duration

fun observe :: "loop_event \<Rightarrow> history \<Rightarrow> history" where
  "observe (Poll items) h = h\<lparr>hs_claimed := hs_claimed h + mset items, hs_idle := 0\<rparr>"
| "observe (Wait x) h = h\<lparr>hs_idle := hs_idle h + x\<rparr>"
| "observe (Finish x) h = h\<lparr>hs_processed := hs_processed h + {#x#}\<rparr>"
| "observe ev h = h"

inductive loop_run :: "AgentConfig \<Rightarrow> loop_state \<Rightarrow> history \<Rightarrow> bool" for C where
  begins: "loop_run C (loop_start C) \<lparr>hs_claimed = {#}, hs_processed = {#}, hs_idle = 0\<rparr>"
| goes: "loop_run C s h \<Longrightarrow> loop_step C s ev t \<Longrightarrow> loop_run C t (observe ev h)"

section \<open>The invariant\<close>

definition loop_inv :: "AgentConfig \<Rightarrow> loop_state \<Rightarrow> history \<Rightarrow> bool" where
  "loop_inv C s h \<longleftrightarrow>
     int (length (lp_running s)) \<le> ac_Concurrency C \<and>
     hs_claimed h = hs_processed h + mset (lp_running s) + mset (lp_pending s) \<and>
     0 < lp_backoff s \<and> lp_backoff s \<le> max (ac_PollInterval C) (ac_MaxBackoff C) \<and>
     (lp_stopping s \<longrightarrow> lp_pending s = [] \<and> \<not> lp_again s \<and> lp_timer s = None) \<and>
     (\<forall>r. lp_timer s = Some r \<longrightarrow> lp_pending s = [] \<and> \<not> lp_again s \<and> 0 \<le> r) \<and>
     hs_idle h \<le> lp_backoff s \<and>
     (\<not> lp_pollNow s \<and> \<not> lp_stopping s \<longrightarrow> hs_idle h = (case lp_timer s of None \<Rightarrow> 0 | Some r \<Rightarrow> lp_backoff s - r)) \<and>
     (lp_pending s \<noteq> [] \<or> lp_again s \<longrightarrow> hs_idle h = 0) \<and>
     (lp_done s \<longrightarrow> lp_stopping s \<and> lp_running s = [])"

definition config_ok :: "AgentConfig \<Rightarrow> bool" where
  "config_ok C \<longleftrightarrow> 1 \<le> ac_Concurrency C \<and> 0 < ac_PollInterval C \<and> 0 < ac_MaxBackoff C \<and>
     ac_PollInterval C < 2 ^ 62 \<and> ac_MaxBackoff C < 2 ^ 62"

lemma next_backoff_ok:
  assumes "config_ok C" and "0 < b" and "b \<le> max (ac_PollInterval C) (ac_MaxBackoff C)"
  shows "next_backoff C b = min (b * 2) (ac_MaxBackoff C)"
    and "0 < next_backoff C b" and "next_backoff C b \<le> max (ac_PollInterval C) (ac_MaxBackoff C)"
proof -
  have "int64_ok (b * 2)" using assms by (auto simp: int64_ok_def config_ok_def)
  then show eq: "next_backoff C b = min (b * 2) (ac_MaxBackoff C)"
    by (simp add: next_backoff_def wrap64_id)
  show "0 < next_backoff C b" "next_backoff C b \<le> max (ac_PollInterval C) (ac_MaxBackoff C)"
    using assms by (auto simp: eq config_ok_def)
qed

lemma loop_step_inv:
  assumes st: "loop_step C s ev t" and i: "loop_inv C s h" and ok: "config_ok C"
  shows "loop_inv C t (observe ev h)"
  using st i
proof (induction rule: loop_step.induct)
  case (poll s r fetched)
  then have b: "0 < lp_backoff s" "lp_backoff s \<le> max (ac_PollInterval C) (ac_MaxBackoff C)"
    by (simp_all add: loop_inv_def)
  show ?case
    using poll next_backoff_ok(2,3) [OF ok b] ok
    by (cases fetched)
      (auto simp: loop_inv_def on_poll_def claimed_by_def Let_def slots_def config_ok_def)
qed (auto simp: loop_inv_def at_top_def split: option.splits)

lemma loop_run_inv: "config_ok C \<Longrightarrow> loop_run C s h \<Longrightarrow> loop_inv C s h"
proof (rotate_tac, induction rule: loop_run.induct)
  case begins
  then show ?case by (simp add: loop_inv_def loop_start_def config_ok_def)
next
  case (goes s h ev t)
  then show ?case using loop_step_inv by blast
qed

text \<open>C15: The pull loop keeps its promises at every point of every run: never more executions at
  once than the concurrency, every execution it has claimed is processed, running or about to be
  dispatched, none twice and none lost, the backoff stays positive and within its bounds, and
  when it signals that it is done every claimed execution has been processed.\<close>

theorem pull_loop_invariant:
  assumes "config_ok C" and "loop_run C s h"
  shows "int (length (lp_running s)) \<le> ac_Concurrency C \<and>
    hs_claimed h = hs_processed h + mset (lp_running s) + mset (lp_pending s) \<and>
    0 < lp_backoff s \<and> lp_backoff s \<le> max (ac_PollInterval C) (ac_MaxBackoff C) \<and>
    \<not> (lp_done s \<and> hs_processed h \<noteq> hs_claimed h)"
  using loop_run_inv [OF assms] by (auto simp: loop_inv_def)

section \<open>Progress\<close>

text \<open>
  \<open>polls_soon C s\<close>: whatever happens from \<open>s\<close> on, and in whatever order, as long as something does
  and the context is not cancelled, the loop comes to its next poll; it is never in a state in
  which nothing can happen.
\<close>

inductive polls_soon :: "AgentConfig \<Rightarrow> loop_state \<Rightarrow> bool" for C where
  soon: "\<exists>ev t. loop_step C s ev t \<and> ev \<noteq> Stop \<Longrightarrow>
    (\<And>ev t. loop_step C s ev t \<Longrightarrow> ev \<noteq> Stop \<Longrightarrow> \<forall>items. ev \<noteq> Poll items \<Longrightarrow> polls_soon C t) \<Longrightarrow> polls_soon C s"

text \<open>What is still to happen before the next poll: the executions to be dispatched and to end, and
  then the rest of the wait.\<close>

definition steps_left :: "loop_state \<Rightarrow> nat" where
  "steps_left s =
     (if lp_again s then 5 else 0) +
     (if lp_pollNow s
      then (case lp_timer s of None \<Rightarrow> 1 | Some r \<Rightarrow> if r \<le> 0 then 2 else 0)
      else 3 + (case lp_timer s of None \<Rightarrow> Suc (nat (lp_backoff s)) | Some r \<Rightarrow> nat r))"

definition work_left :: "loop_state \<Rightarrow> nat" where
  "work_left s = length (lp_running s) + 2 * length (lp_pending s)"

lemma loop_step_decreases:
  assumes "loop_step C s ev t" and "loop_inv C s h" and "ev \<noteq> Stop" and "\<forall>items. ev \<noteq> Poll items" and "\<not> lp_stopping s"
  shows "work_left t < work_left s \<or> work_left t = work_left s \<and> steps_left t < steps_left s"
  using assms
  by (induction rule: loop_step.induct)
    (auto simp: work_left_def steps_left_def loop_inv_def at_top_def split: option.splits)

lemma loop_step_enabled:
  assumes i: "loop_inv C s h" and ok: "config_ok C" and go: "\<not> lp_stopping s"
  shows "\<exists>ev t. loop_step C s ev t \<and> ev \<noteq> Stop"
proof (cases "lp_timer s")
  case (Some r)
  then have "0 \<le> r" using i by (simp add: loop_inv_def)
  then show ?thesis
    using Some loop_step.poll [of s r C] loop_step.timer [of s r C] loop_step.wait [of s r r C]
    by (cases "lp_pollNow s"; cases "r = 0") (fastforce simp: neq_iff)+
next
  case None
  show ?thesis
  proof (cases "lp_pending s")
    case Nil
    then show ?thesis
      using None go loop_step.arm [of s C] loop_step.again [of s C] by (cases "lp_again s") (force simp: at_top_def)+
  next
    case (Cons x xs)
    show ?thesis
    proof (cases "int (length (lp_running s)) < ac_Concurrency C")
      case True
      then show ?thesis using loop_step.dispatch [OF Cons, of C] by blast
    next
      case False
      then obtain y ys where "lp_running s = [] @ y # ys" using ok by (cases "lp_running s") (auto simp: config_ok_def)
      then show ?thesis using loop_step.finish [of s "[]" y ys C] by blast
    qed
  qed
qed

lemma loop_step_stopping: "loop_step C s ev t \<Longrightarrow> ev \<noteq> Stop \<Longrightarrow> \<not> lp_stopping s \<Longrightarrow> \<not> lp_stopping t"
  by (induction rule: loop_step.induct) (auto simp: on_poll_def Let_def split: sum.split)

lemma loop_polls_soon:
  "loop_inv C s h \<Longrightarrow> config_ok C \<Longrightarrow> \<not> lp_stopping s \<Longrightarrow> polls_soon C s"
proof (induction "(work_left s, steps_left s)" arbitrary: s h rule: wf_induct_rule [OF wf_lex_prod [OF wf_less_than wf_less_than]])
  case (1 s)
  show ?case
  proof (rule polls_soon.soon)
    show "\<exists>ev t. loop_step C s ev t \<and> ev \<noteq> Stop" using 1 by (intro loop_step_enabled)
    fix ev t
    assume st: "loop_step C s ev t" "ev \<noteq> Stop" "\<forall>items. ev \<noteq> Poll items"
    then have "((work_left t, steps_left t), (work_left s, steps_left s)) \<in> less_than <*lex*> less_than"
      using loop_step_decreases [OF st(1) 1(2) st(2,3) 1(4)] by auto
    moreover have "loop_inv C t (observe ev h)" using st(1) 1(2,3) by (rule loop_step_inv)
    moreover have "\<not> lp_stopping t" using loop_step_stopping [OF st(1,2) 1(4)] .
    ultimately show "polls_soon C t" using 1(1,3) by blast
  qed
qed

text \<open>C33: The pull loop never gets stuck and never sleeps for long. At every point of every run it has
  waited in its select, since it last polled, at most the longer of its two intervals; while it is
  not being stopped it comes to its next poll whatever the order of events, where a poll without a
  free slot asks for nothing and a batch larger than the slots waits for running executions to end;
  and once stopped it ends after its running executions have.\<close>

theorem pull_loop_progress:
  assumes "config_ok C" and "loop_run C s h" and "\<not> lp_done s"
  shows "hs_idle h \<le> max (ac_PollInterval C) (ac_MaxBackoff C) \<and>
    (\<not> lp_stopping s \<longrightarrow> polls_soon C s) \<and>
    (lp_stopping s \<longrightarrow> (\<exists>ev t. loop_step C s ev t) \<and>
       (\<forall>ev t. loop_step C s ev t \<longrightarrow> lp_done t \<or> length (lp_running t) < length (lp_running s)))"
proof (intro conjI impI allI)
  have i: "loop_inv C s h" using assms(1,2) by (rule loop_run_inv)
  then show "hs_idle h \<le> max (ac_PollInterval C) (ac_MaxBackoff C)" by (auto simp: loop_inv_def)
  show "polls_soon C s" if "\<not> lp_stopping s" using i assms(1) that by (rule loop_polls_soon)
  assume stop: "lp_stopping s"
  then have s: "lp_pending s = []" "\<not> lp_again s" "lp_timer s = None" using i by (simp_all add: loop_inv_def)
  show "\<exists>ev t. loop_step C s ev t"
    using loop_step.finished [OF stop assms(3), of C] loop_step.finish [of s "[]" _ _ C]
    by (cases "lp_running s") fastforce+
  show "lp_done t \<or> length (lp_running t) < length (lp_running s)" if "loop_step C s ev t" for ev t
    using that s stop by (induction rule: loop_step.induct) (auto simp: at_top_def)
qed

end
