(* ===== verification/Paths.thy ===== *)
theory Paths
  imports Golib
begin

text \<open>
  File paths as \<^verbatim>\<open>path/filepath\<close> treats them on Unix, and the extraction of a tar archive
  in \<^verbatim>\<open>untar\<close> of \<^verbatim>\<open>internal/worker/runtime/docker.go\<close>, which writes only below the
  directory it is given.
\<close>

section \<open>Clean, Join and Dir\<close>

text \<open>One component of a path, on the components kept so far, last first.\<close>

definition push_comp :: "bool \<Rightarrow> string list \<Rightarrow> string \<Rightarrow> string list" where
  "push_comp rooted st c =
     (if c = [] \<or> c = ''.'' then st
      else if c = ''..'' then
        (case st of [] \<Rightarrow> if rooted then [] else [''..'']
         | x # xs \<Rightarrow> if x = ''..'' then ''..'' # st else xs)
      else c # st)"

definition clean_comps :: "bool \<Rightarrow> string \<Rightarrow> string list" where
  "clean_comps rooted s = rev (foldl (push_comp rooted) [] (split_on CHR ''/'' s))"

definition path_Clean :: "string \<Rightarrow> string" where
  "path_Clean s =
     (if s = [] then ''.''
      else if hd s = CHR ''/'' then CHR ''/'' # join_with ''/'' (clean_comps True s)
      else if clean_comps False s = [] then ''.''
      else join_with ''/'' (clean_comps False s))"

definition path_Join :: "string list \<Rightarrow> string" where
  "path_Join es =
     (case filter (\<lambda>e. e \<noteq> []) es of [] \<Rightarrow> [] | ws \<Rightarrow> path_Clean (join_with ''/'' ws))"

text \<open>\<^verbatim>\<open>filepath.Dir\<close>: the path up to its last separator, cleaned.\<close>

definition path_Dir :: "string \<Rightarrow> string" where
  "path_Dir p = path_Clean (rev (dropWhile (\<lambda>c. c \<noteq> CHR ''/'') (rev p)))"

section \<open>Clean rooted paths\<close>

text \<open>A component that names an entry of a directory.\<close>

definition plain :: "string \<Rightarrow> bool" where
  "plain c \<longleftrightarrow> c \<noteq> [] \<and> c \<noteq> ''.'' \<and> c \<noteq> ''..'' \<and> CHR ''/'' \<notin> set c"

definition below :: "string list \<Rightarrow> string" where
  "below cs = concat (map (\<lambda>c. CHR ''/'' # c) cs)"

lemma below_simps [simp]: "below [] = []" "below (c # cs) = CHR ''/'' # c @ below cs" "below (as @ bs) = below as @ below bs"
  by (simp_all add: below_def)

lemma join_below: "cs \<noteq> [] \<Longrightarrow> CHR ''/'' # join_with ''/'' cs = below cs"
  by (induction "''/''" cs rule: join_with.induct) auto

lemma push_comp_plain:
  "list_all plain st \<Longrightarrow> CHR ''/'' \<notin> set c \<Longrightarrow> list_all plain (push_comp True st c)"
  by (cases st) (auto simp: push_comp_def plain_def)

lemma foldl_push_plain:
  "list_all plain st \<Longrightarrow> \<forall>c \<in> set cs. CHR ''/'' \<notin> set c \<Longrightarrow> list_all plain (foldl (push_comp True) st cs)"
  by (induction cs arbitrary: st) (simp_all add: push_comp_plain)

lemma clean_comps_plain: "list_all plain (clean_comps True s)"
  unfolding clean_comps_def list_all_rev
  by (rule foldl_push_plain) (auto dest: split_on_parts)

lemma foldl_push_id: "list_all plain cs \<Longrightarrow> foldl (push_comp r) st cs = rev cs @ st"
  by (induction cs arbitrary: st) (auto simp: push_comp_def plain_def)

lemma split_below: "list_all plain cs \<Longrightarrow> split_on CHR ''/'' (below cs @ s) =
    (case split_on CHR ''/'' s of w # ws \<Rightarrow> (if cs = [] then w # ws else [] # butlast cs @ (last cs @ w) # ws))"
proof (induction cs)
  case Nil
  then show ?case by (cases "split_on CHR ''/'' s") auto
next
  case (Cons c cs)
  have app: "split_on CHR ''/'' (c @ t) = (case split_on CHR ''/'' t of w # ws \<Rightarrow> (c @ w) # ws)"
    if "CHR ''/'' \<notin> set c" for c t
    using that
  proof (induction c)
    case Nil
    then show ?case by (cases "split_on CHR ''/'' t") auto
  next
    case (Cons x c)
    then show ?case by (cases "split_on CHR ''/'' t") auto
  qed
  have c: "CHR ''/'' \<notin> set c" using Cons.prems by (simp add: plain_def)
  obtain w ws where w: "split_on CHR ''/'' s = w # ws" by (cases "split_on CHR ''/'' s") auto
  show ?case using Cons app [OF c] w by auto
qed

lemma below_inj_prefix:
  assumes "list_all plain cs" and "list_all plain ds" and "ds \<noteq> []" and "below cs = below ds @ CHR ''/'' # rest"
  obtains es where "cs = ds @ es" and "es \<noteq> []"
proof -
  have "split_on CHR ''/'' (below cs) = split_on CHR ''/'' (below ds @ CHR ''/'' # rest)"
    using assms(4) by simp
  moreover have "split_on CHR ''/'' (below cs) = (if cs = [] then [[]] else [] # cs)"
    using split_below [OF assms(1), of "[]"] by (cases cs rule: rev_cases) simp_all
  moreover have "split_on CHR ''/'' (below ds @ CHR ''/'' # rest) = [] # ds @ split_on CHR ''/'' rest"
    using split_below [OF assms(2), of "CHR ''/'' # rest"] assms(3) by (cases ds rule: rev_cases) simp_all
  ultimately have "cs = ds @ split_on CHR ''/'' rest" using assms(3) by (auto split: if_splits)
  then show ?thesis using that by simp
qed

text \<open>A rooted path cleans to the root or to a chain of plain components.\<close>

lemma path_Clean_rooted:
  obtains "path_Clean (CHR ''/'' # s) = ''/''"
  | cs where "path_Clean (CHR ''/'' # s) = below cs" and "list_all plain cs" and "cs \<noteq> []"
proof (cases "clean_comps True (CHR ''/'' # s) = []")
  case True
  then show ?thesis using that(1) by (simp add: path_Clean_def)
next
  case False
  then have "path_Clean (CHR ''/'' # s) = below (clean_comps True (CHR ''/'' # s))"
    using join_below by (simp add: path_Clean_def)
  then show ?thesis using that(2) clean_comps_plain False by blast
qed

lemma path_Clean_below_slash:
  assumes "list_all plain cs" and "cs \<noteq> []"
  shows "path_Clean (below cs @ ''/'') = below cs"
proof -
  have "split_on CHR ''/'' (below cs @ ''/'') = [] # cs @ [[]]"
    using split_below [OF assms(1), of "''/''"] assms(2) by (cases cs rule: rev_cases) simp_all
  then have "clean_comps True (below cs @ ''/'') = cs"
    using foldl_push_id [OF assms(1)] by (simp add: clean_comps_def push_comp_def)
  then show ?thesis using assms(2) join_below by (cases cs) (simp_all add: path_Clean_def)
qed

lemma path_Dir_below:
  assumes "list_all plain (cs @ [c])" and "cs \<noteq> []"
  shows "path_Dir (below (cs @ [c])) = below cs"
proof -
  have "CHR ''/'' \<notin> set (rev c)" using assms(1) by (simp add: plain_def)
  then have "dropWhile (\<lambda>x. x \<noteq> CHR ''/'') (rev (below (cs @ [c]))) = CHR ''/'' # rev (below cs)"
    by (auto simp: dropWhile_append dropWhile_eq_Nil_conv)
  then show ?thesis using path_Clean_below_slash [of cs] assms by (simp add: path_Dir_def)
qed

section \<open>Extraction of an archive\<close>

text \<open>
  What \<^verbatim>\<open>archive/tar\<close> yields for each call of \<^verbatim>\<open>Next\<close> before the end of the archive,
  and the operations on the file system, of which \<open>fails\<close> tells the error.
\<close>

datatype tar_type = TypeDir | TypeReg | TypeOther

record tar_header =
  th_Name :: string
  th_Typeflag :: tar_type
  th_Content :: string

datatype fs_op = MkdirAll string | Create string | CopyTo string string

primrec op_path :: "fs_op \<Rightarrow> string" where
  "op_path (MkdirAll p) = p"
| "op_path (Create p) = p"
| "op_path (CopyTo p data) = p"

text \<open>Operations one after the other up to the first that fails, which is the last attempted.\<close>

fun attempt_ops :: "(fs_op \<Rightarrow> string option) \<Rightarrow> fs_op list \<Rightarrow> fs_op list \<times> string option" where
  "attempt_ops fails [] = ([], None)"
| "attempt_ops fails (a # as) =
     (case fails a of
        Some err \<Rightarrow> ([a], Some err)
      | None \<Rightarrow> (let (done_ops, res) = attempt_ops fails as in (a # done_ops, res)))"

definition entry_ops :: "string \<Rightarrow> tar_header \<Rightarrow> fs_op list" where
  "entry_ops target h =
     (case th_Typeflag h of
        TypeDir \<Rightarrow> [MkdirAll target]
      | TypeReg \<Rightarrow> [MkdirAll (path_Dir target), Create target, CopyTo target (th_Content h)]
      | TypeOther \<Rightarrow> [])"

text \<open>An entry of the archive is its header, or the error of reading it.\<close>

fun untar :: "(fs_op \<Rightarrow> string option) \<Rightarrow> string \<Rightarrow> (string + tar_header) list \<Rightarrow> fs_op list \<times> string option" where
  "untar fails dest [] = ([], None)"
| "untar fails dest (Inl err # hs) = ([], Some err)"
| "untar fails dest (Inr h # hs) =
     (if th_Name h = ''./'' \<or> th_Name h = ''.'' then untar fails dest hs
      else
        let target = path_Join [dest, th_Name h] in
        if \<not> prefix (path_Clean dest @ ''/'') target then ([], Some (''illegal file path: '' @ th_Name h))
        else case attempt_ops fails (entry_ops target h) of
          (ops, Some err) \<Rightarrow> (ops, Some err)
        | (ops, None) \<Rightarrow> (let (more, res) = untar fails dest hs in (ops @ more, res)))"

lemma attempt_ops_subset: "set (fst (attempt_ops fails as)) \<subseteq> set as"
  by (induction as) (auto split: option.split prod.split)

lemma attempt_ops_all: "snd (attempt_ops fails as) = None \<Longrightarrow> fst (attempt_ops fails as) = as"
  by (induction as) (auto split: option.splits prod.splits)

text \<open>A target that passes the check lies below the directory, and so does its parent.\<close>

lemma target_below:
  assumes "prefix (path_Clean (CHR ''/'' # s) @ ''/'') (path_Join [CHR ''/'' # s, n])"
  obtains ds es where "path_Clean (CHR ''/'' # s) = below ds" and "list_all plain (ds @ es)"
    and "ds \<noteq> []" and "es \<noteq> []" and "path_Join [CHR ''/'' # s, n] = below (ds @ es)"
proof -
  obtain t where t: "path_Join [CHR ''/'' # s, n] = path_Clean (CHR ''/'' # t)"
    by (cases "n = []") (auto simp: path_Join_def)
  obtain rest where rest: "path_Clean (CHR ''/'' # t) = path_Clean (CHR ''/'' # s) @ CHR ''/'' # rest"
    using assms unfolding t by (auto simp: prefix_def)
  have nonempty: "path_Clean (CHR ''/'' # u) \<noteq> []" for u by (simp add: path_Clean_def)
  have first: "below cs \<noteq> CHR ''/'' # CHR ''/'' # v" if "list_all plain cs" for cs v
    using that by (cases cs; cases "hd cs") (auto simp: plain_def)
  show ?thesis
  proof (rule path_Clean_rooted [of s])
    assume root: "path_Clean (CHR ''/'' # s) = ''/''"
    then have two: "path_Clean (CHR ''/'' # t) = CHR ''/'' # CHR ''/'' # rest" using rest by simp
    show ?thesis
      by (rule path_Clean_rooted [of t]) (simp add: two, metis two first)
  next
    fix ds assume ds: "path_Clean (CHR ''/'' # s) = below ds" "list_all plain ds" "ds \<noteq> []"
    show ?thesis
    proof (rule path_Clean_rooted [of t])
      assume "path_Clean (CHR ''/'' # t) = ''/''"
      then show ?thesis using rest nonempty [of s] by (auto simp: append_eq_Cons_conv)
    next
      fix cs assume cs: "path_Clean (CHR ''/'' # t) = below cs" "list_all plain cs" "cs \<noteq> []"
      have "below cs = below ds @ CHR ''/'' # rest" using rest cs(1) ds(1) by simp
      then obtain es where es: "cs = ds @ es" "es \<noteq> []"
        using below_inj_prefix [OF cs(2) ds(2,3)] by blast
      show ?thesis using that [of ds es] ds cs es t by simp
    qed
  qed
qed

lemma entry_ops_below:
  assumes "list_all plain (ds @ es)" and "ds \<noteq> []" and "es \<noteq> []" and "a \<in> set (entry_ops (below (ds @ es)) h)"
  shows "\<exists>cs. list_all plain cs \<and> op_path a = below ds @ below cs"
proof -
  obtain fs c where es: "es = fs @ [c]" using assms(3) by (cases es rule: rev_cases) auto
  have "path_Dir (below ((ds @ fs) @ [c])) = below (ds @ fs)"
    using path_Dir_below [of "ds @ fs" c] assms(1,2) es by simp
  then have parent: "path_Dir (below (ds @ es)) = below ds @ below fs" using es by simp
  have "op_path a = below ds @ below es \<or> op_path a = below ds @ below fs"
    using assms(4) parent by (auto simp: entry_ops_def split: tar_type.splits)
  moreover have "list_all plain es" and "list_all plain fs" using assms(1) es by simp_all
  ultimately show ?thesis by blast
qed

lemma untar_below:
  assumes "hd dest = CHR ''/''" and "dest \<noteq> []" and "a \<in> set (fst (untar fails dest hs))"
  shows "\<exists>cs. list_all plain cs \<and> op_path a = path_Clean dest @ below cs"
  using assms
proof (induction fails dest hs rule: untar.induct)
  case (3 fails dest h hs)
  obtain s where s: "dest = CHR ''/'' # s" using "3.prems" by (cases dest) auto
  show ?case
  proof (cases "a \<in> set (fst (attempt_ops fails (entry_ops (path_Join [dest, th_Name h]) h))) \<and>
      prefix (path_Clean dest @ ''/'') (path_Join [dest, th_Name h])")
    case True
    then obtain ds es where t: "path_Clean dest = below ds" "list_all plain (ds @ es)" "ds \<noteq> []" "es \<noteq> []"
      "path_Join [dest, th_Name h] = below (ds @ es)"
      using target_below [of s "th_Name h"] unfolding s by blast
    have "a \<in> set (entry_ops (below (ds @ es)) h)"
      using True attempt_ops_subset [of fails] unfolding t(5) by blast
    then show ?thesis using entry_ops_below t by simp
  next
    case False
    then have "a \<in> set (fst (untar fails dest hs))"
      using "3.prems" by (auto simp: Let_def split: if_splits prod.splits option.splits)
    then show ?thesis using 3 False
      by (auto simp: Let_def split: if_splits prod.splits option.splits)
  qed
qed simp_all

text \<open>C22: Whatever an archive holds, its extraction into an absolute directory creates and writes
  only paths made of named entries below that directory: no name of an entry, with any number
  of dots and slashes, leads outside.
\<close>

theorem untar_stays_inside:
  assumes "hd dest = CHR ''/''" and "dest \<noteq> []" and "a \<in> set (fst (untar fails dest hs))"
  shows "\<exists>cs. list_all plain cs \<and> op_path a = path_Clean dest @ below cs"
  using assms by (rule untar_below)

end
