(* ===== verification/Runtime.thy ===== *)
theory Runtime
  imports Agent Paths
begin

text \<open>
  The interface \<^verbatim>\<open>Runtime\<close> of \<^verbatim>\<open>internal/worker/runtime/interface.go\<close>, as the agent relies on
  it: the runtimes as programs on the state of their host, the paths on the worker's disk, and
  the run of one execution with the directory it leaves behind.
\<close>

section \<open>Paths on the worker's disk\<close>

text \<open>The path and its parents, as \<^verbatim>\<open>os.MkdirAll\<close> creates them.\<close>

definition parents :: "string \<Rightarrow> string list" where
  "parents p = map (\<lambda>n. take n p) (filter (\<lambda>n. 0 < n \<and> p ! n = CHR ''/'') [0..<length p])"

text \<open>Paths are held in their cleaned form; \<open>within d p\<close> is the file \<open>d\<close> or one below it.\<close>

definition within :: "string \<Rightarrow> string \<Rightarrow> bool" where
  "within d p \<longleftrightarrow> p = d \<or> prefix (d @ ''/'') p"

definition add_paths :: "string list \<Rightarrow> string list \<Rightarrow> string list" where
  "add_paths new fs = fs @ filter (\<lambda>p. p \<notin> set fs) new"

definition os_MkdirAll :: "string \<Rightarrow> string list \<Rightarrow> string list" where
  "os_MkdirAll p = add_paths (parents p @ [p])"

definition os_RemoveAll :: "string \<Rightarrow> string list \<Rightarrow> string list" where
  "os_RemoveAll d fs = filter (\<lambda>p. \<not> within d p) fs"

lemma set_add_paths [simp]: "set (add_paths new fs) = set fs \<union> set new"
  by (auto simp: add_paths_def)

lemma within_refl [simp]: "within d d"
  by (simp add: within_def)

lemma within_below [simp]: "within d (d @ below cs)"
  by (cases cs) (auto simp: within_def prefix_def)

lemma set_MkdirAll: "set (os_MkdirAll p fs) = insert p (set fs \<union> set (parents p))"
  by (auto simp: os_MkdirAll_def)

lemma set_RemoveAll: "set (os_RemoveAll d fs) = {p \<in> set fs. \<not> within d p}"
  by (auto simp: os_RemoveAll_def)

text \<open>The parents of a path below a directory are parents of the directory, or within it.\<close>

lemma parents_within:
  assumes "q \<in> set (parents (d @ x))" and "x = [] \<or> hd x = CHR ''/''"
  shows "q \<in> set (parents d) \<or> within d q"
proof -
  obtain n where n: "n < length (d @ x)" "0 < n" "(d @ x) ! n = CHR ''/''" "q = take n (d @ x)"
    using assms(1) by (auto simp: parents_def)
  show ?thesis
  proof (cases "n < length d")
    case True
    then show ?thesis using n by (auto simp: parents_def nth_append)
  next
    case False
    then obtain y where x: "x = CHR ''/'' # y" using n(1) assms(2) by (cases x) auto
    obtain m where m: "n = length d + m" using False le_Suc_ex [of "length d" n] by auto
    have "q = d @ take m x" using n(4) m by simp
    then show ?thesis using x by (cases m) (auto simp: within_def)
  qed
qed

section \<open>The interface\<close>

text \<open>What \<^verbatim>\<open>Wait\<close> returns: a result, and an error beside it or none.\<close>

definition returned :: "ExitResult \<times> string option \<Rightarrow> string + ExitResult" where
  "returned w = (case w of (r, None) \<Rightarrow> Inr r | (r, Some e) \<Rightarrow> Inl e)"

text \<open>The context of an execution always ends: when one of the contexts above it is cancelled, or at
  its deadline, whichever is first.\<close>

definition execution_end :: "(string \<rightharpoonup> time) \<Rightarrow> ctx \<Rightarrow> time \<Rightarrow> job \<Rightarrow> time \<times> ctx_error" where
  "execution_end cancelled c began j =
     (case ctx_end cancelled (exec_context c began j) of
        None \<Rightarrow> (began + job_timeout j, DeadlineExceeded) | Some x \<Rightarrow> x)"

lemma execution_ends: "ctx_end cancelled (exec_context c began j) = Some (execution_end cancelled c began j)"
  by (simp add: execution_end_def exec_context_def earlier_def split: option.split prod.split)

text \<open>A wait is told when and how its context ends, and tells when it returns. The agent goes on
  when the log stream has ended too.\<close>

type_synonym wait_result = "time \<times> ExitResult \<times> string option"

text \<open>
  The run of one execution on a runtime: the agent starts it, waits for it, reads its result
  directory, stops it when it has timed out, and cleans up.
\<close>

definition run_item ::
    "(StartOptions \<Rightarrow> (string, 'h, 's) prog) \<Rightarrow> (time \<times> ctx_error \<Rightarrow> 'h \<Rightarrow> 's \<Rightarrow> wait_result \<times> 's) \<Rightarrow>
     ('h \<Rightarrow> 's \<Rightarrow> 's) \<Rightarrow> ('h \<Rightarrow> string) \<Rightarrow> ('h \<Rightarrow> 's \<Rightarrow> 's) \<Rightarrow>
     externals \<Rightarrow> ctx \<Rightarrow> uuid \<Rightarrow> raw_message \<Rightarrow> run_env \<Rightarrow> 's \<Rightarrow> action list \<times> 's" where
  "run_item Start Wait Stop ResultDir Cleanup_dir E c eid payload env s =
     (case payload_job E payload of
        None \<Rightarrow> (processItem E c eid payload env, s)
      | Some j \<Rightarrow>
          (case Start (start_options E eid j) s of
             (Inl err, s1) \<Rightarrow> (processItem E c eid payload (env\<lparr>re_start := Some err\<rparr>), s1)
           | (Inr h, s1) \<Rightarrow>
               (let ((t, w), s2) = Wait (execution_end (re_cancelled env) c (re_began env) j) h s1;
                    as = processItem E c eid payload (env\<lparr>re_start := None, re_wait := returned w,
                      re_waited := max (re_waited env) t, re_dir := ResultDir h\<rparr>);
                    s3 = (if StopRuntime \<in> set as then Stop h s2 else s2)
                in (as, if Cleanup \<in> set as then Cleanup_dir h s3 else s3))))"

lemma started_cleans_up:
  "payload_job E payload = Some j \<Longrightarrow> re_start env = None \<Longrightarrow> Cleanup \<in> set (processItem E c eid payload env)"
  by (simp add: processItem_def)

text \<open>
  What the agent relies on, in an environment that is \<open>sane\<close>. \<open>paths\<close> are the paths on the
  worker's disk; a started execution adds only parents of its directory and paths within it,
  a failed start and the clean-up leave nothing of it.
\<close>

locale job_runtime =
  fixes Start :: "StartOptions \<Rightarrow> (string, 'h, 's) prog"
    and Wait :: "time \<times> ctx_error \<Rightarrow> 'h \<Rightarrow> 's \<Rightarrow> wait_result \<times> 's"
    and Stop :: "'h \<Rightarrow> 's \<Rightarrow> 's"
    and ResultDir :: "'h \<Rightarrow> string"
    and Cleanup_dir :: "'h \<Rightarrow> 's \<Rightarrow> 's"
    and paths :: "'s \<Rightarrow> string set"
    and sane :: bool
    and shared :: "StartOptions \<Rightarrow> string set"
    and around :: "'h \<Rightarrow> string set"
    and own :: "'h \<Rightarrow> string \<Rightarrow> bool"
    and good :: "'h \<Rightarrow> bool"
  assumes start_fails: "sane \<Longrightarrow> Start opts s = (Inl e, s') \<Longrightarrow> paths s' \<subseteq> paths s \<union> shared opts"
    and start_ok: "sane \<Longrightarrow> Start opts s = (Inr h, s') \<Longrightarrow> good h \<and> around h \<subseteq> shared opts \<and>
      paths s' \<subseteq> paths s \<union> shared opts \<union> Collect (own h)"
    and wait_own: "good h \<Longrightarrow> Wait ends h s = (w, s') \<Longrightarrow> paths s' \<subseteq> paths s \<union> around h \<union> Collect (own h)"
    and stop_paths: "paths (Stop h s) \<subseteq> paths s"
    and cleaned: "paths (Cleanup_dir h s) = {p \<in> paths s. \<not> own h p}"
begin

lemma nothing_left:
  assumes sane: sane
    and run: "run_item Start Wait Stop ResultDir Cleanup_dir E c eid payload env s = (as, s')"
    and left: "p \<in> paths s'"
  shows "p \<in> paths s \<or> (\<exists>j. payload_job E payload = Some j \<and> p \<in> shared (start_options E eid j))"
proof (cases "payload_job E payload")
  case None
  then show ?thesis using run left by (simp add: run_item_def)
next
  case (Some j)
  define opts where "opts = start_options E eid j"
  obtain r s1 where st: "Start opts s = (r, s1)" by (cases "Start opts s")
  show ?thesis
  proof (cases r)
    case (Inl e)
    then have "s' = s1" using run st Some by (simp add: run_item_def opts_def)
    then show ?thesis using start_fails [OF sane] st Inl left Some by (fastforce simp: opts_def)
  next
    case (Inr h)
    have ok: "good h" "around h \<subseteq> shared opts" "paths s1 \<subseteq> paths s \<union> shared opts \<union> Collect (own h)"
      using start_ok [OF sane, of opts s h s1] st Inr by simp_all
    let ?ends = "execution_end (re_cancelled env) c (re_began env) j"
    obtain t w s2 where wt: "Wait ?ends h s1 = ((t, w), s2)" by (metis surj_pair)
    obtain s3 where s3: "s' = Cleanup_dir h s3" "s3 = s2 \<or> s3 = Stop h s2"
      using run st Some Inr wt started_cleans_up [OF Some]
      by (auto simp: run_item_def opts_def Let_def split: if_splits)
    then have "p \<in> paths s2" and o: "\<not> own h p"
      using left cleaned [of h s3] stop_paths [of h s2] by auto
    then have "p \<in> paths s1 \<union> shared opts" using wait_own [OF ok(1) wt] ok(2) by blast
    then show ?thesis using ok(3) o Some by (auto simp: opts_def)
  qed
qed

end

text \<open>The actions of a run are those of \<^verbatim>\<open>processItem\<close> in the circumstances the runtime makes.\<close>

lemma run_item_actions:
  "\<exists>env'. fst (run_item Start Wait Stop ResultDir Cleanup_dir E c eid payload env s) =
     processItem E c eid payload env' \<and> re_cancelled env' = re_cancelled env"
  by (cases "payload_job E payload")
    (auto simp: run_item_def Let_def split: prod.split sum.split intro: exI [of _ env]
      exI [of _ "env\<lparr>re_start := a\<rparr>" for a]
      exI [of _ "env\<lparr>re_start := a, re_wait := b, re_waited := t, re_dir := d\<rparr>" for a b t d])

text \<open>The actions of a run that has started, from what the wait returned.\<close>

lemma run_item_started:
  assumes "payload_job E payload = Some j" and "Start (start_options E eid j) s = (Inr h, s1)"
    and "Wait (execution_end (re_cancelled env) c (re_began env) j) h s1 = ((t, w), s2)"
  shows "run_item Start Wait Stop ResultDir Cleanup_dir E c eid payload env s =
    (let as = processItem E c eid payload (env\<lparr>re_start := None, re_wait := returned w,
       re_waited := max (re_waited env) t, re_dir := ResultDir h\<rparr>)
     in (as, Cleanup_dir h (if StopRuntime \<in> set as then Stop h s2 else s2)))"
  using assms started_cleans_up [OF assms(1)] by (simp add: run_item_def Let_def)

text \<open>When the wait fails because a context above that of the execution was cancelled, the failure is
  reported as such, and the job is not stopped.\<close>

lemma run_item_abandons:
  assumes "payload_job E payload = Some j" and "Start (start_options E eid j) s = (Inr h, s1)"
    and ends: "execution_end (re_cancelled env) c (re_began env) j = (u, Canceled)"
    and "Wait (u, Canceled) h s1 = ((u, r, Some msg), s2)"
  shows "run_item Start Wait Stop ResultDir Cleanup_dir E c eid payload env s =
    ([StartRuntime (start_options E eid j), StartHeartbeat, StartLogs c,
      Report Background (result_report None (''Runtime waiting error: '' @ msg) None), CancelHeartbeat, Cleanup],
     Cleanup_dir h s2)"
proof -
  have "ctx_err (re_cancelled env) (max (re_waited env) u) (exec_context c (re_began env) j) = Some Canceled"
    by (simp add: ctx_err_def execution_ends ends)
  then show ?thesis
    using assms(1,4) run_item_started [of E payload j Start eid s h s1 Wait env c u "(r, Some msg)" s2] assms(2) ends
    by (simp add: processItem_def wait_outcome_def returned_def Let_def)
qed

end
