(* ===== verification/Runtime_Exec.thy ===== *)
theory Runtime_Exec
  imports Runtime
begin

text \<open>
  The runtime of \<^verbatim>\<open>internal/worker/runtime/exec.go\<close>: one process of the host per execution, in
  a directory of its own. The state is the list of the paths on the worker's disk.
\<close>

section \<open>Start\<close>

text \<open>
  What the host answers: the identifier drawn for an execution without one; the error of
  \<^verbatim>\<open>MkdirAll\<close>, with the number of parents it had made; the errors of the pipes and of the
  start; the environment of the worker.
\<close>

record exec_host =
  eh_uuid :: string
  eh_mkdir :: "(string \<times> nat) option"
  eh_stdout :: "string option"
  eh_stderr :: "string option"
  eh_start :: "string option"
  eh_environ :: "string list"

record exec_cmd =
  cm_Args :: "string list"
  cm_Dir :: string
  cm_Env :: "string list"

record ExecHandle =
  xh_cmd :: exec_cmd
  xh_workDir :: string

definition NewExecRuntime :: "string \<Rightarrow> string \<Rightarrow> string" where
  "NewExecRuntime TempDir workDir =
     (if workDir = [] then path_Join [TempDir, ''jobplane'', ''runner''] else workDir)"

definition env_entry :: "string \<times> string \<Rightarrow> string" where
  "env_entry kv = fst kv @ ''='' @ snd kv"

definition exec_id :: "exec_host \<Rightarrow> StartOptions \<Rightarrow> string" where
  "exec_id w opts =
     (case map_of (so_Env opts) ''JOBPLANE_EXECUTION_ID'' of
        None \<Rightarrow> eh_uuid w | Some i \<Rightarrow> if i \<noteq> [] then i else eh_uuid w)"

definition exec_dir :: "string \<Rightarrow> exec_host \<Rightarrow> StartOptions \<Rightarrow> string" where
  "exec_dir base w opts = path_Join [base, exec_id w opts]"

text \<open>\<^verbatim>\<open>MkdirAll\<close> of a path, which fails for the empty one.\<close>

definition make_dir :: "exec_host \<Rightarrow> string \<Rightarrow> (string, unit, string list) prog" where
  "make_dir w p fs =
     (case eh_mkdir w of
        Some (err, n) \<Rightarrow>
          (Inl (''failed to create work directory: '' @ err), add_paths (take n (parents p)) fs)
      | None \<Rightarrow>
          if p = [] then (Inl ''failed to create work directory: mkdir : no such file or directory'', fs)
          else (Inr (), os_MkdirAll p fs))"

text \<open>An error after the directory is made: it is removed again.\<close>

definition undo_dir :: "string \<Rightarrow> string \<Rightarrow> string option \<Rightarrow> (string, unit, string list) prog" where
  "undo_dir p what err fs =
     (case err of None \<Rightarrow> (Inr (), fs) | Some e \<Rightarrow> (Inl (what @ e), os_RemoveAll p fs))"

definition exec_Start :: "string \<Rightarrow> exec_host \<Rightarrow> StartOptions \<Rightarrow> (string, ExecHandle, string list) prog" where
  "exec_Start base w opts =
     (let args = slice_elems (so_Command opts); dir = exec_dir base w opts in
      and_then (guard (args \<noteq> []) ''command is required'') (\<lambda>_.
      and_then (make_dir w dir) (\<lambda>_.
      and_then (undo_dir dir ''failed to create stdout pipe: '' (eh_stdout w)) (\<lambda>_.
      and_then (undo_dir dir ''failed to create stderr pipe: '' (eh_stderr w)) (\<lambda>_.
      and_then (undo_dir dir ''failed to start process: '' (eh_start w)) (\<lambda>_.
      ret \<lparr>xh_cmd = \<lparr>cm_Args = args, cm_Dir = dir, cm_Env = eh_environ w @ map env_entry (so_Env opts)\<rparr>,
           xh_workDir = dir\<rparr>))))))"

section \<open>Wait, Stop and the directory\<close>

datatype cmd_outcome = CmdOk | CmdExit int | CmdError string

fun ctx_text :: "ctx_error \<Rightarrow> string" where
  "ctx_text Canceled = ''context canceled''"
| "ctx_text DeadlineExceeded = ''context deadline exceeded''"

text \<open>\<open>done_ctx\<close> is \<^verbatim>\<open>ctx.Err()\<close> once the process has ended.\<close>

definition exec_Wait :: "ctx_error option \<Rightarrow> cmd_outcome \<Rightarrow> ExitResult \<times> string option" where
  "exec_Wait done_ctx out =
     (case out of
        CmdOk \<Rightarrow> (\<lparr>xt_ExitCode = 0, xt_Error = None\<rparr>, None)
      | CmdExit code \<Rightarrow>
          (case done_ctx of
             Some e \<Rightarrow> (\<lparr>xt_ExitCode = -1, xt_Error = Some (ctx_text e)\<rparr>, Some (ctx_text e))
           | None \<Rightarrow> (\<lparr>xt_ExitCode = code, xt_Error = None\<rparr>, None))
      | CmdError err \<Rightarrow>
          (case done_ctx of
             Some e \<Rightarrow> (\<lparr>xt_ExitCode = -1, xt_Error = Some (ctx_text e)\<rparr>, Some (ctx_text e))
           | None \<Rightarrow> (\<lparr>xt_ExitCode = -1, xt_Error = Some err\<rparr>, Some err)))"

text \<open>
  \<^verbatim>\<open>exec.CommandContext\<close> kills the process when the context of the execution ends before it
  does; \<open>own\<close> is when and how the process would end by itself, nothing when it would run for ever.
  \<^verbatim>\<open>cmd.Wait\<close> then returns the exit status of a killed process, which is -1.
\<close>

definition exec_end ::
    "(time \<times> cmd_outcome) option \<Rightarrow> time \<times> ctx_error \<Rightarrow> time \<times> cmd_outcome \<times> ctx_error option" where
  "exec_end own ends =
     (case ends of (u, e) \<Rightarrow>
       (case own of
          Some (t, out) \<Rightarrow> if t < u then (t, out, None) else (u, CmdExit (-1), Some e)
        | None \<Rightarrow> (u, CmdExit (-1), Some e)))"

text \<open>The process leaves \<open>files\<close> in its directory before it ends.\<close>

definition exec_run ::
    "string list \<Rightarrow> (time \<times> cmd_outcome) option \<Rightarrow> time \<times> ctx_error \<Rightarrow> ExecHandle \<Rightarrow> string list \<Rightarrow>
     wait_result \<times> string list" where
  "exec_run files own ends h fs =
     (case exec_end own ends of (t, out, done_ctx) \<Rightarrow>
        ((t, exec_Wait done_ctx out), add_paths (filter (within (xh_workDir h)) files) fs))"

datatype sig = SIGTERM | SIGKILL

datatype sig_result = SigSent | SigProcessDone | SigError string

datatype stop_event = Exited | GraceOver | StopCancelled ctx_error

text \<open>The signals sent and the error, from what the signals meet and what ends the wait. A process
  that has been waited for is done.\<close>

definition exec_Stop :: "bool \<Rightarrow> bool \<Rightarrow> sig_result \<Rightarrow> stop_event \<Rightarrow> sig_result \<Rightarrow> sig list \<times> string option" where
  "exec_Stop started reaped term event kill =
     (if \<not> started then ([], None)
      else case (if reaped then SigProcessDone else term) of
        SigProcessDone \<Rightarrow> ([SIGTERM], None)
      | SigError e \<Rightarrow> ([SIGTERM], Some (''failed to send SIGTERM: '' @ e))
      | SigSent \<Rightarrow>
          (case event of
             Exited \<Rightarrow> ([SIGTERM], None)
           | GraceOver \<Rightarrow>
               ([SIGTERM, SIGKILL],
                case kill of SigError e \<Rightarrow> Some (''failed to send SIGKILL: '' @ e) | _ \<Rightarrow> None)
           | StopCancelled e \<Rightarrow> ([SIGTERM, SIGKILL], Some (ctx_text e))))"

text \<open>The agent stops an execution only after its wait has returned: the process is gone by then,
  ended or killed with the context, and the stop has no effect.\<close>

lemma exec_Stop_after_Wait: "exec_Stop True True term event kill = ([SIGTERM], None)"
  by (simp add: exec_Stop_def)

definition exec_ResultDir :: "ExecHandle \<Rightarrow> string" where
  "exec_ResultDir h = xh_workDir h"

definition exec_Cleanup :: "ExecHandle \<Rightarrow> string list \<Rightarrow> string list" where
  "exec_Cleanup h fs = (if xh_workDir h \<noteq> [] then os_RemoveAll (xh_workDir h) fs else fs)"

section \<open>The contract\<close>

definition exec_shared :: "string \<Rightarrow> exec_host \<Rightarrow> StartOptions \<Rightarrow> string set" where
  "exec_shared base w opts = set (parents (exec_dir base w opts))"

definition exec_own :: "ExecHandle \<Rightarrow> string \<Rightarrow> bool" where
  "exec_own h p \<longleftrightarrow> xh_workDir h \<noteq> [] \<and> within (xh_workDir h) p"

definition exec_good :: "ExecHandle \<Rightarrow> bool" where
  "exec_good h \<longleftrightarrow> xh_workDir h \<noteq> []"

lemma undo_dir_InrD: "undo_dir p what err fs = (Inr u, fs') \<Longrightarrow> fs' = fs \<and> err = None"
  by (auto simp: undo_dir_def split: option.splits)

lemma make_dir_InrD: "make_dir w p fs = (Inr u, fs') \<Longrightarrow> p \<noteq> [] \<and> fs' = os_MkdirAll p fs"
  by (auto simp: make_dir_def split: option.splits if_splits)

lemma exec_Start_Inr:
  assumes "exec_Start base w opts fs = (Inr h, fs')"
  shows "xh_workDir h = exec_dir base w opts \<and> exec_dir base w opts \<noteq> [] \<and>
    fs' = os_MkdirAll (exec_dir base w opts) fs"
  using assms unfolding exec_Start_def Let_def
  by (auto elim!: and_then_InrE dest!: undo_dir_InrD make_dir_InrD guard_InrD simp: ret_def)

lemma make_dir_InlD: "make_dir w p fs = (Inl e, fs') \<Longrightarrow> set fs' \<subseteq> set fs \<union> set (parents p)"
  using set_take_subset by (auto simp: make_dir_def split: option.splits if_splits dest!: in_set_takeD)

lemma undo_dir_InlD: "undo_dir p what err fs = (Inl e, fs') \<Longrightarrow> fs' = os_RemoveAll p fs"
  by (auto simp: undo_dir_def split: option.splits)

lemma exec_Start_Inl:
  assumes "exec_Start base w opts fs = (Inl e, fs')"
  shows "set fs' \<subseteq> set fs \<union> exec_shared base w opts"
  using assms unfolding exec_Start_def Let_def exec_shared_def
  by (auto simp: set_MkdirAll set_RemoveAll guard_def ret_def throw_def
      elim!: and_then_InlE dest!: make_dir_InrD undo_dir_InrD make_dir_InlD undo_dir_InlD split: if_splits)

interpretation exec: job_runtime "exec_Start base w" "exec_run files own" "\<lambda>h fs. fs"
  exec_ResultDir exec_Cleanup set True "exec_shared base w" "\<lambda>h. {}" exec_own exec_good
proof unfold_locales
  fix opts fs e fs' h v ends
  show "exec_Start base w opts fs = (Inl e, fs') \<Longrightarrow> set fs' \<subseteq> set fs \<union> exec_shared base w opts"
    by (rule exec_Start_Inl)
  show "exec_Start base w opts fs = (Inr h, fs') \<Longrightarrow> exec_good h \<and> {} \<subseteq> exec_shared base w opts \<and>
      set fs' \<subseteq> set fs \<union> exec_shared base w opts \<union> Collect (exec_own h)"
    by (drule exec_Start_Inr) (auto simp: exec_good_def exec_own_def exec_shared_def set_MkdirAll)
  show "exec_good h \<Longrightarrow> exec_run files own ends h fs = (v, fs') \<Longrightarrow>
      set fs' \<subseteq> set fs \<union> {} \<union> Collect (exec_own h)"
    by (auto simp: exec_run_def exec_good_def exec_own_def split: prod.splits)
  show "set (exec_Cleanup h fs) = {p \<in> set fs. \<not> exec_own h p}"
    by (auto simp: exec_Cleanup_def exec_own_def set_RemoveAll)
qed simp

end
