(* ===== verification/Runtime_Docker.thy ===== *)
theory Runtime_Docker
  imports Runtime_Exec
begin

text \<open>
  The runtime of \<^verbatim>\<open>internal/worker/runtime/docker.go\<close>: one container of the Docker daemon per
  execution, and a directory of the worker into which its results are copied. The daemon's
  answers are arguments; the state is the paths on the worker's disk and the containers.
\<close>

section \<open>State\<close>

record container_config =
  cc_Image :: string
  cc_Cmd :: "string list option"
  cc_Env :: "string list"
  cc_Tty :: bool

record container =
  co_id :: string
  co_Config :: container_config
  co_running :: bool

record docker_host =
  dh_paths :: "string list"
  dh_containers :: "container list"

record DockerHandle =
  kh_containerID :: string
  kh_hostWorkDir :: string

section \<open>Start\<close>

text \<open>The answers to the calls of \<^verbatim>\<open>Start\<close>: errors, the random part of the directory's name,
  the identifier of the container.\<close>

record docker_answers =
  dk_TempDir :: string
  dk_mkdirtemp :: "string + string"
  dk_inspect :: "string option"
  dk_pull :: "string option"
  dk_create :: "string + string"
  dk_start :: "string option"

definition containerOutputDir :: string where
  "containerOutputDir = ''/jobplane/output''"

definition mapToEnvList :: "string_map \<Rightarrow> string list" where
  "mapToEnvList m = map env_entry m"

text \<open>\<^verbatim>\<open>os.MkdirTemp("", "jobplane-docker-*")\<close>, with \<open>rand\<close> in place of the star.\<close>

definition temp_name :: "string \<Rightarrow> string \<Rightarrow> string" where
  "temp_name dir rand =
     (if dir \<noteq> [] \<and> last dir = CHR ''/'' then dir else dir @ ''/'') @ ''jobplane-docker-'' @ rand"

definition make_temp :: "docker_answers \<Rightarrow> (string, string, docker_host) prog" where
  "make_temp a s =
     (case dk_mkdirtemp a of
        Inl err \<Rightarrow> (Inl (''Failed to create host work directory: '' @ err), s)
      | Inr rand \<Rightarrow>
          (let d = temp_name (dk_TempDir a) rand in
           (Inr d, s\<lparr>dh_paths := add_paths [path_Clean d] (dh_paths s)\<rparr>)))"

definition drop_temp :: "string \<Rightarrow> docker_host \<Rightarrow> docker_host" where
  "drop_temp d s = s\<lparr>dh_paths := os_RemoveAll (path_Clean d) (dh_paths s)\<rparr>"

definition ensure_image :: "docker_answers \<Rightarrow> string \<Rightarrow> string \<Rightarrow> (string, unit, docker_host) prog" where
  "ensure_image a im d s =
     (case (dk_inspect a, dk_pull a) of
        (Some e, Some err) \<Rightarrow> (Inl (''Failed to pull image '' @ im @ '': '' @ err), drop_temp d s)
      | _ \<Rightarrow> (Inr (), s))"

definition create_container ::
    "docker_answers \<Rightarrow> container_config \<Rightarrow> string \<Rightarrow> (string, string, docker_host) prog" where
  "create_container a config d s =
     (case dk_create a of
        Inl err \<Rightarrow> (Inl (''Failed to create container: '' @ err), drop_temp d s)
      | Inr i \<Rightarrow>
          (Inr i, s\<lparr>dh_containers := dh_containers s @ [\<lparr>co_id = i, co_Config = config, co_running = False\<rparr>]\<rparr>))"

definition set_running :: "bool \<Rightarrow> string \<Rightarrow> container list \<Rightarrow> container list" where
  "set_running b i cs = update_where (\<lambda>c. co_id c = i) (\<lambda>c. c\<lparr>co_running := b\<rparr>) cs"

definition start_container :: "docker_answers \<Rightarrow> string \<Rightarrow> string \<Rightarrow> (string, unit, docker_host) prog" where
  "start_container a i d s =
     (case dk_start a of
        Some err \<Rightarrow> (Inl (''Failed to start container: '' @ err), drop_temp d s)
      | None \<Rightarrow> (Inr (), s\<lparr>dh_containers := set_running True i (dh_containers s)\<rparr>))"

definition docker_config :: "StartOptions \<Rightarrow> container_config" where
  "docker_config opts = \<lparr>cc_Image = so_Image opts, cc_Cmd = so_Command opts,
     cc_Env = mapToEnvList (AList.update ''JOBPLANE_OUTPUT_DIR'' containerOutputDir (so_Env opts)), cc_Tty = True\<rparr>"

definition docker_Start :: "docker_answers \<Rightarrow> StartOptions \<Rightarrow> (string, DockerHandle, docker_host) prog" where
  "docker_Start a opts =
     and_then (make_temp a) (\<lambda>d.
     and_then (ensure_image a (so_Image opts) d) (\<lambda>_.
     and_then (create_container a (docker_config opts) d) (\<lambda>i.
     and_then (start_container a i d) (\<lambda>_.
     ret \<lparr>kh_containerID = i, kh_hostWorkDir = d\<rparr>))))"

section \<open>Wait and Stop\<close>

datatype copy_result = CopyNotFound | CopyFailed string | CopyArchive "(string + tar_header) list"

text \<open>What the select of \<^verbatim>\<open>Wait\<close> picks; with a status come the answer to the copying of the
  results, the errors of writing them, and whether the container could be removed.\<close>

datatype docker_event =
    WaitFailed string
  | WaitStatus int "string option" copy_result "fs_op \<Rightarrow> string option" bool
  | WaitDone ctx_error

primrec apply_op :: "fs_op \<Rightarrow> string list \<Rightarrow> string list" where
  "apply_op (MkdirAll p) = os_MkdirAll p"
| "apply_op (Create p) = add_paths [p]"
| "apply_op (CopyTo p data) = id"

definition copyResultsFromContainer ::
    "copy_result \<Rightarrow> (fs_op \<Rightarrow> string option) \<Rightarrow> DockerHandle \<Rightarrow> (string, unit, docker_host) prog" where
  "copyResultsFromContainer cp fails h s =
     (case cp of
        CopyNotFound \<Rightarrow> (Inr (), s)
      | CopyFailed err \<Rightarrow> (Inl err, s)
      | CopyArchive entries \<Rightarrow>
          (let (ops, res) = untar fails (kh_hostWorkDir h) entries in
           (case res of Some err \<Rightarrow> Inl err | None \<Rightarrow> Inr (),
            s\<lparr>dh_paths := fold apply_op (filter (\<lambda>a. fails a = None) ops) (dh_paths s)\<rparr>)))"

definition docker_Wait :: "docker_event \<Rightarrow> DockerHandle \<Rightarrow> docker_host \<Rightarrow> (ExitResult \<times> string option) \<times> docker_host" where
  "docker_Wait ev h s =
     (case ev of
        WaitFailed err \<Rightarrow> ((\<lparr>xt_ExitCode = -1, xt_Error = Some err\<rparr>, Some err), s)
      | WaitStatus code msg cp fails removed \<Rightarrow>
          (let s1 = snd (copyResultsFromContainer cp fails h (s\<lparr>dh_containers :=
                 set_running False (kh_containerID h) (dh_containers s)\<rparr>));
               s2 = (if removed then s1\<lparr>dh_containers :=
                 delete_where (\<lambda>c. co_id c = kh_containerID h) (dh_containers s1)\<rparr> else s1)
           in ((\<lparr>xt_ExitCode = code, xt_Error = msg\<rparr>, None), s2))
      | WaitDone e \<Rightarrow> ((\<lparr>xt_ExitCode = -1, xt_Error = Some (ctx_text e)\<rparr>, Some (ctx_text e)), s))"

text \<open>
  What the select sees: the event \<open>own\<close> that comes by itself, if it comes before the context ends;
  else the end of the context, which the error channel may deliver as well, with \<open>err\<close> for its text.
\<close>

definition docker_sees ::
    "(time \<times> docker_event) option \<Rightarrow> string option \<Rightarrow> time \<times> ctx_error \<Rightarrow> time \<times> docker_event" where
  "docker_sees own err ends =
     (case ends of (u, e) \<Rightarrow>
       (let over = (u, case err of None \<Rightarrow> WaitDone e | Some msg \<Rightarrow> WaitFailed msg) in
        case own of Some (t, ev) \<Rightarrow> if t < u then (t, ev) else over | None \<Rightarrow> over))"

definition docker_run ::
    "(time \<times> docker_event) option \<Rightarrow> string option \<Rightarrow> time \<times> ctx_error \<Rightarrow> DockerHandle \<Rightarrow> docker_host \<Rightarrow>
     wait_result \<times> docker_host" where
  "docker_run own err ends h s =
     (case docker_sees own err ends of (t, ev) \<Rightarrow> (case docker_Wait ev h s of (w, s') \<Rightarrow> ((t, w), s')))"

definition docker_Stop :: "bool \<Rightarrow> DockerHandle \<Rightarrow> docker_host \<Rightarrow> docker_host" where
  "docker_Stop ok h s =
     (if ok then s\<lparr>dh_containers := set_running False (kh_containerID h) (dh_containers s)\<rparr> else s)"

definition docker_ResultDir :: "DockerHandle \<Rightarrow> string" where
  "docker_ResultDir h = kh_hostWorkDir h"

definition docker_Cleanup :: "DockerHandle \<Rightarrow> docker_host \<Rightarrow> docker_host" where
  "docker_Cleanup h s = (if kh_hostWorkDir h \<noteq> [] then drop_temp (kh_hostWorkDir h) s else s)"

section \<open>The contract\<close>

definition docker_paths :: "docker_host \<Rightarrow> string set" where
  "docker_paths s = set (dh_paths s)"

definition docker_sane :: "docker_answers \<Rightarrow> bool" where
  "docker_sane a \<longleftrightarrow> dk_TempDir a \<noteq> [] \<and> hd (dk_TempDir a) = CHR ''/''"

definition docker_around :: "DockerHandle \<Rightarrow> string set" where
  "docker_around h = set (parents (path_Clean (kh_hostWorkDir h)))"

definition docker_shared :: "docker_answers \<Rightarrow> StartOptions \<Rightarrow> string set" where
  "docker_shared a opts =
     (case dk_mkdirtemp a of
        Inl e \<Rightarrow> {} | Inr rand \<Rightarrow> set (parents (path_Clean (temp_name (dk_TempDir a) rand))))"

definition docker_own :: "DockerHandle \<Rightarrow> string \<Rightarrow> bool" where
  "docker_own h p \<longleftrightarrow> kh_hostWorkDir h \<noteq> [] \<and> within (path_Clean (kh_hostWorkDir h)) p"

definition docker_good :: "DockerHandle \<Rightarrow> bool" where
  "docker_good h \<longleftrightarrow> kh_hostWorkDir h \<noteq> [] \<and> hd (kh_hostWorkDir h) = CHR ''/''"

lemma temp_name_rooted:
  "docker_sane a \<Longrightarrow> temp_name (dk_TempDir a) r \<noteq> [] \<and> hd (temp_name (dk_TempDir a) r) = CHR ''/''"
  by (cases "dk_TempDir a") (auto simp: temp_name_def docker_sane_def)

lemma docker_steps_InrD:
  "make_temp a s = (Inr d, s') \<Longrightarrow> \<exists>rand. dk_mkdirtemp a = Inr rand \<and> d = temp_name (dk_TempDir a) rand \<and>
     s' = s\<lparr>dh_paths := add_paths [path_Clean d] (dh_paths s)\<rparr>"
  "ensure_image a im d s = (Inr u, s') \<Longrightarrow> s' = s"
  "create_container a cf d s = (Inr i, s') \<Longrightarrow> dk_create a = Inr i \<and>
     s' = s\<lparr>dh_containers := dh_containers s @ [\<lparr>co_id = i, co_Config = cf, co_running = False\<rparr>]\<rparr>"
  "start_container a i d s = (Inr u, s') \<Longrightarrow> dk_start a = None \<and>
     s' = s\<lparr>dh_containers := set_running True i (dh_containers s)\<rparr>"
  by (auto simp: make_temp_def ensure_image_def create_container_def start_container_def Let_def
      split: sum.splits option.splits)

lemma docker_steps_InlD:
  "make_temp a s = (Inl e, s') \<Longrightarrow> s' = s"
  "ensure_image a im d s = (Inl e, s') \<Longrightarrow> s' = drop_temp d s"
  "create_container a cf d s = (Inl e, s') \<Longrightarrow> s' = drop_temp d s"
  "start_container a i d s = (Inl e, s') \<Longrightarrow> s' = drop_temp d s"
  by (auto simp: make_temp_def ensure_image_def create_container_def start_container_def Let_def
      split: sum.splits option.splits)

lemma docker_Start_Inl:
  assumes "docker_Start a opts s = (Inl e, s')"
  shows "docker_paths s' \<subseteq> docker_paths s"
  using assms unfolding docker_Start_def docker_paths_def
  by (auto elim!: and_then_InlE dest!: docker_steps_InrD docker_steps_InlD
      simp: ret_def drop_temp_def set_RemoveAll)

lemma docker_Start_Inr:
  assumes "docker_Start a opts s = (Inr h, s')"
  obtains rand where "dk_mkdirtemp a = Inr rand" and "kh_hostWorkDir h = temp_name (dk_TempDir a) rand"
    and "docker_paths s' = insert (path_Clean (kh_hostWorkDir h)) (docker_paths s)"
    and "dk_create a = Inr (kh_containerID h)" and "dk_start a = None"
    and "dh_containers s' = set_running True (kh_containerID h) (dh_containers s @
      [\<lparr>co_id = kh_containerID h, co_Config = docker_config opts, co_running = False\<rparr>])"
  using assms unfolding docker_Start_def docker_paths_def
  by (auto elim!: and_then_InrE dest!: docker_steps_InrD simp: ret_def)

text \<open>Extracting an archive adds paths within the directory, and parents of it.\<close>

lemma apply_ops_within:
  assumes "\<And>a. a \<in> set ops \<Longrightarrow> \<exists>cs. op_path a = d @ below cs"
  shows "set (fold apply_op ops fs) \<subseteq> set fs \<union> set (parents d) \<union> {p. within d p}"
  using assms
proof (induction ops arbitrary: fs)
  case (Cons a ops)
  obtain cs where cs: "op_path a = d @ below cs" using Cons.prems [of a] by auto
  have "x \<in> set (parents d) \<or> within d x" if "x \<in> set (parents (d @ below cs))" for x
    using parents_within [OF that] by (cases cs) auto
  then have "set (apply_op a fs) \<subseteq> set fs \<union> set (parents d) \<union> {p. within d p}"
    using cs by (cases a) (auto simp: set_MkdirAll)
  moreover have "set (fold apply_op ops (apply_op a fs)) \<subseteq>
      set (apply_op a fs) \<union> set (parents d) \<union> {p. within d p}"
    using Cons.prems by (intro Cons.IH) simp
  ultimately show ?case by (simp add: le_sup_iff) blast
qed auto

lemma copyResults_paths:
  assumes "docker_good h"
  shows "docker_paths (snd (copyResultsFromContainer cp fails h s)) \<subseteq>
    docker_paths s \<union> docker_around h \<union> {p. docker_own h p}"
proof (cases cp)
  case (CopyArchive entries)
  define ops where "ops = fst (untar fails (kh_hostWorkDir h) entries)"
  have "\<exists>cs. op_path a = path_Clean (kh_hostWorkDir h) @ below cs"
    if "a \<in> set (filter (\<lambda>a. fails a = None) ops)" for a
    using untar_below [of "kh_hostWorkDir h" a fails entries] that assms
    by (auto simp: ops_def docker_good_def)
  then have "set (fold apply_op (filter (\<lambda>a. fails a = None) ops) (dh_paths s)) \<subseteq>
      set (dh_paths s) \<union> set (parents (path_Clean (kh_hostWorkDir h))) \<union> {p. within (path_Clean (kh_hostWorkDir h)) p}"
    by (rule apply_ops_within)
  then show ?thesis
    using assms CopyArchive
    by (simp add: copyResultsFromContainer_def docker_paths_def docker_around_def docker_own_def docker_good_def
        ops_def case_prod_unfold Let_def)
qed (auto simp: copyResultsFromContainer_def)

lemma copyResults_containers [simp]:
  "dh_containers (snd (copyResultsFromContainer cp fails h s)) = dh_containers s"
  by (auto simp: copyResultsFromContainer_def split: copy_result.split prod.split)

lemma docker_Wait_paths:
  assumes "docker_good h" and "docker_Wait ev h s = (v, s')"
  shows "docker_paths s' \<subseteq> docker_paths s \<union> docker_around h \<union> Collect (docker_own h)"
proof (cases ev)
  case (WaitStatus code msg cp fails removed)
  then have "docker_paths s' = docker_paths (snd (copyResultsFromContainer cp fails h
      (s\<lparr>dh_containers := set_running False (kh_containerID h) (dh_containers s)\<rparr>)))"
    using assms(2) by (cases removed) (auto simp: docker_Wait_def docker_paths_def Let_def)
  then show ?thesis
    using copyResults_paths [OF assms(1)] by (fastforce simp: docker_paths_def)
qed (use assms in \<open>auto simp: docker_Wait_def\<close>)

interpretation docker: job_runtime "docker_Start a" "docker_run own err" "docker_Stop ok"
  docker_ResultDir docker_Cleanup docker_paths "docker_sane a" "docker_shared a" docker_around docker_own docker_good
proof unfold_locales
  fix opts s e s' h v ends
  show "docker_Start a opts s = (Inl e, s') \<Longrightarrow> docker_paths s' \<subseteq> docker_paths s \<union> docker_shared a opts"
    using docker_Start_Inl by blast
  show "docker_good h \<and> docker_around h \<subseteq> docker_shared a opts \<and>
      docker_paths s' \<subseteq> docker_paths s \<union> docker_shared a opts \<union> Collect (docker_own h)"
    if sane: "docker_sane a" and st: "docker_Start a opts s = (Inr h, s')"
  proof (rule docker_Start_Inr [OF st])
    fix rand
    assume r: "dk_mkdirtemp a = Inr rand" "kh_hostWorkDir h = temp_name (dk_TempDir a) rand"
      and ps: "docker_paths s' = insert (path_Clean (kh_hostWorkDir h)) (docker_paths s)"
    have "docker_good h" unfolding docker_good_def r(2) by (rule temp_name_rooted [OF sane])
    moreover have "docker_around h = docker_shared a opts"
      unfolding docker_around_def docker_shared_def r by simp
    moreover have "docker_own h (path_Clean (kh_hostWorkDir h))"
      using \<open>docker_good h\<close> by (simp add: docker_own_def docker_good_def)
    ultimately show ?thesis unfolding ps by auto
  qed
  show "docker_good h \<Longrightarrow> docker_run own err ends h s = (v, s') \<Longrightarrow>
      docker_paths s' \<subseteq> docker_paths s \<union> docker_around h \<union> Collect (docker_own h)"
    by (auto simp: docker_run_def split: prod.splits dest: docker_Wait_paths)
  show "docker_paths (docker_Stop ok h s) \<subseteq> docker_paths s"
    by (simp add: docker_Stop_def docker_paths_def)
  show "docker_paths (docker_Cleanup h s) = {p \<in> docker_paths s. \<not> docker_own h p}"
    by (auto simp: docker_Cleanup_def drop_temp_def docker_paths_def docker_own_def set_RemoveAll)
qed

end
