(* ===== verification/Runtime_Kube.thy ===== *)
theory Runtime_Kube
  imports Runtime_Docker
begin

text \<open>
  The runtime of \<^verbatim>\<open>internal/worker/runtime/kubernetes.go\<close>: one Kubernetes Job per execution.
  The state is the jobs of the cluster; the answers of the API server and the events of the
  watch are arguments. Resource limits are quantities that \<^verbatim>\<open>resource.MustParse\<close> accepts: it
  panics on others.
\<close>

section \<open>Configuration\<close>

record KubernetesConfig =
  kc_Namespace :: string
  kc_ServiceAccount :: string
  kc_DefaultCPULimit :: string
  kc_DefaultMemoryLimit :: string

definition homeDir :: "(string \<Rightarrow> string) \<Rightarrow> string" where
  "homeDir getenv = (if getenv ''HOME'' \<noteq> [] then getenv ''HOME'' else getenv ''USERPROFILE'')"

definition string_or :: "string \<Rightarrow> string \<Rightarrow> string" where
  "string_or def s = (if s = [] then def else s)"

definition kube_defaults :: "KubernetesConfig \<Rightarrow> KubernetesConfig" where
  "kube_defaults cfg = cfg\<lparr>
     kc_Namespace := string_or ''default'' (kc_Namespace cfg),
     kc_DefaultCPULimit := string_or ''500m'' (kc_DefaultCPULimit cfg),
     kc_DefaultMemoryLimit := string_or ''256Mi'' (kc_DefaultMemoryLimit cfg)\<rparr>"

text \<open>The errors of the three ways to a client: in the cluster, from the file of the home
  directory, and of the client itself.\<close>

definition NewKubernetesRuntime ::
    "(string \<Rightarrow> string) \<Rightarrow> string option \<Rightarrow> (string \<Rightarrow> string option) \<Rightarrow> string option \<Rightarrow>
     KubernetesConfig \<Rightarrow> string + KubernetesConfig" where
  "NewKubernetesRuntime getenv in_cluster kubeconfig client cfg =
     (case (if in_cluster = None then None else kubeconfig (path_Join [homeDir getenv, ''.kube'', ''config''])) of
        Some err \<Rightarrow> Inl (''failed to build kubernetes config: '' @ err)
      | None \<Rightarrow>
          (case client of
             Some err \<Rightarrow> Inl (''failed to create kubernetes clientset: '' @ err)
           | None \<Rightarrow> Inr (kube_defaults cfg)))"

section \<open>Start and Stop\<close>

datatype restart_policy = RestartPolicyNever

record kube_job =
  kj_Name :: string
  kj_Namespace :: string
  kj_Labels :: string_map
  kj_BackoffLimit :: int
  kj_PodLabels :: string_map
  kj_RestartPolicy :: restart_policy
  kj_ServiceAccountName :: string
  kj_ContainerName :: string
  kj_Image :: string
  kj_Command :: "string list option"
  kj_Env :: string_map
  kj_CPULimit :: string
  kj_MemoryLimit :: string

record KubernetesHandle =
  uh_namespace :: string
  uh_jobName :: string
  uh_podName :: string

definition kube_job_name :: "time \<Rightarrow> string" where
  "kube_job_name now = ''jobplane-'' @ itoa now"

definition kube_job_of :: "KubernetesConfig \<Rightarrow> time \<Rightarrow> StartOptions \<Rightarrow> kube_job" where
  "kube_job_of cfg now opts = \<lparr>
     kj_Name = kube_job_name now,
     kj_Namespace = kc_Namespace cfg,
     kj_Labels = [(''app.kubernetes.io/managed-by'', ''jobplane'')],
     kj_BackoffLimit = 0,
     kj_PodLabels = [(''job-name'', kube_job_name now), (''app.kubernetes.io/managed-by'', ''jobplane'')],
     kj_RestartPolicy = RestartPolicyNever,
     kj_ServiceAccountName = kc_ServiceAccount cfg,
     kj_ContainerName = ''job'',
     kj_Image = so_Image opts,
     kj_Command = so_Command opts,
     kj_Env = so_Env opts,
     kj_CPULimit = kc_DefaultCPULimit cfg,
     kj_MemoryLimit = kc_DefaultMemoryLimit cfg\<rparr>"

definition kube_Start ::
    "KubernetesConfig \<Rightarrow> time \<Rightarrow> string option \<Rightarrow> StartOptions \<Rightarrow> (string, KubernetesHandle, kube_job list) prog" where
  "kube_Start cfg now refused opts s =
     (case refused of
        Some err \<Rightarrow> (Inl (''failed to create kubernetes job: '' @ err), s)
      | None \<Rightarrow>
          (Inr \<lparr>uh_namespace = kc_Namespace cfg, uh_jobName = kube_job_name now, uh_podName = []\<rparr>,
           s @ [kube_job_of cfg now opts]))"

definition kube_Stop :: "string option \<Rightarrow> KubernetesHandle \<Rightarrow> kube_job list \<Rightarrow> string option \<times> kube_job list" where
  "kube_Stop refused h s =
     (case refused of
        Some err \<Rightarrow> (Some (''failed to delete job '' @ uh_jobName h @ '': '' @ err), s)
      | None \<Rightarrow>
          (None, delete_where (\<lambda>k. kj_Name k = uh_jobName h \<and> kj_Namespace k = uh_namespace h) s))"

section \<open>Wait\<close>

text \<open>
  The polls of a loop that ends with its context: every list of answers is followed by the
  error of the context. A poll of \<^verbatim>\<open>waitForPod\<close> is an error or the names of the pods.
\<close>

fun waitForPod :: "(string + string list) list \<Rightarrow> ctx_error \<Rightarrow> string + string" where
  "waitForPod [] e = Inl (ctx_text e)"
| "waitForPod (Inl err # ps) e = Inl err"
| "waitForPod (Inr [] # ps) e = waitForPod ps e"
| "waitForPod (Inr (n # ns) # ps) e = Inr n"

datatype pod_phase = PodPending | PodRunning | PodSucceeded | PodFailed | PodUnknown

record terminated =
  tm_ExitCode :: int
  tm_Reason :: string

text \<open>An event of the watch; a pod comes with its phase and, for each container, the state it
  terminated with, if it has.\<close>

datatype pod_event = WatchError | NotAPod | PodEvent pod_phase "terminated option list"

definition failed_pod :: "terminated option list \<Rightarrow> ExitResult" where
  "failed_pod cs =
     (case cs of
        Some t # _ \<Rightarrow> \<lparr>xt_ExitCode = tm_ExitCode t,
          xt_Error = (if tm_Reason t \<noteq> [] then Some (tm_Reason t) else None)\<rparr>
      | _ \<Rightarrow> \<lparr>xt_ExitCode = -1, xt_Error = None\<rparr>)"

fun watch_pod :: "ctx_error option \<Rightarrow> pod_event list \<Rightarrow> ExitResult \<times> string option" where
  "watch_pod done_ctx [] =
     (\<lparr>xt_ExitCode = -1, xt_Error = map_option ctx_text done_ctx\<rparr>, map_option ctx_text done_ctx)"
| "watch_pod done_ctx (WatchError # es) =
     (\<lparr>xt_ExitCode = -1, xt_Error = Some ''watch error''\<rparr>, Some ''watch error'')"
| "watch_pod done_ctx (NotAPod # es) = watch_pod done_ctx es"
| "watch_pod done_ctx (PodEvent ph cs # es) =
     (case ph of
        PodSucceeded \<Rightarrow> (\<lparr>xt_ExitCode = 0, xt_Error = None\<rparr>, None)
      | PodFailed \<Rightarrow> (failed_pod cs, None)
      | _ \<Rightarrow> watch_pod done_ctx es)"

text \<open>\<open>done_ctx\<close> is \<^verbatim>\<open>ctx.Err()\<close> when the watch is closed after \<open>events\<close>.\<close>

record kube_answers =
  ka_polls :: "(string + string list) list"
  ka_poll_end :: ctx_error
  ka_watch :: "string option"
  ka_events :: "pod_event list"
  ka_done :: "ctx_error option"

definition kube_Wait :: "kube_answers \<Rightarrow> ExitResult \<times> string option" where
  "kube_Wait a =
     (case waitForPod (ka_polls a) (ka_poll_end a) of
        Inl err \<Rightarrow> (\<lparr>xt_ExitCode = -1, xt_Error = Some err\<rparr>, Some err)
      | Inr pod \<Rightarrow>
          (case ka_watch a of
             Some err \<Rightarrow> (\<lparr>xt_ExitCode = -1, xt_Error = Some err\<rparr>, Some err)
           | None \<Rightarrow> watch_pod (ka_done a) (ka_events a)))"

text \<open>
  \<open>own\<close> is when the wait would return by itself and what it has met until then. When the context
  ends first, the polls or the watch end with it, or the request under way fails with \<open>err\<close>.
\<close>

definition kube_run ::
    "(time \<times> kube_answers) option \<Rightarrow> string option \<Rightarrow> time \<times> ctx_error \<Rightarrow> KubernetesHandle \<Rightarrow> kube_job list \<Rightarrow>
     wait_result \<times> kube_job list" where
  "kube_run own err ends h s =
     (case ends of (u, e) \<Rightarrow>
       (let msg = (case err of None \<Rightarrow> ctx_text e | Some m \<Rightarrow> m);
            over = (u, \<lparr>xt_ExitCode = -1, xt_Error = Some msg\<rparr>, Some msg)
        in (case own of Some (t, a) \<Rightarrow> if t < u then (t, kube_Wait a) else over | None \<Rightarrow> over, s)))"

section \<open>Logs and results\<close>

fun waitForContainerReady :: "(string + pod_phase) list \<Rightarrow> ctx_error \<Rightarrow> string option" where
  "waitForContainerReady [] e = Some (ctx_text e)"
| "waitForContainerReady (Inl err # ps) e = Some err"
| "waitForContainerReady (Inr ph # ps) e =
     (if ph = PodRunning \<or> ph = PodSucceeded \<or> ph = PodFailed then None else waitForContainerReady ps e)"

text \<open>The pod whose container \<^verbatim>\<open>job\<close> is followed, or the error.\<close>

definition kube_StreamLogs ::
    "KubernetesHandle \<Rightarrow> (string + string list) list \<Rightarrow> (string + pod_phase) list \<Rightarrow> ctx_error \<Rightarrow> string + string" where
  "kube_StreamLogs h polls states e =
     (case (if uh_podName h = [] then waitForPod polls e else Inr (uh_podName h)) of
        Inl err \<Rightarrow> Inl (''failed to find pod for job '' @ uh_jobName h @ '': '' @ err)
      | Inr pod \<Rightarrow> (case waitForContainerReady states e of Some err \<Rightarrow> Inl err | None \<Rightarrow> Inr pod))"

definition kube_ResultDir :: "KubernetesHandle \<Rightarrow> string" where
  "kube_ResultDir h = []"

definition kube_Cleanup :: "KubernetesHandle \<Rightarrow> kube_job list \<Rightarrow> kube_job list" where
  "kube_Cleanup h s = s"

text \<open>This runtime never touches the worker's disk.\<close>

interpretation kube: job_runtime "kube_Start cfg now refused" "kube_run own err"
  "\<lambda>h s. snd (kube_Stop refused' h s)" kube_ResultDir kube_Cleanup "\<lambda>s. {}" True "\<lambda>opts. {}" "\<lambda>h. {}"
  "\<lambda>h p. False" "\<lambda>h. True"
  by unfold_locales (simp_all add: kube_run_def)

section \<open>What Wait reports\<close>

text \<open>A watch that goes on only with events that say nothing has ended when it is closed.\<close>

primrec silent :: "pod_event \<Rightarrow> bool" where
  "silent WatchError = False"
| "silent NotAPod = True"
| "silent (PodEvent ph cs) = (ph \<noteq> PodSucceeded \<and> ph \<noteq> PodFailed)"

lemma watch_pod_silent:
  "(\<And>e. e \<in> set es \<Longrightarrow> silent e) \<Longrightarrow> watch_pod d (es @ rest) = watch_pod d rest"
proof (induction es)
  case (Cons e es)
  then have "watch_pod d (es @ rest) = watch_pod d rest" and "silent e" by simp_all
  then show ?case by (cases e) (auto split: pod_phase.split)
qed simp

lemma watch_pod_cases:
  obtains (closed) "\<forall>e \<in> set es. silent e"
  | (told) xs e ys where "es = xs @ e # ys" and "\<forall>x \<in> set xs. silent x" and "\<not> silent e"
proof (cases "\<forall>e \<in> set es. silent e")
  case False
  then have "\<exists>e \<in> set es. \<not> silent e" by blast
  from split_list_first_prop [OF this] show ?thesis using that(2) by blast
qed (rule that(1))

lemma waitForPod_Inr:
  "waitForPod ps e = Inr n \<longleftrightarrow> (\<exists>k ns qs. ps = replicate k (Inr []) @ Inr (n # ns) # qs)"
proof (induction ps e rule: waitForPod.induct)
  case (2 err ps e)
  then show ?case by (auto simp: Cons_eq_append_conv Cons_replicate_eq)
next
  case (3 ps e)
  have "(\<exists>k ns qs. Inr [] # ps = replicate k (Inr []) @ Inr (n # ns) # qs) \<longleftrightarrow>
      (\<exists>k ns qs. ps = replicate k (Inr []) @ Inr (n # ns) # qs)" (is "?l \<longleftrightarrow> ?r")
  proof
    assume ?l
    then obtain k ns qs where "Inr [] # ps = replicate k (Inr []) @ Inr (n # ns) # qs" by blast
    then show ?r by (cases k) auto
  next
    assume ?r
    then obtain k ns qs where "ps = replicate k (Inr []) @ Inr (n # ns) # qs" by blast
    then have "Inr [] # ps = replicate (Suc k) (Inr []) @ Inr (n # ns) # qs" by simp
    then show ?l by blast
  qed
  then show ?case using 3 by simp
next
  case (4 m ns ps e)
  have "\<exists>k as qs. Inr (m # ns) # ps = replicate k (Inr []) @ Inr (m # as) # qs"
    by (rule exI [of _ 0]) simp
  then show ?case by (auto simp: Cons_eq_append_conv Cons_replicate_eq)
qed simp

end
