(* ===== verification/Agent_Theorems.thy ===== *)
theory Agent_Theorems
  imports Agent Queue_Theorems Recovery_Theorems
begin

text \<open>
  What the worker agent promises, alone and together with the controller it reports to: requests
  with retries, one report per execution, the agreement of the two sides on what a report
  means, the heartbeat that keeps a claim, and the log stream.
\<close>

section \<open>Requests\<close>

text \<open>A request with retries succeeds exactly when one of its at most six attempts is
  answered below 400, every earlier one met a retriable failure (no answer, 429, or 500 and
  above) and the context was not done during a pause before it.\<close>

lemma request_succeeds_iff:
  "snd (doWithRetry u) = Inr c \<longleftrightarrow>
     (\<exists>k \<le> agent_maxRetries. su_peer u k = Reply c \<and> c < 400 \<and>
        (\<forall>i < k. retriable (su_peer u i)) \<and> (\<forall>i \<in> {1..k}. \<not> su_stopped u i))" (is "_ \<longleftrightarrow> ?R")
proof
  assume d: "snd (doWithRetry u) = Inr c"
  have "0 \<le> agent_maxRetries" by simp
  then show ?R
  proof (cases rule: request.outcome_cases [of 0 u])
    case (ends k es r)
    then have "snd (visit_request u k) = Some (Inr c)" using d by (simp add: doWithRetry_def)
    then have k: "\<not> (k > 0 \<and> su_stopped u k)" "su_peer u k = Reply c" "c < 400"
      using request_succeeds by blast+
    have "\<forall>i < k. \<not> (i > 0 \<and> su_stopped u i) \<and> retriable (su_peer u i)"
      using ends(3) request_goes_on by (simp add: request.goes_on_def)
    then show ?thesis using ends(2) k by (intro exI [of _ k]) (auto simp: le_less)
  next
    case exhausted
    then show ?thesis using d by (simp add: doWithRetry_def)
  qed
next
  assume ?R
  then obtain k where k: "k \<le> agent_maxRetries" "su_peer u k = Reply c" "c < 400"
    "\<forall>i < k. retriable (su_peer u i)" "\<forall>i \<in> {1..k}. \<not> su_stopped u i" by blast
  have "snd (visit_request u k) = Some (Inr c)"
    using k by (auto simp: request_succeeds)
  then have v: "visit_request u k = (fst (visit_request u k), Some (Inr c))" by (metis surjective_pairing)
  have "request.goes_on u 0 k" using k(4,5) by (auto simp: request.goes_on_def request_goes_on)
  then show "snd (doWithRetry u) = Inr c"
    using request.ends_at [OF _ k(1) _ v] by (simp add: doWithRetry_def)
qed

text \<open>C34: A request with retries makes at most six attempts, and with a jitter of at most a
  fifth of each delay it waits at most 37.2 seconds in all; the cap of thirty seconds on a
  single delay is never reached.\<close>

theorem request_bounded:
  assumes "\<forall>n. 0 \<le> su_jitter u n \<and> 5 * su_jitter u n \<le> retry_backoff n"
  shows "length (attempts (fst (doWithRetry u))) \<le> 6 \<and>
    5 * sum_list (pauses (fst (doWithRetry u))) \<le> 186 * second"
proof
  show "length (attempts (fst (doWithRetry u))) \<le> 6"
    using request.attempts_bounded [of u] by (simp add: doWithRetry_def agent_maxRetries_def)
  have one: "5 * sum_list (pauses (fst (visit_request u n))) \<le> (if n = 0 then 0 else 6 * retry_backoff n)" for n
    using assms [rule_format, of n] by (auto simp: visit_request_def retry_pause_def split: post_outcome.split)
  have pos: "0 \<le> retry_backoff n" for n
    by (simp add: retry_backoff_def agent_baseBackoff_def agent_maxBackoff_def)
  have nn: "0 \<le> p" if "p \<in> set (pauses (fst (visit_request u i)))" for i p
    using that assms [rule_format, of i] pos [of i]
    by (auto simp: visit_request_def retry_pause_def split: post_outcome.splits if_splits)
  have "sum_list (pauses (fst (do_from u 0))) \<le> (\<Sum>i \<leftarrow> [0, 1, 2, 3, 4, 5]. sum_list (pauses (fst (visit_request u i))))"
    using request.pauses_bounded [of u 0, OF nn] by (simp add: agent_maxRetries_def upt_rec numeral_nat)
  then show "5 * sum_list (pauses (fst (doWithRetry u))) \<le> 186 * second"
    using one [of 0] one [of 1] one [of 2] one [of 3] one [of 4] one [of 5]
    by (simp add: doWithRetry_def retry_backoff_def agent_baseBackoff_def agent_maxBackoff_def)
qed

section \<open>The run of one execution\<close>

definition reports :: "action list \<Rightarrow> ExecutionResultRequest list" where
  "reports acts = List.map_filter (\<lambda>a. case a of Report c r \<Rightarrow> Some r | _ \<Rightarrow> None) acts"

lemma reports_simps [simp]:
  "reports [] = []" "reports (Report c r # as) = r # reports as"
  "reports (StartRuntime o' # as) = reports as" "reports (StartHeartbeat # as) = reports as"
  "reports (StartLogs c # as) = reports as" "reports (StopRuntime # as) = reports as"
  "reports (CancelHeartbeat # as) = reports as" "reports (Cleanup # as) = reports as"
  "reports (as @ bs) = reports as @ reports bs"
  by (simp_all add: reports_def List.map_filter_def)

text \<open>The job ran: the payload was read and the runtime started it.\<close>

definition ran :: "externals \<Rightarrow> raw_message \<Rightarrow> run_env \<Rightarrow> bool" where
  "ran E payload env \<longleftrightarrow> payload_job E payload \<noteq> None \<and> re_start env = None"

text \<open>However a run ends, the agent reports exactly one result; and if the runtime has started,
  the heartbeat began after that and is cancelled after the report, and the handle is cleaned up
  last; otherwise neither happens.\<close>

lemma processItem_shape:
  "\<exists>pre c rep post. processItem E ctx eid payload env = pre @ Report c rep # post \<and>
     reports (pre @ post) = [] \<and>
     post = (if ran E payload env then [CancelHeartbeat, Cleanup] else []) \<and>
     (StartHeartbeat \<in> set pre \<longleftrightarrow> ran E payload env) \<and>
     Cleanup \<notin> set pre \<and> CancelHeartbeat \<notin> set pre"
proof (cases "payload_job E payload")
  case None
  then show ?thesis
    by (intro exI [of _ "[]"] exI [of _ ctx] exI) (auto simp: processItem_def ran_def)
next
  case (Some j)
  note j = Some
  show ?thesis
  proof (cases "re_start env")
    case (Some err)
    then show ?thesis
      using j by (intro exI [of _ "[StartRuntime (start_options E eid j)]"] exI [of _ Background] exI)
        (auto simp: processItem_def ran_def)
  next
    case None
    show ?thesis
    proof (cases rule: wait_outcome_report [of ctx env j])
      case (1 rep)
      then show ?thesis
        using j None by (intro exI [of _ "[StartRuntime (start_options E eid j), StartHeartbeat, StartLogs ctx]"]
            exI [of _ Background] exI [of _ rep] exI) (auto simp: processItem_def ran_def)
    next
      case (2 rep)
      then show ?thesis
        using j None by (intro exI [of _ "[StartRuntime (start_options E eid j), StartHeartbeat, StartLogs ctx, StopRuntime]"]
            exI [of _ Background] exI [of _ rep] exI) (auto simp: processItem_def ran_def)
    qed
  qed
qed

lemma processItem_report:
  "\<exists>rep. reports (processItem E ctx eid payload env) = [rep] \<and>
     (succeeded rep \<longleftrightarrow> ran E payload env \<and> (\<exists>r. re_wait env = Inr r \<and> xt_ExitCode r = 0))"
proof (cases "payload_job E payload")
  case None
  then show ?thesis by (simp add: processItem_def ran_def succeeded_def result_report_def)
next
  case (Some j)
  then show ?thesis
    by (cases "re_start env"; cases "re_wait env")
      (auto simp: processItem_def ran_def succeeded_def result_report_def wait_outcome_def)
qed

text \<open>C16: Both sides agree on success: the controller takes the report of a run for a success
  exactly when the job ran and ended with exit code zero; an error the runtime reports along
  with exit code zero is dropped.\<close>

theorem report_verdict:
  "\<exists>rep. reports (processItem E ctx eid payload env) = [rep] \<and>
     (succeeded rep \<longleftrightarrow> ran E payload env \<and> (\<exists>r. re_wait env = Inr r \<and> xt_ExitCode r = 0)) \<and>
     (er_Result rep \<noteq> None \<longrightarrow> succeeded rep)"
proof -
  obtain rep where rep: "reports (processItem E ctx eid payload env) = [rep]"
    "succeeded rep \<longleftrightarrow> ran E payload env \<and> (\<exists>r. re_wait env = Inr r \<and> xt_ExitCode r = 0)"
    using processItem_report by blast
  have "succeeded rep" if "er_Result rep \<noteq> None"
  proof (cases "payload_job E payload")
    case None
    then show ?thesis using rep(1) that by (auto simp: processItem_def result_report_def)
  next
    case (Some j)
    then show ?thesis
      using rep(1) that
      by (cases "re_start env"; cases "re_wait env")
        (auto simp: processItem_def result_report_def wait_outcome_def succeeded_def split: if_splits)
  qed
  then show ?thesis using rep by blast
qed

section \<open>Reports and the controller\<close>

text \<open>What the controller does with a report that reaches it.\<close>

lemma result_handled:
  assumes "uuid_Parse E (rq_path_id r) = Some eid" and "opt_ok int64_ok (er_ExitCode rep)"
    and "rq_body r = Doc (enc_ExecutionResultRequest rep)"
  shows "h_InternalUpdateResult E clk r s = handle (
     and_then
       (if succeeded rep
        then or_fail ''Failed to mark complete'' 500 (Complete clk eid 0 (Some (enc_raw (er_Result rep))))
        else or_fail ''Failed to mark failed'' 500 (Fail clk eid (er_ExitCode rep) (to_valid (er_Error rep)))) (\<lambda>_.
     ret (bare_status 200, [TriggerWebhook eid]))) s"
proof -
  have "need e (Some eid) = ret eid" for e :: answer by simp
  moreover have "decode_or e dec_ExecutionResultRequest r =
      ret (rep\<lparr>er_Error := to_valid (er_Error rep), er_Result := Some (enc_raw (er_Result rep))\<rparr>)" for e
    using ExecutionResultRequest_roundtrip [OF assms(2)] assms(3) by (simp add: decode_or_def)
  moreover have "succeeded (rep\<lparr>er_Error := to_valid (er_Error rep), er_Result := x\<rparr>) = succeeded rep" for x
    by (simp add: succeeded_def)
  ultimately show ?thesis
    using assms(1) by (simp add: h_InternalUpdateResult_def and_then_ret)
qed

text \<open>The worker and the controller share the secret, which is one word, and identifiers can be
  written into a path.\<close>

definition same_secret :: "'l controller \<Rightarrow> AgentConfig \<Rightarrow> bool" where
  "same_secret C A \<longleftrightarrow> ac_SystemSecret A = co_secret C \<and> CHR '' '' \<notin> set (co_secret C)"

definition paired :: "'l controller \<Rightarrow> AgentConfig \<Rightarrow> uuid \<Rightarrow> bool" where
  "paired C A eid \<longleftrightarrow> same_secret C A \<and>
     uuid_Parse (co_externals C) (uuid_String (co_externals C) eid) = Some eid \<and>
     plain_id (uuid_String (co_externals C) eid)"

lemma op_names: "plain_id ''result''" "plain_id ''heartbeat''" "plain_id ''logs''"
  by (simp_all add: plain_id_def)

lemma agent_request_simps [simp]:
  "cq_URL (agent_request A meth path b) = ac_ControllerURL A @ path" "cq_Method (agent_request A meth path b) = meth"
  "cq_Body (agent_request A meth path b) = b"
  "map_of (cq_Header (agent_request A meth path b)) ''Authorization'' = Some (''Bearer '' @ ac_SystemSecret A)"
  by (simp_all add: agent_request_def)

lemma agent_served:
  assumes p: "paired C A eid" and op: "plain_id op" and a: "access_of rt = InternalAuth"
    and rt: "route_of (co_metrics C \<noteq> None) meth [''internal'', ''executions'', uuid_String (co_externals C) eid, op] =
      Some (rt, uuid_String (co_externals C) eid)"
  obtains r where "uuid_Parse (co_externals C) (rq_path_id r) = Some eid"
    and "rq_body r = (case b of None \<Rightarrow> NoBytes | Some j \<Rightarrow> Doc j)"
    and "served render C n (ac_ControllerURL A) (agent_request A meth (execution_path (co_externals C) eid op) b) s =
      (case internal_handler C n rt r (sv_session s) of
         ((resp, effs), t) \<Rightarrow> ((resp, webhooks effs), run_effects effs (s\<lparr>sv_session := t\<rparr>)))"
proof -
  have u: "plain_id (uuid_String (co_externals C) eid)"
    "uuid_Parse (co_externals C) (uuid_String (co_externals C) eid) = Some eid"
    and sec: "ac_SystemSecret A = co_secret C" "CHR '' '' \<notin> set (co_secret C)"
    using p by (simp_all add: paired_def same_secret_def)
  obtain r where "rq_path_id r = uuid_String (co_externals C) eid"
    "rq_body r = (case b of None \<Rightarrow> NoBytes | Some j \<Rightarrow> Doc j)"
    "served render C n (ac_ControllerURL A) (agent_request A meth (execution_path (co_externals C) eid op) b) s =
      (case internal_handler C n rt r (sv_session s) of
         ((resp, effs), t) \<Rightarrow> ((resp, webhooks effs), run_effects effs (s\<lparr>sv_session := t\<rparr>)))"
    by (rule served_internal [OF worker_target [OF u(1) op] rt a, where base = "ac_ControllerURL A" and render = render
        and n = n and s = s and rq = "agent_request A meth (execution_path (co_externals C) eid op) b"])
      (simp_all add: execution_path_def sec)
  then show ?thesis using that [of r] u(2) by simp
qed

lemma success_served:
  assumes ran: "ran (co_externals C) payload env" "re_wait env = Inr x" "xt_ExitCode x = 0"
    and rep: "reports (processItem (co_externals C) ctx eid payload env) = [rep]"
    and p: "paired C A eid" and d: "sv_session s = calm d"
    and e: "find_execution d eid = Some e" and ok: "jsonb_ok (enc_raw (er_Result rep))"
  shows "\<exists>d'. served render C n (ac_ControllerURL A) (result_request (co_externals C) A eid rep) s =
      ((bare_status 200, [eid]), s\<lparr>sv_session := calm d'\<rparr>) \<and>
    \<not> queued d' eid \<and> find_execution d' eid = Some (e\<lparr>ex_Status := ExecutionStatusCompleted,
      ex_ExitCode := Some 0, ex_Result := Some (enc_raw (er_Result rep)),
      ex_CompletedAt := Some (db_now (en_clocks n))\<rparr>)"
proof -
  let ?clk = "en_clocks n" and ?d' = "completed_db (db_now (en_clocks n)) eid 0 (Some (enc_raw (er_Result rep))) d"
  have suc: "succeeded rep" using processItem_report [of "co_externals C" ctx eid payload env] ran rep by simp
  then have code: "opt_ok int64_ok (er_ExitCode rep)" by (simp add: succeeded_def int64_ok_def)
  have c: "Complete ?clk eid 0 (Some (enc_raw (er_Result rep))) (calm d) = (Inr (), calm ?d')"
    using ok by (intro Complete_calm) (simp_all add: int32_ok_def)
  obtain r where r: "uuid_Parse (co_externals C) (rq_path_id r) = Some eid"
      "rq_body r = Doc (enc_ExecutionResultRequest rep)"
    and sv: "served render C n (ac_ControllerURL A) (result_request (co_externals C) A eid rep) s =
      (case internal_handler C n ResultRoute r (sv_session s) of
         ((resp, effs), t) \<Rightarrow> ((resp, webhooks effs), run_effects effs (s\<lparr>sv_session := t\<rparr>)))"
    by (rule agent_served [OF p op_names(1) _ worker_routes(2), where b = "Some (enc_ExecutionResultRequest rep)"
        and render = render and n = n and s = s]) (simp_all add: result_request_def)
  have "h_InternalUpdateResult (co_externals C) ?clk r (calm d) = ((bare_status 200, [TriggerWebhook eid]), calm ?d')"
    using suc c by (simp add: result_handled [OF r(1) code r(2)] handle_def finish_def and_then_def or_fail_calm ret_apply)
  then show ?thesis using completed_closed [OF e] sv d by auto
qed

text \<open>C12: A success reaches the database. When a job has ended with exit code zero and the worker
  sends its report, the controller, which knows the worker by the secret, answers 200 and triggers
  the webhook, the execution has succeeded with exit code zero and a result that is present (the
  JSON value null when the job wrote none), and it has left the queue.\<close>

theorem success_is_recorded:
  assumes "ran (co_externals C) payload env" "re_wait env = Inr x" "xt_ExitCode x = 0"
    and "reports (processItem (co_externals C) ctx eid payload env) = [rep]"
    and "paired C A eid" and "sv_session s = calm d"
    and "find_execution d eid = Some e" and "jsonb_ok (enc_raw (er_Result rep))"
  shows "\<exists>d'. served render C n (ac_ControllerURL A) (result_request (co_externals C) A eid rep) s =
      ((bare_status 200, [eid]), s\<lparr>sv_session := calm d'\<rparr>) \<and>
    \<not> queued d' eid \<and> find_execution d' eid = Some (e\<lparr>ex_Status := ExecutionStatusCompleted,
      ex_ExitCode := Some 0, ex_Result := Some (enc_raw (er_Result rep)),
      ex_CompletedAt := Some (db_now (en_clocks n))\<rparr>)"
  using assms by (rule success_served)

text \<open>An accepted heartbeat has moved the rows of the execution.\<close>

lemma heartbeat_handled:
  assumes hb: "h_InternalHeartbeat E clk extension r s = (a, t)" and ok: "rs_status (fst a) < 400"
    and eid: "uuid_Parse E (rq_path_id r) = Some eid"
  shows "db t = postpone eid (go_now clk + extension) (db s)"
proof -
  obtain v t' where p: "SetVisibleAfter eid (go_now clk + extension) s = (v, t')"
    by (cases "SetVisibleAfter eid (go_now clk + extension) s")
  have h: "h_InternalHeartbeat E clk extension r s = (case v of Inl _ \<Rightarrow> (bad ''Failed to update heartbeat'' 500, t')
      | Inr _ \<Rightarrow> (reply (bare_status 200), t'))"
    using eid p by (cases v) (simp_all add: h_InternalHeartbeat_def handle_def finish_def and_then_def or_fail_def
        on_error_def ret_apply)
  have "v = Inr ()"
    using h hb ok by (cases v) (auto simp: httpError_def respondJson_def)
  then have "SetVisibleAfter eid (go_now clk + extension) s = (Inr (), t)" using h hb p by simp
  then show ?thesis by (auto simp: SetVisibleAfter_def dest!: exec_Inr)
qed

lemma heartbeat_served:
  assumes p: "paired C A eid"
    and hb: "served render C n (ac_ControllerURL A) (heartbeat_request (co_externals C) A eid) s = ((resp, hooks), t)"
    and ok: "rs_status resp < 400"
  shows "db (sv_session t) = postpone eid (go_now (en_clocks n) + co_extension C) (db (sv_session s))"
proof -
  obtain r where r: "uuid_Parse (co_externals C) (rq_path_id r) = Some eid"
    and sv: "served render C n (ac_ControllerURL A) (heartbeat_request (co_externals C) A eid) s =
      (case internal_handler C n HeartbeatRoute r (sv_session s) of
         ((resp, effs), t) \<Rightarrow> ((resp, webhooks effs), run_effects effs (s\<lparr>sv_session := t\<rparr>)))"
    by (rule agent_served [OF p op_names(2) _ worker_routes(1), where b = None and render = render and n = n and s = s])
      (simp_all add: heartbeat_request_def)
  obtain a v where h: "h_InternalHeartbeat (co_externals C) (en_clocks n) (co_extension C) r (sv_session s) = (a, v)"
    by (cases "h_InternalHeartbeat (co_externals C) (en_clocks n) (co_extension C) r (sv_session s)")
  have "rs_status (fst a) < 400" "sv_session t = v" using h sv hb ok by (auto split: prod.splits)
  then show ?thesis using heartbeat_handled [OF h _ r] by simp
qed

section \<open>Claims\<close>

lemma DequeueBatch_length:
  "DequeueBatch clk locked tids limit s = (Inr items, t) \<Longrightarrow> int (length items) \<le> at_least_one limit"
  using DequeueBatch_Inr(1) [of clk locked tids limit s items t]
  by (auto simp: select_batch_def at_least_one_def min_def)

lemma claimed_payload:
  assumes "uuid_law E" and "int64_ok (jb_DefaultTimeout j)" and "int64_ok (jb_Priority j)" and "jb_ID j \<noteq> uuid_Nil"
    and "enc_payload E j carrier = Some p"
  shows "payload_job E (Some p) = Some (sent_job j)"
proof (rule payload_decodes [OF assms(1-3,5)])
  fix trace
  assume "dec_executionPayload E p = Some \<lparr>ep_Job = sent_job j, ep_Trace = Some trace\<rparr>"
  then show ?thesis using assms(4) by (simp add: payload_job_def sent_job_def)
qed

text \<open>C11: Jobs reach the worker. When the controller answers the request of a worker for work, it has
  claimed executions for the tenants the worker asked for, no more than the worker has slots, and
  the worker reads exactly these from the answer; and each job put into the payload when the
  execution was made is read by the worker as it was (\<open>sent_job\<close>), only that absent callback headers
  arrive as the JSON value null, and that a text would arrive as UTF-8 if it was not, which those
  of the database are.\<close>

theorem jobs_reach_worker:
  assumes law: "uuid_law (co_externals C)" and sec: "same_secret C A" and limit: "1 \<le> limit" "int64_ok limit"
    and sv: "served render C n (ac_ControllerURL A) (fetch_request (co_externals C) A tids limit) s = ((resp, hooks), t)"
    and ok: "rs_status resp = 200"
  shows "\<exists>items. DequeueBatch (en_clocks n) (en_locked n) (slice_elems tids) (min limit 100) (sv_session s) =
      (Inr items, sv_session t) \<and> int (length items) \<le> limit \<and> hooks = [] \<and>
    fetchWork (co_externals C) (Some (200, answer_body resp)) = Inr (map dequeued items) \<and>
    (\<forall>x \<in> set items. \<forall>j carrier. int64_ok (jb_DefaultTimeout j) \<and> int64_ok (jb_Priority j) \<and> jb_ID j \<noteq> uuid_Nil \<and>
       enc_payload (co_externals C) j carrier = Some (qi_Payload x) \<longrightarrow>
       payload_job (co_externals C) (de_Payload (dequeued x)) = Some (sent_job j))"
proof -
  let ?E = "co_externals C" and ?d = "\<lparr>dr_Limit = limit, dr_TenantIDs = tids\<rparr>"
  have sec': "ac_SystemSecret A = co_secret C" "CHR '' '' \<notin> set (co_secret C)"
    using sec by (simp_all add: same_secret_def)
  have seg: "url_segments ''/internal/executions/dequeue'' = [''internal'', ''executions'', ''dequeue'']"
    by (simp add: url_segments_def)
  obtain r where r: "rq_body r = Doc (enc_DequeueRequest ?E ?d)"
    and h: "served render C n (ac_ControllerURL A) (fetch_request ?E A tids limit) s =
      (case internal_handler C n DequeueRoute r (sv_session s) of
         ((resp, effs), t) \<Rightarrow> ((resp, webhooks effs), run_effects effs (s\<lparr>sv_session := t\<rparr>)))"
    by (rule served_internal [OF seg worker_routes(4), where base = "ac_ControllerURL A" and render = render
        and n = n and s = s and rq = "fetch_request ?E A tids limit"])
      (simp_all add: fetch_request_def sec'(1), rule sec'(2))
  have dec: "decode_or e (dec_DequeueRequest ?E) r = ret (?d\<lparr>dr_TenantIDs := nonempty tids\<rparr>)" for e
    using DequeueRequest_roundtrip [OF law, of ?d] limit(2) r by (simp add: decode_or_def)
  have sl: "slice_elems (nonempty tids) = slice_elems tids" by (auto simp: nonempty_def split: option.split)
  have cl: "clamp_limit limit = min limit 100" using limit(1) by (simp add: clamp_limit_def)
  obtain v u where deq: "DequeueBatch (en_clocks n) (en_locked n) (slice_elems tids) (min limit 100) (sv_session s) = (v, u)"
    by (cases "DequeueBatch (en_clocks n) (en_locked n) (slice_elems tids) (min limit 100) (sv_session s)")
  have "internal_handler C n DequeueRoute r (sv_session s) = (case v of
      Inl _ \<Rightarrow> (bad ''Failed to dequeue executions'' 500, u)
    | Inr items \<Rightarrow> (reply (respondJson 200 (Some (enc_DequeueResponse ?E (Some (map dequeued items))))), u))"
    using deq by (cases v) (simp_all add: h_InternalDequeue_def dec and_then_ret sl cl handle_def finish_def and_then_def
        or_fail_def on_error_def ret_apply)
  then obtain items where v: "v = Inr items" and resp: "resp = respondJson 200 (Some (enc_DequeueResponse ?E (Some (map dequeued items))))"
    and t: "sv_session t = u" "hooks = []"
    using h sv ok by (cases v) (auto simp: reply_def bad_def)
  have "dec_DequeueResponse ?E (enc_DequeueResponse ?E (Some (map dequeued items))) = Some (Some (map dequeued items))"
    by (rule DequeueResponse_roundtrip [OF law]) (simp add: dequeued_def)
  then have f: "fetchWork ?E (Some (200, answer_body resp)) = Inr (map dequeued items)"
    by (simp add: fetchWork_def resp answer_body_def respondJson_def)
  have "int (length items) \<le> limit"
    using DequeueBatch_length [OF deq [unfolded v]] limit(1) by (simp add: at_least_one_def split: if_splits)
  moreover have "payload_job ?E (de_Payload (dequeued x)) = Some (sent_job j)"
    if "int64_ok (jb_DefaultTimeout j)" "int64_ok (jb_Priority j)" "jb_ID j \<noteq> uuid_Nil" "enc_payload ?E j carrier = Some (qi_Payload x)" for x j carrier
    using claimed_payload [OF law that] by (simp add: dequeued_def)
  ultimately show ?thesis using deq v t f by blast
qed

section \<open>Logs\<close>






end
