(* ===== verification/Runtime_Theorems.thy ===== *)
theory Runtime_Theorems
  imports Runtime_Kube Agent_Theorems
begin

text \<open>What the runtimes leave behind, and what they tell the agent.\<close>

section \<open>Directories\<close>

definition item_shared ::
    "(StartOptions \<Rightarrow> string set) \<Rightarrow> externals \<Rightarrow> uuid \<Rightarrow> raw_message \<Rightarrow> string set" where
  "item_shared shared E eid payload =
     (case payload_job E payload of None \<Rightarrow> {} | Some j \<Rightarrow> shared (start_options E eid j))"

definition exec_item where
  "exec_item base w files own =
     run_item (exec_Start base w) (exec_run files own) (\<lambda>h fs. fs) exec_ResultDir exec_Cleanup"

definition docker_item where
  "docker_item a own err stopped =
     run_item (docker_Start a) (docker_run own err) (docker_Stop stopped) docker_ResultDir docker_Cleanup"

text \<open>C23: However the run of an execution goes, and whatever the job writes or its archive of
  results holds, the worker's disk afterwards has no path it did not have before but parents
  of the directory of the execution: the directory itself and everything in it is removed,
  on every error path of the start too, by the process runtime and by the Docker runtime.
\<close>

theorem no_directory_left:
  assumes "docker_sane a"
  shows "set (snd (exec_item base w files own E c eid payload env fs)) \<subseteq>
      set fs \<union> item_shared (exec_shared base w) E eid payload \<and>
    docker_paths (snd (docker_item a event err stopped E c eid payload env s)) \<subseteq>
      docker_paths s \<union> item_shared (docker_shared a) E eid payload"
proof (intro conjI subsetI)
  fix p assume p: "p \<in> set (snd (exec_item base w files own E c eid payload env fs))"
  show "p \<in> set fs \<union> item_shared (exec_shared base w) E eid payload"
    using exec.nothing_left [OF TrueI surjective_pairing p [unfolded exec_item_def]]
    by (auto simp: item_shared_def)
next
  fix p assume p: "p \<in> docker_paths (snd (docker_item a event err stopped E c eid payload env s))"
  show "p \<in> docker_paths s \<union> item_shared (docker_shared a) E eid payload"
    using docker.nothing_left [OF assms surjective_pairing p [unfolded docker_item_def]]
    by (auto simp: item_shared_def)
qed

section \<open>Containers\<close>

definition container_ids :: "docker_host \<Rightarrow> string set" where
  "container_ids s = co_id ` set (dh_containers s)"

lemma set_running_ids [simp]: "co_id ` set (set_running b i cs) = co_id ` set cs"
proof -
  have "map co_id (set_running b i cs) = map co_id cs"
    unfolding set_running_def by (rule map_update_where_same) simp
  then show ?thesis by (metis list.set_map)
qed

lemma delete_where_ids [simp]:
  "co_id ` set (delete_where (\<lambda>c. co_id c = i) cs) = co_id ` set cs - {i}"
  by (auto simp: set_delete_where)

lemma docker_Cleanup_containers [simp]: "container_ids (docker_Cleanup h s) = container_ids s"
  by (simp add: docker_Cleanup_def drop_temp_def container_ids_def)

lemma docker_Stop_containers [simp]: "container_ids (docker_Stop ok h s) = container_ids s"
  by (simp add: docker_Stop_def container_ids_def)

lemma docker_Wait_containers:
  "container_ids (snd (docker_Wait ev h s)) =
     (case ev of WaitStatus code msg cp fails True \<Rightarrow> container_ids s - {kh_containerID h} | _ \<Rightarrow> container_ids s)"
  by (auto simp: docker_Wait_def container_ids_def Let_def split: docker_event.split bool.split)

text \<open>The start that gets as far as the container, and what is in its way.\<close>

definition creates :: "docker_answers \<Rightarrow> string \<Rightarrow> bool" where
  "creates a i \<longleftrightarrow> (\<exists>rand. dk_mkdirtemp a = Inr rand) \<and> (dk_inspect a = None \<or> dk_pull a = None) \<and> dk_create a = Inr i"

lemma docker_Start_creates:
  assumes "creates a i"
  shows "container_ids (snd (docker_Start a opts s)) = insert i (container_ids s) \<and>
    (case dk_start a of
       Some err \<Rightarrow> fst (docker_Start a opts s) = Inl (''Failed to start container: '' @ err)
     | None \<Rightarrow> \<exists>h. fst (docker_Start a opts s) = Inr h \<and> kh_containerID h = i)"
proof -
  obtain rand where rand: "dk_mkdirtemp a = Inr rand" and c: "dk_create a = Inr i"
    using assms by (auto simp: creates_def)
  have im: "ensure_image a x d t = (Inr (), t)" for x d t
    using assms by (auto simp: ensure_image_def creates_def split: option.splits)
  show ?thesis
    using rand c
    by (simp add: docker_Start_def and_then_def make_temp_def im create_container_def
        start_container_def ret_def drop_temp_def container_ids_def Let_def split: option.split)
qed

text \<open>Of a container made for an execution nothing is left exactly when it has been started,
  its end is what the wait sees, and the daemon can remove it. A container that could not be
  started is never removed, and one whose execution times out, is cancelled or whose wait
  fails is stopped at best, not removed.
\<close>

lemma docker_run_containers:
  "container_ids (snd (docker_run own err ends h s)) = container_ids (snd (docker_Wait (snd (docker_sees own err ends)) h s))"
  by (simp add: docker_run_def split: prod.split)

lemma container_is_left:
  assumes job: "payload_job E payload = Some j" and made: "creates a i" and new: "i \<notin> container_ids s"
  shows "container_ids (snd (docker_item a own err stopped E c eid payload env s)) =
    (if dk_start a = None \<and> (\<exists>code msg cp fails.
         snd (docker_sees own err (execution_end (re_cancelled env) c (re_began env) j)) = WaitStatus code msg cp fails True)
     then container_ids s else insert i (container_ids s))"
proof -
  define opts where "opts = start_options E eid j"
  let ?ends = "execution_end (re_cancelled env) c (re_began env) j"
  obtain r s1 where st: "docker_Start a opts s = (r, s1)" by (cases "docker_Start a opts s")
  have ids: "container_ids s1 = insert i (container_ids s)"
    using docker_Start_creates [OF made, of opts s] st by simp
  show ?thesis
  proof (cases "dk_start a")
    case (Some e)
    then have "r = Inl (''Failed to start container: '' @ e)"
      using docker_Start_creates [OF made, of opts s] st by simp
    then show ?thesis using st ids job Some by (simp add: docker_item_def run_item_def opts_def)
  next
    case None
    then obtain h where h: "r = Inr h" "kh_containerID h = i"
      using docker_Start_creates [OF made, of opts s] st by auto
    obtain t v s2 where run: "docker_run own err ?ends h s1 = ((t, v), s2)" by (metis surj_pair)
    have "container_ids (snd (docker_item a own err stopped E c eid payload env s)) = container_ids s2"
      using run_item_started [OF job, of "docker_Start a" eid s h s1 "docker_run own err" env c t v s2] st h(1) run
      by (simp add: docker_item_def opts_def Let_def)
    also have "\<dots> = container_ids (snd (docker_Wait (snd (docker_sees own err ?ends)) h s1))"
      using run docker_run_containers [of own err ?ends h s1] by simp
    finally show ?thesis
      using docker_Wait_containers [of "snd (docker_sees own err ?ends)" h s1] ids new h(2) None
      by (cases "snd (docker_sees own err ?ends)") (auto split: bool.splits)
  qed
qed

section \<open>Stopping a worker\<close>

text \<open>The context of the worker is cancelled at \<open>u\<close>, while an execution runs: before its deadline.\<close>

lemma cancelled_end:
  assumes "cancelled ''worker'' = Some u" and "u \<le> began + job_timeout j"
  shows "execution_end cancelled (WithCancel ''worker'' Background) began j = (u, Canceled)"
  using assms by (simp add: execution_end_def exec_context_def earlier_def)

lemma docker_cancelled:
  assumes "\<forall>t ev. own = Some (t, ev) \<longrightarrow> u \<le> t"
  shows "docker_run own err (u, Canceled) h s =
    ((u, \<lparr>xt_ExitCode = -1, xt_Error = Some (case err of None \<Rightarrow> ctx_text Canceled | Some msg \<Rightarrow> msg)\<rparr>,
      Some (case err of None \<Rightarrow> ctx_text Canceled | Some msg \<Rightarrow> msg)), s)"
  using assms
  by (auto simp: docker_run_def docker_sees_def docker_Wait_def Let_def not_less split: option.split)

definition kube_item where
  "kube_item cfg now refused own err refused_stop =
     run_item (kube_Start cfg now refused) (kube_run own err) (\<lambda>h s. snd (kube_Stop refused_stop h s)) kube_ResultDir kube_Cleanup"

text \<open>The containers of the daemon that run.\<close>

definition running_ids :: "docker_host \<Rightarrow> string set" where
  "running_ids s = co_id ` {c \<in> set (dh_containers s). co_running c}"

lemma docker_Cleanup_running [simp]: "running_ids (docker_Cleanup h s) = running_ids s"
  by (simp add: docker_Cleanup_def drop_temp_def running_ids_def)

lemma started_container_runs:
  assumes "docker_Start a opts s = (Inr h, s1)"
  shows "kh_containerID h \<in> running_ids s1"
proof (rule docker_Start_Inr [OF assms])
  assume "dh_containers s1 = set_running True (kh_containerID h) (dh_containers s @
      [\<lparr>co_id = kh_containerID h, co_Config = docker_config opts, co_running = False\<rparr>])"
  then have "\<lparr>co_id = kh_containerID h, co_Config = docker_config opts, co_running = True\<rparr> \<in> set (dh_containers s1)"
    by (simp add: set_running_def update_where_def)
  then show ?thesis unfolding running_ids_def by (intro image_eqI [rotated]) auto
qed

definition abandoned :: "string option \<Rightarrow> ExecutionResultRequest" where
  "abandoned err = result_report None
     (''Runtime waiting error: '' @ (case err of None \<Rightarrow> ctx_text Canceled | Some msg \<Rightarrow> msg)) None"

text \<open>C36: Stopping a worker does not let its jobs finish, as it is meant to. The context of an execution
  derives from the context the worker runs with; when that is cancelled while a job runs and before
  its deadline, the wait ends at that moment and the agent reports a failure, on every runtime. A
  process is killed by then. A container goes on running, for nobody: the agent does not stop it, and
  removes the directory its results would go to; and the job of a cluster is not deleted.\<close>

theorem sigterm_abandons_job:
  assumes job: "payload_job E payload = Some j"
    and cancel: "re_cancelled env ''worker'' = Some u" "u \<le> re_began env + job_timeout j"
    and busy: "\<forall>t out. own = Some (t, out) \<longrightarrow> u \<le> t" "\<forall>t ev. event = Some (t, ev) \<longrightarrow> u \<le> t"
      "\<forall>t a. pod = Some (t, a) \<longrightarrow> u \<le> t"
    and x: "exec_Start base w (start_options E eid j) fs = (Inr x, fs1)"
    and k: "docker_Start a (start_options E eid j) s = (Inr k, s1)"
  shows "reports (fst (exec_item base w files own E (WithCancel ''worker'' Background) eid payload env fs)) = [abandoned None] \<and>
    exec_end own (execution_end (re_cancelled env) (WithCancel ''worker'' Background) (re_began env) j) =
      (u, CmdExit (-1), Some Canceled) \<and>
    (\<exists>as s2. docker_item a event err stopped E (WithCancel ''worker'' Background) eid payload env s = (as, s2) \<and>
      reports as = [abandoned err] \<and> StopRuntime \<notin> set as \<and>
      kh_containerID k \<in> running_ids s2 \<and> \<not> (\<exists>p \<in> docker_paths s2. docker_own k p)) \<and>
    (\<exists>as. kube_item cfg now None pod err stop E (WithCancel ''worker'' Background) eid payload env ks =
        (as, ks @ [kube_job_of cfg now (start_options E eid j)]) \<and>
      reports as = [abandoned err] \<and> StopRuntime \<notin> set as)"
proof (intro conjI)
  let ?c = "WithCancel ''worker'' Background" and ?opts = "start_options E eid j"
  let ?r = "\<lparr>xt_ExitCode = -1, xt_Error = Some (ctx_text Canceled)\<rparr>" and ?m = "Some (ctx_text Canceled)"
  let ?e = "(\<lparr>xt_ExitCode = -1, xt_Error = Some (case err of None \<Rightarrow> ctx_text Canceled | Some msg \<Rightarrow> msg)\<rparr>,
    Some (case err of None \<Rightarrow> ctx_text Canceled | Some msg \<Rightarrow> msg))"
  have ends: "execution_end (re_cancelled env) ?c (re_began env) j = (u, Canceled)"
    using cancel by (rule cancelled_end)
  have killed: "exec_end own (u, Canceled) = (u, CmdExit (-1), Some Canceled)"
    using busy(1) by (auto simp: exec_end_def not_less split: option.split)
  then show "exec_end own (execution_end (re_cancelled env) ?c (re_began env) j) = (u, CmdExit (-1), Some Canceled)"
    by (simp only: ends)
  have "exec_run files own (u, Canceled) x fs1 = ((u, ?r, ?m), add_paths (filter (within (xh_workDir x)) files) fs1)"
    by (simp add: exec_run_def killed exec_Wait_def)
  from run_item_abandons [where Start = "exec_Start base w" and Wait = "exec_run files own", OF job x ends this]
  show "reports (fst (exec_item base w files own E ?c eid payload env fs)) = [abandoned None]"
    by (simp add: exec_item_def abandoned_def)
  have "docker_run event err (u, Canceled) k s1 = ((u, ?e), s1)"
    by (rule docker_cancelled [OF busy(2)])
  from run_item_abandons [where Start = "docker_Start a" and Wait = "docker_run event err", OF job k ends this]
  have "docker_item a event err stopped E ?c eid payload env s =
    ([StartRuntime ?opts, StartHeartbeat, StartLogs ?c,
      Report Background (abandoned err), CancelHeartbeat, Cleanup], docker_Cleanup k s1)"
    by (simp add: docker_item_def abandoned_def)
  then show "\<exists>as s2. docker_item a event err stopped E ?c eid payload env s = (as, s2) \<and>
      reports as = [abandoned err] \<and> StopRuntime \<notin> set as \<and>
      kh_containerID k \<in> running_ids s2 \<and> \<not> (\<exists>p \<in> docker_paths s2. docker_own k p)"
    using started_container_runs [OF k] docker.cleaned [of k s1] by simp
  let ?h = "\<lparr>uh_namespace = kc_Namespace cfg, uh_jobName = kube_job_name now, uh_podName = []\<rparr>"
  have st: "kube_Start cfg now None ?opts ks = (Inr ?h, ks @ [kube_job_of cfg now ?opts])"
    by (simp add: kube_Start_def)
  have "kube_run pod err (u, Canceled) ?h (ks @ [kube_job_of cfg now ?opts]) =
      ((u, ?e), ks @ [kube_job_of cfg now ?opts])"
    using busy(3) by (auto simp: kube_run_def Let_def not_less split: option.split)
  from run_item_abandons [where Start = "kube_Start cfg now None" and Wait = "kube_run pod err", OF job st ends this]
  show "\<exists>as. kube_item cfg now None pod err stop E ?c eid payload env ks =
        (as, ks @ [kube_job_of cfg now (start_options E eid j)]) \<and>
      reports as = [abandoned err] \<and> StopRuntime \<notin> set as"
    by (simp add: kube_item_def kube_Cleanup_def abandoned_def)
qed

section \<open>Kubernetes\<close>

text \<open>What the wait on a Kubernetes job reports as a result without an error is the end of its
  pod, succeeded or failed, as the first telling event of the watch has it; with one
  exception: a watch the API server closes while the context is alive is reported as a failure
  with the exit code -1 though the pod may still be running.
\<close>

lemma kube_result_is_told:
  assumes "kube_Wait a = (r, None)"
  shows "(\<exists>k n ns qs. ka_polls a = replicate k (Inr []) @ Inr (n # ns) # qs) \<and> ka_watch a = None \<and>
    ((\<exists>xs cs ys. ka_events a = xs @ PodEvent PodSucceeded cs # ys \<and> list_all silent xs \<and>
        r = \<lparr>xt_ExitCode = 0, xt_Error = None\<rparr>) \<or>
     (\<exists>xs cs ys. ka_events a = xs @ PodEvent PodFailed cs # ys \<and> list_all silent xs \<and> r = failed_pod cs) \<or>
     list_all silent (ka_events a) \<and> ka_done a = None \<and> r = \<lparr>xt_ExitCode = -1, xt_Error = None\<rparr>)"
proof -
  obtain pod where pod: "waitForPod (ka_polls a) (ka_poll_end a) = Inr pod"
    using assms by (auto simp: kube_Wait_def split: sum.splits)
  then have polls: "\<exists>k n ns qs. ka_polls a = replicate k (Inr []) @ Inr (n # ns) # qs"
    unfolding waitForPod_Inr by blast
  have w: "ka_watch a = None" and r: "watch_pod (ka_done a) (ka_events a) = (r, None)"
    using assms pod by (auto simp: kube_Wait_def split: option.splits)
  show ?thesis
  proof (rule watch_pod_cases [of "ka_events a"])
    assume sil: "\<forall>e \<in> set (ka_events a). silent e"
    then have "watch_pod (ka_done a) (ka_events a) = watch_pod (ka_done a) []"
      using watch_pod_silent [of "ka_events a" "ka_done a" "[]"] by simp
    then have "ka_done a = None \<and> r = \<lparr>xt_ExitCode = -1, xt_Error = None\<rparr>" using r by simp
    then show ?thesis using w sil polls by (simp add: list_all_iff)
  next
    fix xs e ys
    assume es: "ka_events a = xs @ e # ys" "\<forall>x \<in> set xs. silent x" "\<not> silent e"
    then have "watch_pod (ka_done a) (e # ys) = (r, None)"
      using watch_pod_silent [of xs "ka_done a" "e # ys"] r by simp
    then have "(\<exists>cs. e = PodEvent PodSucceeded cs \<and> r = \<lparr>xt_ExitCode = 0, xt_Error = None\<rparr>) \<or>
        (\<exists>cs. e = PodEvent PodFailed cs \<and> r = failed_pod cs)"
      using es(3) by (cases e) (auto split: pod_phase.splits)
    moreover have "list_all silent xs" using es(2) by (simp add: list_all_iff)
    ultimately show ?thesis using es(1) w polls by blast
  qed
qed

end
