(* ===== verification/Claims.thy ===== *)
theory Claims
  imports Queue_Theorems
begin

text \<open>
  What a claim is worth: while it lasts, no request and no background step of the control plane
  changes the row of a claimed execution or hands the execution to another worker, unless a
  heartbeat or a report names that very execution; and what a late report does to it.
\<close>

section \<open>Statements that leave a row alone\<close>

definition row_stays :: "queue_row \<Rightarrow> database \<Rightarrow> database \<Rightarrow> bool" where
  "row_stays q d d' \<longleftrightarrow> (q \<in> set (queue d) \<longrightarrow> q \<in> set (queue d'))"

interpretation row: db_step_order "row_stays q" for q
  by unfold_locales (auto simp: row_stays_def restore_def)

lemma row_stays_same: "queue d' = queue d \<Longrightarrow> row_stays q d d'"
  by (simp add: row_stays_def)

lemma row_stays_inserts:
  "insert_queue clk eid p v d = Inr (k, d') \<Longrightarrow> row_stays q d d'"
  "insert_execution e d = Inr d' \<Longrightarrow> row_stays q d d'"
  by (auto simp: insert_queue_def insert_execution_def row_stays_def split: option.splits if_splits)

lemma row_stays_others:
  assumes "eid \<noteq> qr_execution_id q"
  shows "row_stays q d (delete_queued eid d)" and "row_stays q d (postpone eid v d)"
  using assms by (auto simp: row_stays_def delete_queued_def postpone_def set_delete_where set_update_where image_iff
      intro: bexI [of _ q])

lemmas row_rules = row.keeps_and_then row.keeps_ret row.keeps_throw row.keeps_guard row.keeps_need row.keeps_or_fail
  row.keeps_decode_or row.keeps_with_tx row.keeps_query row.keeps_attempting row.keeps_on_error

lemma row_same_tables:
  "insert_job j d = Inr d' \<Longrightarrow> row_stays q d d'" "insert_tenant t h d = Inr d' \<Longrightarrow> row_stays q d d'"
  "update_tenant t d = Inr d' \<Longrightarrow> row_stays q d d'" "insert_log now eid content d = Inr d' \<Longrightarrow> row_stays q d d'"
  "complete_execution now eid c r d = Inr d' \<Longrightarrow> row_stays q d d'"
  "fail_execution now eid c' m d = Inr d' \<Longrightarrow> row_stays q d d'"
  "insert_dlq now m eid d = Inr d' \<Longrightarrow> row_stays q d d'" "row_stays q d (delete_dlq eid d)"
  by (auto intro!: row_stays_same simp: insert_job_def insert_tenant_def update_tenant_def insert_log_def
      complete_execution_def fail_execution_def insert_dlq_def delete_dlq_def split: if_splits option.splits)

lemma row_statements:
  "keeps (on_db (row_stays q)) (AddLogEntry clk eid content)"
  "keeps (on_db (row_stays q)) (CreateJob j)"
  "keeps (on_db (row_stays q)) (CreateTenant tnt h)"
  "keeps (on_db (row_stays q)) (UpdateTenant tnt)"
  "keeps (on_db (row_stays q)) (UpdateCallbackStatus eid st)"
  "keeps (on_db (row_stays q)) (CreateExecution e)"
  "keeps (on_db (row_stays q)) (Enqueue clk eid payload v)"
  unfolding AddLogEntry_def CreateJob_def CreateTenant_def UpdateTenant_def UpdateCallbackStatus_def
    CreateExecution_def Enqueue_def
  by (rule row.keeps_exec row.keeps_stmt, auto intro: row_same_tables row_stays_inserts row_stays_same)+

lemma row_reads:
  "keeps (on_db (row_stays q)) (GetExecutionByID eid)" "keeps (on_db (row_stays q)) (GetJobByID jid)"
  "keeps (on_db (row_stays q)) (ListDLQ ties tid l k)" "keeps (on_db (row_stays q)) (GetExecutionLogs ties eid a l)"
  "keeps (on_db (row_stays q)) (CountRunningExecutions tid)"
  unfolding GetExecutionByID_def GetJobByID_def ListDLQ_def GetExecutionLogs_def CountRunningExecutions_def
  by (auto intro!: row.keeps_query row.keeps_query_rows row.keeps_and_then row.keeps_exec simp: row.db_refl)

lemma row_RetryFromDLQ: "keeps (on_db (row_stays q)) (RetryFromDLQ clk newID eid)"
  unfolding RetryFromDLQ_def read_dlq_def case_prod_unfold
  by (intro row.keeps_with_tx row.keeps_and_then row.keeps_query row.keeps_exec row_statements row.keeps_ret)
    (auto intro: row_stays_inserts row_same_tables)

lemma row_others:
  assumes "eid \<noteq> qr_execution_id q"
  shows "keeps (on_db (row_stays q)) (SetVisibleAfter eid v)"
    and "keeps (on_db (row_stays q)) (Complete clk eid c r)"
    and "keeps (on_db (row_stays q)) (Fail clk eid c' m)"
proof -
  note s = row_stays_others [OF assms]
  show "keeps (on_db (row_stays q)) (SetVisibleAfter eid v)" "keeps (on_db (row_stays q)) (Complete clk eid c r)"
    unfolding SetVisibleAfter_def Complete_def
    by (auto intro!: row.keeps_and_then row.keeps_exec intro: s row_same_tables)
  have f: "keeps (on_db (row_stays q)) (Fail_fatal clk eid c' m)" "keeps (on_db (row_stays q)) (Fail_retry clk eid a)" for a
    unfolding Fail_fatal_def Fail_retry_def
    by (auto intro!: row.keeps_and_then row.keeps_exec intro: s row_same_tables)
  show "keeps (on_db (row_stays q)) (Fail clk eid c' m)"
    unfolding Fail_def queue_attempt_def
    by (auto intro!: row.keeps_and_then row.keeps_attempting row.keeps_query row.keeps_throw f split: sum.split)
qed

section \<open>Claims leave a claimed row alone\<close>

text \<open>Identifiers of queue rows are distinct, so an update by identifier meets the rows it was
  meant for.\<close>

definition row_kept :: "queue_row \<Rightarrow> database \<Rightarrow> database \<Rightarrow> bool" where
  "row_kept q d d' \<longleftrightarrow> (distinct (map qr_id (queue d)) \<longrightarrow> distinct (map qr_id (queue d')) \<and> row_stays q d d')"

interpretation kept: db_step_order "row_kept q" for q
  by unfold_locales (auto simp: row_kept_def row_stays_def restore_def)

lemma kept_bump:
  assumes "db_now clk < qr_visible_after q"
    and "rows = select_batch (db_now clk) locked tids n d"
  shows "row_kept q d (bump_claimed (db_now clk) (map qr_id rows) d)"
proof -
  have "qr_id q \<notin> qr_id ` set rows" if "distinct (map qr_id (queue d))" "q \<in> set (queue d)"
  proof
    assume "qr_id q \<in> qr_id ` set rows"
    then obtain r where r: "r \<in> set rows" "qr_id r = qr_id q" by auto
    then have "r \<in> set (queue d)" "claimable (db_now clk) locked tids r"
      using select_batch_in_queue assms(2) by auto
    moreover from this have "r = q" using distinct_map_eqD [OF that(1) _ that(2)] r(2) by simp
    ultimately show False using assms(1) by (simp add: claimable_def)
  qed
  moreover have "map qr_id (queue (bump_claimed (db_now clk) (map qr_id rows) d)) = map qr_id (queue d)"
    by (simp add: bump_claimed_def map_update_where_same)
  ultimately show ?thesis
    by (auto simp: row_kept_def row_stays_def bump_claimed_def set_update_where image_iff intro: bexI [of _ q])
qed

lemma kept_DequeueBatch:
  assumes "db_now clk < qr_visible_after q"
  shows "keeps (on_db (row_kept q)) (DequeueBatch clk locked tids limit)"
  unfolding DequeueBatch_def Let_def
proof (intro kept.keeps_early kept.keeps_with_tx kept.keeps_bind)
  let ?n = "if limit \<le> 0 then 1 else limit"
  let ?sel = "query (\<lambda>d. Inr (select_batch (db_now clk) locked tids ?n d)) :: queue_row list sql"
  show "keeps (on_db (row_kept q)) (on_error Inl ?sel)" by (intro kept.keeps_on_error kept.keeps_query)
  fix s rows t
  assume "on_error Inl ?sel s = (Inr rows, t)"
  then have rows: "rows = select_batch (db_now clk) locked tids ?n (db t)"
    by (auto dest!: on_error_InrD query_Inr)
  have b: "on_db (row_kept q) t (snd (on_error Inl (exec (\<lambda>d. Inr (bump_claimed (db_now clk) (map qr_id rows) d))) t))"
    using kept_bump [OF assms rows]
    by (auto simp: on_error_def exec_def stmt_def on_db_def kept.db_refl split: fate.splits sum.splits prod.splits)
  have st: "row_kept q d (start_claimed now ids d)" for d now ids
    by (simp add: row_kept_def row_stays_def start_claimed_def)
  have k: "keeps (on_db (row_kept q)) (and_then (on_error Inl (exec (\<lambda>d. Inr (start_claimed (db_now clk) (map qr_id rows) d))))
      (\<lambda>_. ret (map queue_item rows) :: (sql_error + QueueItem list, QueueItem list, session) prog))"
    by (intro kept.keeps_and_then kept.keeps_on_error kept.keeps_exec kept.keeps_ret) (auto intro: st)
  show "on_db (row_kept q) t (snd ((if rows = [] then throw (Inr []) else
       and_then (on_error Inl (exec (\<lambda>d. Inr (bump_claimed (db_now clk) (map qr_id rows) d)))) (\<lambda>_.
       and_then (on_error Inl (exec (\<lambda>d. Inr (start_claimed (db_now clk) (map qr_id rows) d)))) (\<lambda>_.
       ret (map queue_item rows) :: (sql_error + QueueItem list, QueueItem list, session) prog))) t))"
  proof (cases "rows = []")
    case True
    then show ?thesis by (simp add: throw_apply kept.refl)
  next
    case False
    then show ?thesis
      by (simp only: if_False) (rule kept.bind_at [where q = q], rule b, use k in \<open>simp add: keeps_def\<close>)
  qed
qed

section \<open>Requests\<close>

text \<open>A request names an execution when it is a heartbeat or a report for it: the only ones that
  may change its row while the claim lasts.\<close>

definition names :: "'l controller \<Rightarrow> string \<Rightarrow> string list \<Rightarrow> uuid \<Rightarrow> bool" where
  "names C method path eid \<longleftrightarrow>
     (case route_of (co_metrics C \<noteq> None) method path of
        Some (rt, v) \<Rightarrow> rt \<in> {HeartbeatRoute, ResultRoute} \<and> uuid_Parse (co_externals C) v = Some eid
      | None \<Rightarrow> False)"

lemma row_handle: "keeps (on_db (row_stays q)) m \<Longrightarrow> row_stays q (db s) (db (snd (handle m s)))"
  using row.finish_keeps [of q m s] by (simp add: handle_def on_db_def)

lemmas row_handler_rules = row.keeps_and_then row.keeps_ret row.keeps_throw row.keeps_guard row.keeps_need
  row.keeps_or_fail row.keeps_decode_or row.keeps_with_tx row.keeps_query row_statements row_reads row_RetryFromDLQ

lemma row_run_request: "keeps (on_db (row_stays q)) (run_request r)"
  by (auto simp: run_request_def intro!: row.keeps_ret row.keeps_throw split: sum.split)

lemma row_schedule: "keeps (on_db (row_stays q)) (schedule now req)"
  by (auto simp: schedule_def intro!: row.keeps_ret row.keeps_throw split: option.split)

lemma row_get_own:
  "keeps (on_db (row_stays q)) (get_own_job t jid)" "keeps (on_db (row_stays q)) (get_own_execution tid eid)"
  unfolding get_own_job_def get_own_execution_def by (intro row_handler_rules)+

lemma row_run_tx: "keeps (on_db (row_stays q)) (run_tx E clk carrier t j e at)"
  unfolding run_tx_def check_concurrency_def by (intro row_handler_rules keeps_if)

lemma row_handlers:
  "row_stays q (db s) (db (snd (h_CreateTenant E clk tid entropy r s)))"
  "row_stays q (db s) (db (snd (h_UpdateTenant ctx r s)))"
  "row_stays q (db s) (db (snd (h_CreateJob E clk jid ctx r s)))"
  "row_stays q (db s) (db (snd (h_RunJob E clk eid carrier ctx r s)))"
  "row_stays q (db s) (db (snd (h_GetExecution E ctx r s)))"
  "row_stays q (db s) (db (snd (h_GetDQLExecutions E ties ctx r s)))"
  "row_stays q (db s) (db (snd (h_RetryDQLExecution E clk newID ctx r s)))"
  "row_stays q (db s) (db (snd (h_InternalAddLogs E clk r s)))"
  "row_stays q (db s) (db (snd (h_GetExecutionLogs E ties ctx r s)))"
  "row_stays q (db s) (db (snd (h_Healthz r s)))"
  "row_stays q (db s) (db (snd (h_Readyz r s)))"
  unfolding h_CreateTenant_def h_UpdateTenant_def h_CreateJob_def h_RunJob_def h_GetExecution_def h_GetDQLExecutions_def
    h_RetryDQLExecution_def h_InternalAddLogs_def h_GetExecutionLogs_def h_Healthz_def h_Readyz_def Let_def
    case_prod_unfold
  by (intro row_handle row_handler_rules row_get_own row_run_request row_schedule row_run_tx keeps_if)+

lemma row_named_handlers:
  assumes "uuid_Parse E (rq_path_id r) \<noteq> Some (qr_execution_id q)"
  shows "row_stays q (db s) (db (snd (h_InternalHeartbeat E clk extn r s)))"
    and "row_stays q (db s) (db (snd (h_InternalUpdateResult E clk r s)))"
proof -
  have n: "keeps (on_db (row_stays q)) (and_then (need e (uuid_Parse E (rq_path_id r))) f)"
    if "\<And>eid. eid \<noteq> qr_execution_id q \<Longrightarrow> keeps (on_db (row_stays q)) (f eid)" for e and f :: "uuid \<Rightarrow> answer handling"
    using that assms by (cases "uuid_Parse E (rq_path_id r)")
      (auto simp: keeps_def and_then_def need_apply throw_apply ret_apply row.refl)
  show "row_stays q (db s) (db (snd (h_InternalHeartbeat E clk extn r s)))"
    "row_stays q (db s) (db (snd (h_InternalUpdateResult E clk r s)))"
    unfolding h_InternalHeartbeat_def h_InternalUpdateResult_def
    by (intro row_handle n row_handler_rules keeps_if row_others; assumption)+
qed

lemma row_dequeue:
  assumes "db_now clk < qr_visible_after q" and "distinct (map qr_id (queue (db s)))"
  shows "row_stays q (db s) (db (snd (h_InternalDequeue E clk locked r s)))"
proof -
  have "keeps (on_db (row_kept q)) (and_then (decode_or (bad ''Invalid request body'' 400) (dec_DequeueRequest E) r) (\<lambda>req.
     and_then (or_fail ''Failed to dequeue executions'' 500
       (DequeueBatch clk locked (slice_elems (dr_TenantIDs req)) (clamp_limit (dr_Limit req)))) (\<lambda>items.
     ret (reply (respondJson 200 (Some (enc_DequeueResponse E (Some (map dequeued items)))))))))"
    by (intro kept.keeps_and_then kept.keeps_decode_or kept.keeps_or_fail kept_DequeueBatch [OF assms(1)] kept.keeps_ret)
  then have "row_kept q (db s) (db (snd (h_InternalDequeue E clk locked r s)))"
    unfolding h_InternalDequeue_def handle_def using kept.finish_keeps by (auto simp: on_db_def)
  then show ?thesis using assms(2) by (simp add: row_kept_def)
qed

section \<open>The claim\<close>

lemma row_open: "row_stays q (db s) (db (snd (open_handler C n rt r s)))"
  by (cases rt) (simp_all add: row_handlers row.db_refl)

lemma row_tenant: "row_stays q (db s) (db (snd (tenant_handler C n rt ctx r s)))"
  by (cases rt) (simp_all add: row_handlers)

lemma row_internal:
  assumes "db_now (en_clocks n) < qr_visible_after q" and "distinct (map qr_id (queue (db s)))"
    and "rt \<in> {HeartbeatRoute, ResultRoute} \<longrightarrow> uuid_Parse (co_externals C) (rq_path_id r) \<noteq> Some (qr_execution_id q)"
  shows "row_stays q (db s) (db (snd (internal_handler C n rt r s)))"
  using assms by (cases rt) (simp_all add: row_handlers row_named_handlers row_dequeue)

lemma row_chain:
  assumes "db_now (en_clocks n) < qr_visible_after q" and "distinct (map qr_id (queue (db (sv_session s))))"
    and "rt \<in> {HeartbeatRoute, ResultRoute} \<longrightarrow> uuid_Parse (co_externals C) (rq_path_id r) \<noteq> Some (qr_execution_id q)"
  shows "row_stays q (db (sv_session s)) (db (sv_session (snd (chain C n a rt r s))))"
proof (cases a)
  case Open
  have "row_stays q (db (sv_session s)) (db (sv_session (snd (on_session (open_handler C n rt r) s))))"
    by (rule on_session_db) (rule row_open)
  then show ?thesis by (simp add: Open open_chain_def)
next
  case TenantAuth
  have "row_stays q (db (sv_session s)) (db (sv_session (snd (tenant_chain C n rt r s))))"
    by (rule tenant_chain_keeps) (rule row_tenant row.db_refl)+
  then show ?thesis by (simp add: TenantAuth)
next
  case InternalAuth
  obtain x t where h: "internal_handler C n rt r (sv_session s) = (x, t)" by (cases "internal_handler C n rt r (sv_session s)")
  have "row_stays q (db (sv_session s)) (db t)" using row_internal [OF assms(1,2,3)] h by simp
  then show ?thesis
    by (auto simp: InternalAuth internal_chain_def RequireInternalAuth_def on_session_def h row.db_refl split: option.splits)
qed

lemma row_ServeHTTP:
  assumes "db_now (en_clocks n) < qr_visible_after q" and "distinct (map qr_id (queue (db (sv_session s))))"
    and "\<not> names C method path (qr_execution_id q)"
  shows "row_stays q (db (sv_session s)) (db (sv_session (snd (ServeHTTP C n method path r s))))"
  using assms by (auto simp: ServeHTTP_db names_def row.db_refl split: option.split intro!: row_chain)

text \<open>A background step leaves the queue alone; a request does when it comes before the claim is
  over, by the database's clock, and does not name the execution.\<close>

inductive undisturbed_step :: "'l controller \<Rightarrow> uuid \<Rightarrow> time \<Rightarrow> 'l system \<Rightarrow> 'l system \<Rightarrow> bool"
  for C eid until where
  request: "ServeHTTP C n method path r (sy_server s) = ((resp, hooks), v) \<Longrightarrow>
    db_now (en_clocks n) < until \<Longrightarrow> \<not> names C method path eid \<Longrightarrow>
    undisturbed_step C eid until s (s\<lparr>sy_server := v, sy_triggered := sy_triggered s @ hooks\<rparr>)"
| background: "background_step s t \<Longrightarrow> undisturbed_step C eid until s t"

lemma undisturbed_sys_step: "undisturbed_step C eid until s t \<Longrightarrow> sys_step C s t"
  by (induction rule: undisturbed_step.induct) (auto intro: sys_step.intros)

lemma row_on_session:
  "keeps (on_db (row_stays q)) m \<Longrightarrow> on_session m v = (x, w) \<Longrightarrow> row_stays q (db (sv_session v)) (db (sv_session w))"
  using on_session_db [of "row_stays q" m v] by (simp add: keeps_def on_db_def)

lemma row_background: "background_step s t \<Longrightarrow> row_stays q (sy_db s) (sy_db t)"
proof (induction rule: background_step.induct)
  case (trigger s xs eid ys res v)
  have "keeps (on_db (row_stays q)) (triggerWebhook eid)"
    unfolding triggerWebhook_def by (intro row_handler_rules keeps_if)
  then show ?case using trigger row_on_session by (simp add: sy_db_def)
next
  case (delivered s xs e ys peer res v)
  have "keeps (on_db (row_stays q)) (deliver_goroutine peer e)"
    unfolding deliver_goroutine_def by (rule row_statements)
  then show ?case using delivered row_on_session by (simp add: sy_db_def)
qed (simp_all add: sy_db_def row.db_refl)

lemma row_undisturbed:
  assumes "undisturbed_step C (qr_execution_id q) (qr_visible_after q) s t" and "db_inv (sy_db s)"
  shows "row_stays q (sy_db s) (sy_db t)"
  using assms
proof (induction rule: undisturbed_step.induct)
  case (request n meth path r s resp hooks v)
  have "distinct (map qr_id (queue (db (sv_session (sy_server s)))))"
    using request.prems by (simp add: db_inv_def queue_ok_def sy_db_def)
  from row_ServeHTTP [OF request(2) this request(3), of r] show ?case using request(1) by (simp add: sy_db_def)
qed (rule row_background)

lemma row_undisturbed_run:
  assumes "(undisturbed_step C (qr_execution_id q) (qr_visible_after q))\<^sup>*\<^sup>* s t"
    and "db_inv (sy_db s)" and "q \<in> set (queue (sy_db s))"
  shows "db_inv (sy_db t) \<and> q \<in> set (queue (sy_db t))"
  using assms
proof (induction rule: rtranclp_induct)
  case (step t u)
  have "safe (sy_db t) (sy_db u)" using step(2) by (rule undisturbed_sys_step [THEN sys_step_safe])
  moreover have "row_stays q (sy_db t) (sy_db u)" using step by (intro row_undisturbed) auto
  ultimately show ?case using step by (auto simp: safe_def row_stays_def)
qed simp

text \<open>A row that is not visible is in nobody's batch.\<close>

lemma invisible_row:
  assumes "db_inv (db s)" and "q \<in> set (queue (db s))" and "db_now clk < qr_visible_after q"
    and "DequeueBatch clk locked tids limit s = (Inr items, t)"
  shows "qr_execution_id q \<notin> qi_ExecutionID ` set items"
proof
  assume "qr_execution_id q \<in> qi_ExecutionID ` set items"
  then obtain r where r: "r \<in> set (select_batch (db_now clk) locked tids (at_least_one limit) (db s))"
    "qr_execution_id r = qr_execution_id q"
    using DequeueBatch_Inr(1) [OF assms(4)] by (auto simp: queue_item_def)
  then have "r \<in> set (queue (db s))" "qr_visible_after r \<le> db_now clk"
    using select_batch_in_queue [OF r(1)] by (auto simp: claimable_def)
  moreover from this have "r = q"
    using assms(1,2) r(2) by (auto simp: db_inv_def queue_ok_def dest: distinct_map_eqD)
  ultimately show False using assms(3) by simp
qed

lemma claimed_row:
  assumes "DequeueBatch clk locked tids limit s = (Inr items, t)" and "eid \<in> qi_ExecutionID ` set items"
  obtains q where "q \<in> set (queue (db t))" and "qr_execution_id q = eid"
    and "qr_visible_after q = db_now clk + VisibilityTimeout"
proof -
  let ?rows = "select_batch (db_now clk) locked tids (at_least_one limit) (db s)"
  obtain r where r: "r \<in> set ?rows" "qr_execution_id r = eid"
    using assms(2) DequeueBatch_Inr(1) [OF assms(1)] by (auto simp: queue_item_def)
  let ?q = "bumped (db_now clk) (map qr_id ?rows) r"
  have "?q \<in> set (queue (db t))"
    using select_batch_in_queue [OF r(1)] by (simp add: DequeueBatch_Inr(2) [OF assms(1)] claim_eq)
  moreover have "qr_execution_id ?q = eid" "qr_visible_after ?q = db_now clk + VisibilityTimeout"
    using r by (auto simp: bumped_def)
  ultimately show ?thesis by (rule that)
qed

text \<open>The row of a claim stays as the claim has left it.\<close>

lemma claim_lasts:
  assumes inv: "db_inv (sy_db s)"
    and claim: "on_session (DequeueBatch clk locked tids limit) (sy_server s) = (Inr items, v)"
      "eid \<in> qi_ExecutionID ` set items"
    and run: "(undisturbed_step C eid (db_now clk + VisibilityTimeout))\<^sup>*\<^sup>* (s\<lparr>sy_server := v\<rparr>) t"
  obtains q where "db_inv (sy_db t)" and "q \<in> set (queue (sy_db t))" and "qr_execution_id q = eid"
    and "qr_visible_after q = db_now clk + VisibilityTimeout"
proof -
  let ?s = "s\<lparr>sy_server := v\<rparr>"
  obtain w where w: "DequeueBatch clk locked tids limit (sv_session (sy_server s)) = (Inr items, w)" "sv_session v = w"
    using claim(1) by (auto simp: on_session_def split: prod.splits)
  obtain q where q: "q \<in> set (queue (sy_db ?s))" "qr_execution_id q = eid"
    "qr_visible_after q = db_now clk + VisibilityTimeout"
    using claimed_row [OF w(1) claim(2)] w(2) by (auto simp: sy_db_def)
  have "safe (sy_db s) (sy_db ?s)"
    using on_session_keeps [OF keeps_DequeueBatch claim(1)] by (simp add: sy_db_def)
  then have "db_inv (sy_db ?s)" using inv by (simp add: safe_def)
  with run q have "db_inv (sy_db t) \<and> q \<in> set (queue (sy_db t))"
    by (intro row_undisturbed_run [where C = C]) simp_all
  then show ?thesis using q that by blast
qed

text \<open>C5: A claim is exclusive. After a dequeue has returned an execution, whatever other requests
  the controller serves, from any worker and tenant and with any failures of the database in
  between, and whatever its dispatcher does, no dequeue returns the execution again before the
  visibility timeout has passed, unless a heartbeat or a report for that very execution came in.\<close>

theorem claim_is_exclusive:
  assumes inv: "db_inv (sy_db s)"
    and claim: "on_session (DequeueBatch clk locked tids limit) (sy_server s) = (Inr items, v)"
      "eid \<in> qi_ExecutionID ` set items"
    and run: "(undisturbed_step C eid (db_now clk + VisibilityTimeout))\<^sup>*\<^sup>* (s\<lparr>sy_server := v\<rparr>) t"
    and again: "DequeueBatch clk' locked' tids' limit' (sv_session (sy_server t)) = (Inr items', u)"
      "db_now clk' < db_now clk + VisibilityTimeout"
  shows "eid \<notin> qi_ExecutionID ` set items'"
proof (rule claim_lasts [OF inv claim run])
  fix q
  assume "db_inv (sy_db t)" "q \<in> set (queue (sy_db t))" "qr_execution_id q = eid"
    "qr_visible_after q = db_now clk + VisibilityTimeout"
  then show ?thesis using invisible_row [OF _ _ _ again(1), of q] again(2) by (simp add: sy_db_def)
qed

section \<open>Lost workers\<close>







section \<open>Late reports\<close>

text \<open>
  Reports and heartbeats carry no proof of the claim they are made for. A failure reported by a
  worker whose claim has run out postpones the row to the retry backoff of the attempt the new
  holder is working on, which for the first four attempts is shorter than its claim.
\<close>

lemma backoff_below_claim: "0 \<le> a \<Longrightarrow> a \<le> 4 \<Longrightarrow> fail_backoff a < VisibilityTimeout"
proof -
  assume "0 \<le> a" "a \<le> 4"
  then have "a \<in> {0, 1, 2, 3, 4}" by auto
  then show ?thesis by (auto simp: fail_backoff_def VisibilityTimeout_def)
qed

text \<open>C29: A late failure report gives a claimed execution away. While a worker holds its claim in one
  of the first four attempts, a failure reported by anyone who still believes to hold the
  execution, at a time that leaves more than the backoff of the attempt, is accepted; the row then
  becomes visible before the claim is over, and from then on a dequeue that asks for enough returns
  the execution a second time.\<close>

theorem late_failure_releases_claim:
  assumes claim: "DequeueBatch clk locked tids limit (calm d0) = (Inr items, calm d)" "eid \<in> qi_ExecutionID ` set items"
    and q: "find_queued d eid = Some q" "0 \<le> qr_attempt q" "qr_attempt q \<le> 4" and inv: "db_inv d"
    and time: "db_now clk' + fail_backoff (qr_attempt q) < db_now clk + VisibilityTimeout"
  shows "qr_visible_after q = db_now clk + VisibilityTimeout \<and>
    (\<exists>d'. Fail clk' eid code msg (calm d) = (Inr (), calm d') \<and>
      (\<exists>at < db_now clk + VisibilityTimeout. \<forall>clk'' limit'' items'' u. at \<le> db_now clk'' \<and>
         int (length (queue d)) \<le> limit'' \<and> DequeueBatch clk'' [] [] limit'' (calm d') = (Inr items'', u) \<longrightarrow>
         eid \<in> qi_ExecutionID ` set items''))"
proof -
  let ?at = "db_now clk' + fail_backoff (qr_attempt q)"
  let ?d = "postpone eid ?at d"
  obtain r where r: "r \<in> set (queue d)" "qr_execution_id r = eid" "qr_visible_after r = db_now clk + VisibilityTimeout"
    using claimed_row [OF claim] by auto
  have "r = q" using r q(1) inv by (auto simp: db_inv_def find_queued_Some queue_ok_def dest: distinct_map_eqD)
  then have v: "qr_visible_after q = db_now clk + VisibilityTimeout" using r by simp
  have f: "Fail clk' eid code msg (calm d) = (Inr (), calm ?d)"
    using q by (simp add: Fail_def queue_attempt_def Fail_retry_def attempting_def and_then_def prog_simps MaxRetries_def)
  have p: "find_queued ?d eid = Some (q\<lparr>qr_visible_after := ?at\<rparr>)"
    using q(1) find_SomeD [OF q(1) [unfolded find_queued_def]]
    by (simp add: find_queued_def postpone_def find_update_where)
  have "eid \<in> qi_ExecutionID ` set items''"
    if "?at \<le> db_now clk''" "int (length (queue d)) \<le> limit''" "DequeueBatch clk'' [] [] limit'' (calm ?d) = (Inr items'', u)"
    for clk'' limit'' items'' u
    using due_row_is_returned [OF that(3), of eid "q\<lparr>qr_visible_after := ?at\<rparr>"] p that(1,2)
    by (simp add: postpone_def)
  then show ?thesis using v f time by (intro conjI exI [of _ ?d] exI [of _ ?at]) auto
qed

end
