(* ===== verification/Heartbeats.thy ===== *)
theory Heartbeats
  imports Claims Agent_Theorems
begin

text \<open>
  The heartbeat of a worker and the claim it keeps, across whatever else the controller does.
\<close>

text \<open>The row of a queued execution after a heartbeat, and for as long as nothing names it.\<close>

lemma postponed_row:
  assumes "queued d eid"
  obtains q where "q \<in> set (queue (postpone eid at d))" and "qr_execution_id q = eid" and "qr_visible_after q = at"
proof -
  obtain r where r: "r \<in> set (queue d)" "qr_execution_id r = eid" using assms by (auto simp: queued_def)
  have "r\<lparr>qr_visible_after := at\<rparr> \<in> set (queue (postpone eid at d))"
    unfolding postpone_def using r by (force simp: set_update_where)
  then show ?thesis by (rule that) (simp_all add: r)
qed

text \<open>C13: A heartbeat keeps the claim. After the controller has accepted the heartbeat of a worker for
  an execution in the queue, whatever other requests it serves, from any worker and tenant and with
  any failures of the database in between, and whatever its dispatcher does, no dequeue returns the
  execution before the extension has run out, unless a report or another heartbeat for that very
  execution came in. So a worker that sends heartbeats more often than that is never joined by
  another, but for one that reports a failure late.\<close>

theorem heartbeat_keeps_claim:
  assumes inv: "db_inv (sy_db s)" and q: "queued (sy_db s) eid" and p: "paired C A eid"
    and hb: "served render C n (ac_ControllerURL A) (heartbeat_request (co_externals C) A eid) (sy_server s) =
      ((resp, hooks), v)" and ok: "rs_status resp < 400"
    and run: "(undisturbed_step C eid (go_now (en_clocks n) + co_extension C))\<^sup>*\<^sup>* (s\<lparr>sy_server := v\<rparr>) t"
    and deq: "DequeueBatch clk locked tids limit (sv_session (sy_server t)) = (Inr items, u)"
    and time: "db_now clk < go_now (en_clocks n) + co_extension C"
  shows "eid \<notin> qi_ExecutionID ` set items"
proof -
  let ?s = "s\<lparr>sy_server := v\<rparr>"
  have "sy_db ?s = postpone eid (go_now (en_clocks n) + co_extension C) (sy_db s)"
    using heartbeat_served [OF p hb ok] by (simp add: sy_db_def)
  then obtain q where row: "q \<in> set (queue (sy_db ?s))" "qr_execution_id q = eid"
    "qr_visible_after q = go_now (en_clocks n) + co_extension C"
    using postponed_row [OF q] by metis
  have "safe (sy_db s) (sy_db ?s)"
    using sys_step_safe [OF sys_step.request [OF hb [unfolded served_def Let_def]]] by (simp add: sy_db_def)
  then have "db_inv (sy_db ?s)" using inv by (simp add: safe_def)
  with run row have "db_inv (sy_db t) \<and> q \<in> set (queue (sy_db t))"
    by (intro row_undisturbed_run [where C = C]) simp_all
  then show ?thesis
    using invisible_row [OF _ _ _ deq, of q] time row(2,3) by (simp add: sy_db_def)
qed

end
