(* ===== verification/Agent_Examples.thy ===== *)
theory Agent_Examples
  imports Examples Agent_Loop Runtime_Theorems Heartbeats
begin

text \<open>
  The properties of the worker at work: the job of the small installation is run, by a process,
  in a container and on a cluster.
\<close>

section \<open>The agent\<close>

definition demo_surround :: surround where
  "demo_surround = \<lparr>su_stopped = (\<lambda>n. False), su_jitter = (\<lambda>n. 0), su_peer = (\<lambda>n. NoReply)\<rparr>"

lemma demo_gives_up: "fst (doWithRetry demo_surround) = [Attempt 0, Pause (1 * second), Attempt 1,
    Pause (2 * second), Attempt 2, Pause (4 * second), Attempt 3, Pause (8 * second), Attempt 4,
    Pause (16 * second), Attempt 5]"
  by (simp add: doWithRetry_def demo_surround_def do_from.simps agent_maxRetries_def retry_pause_def
      retry_backoff_def agent_baseBackoff_def agent_maxBackoff_def)

lemma request_bounded_witness:
  "length (attempts (fst (doWithRetry demo_surround))) \<le> 6 \<and>
   5 * sum_list (pauses (fst (doWithRetry demo_surround))) \<le> 186 * second"
  by (rule request_bounded)
    (simp add: demo_surround_def retry_backoff_def agent_baseBackoff_def agent_maxBackoff_def)

lemma demo_job_payload: "payload_job demo_E (Some demo_payload) = Some demo_job_read"
proof -
  have "payload_job demo_E (Some demo_payload) = Some (sent_job demo_job_read)"
    by (rule claimed_payload [OF demo_uuid_law _ _ _ demo_payload(1)]) (simp_all add: int64_ok_def demo_job_read_def)
  moreover have "sent_job demo_job_read = demo_job_read\<lparr>jb_CallbackHeaders := Some (enc_raw (jb_CallbackHeaders demo_job_read))\<rparr>"
    by (rule sent_job_utf8) (simp_all add: demo_job_read_def)
  ultimately show ?thesis by (simp add: demo_job_read_def)
qed

definition demo_env :: run_env where
  "demo_env = \<lparr>re_start = None, re_wait = Inr \<lparr>xt_ExitCode = 0, xt_Error = None\<rparr>, re_began = 0,
     re_waited = 5 * second, re_dir = ''/work'', re_file = FileData 2 (Some (JNum 42)),
     re_cancelled = (\<lambda>_. None), re_json_error = []\<rparr>"

lemma demo_ran: "ran demo_E (Some demo_payload) demo_env"
  by (simp add: ran_def demo_job_payload demo_env_def)

definition demo_report :: ExecutionResultRequest where
  "demo_report = \<lparr>er_ExitCode = Some 0, er_Error = [], er_Result = Some (JNum 42)\<rparr>"

lemma demo_reports: "reports (processItem demo_E c 3 (Some demo_payload) demo_env) = [demo_report]"
  by (simp add: processItem_def demo_job_payload demo_env_def wait_outcome_def getResultFromFile_def
      result_report_def demo_report_def)

lemma report_verdict_witness:
  "succeeded demo_report \<longleftrightarrow> ran demo_E (Some demo_payload) demo_env"
  using report_verdict [of demo_E Background 3 "Some demo_payload" demo_env] demo_reports
  by (auto simp: demo_env_def)

definition demo_config :: AgentConfig where
  "demo_config = \<lparr>ac_ID = ''w'', ac_Concurrency = 2, ac_PollInterval = second, ac_ControllerURL = ''http://localhost:6161'',
     ac_MaxBackoff = 30 * second, ac_HeartbeatInterval = minute, ac_SystemSecret = ''hush''\<rparr>"

lemma demo_controller [simp]: "co_externals demo_C = demo_E" "co_extension demo_C = 5 * minute"
  by (simp_all add: demo_C_def)

lemma demo_names: "uuid_String demo_E 3 = ''uuu''" "uuid_String demo_E 4 = ''uuuu''"
  by (simp_all add: demo_E_def) (simp_all add: numeral_eq_Suc)

lemma demo_paired: "paired demo_C demo_config 3" "paired demo_C demo_config 4"
proof -
  have "uuid_Parse demo_E ''uuu'' = Some 3" "uuid_Parse demo_E ''uuuu'' = Some 4" by (simp_all add: demo_E_def)
  then show "paired demo_C demo_config 3" "paired demo_C demo_config 4"
    by (simp_all add: paired_def same_secret_def plain_id_def demo_config_def demo_names) (simp_all add: demo_C_def)
qed

lemma demo_session: "sv_session demo_server = calm demo_db"
  by (simp add: demo_server_def)

definition demo_fetched :: "(response \<times> uuid list) \<times> int server" where
  "demo_fetched = served (\<lambda>j. []) demo_C (demo_around 9) (ac_ControllerURL demo_config)
     (fetch_request demo_E demo_config None 1) demo_server"

lemma demo_fetched_ok: "rs_status (fst (fst demo_fetched)) = 200"
proof -
  let ?d = "\<lparr>dr_Limit = 1, dr_TenantIDs = None\<rparr>"
  have seg: "url_segments ''/internal/executions/dequeue'' = [''internal'', ''executions'', ''dequeue'']"
    by (simp add: url_segments_def)
  obtain r where r: "rq_body r = Doc (enc_DequeueRequest demo_E ?d)"
    and sv: "demo_fetched = (case internal_handler demo_C (demo_around 9) DequeueRoute r (sv_session demo_server) of
         ((resp, effs), t) \<Rightarrow> ((resp, webhooks effs), run_effects effs (demo_server\<lparr>sv_session := t\<rparr>)))"
    by (rule served_internal [OF seg worker_routes(4), where base = "ac_ControllerURL demo_config" and render = "\<lambda>j. []"
        and n = "demo_around 9" and s = demo_server and C = demo_C and rq = "fetch_request demo_E demo_config None 1"])
      (simp_all add: fetch_request_def demo_fetched_def, simp_all add: demo_C_def demo_config_def)
  have "dec_DequeueRequest demo_E (enc_DequeueRequest demo_E ?d) = Some ?d"
    using DequeueRequest_roundtrip [OF demo_uuid_law, of ?d] by (simp add: int64_ok_def nonempty_def)
  then show ?thesis
    unfolding sv using r demo_session demo_dequeue_one
    by (simp add: h_InternalDequeue_def handler_eval clamp_limit_def demo_around_def reply_def)
qed

lemma jobs_reach_worker_witness:
  "fetchWork demo_E (Some (200, answer_body (fst (fst demo_fetched)))) = Inr [dequeued (queue_item (demo_queued 2 4 9))]"
proof -
  obtain resp hooks t where f: "demo_fetched = ((resp, hooks), t)" by (metis surj_pair)
  have "uuid_law (co_externals demo_C)" using demo_uuid_law by simp
  moreover have "same_secret demo_C demo_config" by (simp add: same_secret_def demo_C_def demo_config_def)
  moreover have "served (\<lambda>j. []) demo_C (demo_around 9) (ac_ControllerURL demo_config)
      (fetch_request (co_externals demo_C) demo_config None 1) demo_server = ((resp, hooks), t)"
    using f [unfolded demo_fetched_def] by simp
  moreover have "rs_status resp = 200" using demo_fetched_ok unfolding f by simp
  ultimately obtain items where "DequeueBatch (tick 0) [] [] 1 (calm demo_db) = (Inr items, sv_session t)"
    "fetchWork demo_E (Some (200, answer_body resp)) = Inr (map dequeued items)"
    using jobs_reach_worker [of demo_C demo_config 1 "\<lambda>j. []" "demo_around 9" None demo_server resp hooks t] demo_session
    by (auto simp: int64_ok_def demo_around_def)
  then show ?thesis unfolding f using demo_dequeue_one by auto
qed

lemma success_is_recorded_witness:
  "\<exists>d'. served (\<lambda>j. []) demo_C (demo_around 9) (ac_ControllerURL demo_config)
      (result_request demo_E demo_config 3 demo_report) demo_server =
      ((bare_status 200, [3]), demo_server\<lparr>sv_session := calm d'\<rparr>) \<and>
    \<not> queued d' 3 \<and> find_execution d' 3 = Some ((demo_execution 3 5)\<lparr>ex_Status := ExecutionStatusCompleted,
      ex_ExitCode := Some 0, ex_Result := Some (JNum 42), ex_CompletedAt := Some 0\<rparr>)"
  using success_is_recorded [of demo_C "Some demo_payload" demo_env, OF _ _ _ _ demo_paired(1) demo_session demo_tables(3),
      of _ Background demo_report "\<lambda>j. []" "demo_around 9"] demo_ran demo_reports
  by (simp add: demo_env_def demo_report_def demo_around_def jsonb_ok_int64 int64_ok_def)

definition demo_beaten :: database where
  "demo_beaten = demo_db\<lparr>queue := [demo_queued 1 3 5, (demo_queued 2 4 9)\<lparr>qr_visible_after := 5 * minute\<rparr>]\<rparr>"

lemma demo_served_heartbeat:
  "served (\<lambda>j. []) demo_C (demo_around 9) (ac_ControllerURL demo_config)
     (heartbeat_request demo_E demo_config 4) demo_server =
   ((bare_status 200, []), demo_server\<lparr>sv_session := calm demo_beaten\<rparr>)"
proof -
  obtain r where r: "uuid_Parse (co_externals demo_C) (rq_path_id r) = Some 4"
    and sv: "served (\<lambda>j. []) demo_C (demo_around 9) (ac_ControllerURL demo_config)
      (heartbeat_request demo_E demo_config 4) demo_server =
      (case internal_handler demo_C (demo_around 9) HeartbeatRoute r (sv_session demo_server) of
         ((resp, effs), t) \<Rightarrow> ((resp, webhooks effs), run_effects effs (demo_server\<lparr>sv_session := t\<rparr>)))"
    by (rule agent_served [OF demo_paired(2) op_names(2) _ worker_routes(1), where b = None
        and render = "\<lambda>j. []" and n = "demo_around 9" and s = demo_server]) (simp_all add: heartbeat_request_def)
  have "postpone 4 (5 * minute) demo_db = demo_beaten"
    by (simp add: postpone_def demo_beaten_def) (simp add: demo_db_def demo_queued_def)
  then have "h_InternalHeartbeat demo_E (tick 0) (5 * minute) r (calm demo_db) =
      (reply (bare_status 200), calm demo_beaten)"
    using r by (simp add: h_InternalHeartbeat_def handler_eval SetVisibleAfter_def)
  then show ?thesis using sv demo_session by (simp add: reply_def demo_around_def)
qed

lemma heartbeat_keeps_claim_witness:
  "4 \<notin> qi_ExecutionID ` set [queue_item (demo_queued 1 3 5)]"
proof (rule heartbeat_keeps_claim [OF _ _ demo_paired(2)])
  let ?s = "boot\<lparr>sy_server := demo_server\<rparr>" and ?v = "demo_server\<lparr>sv_session := calm demo_beaten\<rparr>"
  show "db_inv (sy_db ?s)" "queued (sy_db ?s) 4"
    using demo_inv demo_tables(2) find_queued_None [of demo_db 4] by (auto simp: sy_db_def demo_session)
  show "served (\<lambda>j. []) demo_C (demo_around 9) (ac_ControllerURL demo_config)
     (heartbeat_request (co_externals demo_C) demo_config 4) (sy_server ?s) = ((bare_status 200, []), ?v)"
    using demo_served_heartbeat by simp
  have "undisturbed_step demo_C 4 until (?s\<lparr>sy_server := ?v\<rparr>) (?s\<lparr>sy_server := ?v\<rparr>)" for until
    using background_step.connection [of "?s\<lparr>sy_server := ?v\<rparr>" "[]"]
    by (auto simp: calm_def intro: undisturbed_step.background)
  then show "(undisturbed_step demo_C 4 (go_now (en_clocks (demo_around 9)) + co_extension demo_C))\<^sup>*\<^sup>*
      (?s\<lparr>sy_server := ?v\<rparr>) (?s\<lparr>sy_server := ?v\<rparr>)" by blast
  show "DequeueBatch (tick second) [] [] 1 (sv_session (sy_server (?s\<lparr>sy_server := ?v\<rparr>))) =
     (Inr [queue_item (demo_queued 1 3 5)], calm (claim second [1] demo_beaten))"
    by (simp add: demo_beaten_def DequeueBatch_def claim_eval select_batch_def demo_queued_def)
qed (simp_all add: demo_around_def)



section \<open>The pull loop\<close>

lemma demo_config: "config_ok demo_config"
  by (simp add: config_ok_def demo_config_def)

definition demo_armed :: loop_state where
  "demo_armed = (loop_start demo_config)\<lparr>lp_timer := Some second\<rparr>"

definition demo_polled :: loop_state where
  "demo_polled = (loop_start demo_config)\<lparr>lp_pollNow := False, lp_pending := [3], lp_again := True\<rparr>"

lemma demo_loop: "loop_run demo_config demo_polled \<lparr>hs_claimed = {#3#}, hs_processed = {#}, hs_idle = 0\<rparr>"
proof -
  have "loop_step demo_config (loop_start demo_config) Arm demo_armed"
    using loop_step.arm [of "loop_start demo_config" demo_config]
    by (simp add: at_top_def loop_start_def demo_armed_def demo_config_def)
  note armed = loop_run.goes [OF loop_run.begins this]
  have "loop_step demo_config demo_armed (Poll [3]) demo_polled"
    using loop_step.poll [of demo_armed second demo_config "Inr [3]"]
    by (simp add: demo_armed_def loop_start_def claimed_by_def slots_def on_poll_def Let_def demo_config_def
        demo_polled_def)
  from loop_run.goes [OF armed this] show ?thesis by simp
qed

lemma pull_loop_invariant_witness:
  "int (length (lp_running demo_polled)) \<le> 2 \<and>
   {#3#} = {#} + mset (lp_running demo_polled) + mset (lp_pending demo_polled)"
  using pull_loop_invariant [OF demo_config demo_loop] by (simp add: demo_config_def)

lemma pull_loop_progress_witness: "polls_soon demo_config demo_polled"
  using pull_loop_progress [OF demo_config demo_loop] by (simp add: demo_polled_def loop_start_def)

section \<open>The runtimes\<close>

text \<open>An archive that tries to leave its directory.\<close>

definition demo_archive :: "(string + tar_header) list" where
  "demo_archive = [Inr \<lparr>th_Name = ''./'', th_Typeflag = TypeDir, th_Content = []\<rparr>,
     Inr \<lparr>th_Name = ''./a/r.json'', th_Typeflag = TypeReg, th_Content = ''1''\<rparr>,
     Inr \<lparr>th_Name = ''a/../../../etc/passwd'', th_Typeflag = TypeReg, th_Content = []\<rparr>]"

lemma demo_untar: "untar (\<lambda>a. None) ''/tmp/d'' demo_archive =
   ([MkdirAll ''/tmp/d/a'', Create ''/tmp/d/a/r.json'', CopyTo ''/tmp/d/a/r.json'' ''1''],
    Some ''illegal file path: a/../../../etc/passwd'')"
  by (simp add: demo_archive_def path_Join_def path_Clean_def clean_comps_def push_comp_def path_Dir_def
      entry_ops_def Let_def)

lemma untar_stays_inside_witness:
  "\<exists>cs. list_all plain cs \<and> ''/tmp/d/a/r.json'' = path_Clean ''/tmp/d'' @ below cs"
  using untar_stays_inside [of "''/tmp/d''" "Create ''/tmp/d/a/r.json''" "\<lambda>a. None" demo_archive]
  by (simp add: demo_untar)

definition demo_docker :: docker_answers where
  "demo_docker = \<lparr>dk_TempDir = ''/tmp'', dk_mkdirtemp = Inr ''7'', dk_inspect = None, dk_pull = None,
     dk_create = Inr ''c1'', dk_start = None\<rparr>"

definition demo_dockerd :: docker_host where
  "demo_dockerd = \<lparr>dh_paths = [''/tmp''], dh_containers = []\<rparr>"

definition demo_exec :: exec_host where
  "demo_exec = \<lparr>eh_uuid = ''x'', eh_mkdir = None, eh_stdout = None, eh_stderr = None, eh_start = None, eh_environ = []\<rparr>"

lemma no_directory_left_witness:
  "set (snd (exec_item ''/runs'' demo_exec [] (Some (second, CmdOk)) demo_E Background 3 (Some demo_payload) demo_env [''/''])) \<subseteq>
      {''/''} \<union> item_shared (exec_shared ''/runs'' demo_exec) demo_E 3 (Some demo_payload) \<and>
   docker_paths (snd (docker_item demo_docker (Some (second, WaitStatus 0 None (CopyArchive demo_archive) (\<lambda>a. None) True))
      None True demo_E Background 3 (Some demo_payload) demo_env demo_dockerd)) \<subseteq>
      docker_paths demo_dockerd \<union> item_shared (docker_shared demo_docker) demo_E 3 (Some demo_payload)"
proof -
  have "docker_sane demo_docker" by (simp add: docker_sane_def demo_docker_def)
  from no_directory_left [OF this, of "''/runs''" demo_exec "[]" "Some (second, CmdOk)" demo_E Background 3
      "Some demo_payload" demo_env "[''/'']"] show ?thesis by simp
qed

text \<open>The worker is stopped one second after the job began.\<close>

definition demo_stopped :: run_env where
  "demo_stopped = demo_env\<lparr>re_cancelled := [''worker'' \<mapsto> second]\<rparr>"

lemma demo_started:
  "\<exists>x fs. exec_Start ''/runs'' demo_exec (start_options demo_E 3 demo_job_read) [''/''] = (Inr x, fs)"
  "\<exists>k s. docker_Start demo_docker (start_options demo_E 3 demo_job_read) demo_dockerd = (Inr k, s) \<and> kh_containerID k = ''c1''"
proof -
  let ?o = "start_options demo_E 3 demo_job_read"
  have "slice_elems (so_Command ?o) \<noteq> []" by (simp add: start_options_def demo_job_read_def)
  moreover have "exec_dir ''/runs'' demo_exec ?o \<noteq> []"
    by (simp add: exec_dir_def path_Join_def path_Clean_def clean_comps_def)
  ultimately show "\<exists>x fs. exec_Start ''/runs'' demo_exec ?o [''/''] = (Inr x, fs)"
    by (simp add: exec_Start_def Let_def and_then_def guard_def ret_def make_dir_def undo_dir_def demo_exec_def)
  have "creates demo_docker ''c1''" by (simp add: creates_def demo_docker_def)
  from docker_Start_creates [OF this, of ?o demo_dockerd]
  show "\<exists>k s. docker_Start demo_docker ?o demo_dockerd = (Inr k, s) \<and> kh_containerID k = ''c1''"
    by (cases "docker_Start demo_docker ?o demo_dockerd") (auto simp: demo_docker_def)
qed

lemma sigterm_abandons_job_witness:
  "\<exists>as s. docker_item demo_docker None None True demo_E (WithCancel ''worker'' Background) 3 (Some demo_payload)
      demo_stopped demo_dockerd = (as, s) \<and> reports as = [abandoned None] \<and> ''c1'' \<in> running_ids s"
proof -
  obtain x fs k s where st: "exec_Start ''/runs'' demo_exec (start_options demo_E 3 demo_job_read) [''/''] = (Inr x, fs)"
    "docker_Start demo_docker (start_options demo_E 3 demo_job_read) demo_dockerd = (Inr k, s)" "kh_containerID k = ''c1''"
    using demo_started by metis
  have "second \<le> re_began demo_stopped + job_timeout demo_job_read"
    by (simp add: demo_stopped_def demo_env_def job_timeout_def demo_job_read_def wrap64_def)
  from sigterm_abandons_job [OF demo_job_payload _ this _ _ _ st(1,2), where own = None and event = None and pod = None
      and err = None and stopped = True] st(3)
  show ?thesis by (simp add: demo_stopped_def) metis
qed

definition demo_kube :: kube_answers where
  "demo_kube = \<lparr>ka_polls = [Inr [], Inr [''pod'']], ka_poll_end = Canceled, ka_watch = None,
     ka_events = [PodEvent PodRunning []], ka_done = None\<rparr>"

end
