(* ===== verification/Config.thy ===== *)
theory Config
  imports Runtime_Theorems
begin

text \<open>
  The configuration of \<^verbatim>\<open>internal/config/config.go\<close> and what \<^verbatim>\<open>cmd/worker/main.go\<close> makes of it.
  The viper package is a parameter: what the code tells it to look up, and what it then reads
  and unmarshals.
\<close>

section \<open>Load\<close>

record Config =
  cg_SystemSecret :: string
  cg_DatabaseURL :: string
  cg_HTTPPort :: int
  cg_ControllerURL :: string
  cg_HeartVisibilityExtension :: duration
  cg_WorkerConcurrency :: int
  cg_WorkerPollInterval :: duration
  cg_WorkerMaxBackoff :: duration
  cg_WorkerHeartbeatInterval :: duration
  cg_Runtime :: string
  cg_RuntimeWorkDir :: string
  cg_KubernetesNamespace :: string
  cg_KubernetesServiceAccount :: string
  cg_KubernetesCPULimit :: string
  cg_KubernetesMemoryLimit :: string
  cg_OTELEndpoint :: string

datatype setting = SInt int | SText string

text \<open>What a viper instance has been told: the defaults, the file (given by its path, or the name
  to look for in the current directory), the environment variables bound to keys.\<close>

datatype config_file = FileAt string | FileNamed string string string

record viper_setup =
  vs_defaults :: "(string \<times> setting) list"
  vs_file :: config_file
  vs_env :: "(string \<times> string) list"
  vs_replacer :: "(string \<times> string) list"
  vs_automatic :: bool

record viper =
  vp_ReadInConfig :: "viper_setup \<Rightarrow> string option"
  vp_GetString :: "viper_setup \<Rightarrow> string \<Rightarrow> string"
  vp_Unmarshal :: "viper_setup \<Rightarrow> string + Config"

definition config_defaults :: "(string \<times> setting) list" where
  "config_defaults =
     [(''http_port'', SInt 6161), (''controller_url'', SText ''http://localhost:6161''),
      (''heartbeat_visibility_extension'', SText ''5m''), (''worker_concurrency'', SInt 1),
      (''worker_poll_interval'', SText ''1s''), (''worker_max_backoff'', SText ''30s''),
      (''worker_heartbeat_interval'', SText ''2m''), (''runtime'', SText ''docker''),
      (''otel_endpoint'', SText ''localhost:4317'')]"

definition config_env :: "(string \<times> string) list" where
  "config_env =
     [(''system_secret'', ''SYSTEM_SECRET''), (''database_url'', ''DATABASE_URL''), (''http_port'', ''PORT''),
      (''controller_url'', ''CONTROLLER_URL''),
      (''heartbeat_visibility_extension'', ''HEARTBEAT_VISIBILITY_EXTENSION''),
      (''worker_concurrency'', ''WORKER_CONCURRENCY''), (''worker_poll_interval'', ''WORKER_POLL_INTERVAL''),
      (''worker_max_backoff'', ''WORKER_MAX_BACKOFF''), (''worker_heartbeat_interval'', ''WORKER_HEARTBEAT_INTERVAL''),
      (''runtime'', ''RUNTIME''), (''runtime_workdir'', ''RUNTIME_WORKDIR''),
      (''kubernetes_namespace'', ''KUBERNETES_NAMESPACE''),
      (''kubernetes_service_account'', ''KUBERNETES_SERVICE_ACCOUNT''),
      (''kubernetes_cpu_limit'', ''KUBERNETES_CPU_LIMIT''), (''kubernetes_memory_limit'', ''KUBERNETES_MEMORY_LIMIT''),
      (''otel_endpoint'', ''OTEL_EXPORTER_OTLP_ENDPOINT'')]"

definition viper_setup_of :: "string \<Rightarrow> viper_setup" where
  "viper_setup_of path = \<lparr>vs_defaults = config_defaults,
     vs_file = (if path \<noteq> [] then FileAt path else FileNamed ''jobplane'' ''yaml'' ''.''),
     vs_env = config_env, vs_replacer = [(''.'', ''_'')], vs_automatic = True\<rparr>"

definition quoted :: "string \<Rightarrow> string" where
  "quoted s = CHR 0x27 # s @ [CHR 0x27]"

definition bad_runtime :: "string \<Rightarrow> string" where
  "bad_runtime rt = ''invalid runtime: must be '' @ quoted ''docker'' @ '', '' @ quoted ''exec'' @ '', or '' @
     quoted ''kubernetes'' @ '', got '' @ quoted rt"

definition Load :: "viper \<Rightarrow> string \<Rightarrow> string + Config" where
  "Load v path =
     (let su = viper_setup_of path in
      case (if path \<noteq> [] then vp_ReadInConfig v su else None) of
        Some err \<Rightarrow> Inl (''failed to read config file: '' @ err)
      | None \<Rightarrow>
          if vp_GetString v su ''database_url'' = [] then Inl ''database_url is required (env: DATABASE_URL)''
          else if vp_GetString v su ''system_secret'' = [] then Inl ''system_secret is required (env: SYSTEM_SECRET)''
          else case vp_Unmarshal v su of
            Inl err \<Rightarrow> Inl (''failed to parse config: '' @ err)
          | Inr cfg \<Rightarrow>
              if cg_Runtime cfg \<noteq> ''docker'' \<and> cg_Runtime cfg \<noteq> ''exec'' \<and> cg_Runtime cfg \<noteq> ''kubernetes''
              then Inl (bad_runtime (cg_Runtime cfg))
              else Inr (cfg\<lparr>cg_HeartVisibilityExtension := positive_or (5 * minute) (cg_HeartVisibilityExtension cfg)\<rparr>))"

section \<open>The worker\<close>

datatype runtime_choice = UseExec string | UseKubernetes KubernetesConfig | UseDocker

definition choose_runtime :: "Config \<Rightarrow> runtime_choice" where
  "choose_runtime cfg =
     (if cg_Runtime cfg = ''exec'' then UseExec (cg_RuntimeWorkDir cfg)
      else if cg_Runtime cfg = ''kubernetes'' then UseKubernetes
        \<lparr>kc_Namespace = cg_KubernetesNamespace cfg, kc_ServiceAccount = cg_KubernetesServiceAccount cfg,
         kc_DefaultCPULimit = cg_KubernetesCPULimit cfg, kc_DefaultMemoryLimit = cg_KubernetesMemoryLimit cfg\<rparr>
      else UseDocker)"

definition worker_config :: "Config \<Rightarrow> AgentConfig" where
  "worker_config cfg = \<lparr>ac_ID = [], ac_Concurrency = cg_WorkerConcurrency cfg,
     ac_PollInterval = cg_WorkerPollInterval cfg, ac_ControllerURL = cg_ControllerURL cfg,
     ac_MaxBackoff = cg_WorkerMaxBackoff cfg, ac_HeartbeatInterval = cg_WorkerHeartbeatInterval cfg,
     ac_SystemSecret = cg_SystemSecret cfg\<rparr>"

text \<open>What the viper package documents of \<^verbatim>\<open>Unmarshal\<close>, as far as it is needed: the field of a key
  that \<^verbatim>\<open>GetString\<close> finds a text for is not left empty. The texts need not be the same; of a boolean
  in a YAML file the one makes \<^verbatim>\<open>true\<close> and the other \<^verbatim>\<open>1\<close>.\<close>

definition viper_law :: "viper \<Rightarrow> bool" where
  "viper_law v \<longleftrightarrow> (\<forall>su cfg. vp_Unmarshal v su = Inr cfg \<longrightarrow>
     (vp_GetString v su ''system_secret'' \<noteq> [] \<longrightarrow> cg_SystemSecret cfg \<noteq> []) \<and>
     (vp_GetString v su ''database_url'' \<noteq> [] \<longrightarrow> cg_DatabaseURL cfg \<noteq> []))"

lemma Load_Inr:
  assumes "Load v path = Inr cfg"
  obtains c where "vp_Unmarshal v (viper_setup_of path) = Inr c"
    and "cfg = c\<lparr>cg_HeartVisibilityExtension := positive_or (5 * minute) (cg_HeartVisibilityExtension c)\<rparr>"
    and "cg_Runtime c \<in> {''docker'', ''exec'', ''kubernetes''}"
    and "vp_GetString v (viper_setup_of path) ''database_url'' \<noteq> []"
    and "vp_GetString v (viper_setup_of path) ''system_secret'' \<noteq> []"
  using assms that
  by (cases "vp_Unmarshal v (viper_setup_of path)") (auto simp: Load_def Let_def split: option.splits if_splits)

text \<open>A configuration that loads is one the programs can run with: the runtime is one of the
  three, the secret and the address of the database are not empty, heartbeats extend a claim by
  a positive time, and the worker made from it has a positive concurrency, intervals and maximal
  backoff, whatever numbers the file and the environment held.\<close>

lemma loaded_usable:
  assumes "viper_law v" and "Load v path = Inr cfg"
  shows "cg_Runtime cfg \<in> {''docker'', ''exec'', ''kubernetes''} \<and>
    cg_SystemSecret cfg \<noteq> [] \<and> cg_DatabaseURL cfg \<noteq> [] \<and> 0 < cg_HeartVisibilityExtension cfg \<and>
    (let A = New_config (worker_config cfg) in
     1 \<le> ac_Concurrency A \<and> 0 < ac_PollInterval A \<and> 0 < ac_MaxBackoff A \<and> 0 < ac_HeartbeatInterval A \<and>
     ac_SystemSecret A = cg_SystemSecret cfg)"
proof -
  obtain c where "vp_Unmarshal v (viper_setup_of path) = Inr c" and
    cfg: "cfg = c\<lparr>cg_HeartVisibilityExtension := positive_or (5 * minute) (cg_HeartVisibilityExtension c)\<rparr>" and
    c: "cg_Runtime c \<in> {''docker'', ''exec'', ''kubernetes''}"
      "vp_GetString v (viper_setup_of path) ''database_url'' \<noteq> []"
      "vp_GetString v (viper_setup_of path) ''system_secret'' \<noteq> []"
    using Load_Inr [OF assms(2)] .
  moreover from this have "cg_SystemSecret c \<noteq> []" "cg_DatabaseURL c \<noteq> []"
    using assms(1) by (simp_all add: viper_law_def)
  moreover have "0 < positive_or (5 * minute) n" for n by (simp add: positive_or_def)
  moreover have "ac_SystemSecret (New_config A) = ac_SystemSecret A" for A by (simp add: New_config_def)
  ultimately show ?thesis
    using New_config_positive by (simp add: Let_def worker_config_def)
qed

end
