(* ===== verification/Cli.thy ===== *)
theory Cli
  imports Wire
begin

text \<open>
  The command line client of \<^verbatim>\<open>cmd/cli/cmd\<close>: the methods of \<^verbatim>\<open>JobClient\<close>, one request each,
  and the commands over them. The network is a function from a request and a state to an
  exchange and the next state; what a command does is the text it prints and the code it exits
  with. Texts of errors of the network and of the JSON decoder come with the exchange.
\<close>

section \<open>The client\<close>

record JobClient =
  jc_BaseURL :: string
  jc_Token :: string

text \<open>The request could not be made, no answer came, or an answer with its status, its body, the
  body's text and the error of its decoding, should it have one.\<close>

datatype exchange =
    NotMade string
  | NoAnswer string
  | Answer nat http_body string string

type_synonym 's wire = "client_request \<Rightarrow> 's \<Rightarrow> exchange \<times> 's"

datatype client_error =
    MarshalError string
  | RequestError string
  | RequestFailed string
  | APIError nat string
  | ParseError string

text \<open>\<^verbatim>\<open>Error()\<close> of the errors the methods return.\<close>

fun error_text :: "client_error \<Rightarrow> string" where
  "error_text (MarshalError e) = e"
| "error_text (RequestError e) = ''failed to create request: '' @ e"
| "error_text (RequestFailed e) = ''request failed: '' @ e"
| "error_text (APIError code msg) = ''API error ('' @ itoa (int code) @ ''): '' @ msg"
| "error_text (ParseError e) = ''failed to parse response: '' @ e"

definition http_request :: "JobClient \<Rightarrow> string \<Rightarrow> string \<Rightarrow> json option \<Rightarrow> client_request" where
  "http_request c meth path b = \<lparr>cq_Method = meth, cq_URL = jc_BaseURL c @ path,
     cq_Header = [(''Authorization'', ''Bearer '' @ jc_Token c), (''Content-Type'', ''application/json'')],
     cq_Body = b\<rparr>"

definition call :: "'s wire \<Rightarrow> nat list \<Rightarrow> (json \<Rightarrow> 'a option) \<Rightarrow> client_request \<Rightarrow> (client_error, 'a, 's) prog" where
  "call wire accepted dec rq s =
     (case wire rq s of
        (NotMade e, s') \<Rightarrow> (Inl (RequestError e), s')
      | (NoAnswer e, s') \<Rightarrow> (Inl (RequestFailed e), s')
      | (Answer code b txt perr, s') \<Rightarrow>
          if code \<notin> set accepted then (Inl (APIError code txt), s')
          else (case decode_body dec b of Inl _ \<Rightarrow> (Inl (ParseError perr), s') | Inr x \<Rightarrow> (Inr x, s')))"

definition client_CreateJob :: "'s wire \<Rightarrow> JobClient \<Rightarrow> CreateJobRequest \<Rightarrow> (client_error, string, 's) prog" where
  "client_CreateJob wire c req =
     call wire [200, 201] dec_CreateJobResponse (http_request c ''POST'' ''/jobs'' (Some (enc_CreateJobRequest req)))"

definition client_RunJob :: "'s wire \<Rightarrow> JobClient \<Rightarrow> string \<Rightarrow> RunJobRequest \<Rightarrow> (client_error, string, 's) prog" where
  "client_RunJob wire c jobID req =
     (case enc_RunJobRequest req of
        None \<Rightarrow> throw (MarshalError ''invalid request body'')
      | Some b \<Rightarrow> call wire [200, 201] dec_RunJobResponse
          (http_request c ''POST'' (''/jobs/'' @ jobID @ ''/run'') (Some b)))"

definition client_GetExecution :: "'s wire \<Rightarrow> JobClient \<Rightarrow> string \<Rightarrow> (client_error, ExecutionResponse, 's) prog" where
  "client_GetExecution wire c eid =
     call wire [200] dec_ExecutionResponse (http_request c ''GET'' (''/executions/'' @ eid) None)"

definition client_GetLogs :: "'s wire \<Rightarrow> JobClient \<Rightarrow> string \<Rightarrow> int \<Rightarrow> (client_error, ApiLogEntry list, 's) prog" where
  "client_GetLogs wire c eid afterID =
     and_then (call wire [200] dec_GetLogsResponse
       (http_request c ''GET'' (''/executions/'' @ eid @ ''/logs?after_id='' @ itoa afterID) None)) (\<lambda>ls.
     ret (slice_elems ls))"

definition client_ListDLQ :: "'s wire \<Rightarrow> JobClient \<Rightarrow> int \<Rightarrow> int \<Rightarrow> (client_error, DLQExecutionResponse list, 's) prog" where
  "client_ListDLQ wire c limit offset =
     and_then (call wire [200] (dec_slice dec_DLQExecutionResponse)
       (http_request c ''GET'' (''/executions/dlq?limit='' @ itoa limit @ ''&offset='' @ itoa offset) None)) (\<lambda>es.
     ret (slice_elems es))"

definition client_RetryDLQ :: "'s wire \<Rightarrow> JobClient \<Rightarrow> string \<Rightarrow> (client_error, string, 's) prog" where
  "client_RetryDLQ wire c eid =
     call wire [200] dec_RetryDQLExecutionResponse (http_request c ''POST'' (''/executions/dlq/'' @ eid @ ''/retry'') None)"

section \<open>Creating and running jobs\<close>

abbreviation nl :: string where
  "nl \<equiv> [CHR 0x0A]"

definition no_token :: string where
  "no_token = ''API token not found. Please set it using the --token flag or the JOBPLANE_TOKEN environment variable'' @ nl"

text \<open>What is printed and the exit code.\<close>

type_synonym 's command = "'s \<Rightarrow> (string \<times> nat) \<times> 's"

definition prints :: "string \<Rightarrow> 's command" where
  "prints txt s = ((txt, 0), s)"

text \<open>A method's result, printed by \<open>ok\<close>, or its error by \<open>api\<close> and \<open>other\<close>.\<close>

definition outcome ::
    "(client_error, 'a, 's) prog \<Rightarrow> (nat \<Rightarrow> string \<Rightarrow> string) \<Rightarrow> (string \<Rightarrow> string) \<Rightarrow> ('a \<Rightarrow> 's command) \<Rightarrow> 's command" where
  "outcome m api other ok s =
     (case m s of
        (Inr x, s') \<Rightarrow> ok x s'
      | (Inl (APIError code msg), s') \<Rightarrow> prints (api code msg) s'
      | (Inl e, s') \<Rightarrow> prints (other (error_text e)) s')"

definition failed_with :: "string \<Rightarrow> nat \<Rightarrow> string \<Rightarrow> string" where
  "failed_with what code msg = what @ '' ('' @ itoa (int code) @ ''): '' @ msg @ nl"

definition failed :: "string \<Rightarrow> string \<Rightarrow> string" where
  "failed what e = what @ '': '' @ e @ nl"

record job_flags =
  jf_name :: string
  jf_image :: string
  jf_command :: "string list"
  jf_timeout :: int
  jf_priority :: int

definition flags_error :: "job_flags \<Rightarrow> string option" where
  "flags_error f =
     (if jf_name f = [] then Some (''Error: --name is required'' @ nl)
      else if jf_image f = [] then Some (''Error: --image is required'' @ nl)
      else if jf_command f = [] then Some (''Error: --command is required'' @ nl)
      else None)"

definition create_request :: "job_flags \<Rightarrow> CreateJobRequest" where
  "create_request f = \<lparr>cj_Name = jf_name f, cj_Image = jf_image f, cj_Command = Some (jf_command f),
     cj_DefaultTimeout = jf_timeout f, cj_Priority = jf_priority f, cj_CallbackURL = None, cj_CallbackHeaders = None\<rparr>"

text \<open>The check mark and the rocket in UTF-8.\<close>

definition check_mark :: string where
  "check_mark = [CHR 0xE2, CHR 0x9C, CHR 0x93]"

definition rocket :: string where
  "rocket = [CHR 0xF0, CHR 0x9F, CHR 0x9A, CHR 0x80]"

definition green_check :: string where
  "green_check = [CHR 0xE2, CHR 0x9C, CHR 0x85]"

definition cmd_create :: "'s wire \<Rightarrow> JobClient \<Rightarrow> job_flags \<Rightarrow> 's command" where
  "cmd_create wire c f =
     (if jc_Token c = [] then prints no_token
      else case flags_error f of
        Some e \<Rightarrow> prints e
      | None \<Rightarrow> outcome (client_CreateJob wire c (create_request f)) (failed_with ''Error'') (failed ''Error'')
          (\<lambda>jid. prints (check_mark @ '' Job created!'' @ nl @ ''ID: '' @ jid @ nl @ ''Name: '' @ jf_name f @ nl)))"

text \<open>\<open>parse\<close> is \<^verbatim>\<open>time.Parse(time.RFC3339, _)\<close>.\<close>

definition cmd_run :: "'s wire \<Rightarrow> (string \<Rightarrow> string + time) \<Rightarrow> JobClient \<Rightarrow> string \<Rightarrow> string \<Rightarrow> string \<Rightarrow> 's command" where
  "cmd_run wire parse c jobID scheduleAt callbackURL =
     (if jc_Token c = [] then prints no_token
      else case (if scheduleAt = [] then Inr None else map_sum id Some (parse scheduleAt)) of
        Inl err \<Rightarrow> prints (''Invalid schedule format. Use RFC3339 (e.g. 2024-01-01T12:00:00Z): '' @ err @ nl)
      | Inr at \<Rightarrow>
          outcome (client_RunJob wire c jobID \<lparr>rj_ScheduledAt = at,
              rj_CallbackURL = (if callbackURL = [] then None else Some callbackURL), rj_CallbackHeaders = None\<rparr>)
            (failed_with ''Error'') (failed ''Error'')
            (\<lambda>eid. prints (rocket @ '' Execution started!'' @ nl @ ''ID: '' @ eid @ nl)))"

definition cmd_submit :: "'s wire \<Rightarrow> JobClient \<Rightarrow> job_flags \<Rightarrow> 's command" where
  "cmd_submit wire c f =
     (if jc_Token c = [] then prints no_token
      else case flags_error f of
        Some e \<Rightarrow> prints e
      | None \<Rightarrow> outcome (client_CreateJob wire c (create_request f)) (failed_with ''Create failed'') (failed ''Create failed'')
          (\<lambda>jid. outcome (client_RunJob wire c jid zero_RunJobRequest)
            (failed_with (''Job created (ID: '' @ jid @ '') but run failed''))
            (failed (''Job created (ID: '' @ jid @ '') but run failed''))
            (\<lambda>eid. prints (check_mark @ '' Job submitted!'' @ nl @ ''Job ID: '' @ jid @ nl @ ''Execution ID: '' @ eid @ nl))))"

section \<open>The dead letter queue\<close>

definition exits :: "nat \<Rightarrow> string \<Rightarrow> 's command" where
  "exits code txt s = ((txt, code), s)"

text \<open>A row of the table before \<^verbatim>\<open>tabwriter\<close> aligns it.\<close>

definition dlq_message :: "string option \<Rightarrow> string" where
  "dlq_message m = (case m of None \<Rightarrow> [] | Some e \<Rightarrow> if length e > 50 then take 47 e @ ''...'' else e)"

definition dlq_row_of :: "(time \<Rightarrow> string) \<Rightarrow> DLQExecutionResponse \<Rightarrow> string list" where
  "dlq_row_of rfc3339 e = [xl_ExecutionID e, xl_JobName e, itoa (xl_Attempts e),
     (case xl_FailedAt e of None \<Rightarrow> [] | Some t \<Rightarrow> rfc3339 t), dlq_message (xl_ErrorMessage e)]"

definition dlq_head :: "string list" where
  "dlq_head = [''EXECUTION ID'', ''JOB'', ''ATTEMPTS'', ''FAILED AT'', ''ERROR'']"

definition cmd_dlq_list ::
    "'s wire \<Rightarrow> (string list list \<Rightarrow> string) \<Rightarrow> (time \<Rightarrow> string) \<Rightarrow> JobClient \<Rightarrow> int \<Rightarrow> int \<Rightarrow> 's command" where
  "cmd_dlq_list wire table rfc3339 c limit offset s =
     (case client_ListDLQ wire c limit offset s of
        (Inl e, s') \<Rightarrow> exits 1 (failed ''Error fetching DLQ'' (error_text e)) s'
      | (Inr es, s') \<Rightarrow>
          if es = [] then
            prints ((if offset > 0 then ''No more executions found in DLQ.'' else ''No executions found in DLQ.'') @ nl) s'
          else prints (table (dlq_head # map (dlq_row_of rfc3339) es)) s')"

definition cmd_dlq_retry :: "'s wire \<Rightarrow> JobClient \<Rightarrow> string \<Rightarrow> 's command" where
  "cmd_dlq_retry wire c eid s =
     (case client_RetryDLQ wire c eid s of
        (Inl e, s') \<Rightarrow> exits 1 (failed ''Error retrying execution'' (error_text e)) s'
      | (Inr n, s') \<Rightarrow> prints (green_check @ '' Execution '' @ eid @ '' retried successfully.'' @ nl @
          ''   New Execution ID: '' @ n @ nl) s')"

section \<open>Logs\<close>

definition show_log :: "ApiLogEntry \<Rightarrow> string" where
  "show_log l = al_Content l @ (if al_Content l \<noteq> [] \<and> last (al_Content l) \<noteq> CHR 0x0A then nl else [])"

definition last_id :: "ApiLogEntry list \<Rightarrow> int \<Rightarrow> int" where
  "last_id ls n = fold (\<lambda>l n. if al_ID l > n then al_ID l else n) ls n"

text \<open>One turn of the loop: what it prints, the last identifier, and the pause before the next
  turn, if there is one.\<close>

definition logs_turn :: "bool \<Rightarrow> client_error + ApiLogEntry list \<Rightarrow> int \<Rightarrow> string \<times> int \<times> duration option" where
  "logs_turn follow res lastID =
     (case res of
        Inl e \<Rightarrow> (failed ''Error fetching logs'' (error_text e), lastID, if follow then Some (2 * second) else None)
      | Inr ls \<Rightarrow> (concat (map show_log ls), last_id ls lastID,
          if follow then Some (1 * second) else if ls = [] then None else Some 0))"

text \<open>The loop, which need not end; the pauses it makes do not matter to it.\<close>

partial_function (option) logs_loop ::
    "(int \<Rightarrow> (client_error, ApiLogEntry list, 's) prog) \<Rightarrow> bool \<Rightarrow> int \<Rightarrow> 's \<Rightarrow> (string \<times> 's) option" where
  [code]: "logs_loop fetch follow lastID s =
     (let (res, s') = fetch lastID s; (txt, lastID', pause) = logs_turn follow res lastID in
      (if pause = None then Some (txt, s')
       else Option.bind (logs_loop fetch follow lastID' s') (\<lambda>(more, t). Some (txt @ more, t))))"

definition cmd_logs :: "'s wire \<Rightarrow> JobClient \<Rightarrow> bool \<Rightarrow> string \<Rightarrow> 's \<Rightarrow> (string \<times> 's) option" where
  "cmd_logs wire c follow eid s =
     (if jc_Token c = [] then Some (no_token, s)
      else logs_loop (client_GetLogs wire c eid) follow 0 s)"

end
