(* ===== verification/Cli_Status.thy ===== *)
theory Cli_Status
  imports Cli
begin

text \<open>
  The command \<^verbatim>\<open>jobctl status\<close> of \<^verbatim>\<open>cmd/cli/cmd/status.go\<close> and how it shows an execution. The
  seconds, minutes and hours of a duration, which the code computes in floating point, are
  taken exactly; the layout of a date, the one-digit fraction of seconds and the indentation of
  JSON are arguments.
\<close>

section \<open>Colours\<close>

definition esc :: "string \<Rightarrow> string" where
  "esc s = CHR 0x1B # CHR ''['' # s @ ''m''"

definition colorReset :: string where "colorReset = esc ''0''"
definition colorBold :: string where "colorBold = esc ''1''"
definition colorDim :: string where "colorDim = esc ''2''"
definition colorRed :: string where "colorRed = esc ''31''"
definition colorGreen :: string where "colorGreen = esc ''32''"
definition colorYellow :: string where "colorYellow = esc ''33''"
definition colorCyan :: string where "colorCyan = esc ''36''"

definition cross :: string where "cross = [CHR 0xE2, CHR 0x9C, CHR 0x97]"
definition hourglass :: string where "hourglass = [CHR 0xE2, CHR 0x8F, CHR 0xB3]"
definition circle :: string where "circle = [CHR 0xE2, CHR 0x97, CHR 0xAF]"
definition bullet :: string where "bullet = [CHR 0xE2, CHR 0x80, CHR 0xA2]"
definition rule_line :: string where "rule_line = concat (replicate 30 [CHR 0xE2, CHR 0x94, CHR 0x80])"

definition statusIcon :: "string \<Rightarrow> string" where
  "statusIcon st =
     (if st = ''SUCCEEDED'' then colorGreen @ check_mark @ colorReset
      else if st = ''FAILED'' then colorRed @ cross @ colorReset
      else if st = ''RUNNING'' then colorYellow @ hourglass @ colorReset
      else if st = ''PENDING'' then colorCyan @ circle @ colorReset
      else bullet)"

definition colorizeStatus :: "string \<Rightarrow> string" where
  "colorizeStatus st =
     (if st = ''SUCCEEDED'' then statusIcon st @ '' '' @ colorGreen @ st @ colorReset
      else if st = ''FAILED'' then statusIcon st @ '' '' @ colorRed @ st @ colorReset
      else if st = ''RUNNING'' then statusIcon st @ '' '' @ colorYellow @ st @ colorReset
      else if st = ''PENDING'' then statusIcon st @ '' '' @ colorCyan @ st @ colorReset
      else st)"

definition colorizeCallbackStatus :: "string \<Rightarrow> string" where
  "colorizeCallbackStatus st =
     (if st = ''DELIVERED'' then colorGreen @ check_mark @ '' '' @ st @ colorReset
      else if st = ''FAILED'' then colorRed @ cross @ '' '' @ st @ colorReset
      else if st = ''PENDING'' then colorYellow @ hourglass @ '' '' @ st @ colorReset
      else st)"

section \<open>Durations\<close>

text \<open>The conversion of a quotient to an integer: towards zero.\<close>

definition whole :: "duration \<Rightarrow> duration \<Rightarrow> int" where
  "whole d unit = sgn d * (\<bar>d\<bar> div unit)"

text \<open>\<^verbatim>\<open>%\<close> of Go, whose result has the sign of its first operand.\<close>

definition go_mod :: "int \<Rightarrow> int \<Rightarrow> int" where
  "go_mod a b = sgn a * (\<bar>a\<bar> mod b)"

definition relativeTime :: "duration \<Rightarrow> string" where
  "relativeTime d =
     (if d < minute then itoa (whole d second) @ ''s''
      else if d < hour then itoa (whole d minute) @ ''m''
      else if d < 24 * hour then itoa (whole d hour) @ ''h''
      else let days = whole d (24 * hour) in
        if days = 1 then ''1 day'' else itoa days @ '' days'')"

definition formatDuration :: "(duration \<Rightarrow> string) \<Rightarrow> duration \<Rightarrow> string" where
  "formatDuration tenths d =
     (if d < second then itoa (whole d 1000000) @ ''ms''
      else if d < minute then tenths d @ ''s''
      else if d < hour then itoa (whole d minute) @ ''m '' @ itoa (go_mod (whole d second) 60) @ ''s''
      else itoa (whole d hour) @ ''h '' @ itoa (go_mod (whole d minute) 60) @ ''m'')"

text \<open>The units shown of a duration of a minute or more add up to it, but for the rest of the
  smaller unit.\<close>

lemma sixties:
  assumes "0 < (b::int)"
  shows "d div (60 * b) * (60 * b) + d div b mod 60 * b = d - d mod b"
proof -
  have "d div (60 * b) = d div b div 60"
    by (subst mult.commute) (simp add: zdiv_zmult2_eq)
  then have "d div (60 * b) * (60 * b) + d div b mod 60 * b = (d div b div 60 * 60 + d div b mod 60) * b"
    by (simp only: distrib_right mult.assoc)
  also have "\<dots> = d div b * b" by (simp only: div_mult_mod_eq)
  also have "\<dots> = d - d mod b" by (simp only: minus_mod_eq_div_mult)
  finally show ?thesis .
qed

lemma formatDuration_units:
  assumes "minute \<le> d"
  shows "whole d minute * minute + go_mod (whole d second) 60 * second = d - d mod second"
    and "whole d hour * hour + go_mod (whole d minute) 60 * minute = d - d mod minute"
proof -
  have w: "whole d u = d div u" for u using assms by (simp add: whole_def)
  have m: "go_mod x 60 = x mod 60" if "0 \<le> x" for x
    using that by (cases "x = 0") (simp_all add: go_mod_def)
  have pos: "0 \<le> d div u" if "0 < u" for u using assms that by (simp add: pos_imp_zdiv_nonneg_iff)
  have s: "whole d (60 * u) * (60 * u) + go_mod (whole d u) 60 * u = d - d mod u" if "0 < u" for u
    unfolding w m [OF pos [OF that]] by (rule sixties [OF that])
  show "whole d minute * minute + go_mod (whole d second) 60 * second = d - d mod second"
    using s [of second] by simp
  show "whole d hour * hour + go_mod (whole d minute) 60 * minute = d - d mod minute"
    using s [of minute] by simp
qed

section \<open>The command\<close>

record printer =
  pr_now :: time
  pr_date :: "time \<Rightarrow> string"
  pr_tenths :: "duration \<Rightarrow> string"
  pr_indent :: "json \<Rightarrow> string"

definition formatTimeWithRelative :: "printer \<Rightarrow> time option \<Rightarrow> string" where
  "formatTimeWithRelative P t =
     (case t of
        None \<Rightarrow> ''-''
      | Some u \<Rightarrow> pr_date P u @ '' '' @ colorDim @ ''('' @ relativeTime (pr_now P - u) @ '' ago)'' @ colorReset)"

definition status_line :: "string \<Rightarrow> string \<Rightarrow> string" where
  "status_line label txt = colorDim @ label @ colorReset @ txt @ nl"

definition exit_code_text :: "int option \<Rightarrow> string" where
  "exit_code_text c =
     (case c of
        None \<Rightarrow> ''-''
      | Some n \<Rightarrow> (if n = 0 then colorGreen else colorRed) @ itoa n @ colorReset)"

definition finished_text :: "printer \<Rightarrow> ExecutionResponse \<Rightarrow> string" where
  "finished_text P e =
     (case (xr_StartedAt e, xr_CompletedAt e) of
        (Some a, Some b) \<Rightarrow> formatTimeWithRelative P (Some b) @ '' '' @ colorCyan @ ''('' @
          formatDuration (pr_tenths P) (b - a) @ '')'' @ colorReset
      | _ \<Rightarrow> formatTimeWithRelative P (xr_CompletedAt e))"

definition printStatus :: "printer \<Rightarrow> ExecutionResponse \<Rightarrow> string" where
  "printStatus P e =
     statusIcon (xr_Status e) @ '' '' @ colorBold @ ''Execution Details'' @ colorReset @ nl @ rule_line @ nl @
     status_line ''ID:'' (''          '' @ xr_ID e) @
     status_line ''Status:'' (''      '' @ colorizeStatus (xr_Status e)) @
     status_line ''Attempt:'' (''     '' @ itoa (xr_Attempt e)) @
     status_line ''Exit Code:'' (''   '' @ exit_code_text (xr_ExitCode e)) @
     (case xr_Error e of None \<Rightarrow> [] | Some m \<Rightarrow> status_line ''Error:'' (''       '' @ colorRed @ m @ colorReset)) @
     status_line ''Started:'' (''     '' @ formatTimeWithRelative P (xr_StartedAt e)) @
     status_line ''Finished:'' (''    '' @ finished_text P e) @
     (case xr_Result e of None \<Rightarrow> [] | Some j \<Rightarrow> status_line ''Result:'' (''      '' @ pr_indent P j)) @
     (case xr_CallbackURL e of
        None \<Rightarrow> []
      | Some u \<Rightarrow>
          if u = [] then []
          else status_line ''Callback:'' (''    '' @ u) @
            (if xr_CallbackStatus e = [] then []
             else status_line ''CB Status:'' (''   '' @ colorizeCallbackStatus (xr_CallbackStatus e))))"

definition cmd_status :: "'s wire \<Rightarrow> printer \<Rightarrow> JobClient \<Rightarrow> string \<Rightarrow> 's command" where
  "cmd_status wire P c eid =
     (if jc_Token c = [] then prints no_token
      else outcome (client_GetExecution wire c eid)
        (\<lambda>code msg. ''Request failed with status code: '' @ itoa (int code) @ nl) (failed ''Error'')
        (\<lambda>e. prints (printStatus P e)))"

end
