(* ===== verification/Cli_Theorems.thy ===== *)
theory Cli_Theorems
  imports Cli_Status Handler_Theorems
begin

text \<open>
  The client against the controller: a request of the client reaches the controller's
  \<^verbatim>\<open>ServeHTTP\<close>, and \<^verbatim>\<open>jobctl logs\<close> prints the whole log of an execution.
\<close>

section \<open>Requests on their way\<close>

definition answered :: "(json \<Rightarrow> string) \<Rightarrow> response \<Rightarrow> exchange" where
  "answered render resp =
     (case rs_body resp of
        EmptyBody \<Rightarrow> Answer (rs_status resp) NoBytes [] ''unexpected end of JSON input''
      | TextBody s \<Rightarrow> Answer (rs_status resp) Malformed s ''invalid character''
      | JsonBody j \<Rightarrow> Answer (rs_status resp) (Doc j) (render j) ''cannot unmarshal'')"

definition controller_wire :: "(json \<Rightarrow> string) \<Rightarrow> 'l controller \<Rightarrow> surroundings \<Rightarrow> string \<Rightarrow> 'l server wire" where
  "controller_wire render C n base rq s =
     (case served render C n base rq s of ((resp, hooks), s') \<Rightarrow> (answered render resp, s'))"

text \<open>A limiter with tokens to spare, and the bearer of a token.\<close>

definition lenient :: "'l rate \<Rightarrow> bool" where
  "lenient P \<longleftrightarrow> (\<forall>now l. fst (rate_Allow P now l))"

definition bearer :: "externals \<Rightarrow> string \<Rightarrow> tenant \<Rightarrow> database \<Rightarrow> bool" where
  "bearer E token t d \<longleftrightarrow> CHR '' '' \<notin> set token \<and> GetTenantByAPIKeyHash (HashKey E token) (calm d) = (Inr t, calm d)"

lemma lenient_take_token: "lenient P \<Longrightarrow> fst (take_token P ttl now t ls)"
  by (auto simp: lenient_def take_token_def split: prod.split) (metis fst_conv)

text \<open>What a handler behind the tenants' middlewares answers is what the client gets.\<close>

lemma tenant_request_served:
  assumes lenient: "lenient (co_rate C)" and bearer: "bearer (co_externals C) (jc_Token c) t d"
    and rq: "rq = http_request c meth target b" and access: "access_of rt = TenantAuth"
    and route: "route_of (co_metrics C \<noteq> None) meth (url_segments target) = Some (rt, v)"
    and h: "tenant_handler C n rt (Some t) ((received render target rq)\<lparr>rq_path_id := v\<rparr>) (calm d) = (reply resp, calm d')"
    and s: "sv_session s = calm d"
  obtains ls where "controller_wire render C n (jc_BaseURL c) rq s =
    (answered render resp, s\<lparr>sv_limiters := ls, sv_session := calm d'\<rparr>)"
proof -
  define r where "r = (received render target rq)\<lparr>rq_path_id := v\<rparr>"
  have auth: "rq_authorization r = ''Bearer '' @ jc_Token c" by (simp add: r_def rq http_request_def)
  have bt: "bearer_token (split_on CHR '' '' (rq_authorization r)) = Some (jc_Token c)"
    unfolding auth bearer_token_iff using bearer by (simp add: bearer_def)
  obtain ls where tok: "take_token (co_rate C) default_ttl (go_now (en_clocks n)) t (sv_limiters s) = (True, ls)"
    using lenient_take_token [OF lenient, of default_ttl "go_now (en_clocks n)" t "sv_limiters s"]
    by (cases "take_token (co_rate C) default_ttl (go_now (en_clocks n)) t (sv_limiters s)") simp
  have lk: "server_lookup (HashKey (co_externals C) (jc_Token c)) s = (Inr t, s)"
    using bearer s by (simp add: server_lookup_def on_session_def bearer_def)
  have "tenant_chain C n rt r s = (reply resp, s\<lparr>sv_limiters := ls, sv_session := calm d'\<rparr>)"
    using bt lk tok h [folded r_def] s auth
    by (simp add: tenant_chain_def AuthMiddleware_def RateMiddleware_def TenantFromContext_def on_session_def)
  then have "ServeHTTP C n meth (url_segments target) (received render target rq) s =
      ((resp, []), s\<lparr>sv_limiters := ls, sv_session := calm d'\<rparr>)"
    using route access by (simp add: ServeHTTP_def r_def [symmetric] reply_def)
  moreover have "drop (length (jc_BaseURL c)) (cq_URL rq) = target" "cq_Method rq = meth"
    by (simp_all add: rq http_request_def)
  ultimately have "controller_wire render C n (jc_BaseURL c) rq s =
      (answered render resp, s\<lparr>sv_limiters := ls, sv_session := calm d'\<rparr>)"
    by (simp add: controller_wire_def served_def Let_def)
  then show ?thesis by (rule that)
qed

section \<open>Running a job\<close>










lemma parse_digits_chars: "parse_digits acc cs = Some n \<Longrightarrow> c \<in> set cs \<Longrightarrow> digit_value c \<noteq> None"
  by (induction cs arbitrary: acc) (auto split: option.splits)

lemma itoa_chars: "c \<in> set (itoa n) \<Longrightarrow> c = CHR ''-'' \<or> digit_value c \<noteq> None"
  using parse_digits_chars [OF parse_nat_digits] by (auto simp: itoa_def split: if_splits)

lemma itoa_no_separator: "CHR ''&'' \<notin> set (itoa n)"
proof
  assume "CHR ''&'' \<in> set (itoa n)"
  from itoa_chars [OF this] show False by (simp add: digit_value_def Let_def)
qed

lemma itoa_nonempty: "itoa n \<noteq> []"
  by (metis atoi.simps(1) itoa_def list.discI nat_digits_Cons)

lemma logs_target:
  assumes "plain_id w"
  shows "url_segments (''/executions/'' @ w @ ''/logs?after_id='' @ itoa k) = [''executions'', w, ''logs'']"
    and "url_query (''/executions/'' @ w @ ''/logs?after_id='' @ itoa k) = [(''after_id'', itoa k)]"
proof -
  have w: "\<forall>c \<in> set w. c \<noteq> CHR ''?''" "CHR ''/'' \<notin> set w" "w \<noteq> []" using assms by (auto simp: plain_id_def)
  have "takeWhile (\<lambda>c. c \<noteq> CHR ''?'') (''/executions/'' @ w @ ''/logs?after_id='' @ itoa k) = ''/executions/'' @ w @ ''/logs''"
    using w(1) by (simp add: takeWhile_append2)
  moreover have "split_on CHR ''/'' (w @ ''/logs'') = [w, ''logs'']"
    using split_on_append [OF w(2), of "''logs''"] by simp
  ultimately show "url_segments (''/executions/'' @ w @ ''/logs?after_id='' @ itoa k) = [''executions'', w, ''logs'']"
    using w(3) by (simp add: url_segments_def)
  have "dropWhile (\<lambda>c. c \<noteq> CHR ''?'') (''/executions/'' @ w @ ''/logs?after_id='' @ itoa k) = ''?after_id='' @ itoa k"
    using w(1) by (simp add: dropWhile_append2)
  moreover have "CHR ''&'' \<notin> set (''after_id='' @ itoa k)" using itoa_no_separator by simp
  then have "split_on CHR ''&'' (''after_id='' @ itoa k) = [''after_id='' @ itoa k]" by (rule split_on_no_sep)
  ultimately show "url_query (''/executions/'' @ w @ ''/logs?after_id='' @ itoa k) = [(''after_id'', itoa k)]"
    by (simp add: url_query_def query_pair_def)
qed

section \<open>A page of the log\<close>

text \<open>An execution the bearer of a token may read.\<close>

definition may_read :: "externals \<Rightarrow> string \<Rightarrow> uuid \<Rightarrow> database \<Rightarrow> bool" where
  "may_read E token eid d \<longleftrightarrow>
     (\<exists>t e. bearer E token t d \<and> get_own_execution (tn_ID t) eid (calm d) = (Inr e, calm d))"

definition log_ok :: "LogEntry \<Rightarrow> bool" where
  "log_ok l \<longleftrightarrow> int64_ok (lg_ID l) \<and> text_ok (lg_Content l) \<and> time_text (lg_CreatedAt l) \<noteq> None"

lemma route_logs: "route_of m ''GET'' [''executions'', w, ''logs''] = Some (GetLogsRoute, w)"
  by (cases m) (simp_all add: route_of_def routes_def patterns_def match_method_def wildcards_def)

lemma logs_encode:
  assumes "\<forall>l \<in> set ls. log_ok l"
  obtains j where "enc_GetLogsResponse (map log_response ls) = Some j"
    and "dec_GetLogsResponse j = Some (Some (map log_response ls))"
proof -
  have "those (map enc_ApiLogEntry (map log_response ls)) \<noteq> None"
    using assms
    by (induction ls) (auto simp: log_ok_def enc_ApiLogEntry_def log_response_def enc_time_def)
  then obtain j where j: "enc_GetLogsResponse (map log_response ls) = Some j"
    by (auto simp: enc_GetLogsResponse_def enc_all_def)
  have "\<forall>l \<in> set (map log_response ls). int64_ok (al_ID l) \<and> utf8 (al_Content l)"
    using assms by (auto simp: log_ok_def log_response_def text_ok_def)
  with j show ?thesis using that GetLogsResponse_roundtrip by blast
qed

lemma h_GetExecutionLogs_calm:
  assumes "uuid_Parse E (rq_path_id r) = Some eid" and "get_own_execution (tn_ID t) eid (calm d) = (Inr e, calm d)"
    and "rq_query r = [(''after_id'', itoa k)]" and "int64_ok k"
  shows "h_GetExecutionLogs E ties (Some t) r (calm d) =
    (reply (respondJson 200 (enc_GetLogsResponse (map log_response (select_logs ties eid k 1000 d)))), calm d)"
  using assms
  by (simp add: h_GetExecutionLogs_def handle_def finish_def and_then_def ret_apply TenantIDFromContext_def
      TenantFromContext_def Let_def query_int_def query_get_def itoa_nonempty atoi_itoa or_fail_calm
      GetExecutionLogs_def query_rows_calm query_calm)

lemma client_GetLogs_controller:
  assumes lenient: "lenient (co_rate C)" and read: "may_read (co_externals C) (jc_Token c) eid d"
    and w: "plain_id w" "uuid_Parse (co_externals C) w = Some eid"
    and logs: "\<forall>l \<in> set (select_logs (en_ties n) eid k 1000 d). log_ok l" and k: "int64_ok k"
    and s: "sv_session s = calm d"
  obtains s' where "client_GetLogs (controller_wire render C n (jc_BaseURL c)) c w k s =
      (Inr (map log_response (select_logs (en_ties n) eid k 1000 d)), s')" and "sv_session s' = calm d"
proof -
  obtain t e where t: "bearer (co_externals C) (jc_Token c) t d"
    and e: "get_own_execution (tn_ID t) eid (calm d) = (Inr e, calm d)"
    using read by (auto simp: may_read_def)
  define target where "target = ''/executions/'' @ w @ ''/logs?after_id='' @ itoa k"
  define rq where "rq = http_request c ''GET'' target None"
  let ?r = "(received render target rq)\<lparr>rq_path_id := w\<rparr>" and ?ls = "select_logs (en_ties n) eid k 1000 d"
  note lt = logs_target [OF w(1), of k, folded target_def]
  have q: "rq_query ?r = [(''after_id'', itoa k)]" unfolding lt [symmetric] by (simp add: received_def)
  obtain j where j: "enc_GetLogsResponse (map log_response ?ls) = Some j"
    "dec_GetLogsResponse j = Some (Some (map log_response ?ls))"
    using logs_encode [OF logs] .
  have "tenant_handler C n GetLogsRoute (Some t) ?r (calm d) = (reply (respondJson 200 (Some j)), calm d)"
    using h_GetExecutionLogs_calm [of "co_externals C" ?r eid t d e k "en_ties n"] w(2) e k q j(1) by simp
  then obtain ls where "controller_wire render C n (jc_BaseURL c) rq s =
      (answered render (respondJson 200 (Some j)), s\<lparr>sv_limiters := ls, sv_session := calm d\<rparr>)"
    using tenant_request_served [OF lenient t rq_def _ _ _ s, of GetLogsRoute w n render]
    unfolding lt(1) route_logs by auto
  then have "client_GetLogs (controller_wire render C n (jc_BaseURL c)) c w k s =
      (Inr (map log_response ?ls), s\<lparr>sv_limiters := ls, sv_session := calm d\<rparr>)"
    using j(2) by (simp add: client_GetLogs_def call_def and_then_def ret_apply rq_def target_def answered_def respondJson_def)
  then show ?thesis using that by simp
qed

section \<open>The whole log\<close>

definition log_of :: "database \<Rightarrow> uuid \<Rightarrow> LogEntry list" where
  "log_of d eid = filter (\<lambda>l. lg_ExecutionID l = eid) (logs d)"

text \<open>The times of the entries follow their identifiers, and no two are the same; of entries with
  the same time \<^verbatim>\<open>ORDER BY created_at\<close> may give any first, and the page after them start behind one
  that was never shown.\<close>

definition in_order :: "LogEntry list \<Rightarrow> bool" where
  "in_order ls \<longleftrightarrow> sorted_wrt (<) (map lg_ID ls) \<and> sorted_wrt (<) (map lg_CreatedAt ls)"

definition after :: "int \<Rightarrow> LogEntry list \<Rightarrow> LogEntry list" where
  "after k ls = filter (\<lambda>l. k < lg_ID l) ls"

lemma select_logs_in_order:
  assumes "in_order (log_of d eid)"
  shows "select_logs ties eid k n d = take (nat n) (after k (log_of d eid))"
proof -
  have f: "filter (\<lambda>l. lg_ExecutionID l = eid \<and> lg_ID l > k) (logs d) = after k (log_of d eid)"
    by (simp add: after_def log_of_def conj_commute)
  have "sorted_wrt (<) (map lg_CreatedAt (after k (log_of d eid)))"
    using assms by (simp add: after_def in_order_def sorted_wrt_map sorted_wrt_filter)
  then have "sorted (map (\<lambda>l. (lg_CreatedAt l, ties (lg_ID l))) (after k (log_of d eid)))"
    by (auto simp: sorted_wrt_map elim: sorted_wrt_mono_rel [rotated])
  then show ?thesis by (simp add: select_logs_def f sort_key_id_if_sorted)
qed

lemma last_id_in_order:
  "sorted_wrt (<) (map lg_ID xs) \<Longrightarrow> \<forall>l \<in> set xs. k < lg_ID l \<Longrightarrow> xs \<noteq> [] \<Longrightarrow>
   last_id (map log_response xs) k = lg_ID (last xs)"
proof (induction xs arbitrary: k)
  case (Cons x xs)
  show ?case
  proof (cases "xs = []")
    case False
    have "last_id (map log_response xs) (lg_ID x) = lg_ID (last xs)"
      using Cons.prems(1) False by (intro Cons.IH) auto
    then show ?thesis using Cons.prems(2) False by (simp add: last_id_def) (simp add: log_response_def)
  qed (use Cons.prems in \<open>simp add: last_id_def log_response_def\<close>)
qed simp

text \<open>What comes after the last entry of a page is the rest of the log.\<close>

lemma after_page:
  assumes "sorted_wrt (<) (map lg_ID ls)" and "page = take n (after k ls)" and "page \<noteq> []"
  shows "after (lg_ID (last page)) ls = drop n (after k ls)"
proof -
  define rest where "rest = drop n (after k ls)"
  have app: "after k ls = page @ rest" by (simp add: assms(2) rest_def)
  have "sorted_wrt (<) (map lg_ID (after k ls))"
    using assms(1) by (simp add: after_def sorted_wrt_map sorted_wrt_filter)
  then have ord: "sorted_wrt (<) (map lg_ID page)" "\<forall>a \<in> set page. \<forall>b \<in> set rest. lg_ID a < lg_ID b"
    by (auto simp: app sorted_wrt_append)
  obtain as z where page: "page = as @ [z]" using assms(3) by (cases page rule: rev_cases) auto
  have "z \<in> set (after k ls)" unfolding app page by simp
  then have "k < lg_ID z" by (simp add: after_def)
  then have "after (lg_ID z) ls = after (lg_ID z) (after k ls)"
    by (auto simp: after_def intro: filter_cong)
  also have "\<dots> = rest"
    using ord unfolding app page by (auto simp: after_def sorted_wrt_append intro!: filter_True filter_False)
  finally show ?thesis by (simp add: page rest_def)
qed

lemma logs_loop_controller:
  assumes lenient: "lenient (co_rate C)" and read: "may_read (co_externals C) (jc_Token c) eid d"
    and w: "plain_id w" "uuid_Parse (co_externals C) w = Some eid"
    and ok: "\<forall>l \<in> set (log_of d eid). log_ok l" and ord: "in_order (log_of d eid)"
  shows "int64_ok k \<Longrightarrow> sv_session s = calm d \<Longrightarrow>
    \<exists>s'. logs_loop (client_GetLogs (controller_wire render C n (jc_BaseURL c)) c w) False k s =
      Some (concat (map (\<lambda>l. show_log (log_response l)) (after k (log_of d eid))), s') \<and> sv_session s' = calm d"
proof (induction "length (after k (log_of d eid))" arbitrary: k s rule: less_induct)
  case less
  define page where "page = take 1000 (after k (log_of d eid))"
  have sel: "select_logs (en_ties n) eid k 1000 d = page" by (simp add: select_logs_in_order [OF ord] page_def)
  have sub: "set page \<subseteq> {l \<in> set (log_of d eid). k < lg_ID l}"
    by (auto simp: page_def after_def dest: in_set_takeD)
  obtain s1 where get: "client_GetLogs (controller_wire render C n (jc_BaseURL c)) c w k s = (Inr (map log_response page), s1)"
    and s1: "sv_session s1 = calm d"
    using client_GetLogs_controller [OF lenient read w _ less.prems, of n render] ok sub unfolding sel by blast
  show ?case
  proof (cases "page = []")
    case True
    then have "after k (log_of d eid) = []" by (simp add: page_def)
    then show ?thesis using get s1 True by (subst logs_loop.simps) (simp add: logs_turn_def)
  next
    case False
    have sorted: "sorted_wrt (<) (map lg_ID (log_of d eid))" using ord by (simp add: in_order_def)
    have "sorted_wrt (<) (map lg_ID page)"
      using sorted unfolding page_def after_def by (simp add: sorted_wrt_map sorted_wrt_filter sorted_wrt_take)
    then have id: "last_id (map log_response page) k = lg_ID (last page)"
      using sub False by (intro last_id_in_order) auto
    have rest: "after (lg_ID (last page)) (log_of d eid) = drop 1000 (after k (log_of d eid))"
      using after_page [OF sorted page_def False] .
    have "last page \<in> set page" using False by simp
    then have "int64_ok (lg_ID (last page))" using ok sub by (auto simp: log_ok_def)
    moreover have "length (after (lg_ID (last page)) (log_of d eid)) < length (after k (log_of d eid))"
      using False unfolding rest by (simp add: page_def)
    ultimately obtain s2 where
      "logs_loop (client_GetLogs (controller_wire render C n (jc_BaseURL c)) c w) False (lg_ID (last page)) s1 =
        Some (concat (map (\<lambda>l. show_log (log_response l)) (drop 1000 (after k (log_of d eid)))), s2)"
      and "sv_session s2 = calm d"
      using less.hyps [of "lg_ID (last page)" s1] s1 unfolding rest by blast
    moreover have "after k (log_of d eid) = page @ drop 1000 (after k (log_of d eid))" by (simp add: page_def)
    ultimately show ?thesis
      using get False id
      by (subst logs_loop.simps) (simp add: logs_turn_def comp_def flip: concat_append map_append)
  qed
qed

text \<open>C27: \<^verbatim>\<open>jobctl logs\<close> ends, and prints the whole log of an execution: for the bearer of a token
  who may read it, from a controller that does not limit the requests and while nothing is added,
  the command asks page after page until one is empty and has then printed every entry once, in
  order, each ended by a line feed; provided the times of the entries follow their identifiers and
  are pairwise different, which the order of the pages and their limit by identifier rely on.\<close>

theorem logs_command_complete:
  assumes "lenient (co_rate C)" and "may_read (co_externals C) (jc_Token c) eid d" and "jc_Token c \<noteq> []"
    and "plain_id w" and "uuid_Parse (co_externals C) w = Some eid"
    and "\<forall>l \<in> set (log_of d eid). log_ok l \<and> 0 < lg_ID l" and "in_order (log_of d eid)"
    and "sv_session s = calm d"
  shows "\<exists>s'. cmd_logs (controller_wire render C n (jc_BaseURL c)) c False w s =
    Some (concat (map (\<lambda>l. show_log (log_response l)) (log_of d eid)), s') \<and> sv_session s' = calm d"
proof -
  have "after 0 (log_of d eid) = log_of d eid" using assms(6) by (auto simp: after_def intro: filter_True)
  then show ?thesis
    using logs_loop_controller [OF assms(1,2,4,5) _ assms(7), where k = 0 and s = s and n = n and render = render] assms(3,6,8)
    by (simp add: cmd_logs_def int64_ok_def)
qed

end
