(* ===== verification/Lifecycle.thy ===== *)
theory Lifecycle
  imports System
begin

text \<open>
  The life of one execution, as the program means it: a machine of five phases that the whole
  control plane refines. The abstraction reads the phase off the tables; a step of the system
  is a sequence of steps of the machine, of no step for most.
\<close>

section \<open>The machine\<close>

text \<open>Not there, queued and never claimed, queued and claimed, taken out of the queue before it is
  over, over.\<close>

datatype phase = Absent | Fresh | Claimed | Gone | Over

primrec phase_rank :: "phase \<Rightarrow> nat" where
  "phase_rank Absent = 0"
| "phase_rank Fresh = 1"
| "phase_rank Claimed = 2"
| "phase_rank Gone = 3"
| "phase_rank Over = 4"

lemma phase_rank_inj: "phase_rank p = phase_rank q \<Longrightarrow> p = q"
  by (cases p; cases q) simp_all

instantiation phase :: linorder
begin

definition less_eq_phase :: "phase \<Rightarrow> phase \<Rightarrow> bool" where
  "p \<le> q \<longleftrightarrow> phase_rank p \<le> phase_rank q"

definition less_phase :: "phase \<Rightarrow> phase \<Rightarrow> bool" where
  "p < q \<longleftrightarrow> phase_rank p < phase_rank q"

instance
  by standard (auto simp: less_eq_phase_def less_phase_def intro: phase_rank_inj)

end

text \<open>What the program does to an execution: it is created with its row; its row is claimed, and
  claimed again when the claim has run out; its row is deleted; it is closed.\<close>

inductive life :: "phase \<Rightarrow> phase \<Rightarrow> bool" where
  created: "life Absent Fresh"
| claimed: "life Fresh Claimed"
| reclaimed: "life Claimed Claimed"
| taken: "p \<in> {Fresh, Claimed} \<Longrightarrow> life p Gone"
| closed: "life Gone Over"

inductive_cases lifeE: "life p q"

lemma life_forward: "life p q \<Longrightarrow> p \<le> q"
  by (induction rule: life.induct) (auto simp: less_eq_phase_def)

lemma life_chain: "p \<le> q \<Longrightarrow> life\<^sup>*\<^sup>* p q"
proof -
  note step = rtranclp.rtrancl_into_rtrancl
  have 1: "life\<^sup>*\<^sup>* Gone Over" by (rule r_into_rtranclp) (rule life.closed)
  have 2: "life\<^sup>*\<^sup>* Claimed Gone" by (rule r_into_rtranclp) (simp add: life.taken)
  have 3: "life\<^sup>*\<^sup>* Fresh Claimed" by (rule r_into_rtranclp) (rule life.claimed)
  have 4: "life\<^sup>*\<^sup>* Absent Fresh" by (rule r_into_rtranclp) (rule life.created)
  note t = rtranclp_trans
  show "p \<le> q \<Longrightarrow> life\<^sup>*\<^sup>* p q"
    using 1 2 3 4 t [OF 2 1] t [OF 3 2] t [OF 3 t [OF 2 1]] t [OF 4 3] t [OF 4 t [OF 3 2]]
      t [OF 4 t [OF 3 t [OF 2 1]]]
    by (cases p; cases q) (simp_all add: less_eq_phase_def)
qed

section \<open>The abstraction\<close>

definition phase_of :: "database \<Rightarrow> uuid \<Rightarrow> phase" where
  "phase_of d eid =
     (case find_queued d eid of
        Some q \<Rightarrow> if qr_attempt q = 0 then Fresh else Claimed
      | None \<Rightarrow>
          (case find_execution d eid of
             None \<Rightarrow> Absent
           | Some e \<Rightarrow> if terminal (ex_Status e) then Over else Gone))"

lemma phase_of_queued: "phase_of d eid \<in> {Fresh, Claimed} \<longleftrightarrow> queued d eid"
proof (cases "find_queued d eid")
  case None
  then show ?thesis using find_queued_None [of d eid] by (auto simp: phase_of_def split: option.split)
next
  case (Some q)
  then have "queued d eid" using find_queued_None [of d eid] by auto
  then show ?thesis using Some by (simp add: phase_of_def)
qed

lemma phase_of_Over:
  assumes "db_inv d"
  shows "phase_of d eid = Over \<longleftrightarrow> finished d eid"
proof -
  have ex: "executions_ok d" using assms by (simp add: db_inv_def)
  show ?thesis
  proof (cases "find_queued d eid")
    case None
    have "find_execution d eid = Some e \<Longrightarrow> finished d eid \<longleftrightarrow> terminal (ex_Status e)" for e
      using find_execution_Some [OF ex] executions_unique [OF assms] by (auto simp: finished_def)
    moreover have "find_execution d eid = None \<Longrightarrow> \<not> finished d eid"
      by (auto simp: find_execution_None finished_def)
    ultimately show ?thesis using None by (auto simp: phase_of_def split: option.split)
  next
    case (Some q)
    then have "queued d eid" using find_queued_None [of d eid] by auto
    then show ?thesis using finished_not_queued [OF assms] Some by (auto simp: phase_of_def)
  qed
qed

lemma phase_of_Absent:
  assumes "db_inv d"
  shows "phase_of d eid = Absent \<longleftrightarrow> eid \<notin> ex_ID ` set (executions d)"
proof (cases "find_queued d eid")
  case None
  show ?thesis
  proof (cases "find_execution d eid")
    case None
    then show ?thesis using \<open>find_queued d eid = None\<close> find_execution_None [of d eid] by (simp add: phase_of_def)
  next
    case (Some e)
    then have "eid \<in> ex_ID ` set (executions d)" using find_execution_None [of d eid] by auto
    then show ?thesis using \<open>find_queued d eid = None\<close> Some by (simp add: phase_of_def)
  qed
next
  case (Some q)
  then have "q \<in> set (queue d)" "qr_execution_id q = eid" by (auto simp: find_queued_def dest: find_SomeD)
  moreover from this obtain e where "e \<in> set (executions d)" "agree q e" using queued_execution [OF assms] by blast
  ultimately have "eid = ex_ID e" "e \<in> set (executions d)" by (simp_all add: agree_def)
  then have "eid \<in> ex_ID ` set (executions d)" by simp
  then show ?thesis using Some by (simp add: phase_of_def)
qed

text \<open>Whatever keeps the tables safe moves every execution forward.\<close>

lemma safe_forward:
  assumes s: "safe d d'" and inv: "db_inv d"
  shows "phase_of d eid \<le> phase_of d' eid"
proof -
  have inv': "db_inv d'" and fin: "finished d eid \<Longrightarrow> finished d' eid" and old: "old_rows d d'"
    and ids: "ex_ID ` set (executions d) \<subseteq> ex_ID ` set (executions d')"
    using s inv grows_ids by (auto simp: safe_def)
  have q: "queue_ok d" "queue_ok d'" using inv inv' by (simp_all add: db_inv_def)
  have Over: "phase_of d eid = Over \<Longrightarrow> phase_of d' eid = Over"
    using phase_of_Over [OF inv] phase_of_Over [OF inv'] fin by simp
  have old': "\<exists>r. find_queued d eid = Some r \<and> qr_attempt r \<le> qr_attempt x"
    if "eid \<in> ex_ID ` set (executions d)" "find_queued d' eid = Some x" for x
    using that old find_queued_Some [OF q(2)] find_queued_Some [OF q(1)] by (fastforce simp: old_rows_def)
  have nonneg: "0 \<le> qr_attempt r" if "find_queued d eid = Some r" for r
    using that find_queued_Some [OF q(1)] queued_execution [OF inv] by (metis agree_def)
  show ?thesis
  proof (cases "phase_of d eid = Absent")
    case False
    then have here: "eid \<in> ex_ID ` set (executions d)" using phase_of_Absent [OF inv] by simp
    then have "phase_of d' eid \<noteq> Absent" using phase_of_Absent [OF inv'] ids by blast
    moreover have "phase_of d' eid = Fresh \<Longrightarrow> phase_of d eid = Fresh"
      using old' [OF here] nonneg
      by (force simp: phase_of_def split: option.splits if_splits)
    moreover have "phase_of d' eid = Claimed \<Longrightarrow> phase_of d eid \<in> {Fresh, Claimed}"
      using old' [OF here] by (force simp: phase_of_def split: option.splits if_splits)
    ultimately show ?thesis
      using False Over by (cases "phase_of d eid"; cases "phase_of d' eid") (auto simp: less_eq_phase_def)
  qed (simp add: less_eq_phase_def)
qed

text \<open>C2: The control plane refines the life of an execution. Along every run from a well-formed
  database the phase of every execution goes through steps of the machine only: it is created
  queued, claimed once or more, taken out of the queue and closed, never back; so an execution
  that has left the queue, over or lost, is never in the queue of any later moment.\<close>

theorem lifecycle_refined:
  assumes "sys_reach C s t" and "db_inv (sy_db s)"
  shows "life\<^sup>*\<^sup>* (phase_of (sy_db s) eid) (phase_of (sy_db t) eid) \<and>
    (phase_of (sy_db s) eid \<in> {Gone, Over} \<longrightarrow> \<not> queued (sy_db t) eid)"
proof -
  have le: "phase_of (sy_db s) eid \<le> phase_of (sy_db t) eid"
    using safe_forward [OF sys_reach_safe [OF assms(1)] assms(2)] .
  then have "phase_of (sy_db s) eid \<in> {Gone, Over} \<Longrightarrow> phase_of (sy_db t) eid \<notin> {Fresh, Claimed}"
    by (auto simp: less_eq_phase_def)
  then show ?thesis using life_chain [OF le] phase_of_queued by blast
qed

end
