(* ===== verification/Client_Examples.thy ===== *)
theory Client_Examples
  imports Agent_Examples Config Cli_Theorems Lifecycle
begin

text \<open>
  The command line client, the configuration and the life of an execution in the small
  installation.
\<close>

section \<open>Configuration\<close>

definition demo_settings :: Config where
  "demo_settings = \<lparr>cg_SystemSecret = ''hush'', cg_DatabaseURL = ''db'', cg_HTTPPort = 6161, cg_ControllerURL = [],
     cg_HeartVisibilityExtension = 0, cg_WorkerConcurrency = - 3, cg_WorkerPollInterval = 0, cg_WorkerMaxBackoff = 0,
     cg_WorkerHeartbeatInterval = 0, cg_Runtime = ''exec'', cg_RuntimeWorkDir = [], cg_KubernetesNamespace = [],
     cg_KubernetesServiceAccount = [], cg_KubernetesCPULimit = [], cg_KubernetesMemoryLimit = [], cg_OTELEndpoint = []\<rparr>"

definition demo_viper :: viper where
  "demo_viper = \<lparr>vp_ReadInConfig = (\<lambda>su. None),
     vp_GetString = (\<lambda>su k. if k = ''system_secret'' then ''hush'' else ''db''),
     vp_Unmarshal = (\<lambda>su. Inr demo_settings)\<rparr>"

definition demo_loaded :: Config where
  "demo_loaded = demo_settings\<lparr>cg_HeartVisibilityExtension := 5 * minute\<rparr>"

lemma demo_viper_law: "viper_law demo_viper"
  by (simp add: viper_law_def demo_viper_def demo_settings_def)

lemma demo_load: "Load demo_viper [] = Inr demo_loaded"
  by (simp add: Load_def Let_def demo_viper_def demo_settings_def demo_loaded_def positive_or_def)

section \<open>The log of an execution\<close>

text \<open>Every time of the first day has a text.\<close>

lemma demo_times: "0 \<le> t \<Longrightarrow> t < 24 * 60 * minute \<Longrightarrow> time_text t \<noteq> None"
  using div_pos_pos_trivial [of t day_ns] by (simp add: time_text_def year_of_def civil_epoch day_ns_def)

definition demo_line :: "int \<Rightarrow> string \<Rightarrow> LogEntry" where
  "demo_line k txt = \<lparr>lg_ID = k, lg_ExecutionID = 3, lg_Content = txt, lg_CreatedAt = k * second\<rparr>"

definition demo_logged :: database where
  "demo_logged = demo_db\<lparr>executions := [(demo_execution 3 5)\<lparr>ex_Result := Some JNull\<rparr>],
     logs := [demo_line 1 ''ab'', (demo_line 2 ''other'')\<lparr>lg_ExecutionID := 4\<rparr>, demo_line 3 (''c'' @ nl)]\<rparr>"

definition demo_open :: "int controller" where
  "demo_open = demo_C\<lparr>co_rate := demo_rate\<lparr>rate_Allow := (\<lambda>now l. (True, l))\<rparr>\<rparr>"

definition demo_client :: JobClient where
  "demo_client = \<lparr>jc_BaseURL = ''http://localhost:6161'', jc_Token = ''key''\<rparr>"

lemma demo_may_read: "may_read demo_E ''key'' 3 demo_logged"
proof -
  have "GetTenantByAPIKeyHash (HashKey demo_E ''key'') (calm demo_logged) = (Inr demo_tenant, calm demo_logged)"
  proof -
    have "find (\<lambda>r. tr_api_key_hash r = HashKey demo_E ''key'') (tenants demo_logged) = Some demo_row"
      by (simp add: demo_logged_def demo_db_def demo_row_def)
    moreover have "scan_tenant demo_row = Inr demo_tenant"
      by (simp add: scan_tenant_def scan_raw_def demo_rows tenant.truncate_def)
    ultimately show ?thesis by (simp add: GetTenantByAPIKeyHash_def query_calm)
  qed
  moreover have "get_own_execution (tn_ID demo_tenant) 3 (calm demo_logged) =
      (Inr ((demo_execution 3 5)\<lparr>ex_Result := Some JNull\<rparr>), calm demo_logged)"
    by (simp add: get_own_execution_def GetExecutionByID_def handler_eval query_calm find_execution_def
        scan_raw_def demo_logged_def demo_execution_def demo_tenant_def)
  ultimately show ?thesis unfolding may_read_def bearer_def by auto
qed

lemma demo_log: "log_of demo_logged 3 = [demo_line 1 ''ab'', demo_line 3 (''c'' @ nl)]"
  by (simp add: log_of_def demo_logged_def demo_line_def)

lemma logs_command_complete_witness:
  "\<exists>s'. cmd_logs (controller_wire (\<lambda>j. []) demo_open (demo_around 9) ''http://localhost:6161'') demo_client False ''uuu''
     \<lparr>sv_session = calm demo_logged, sv_limiters = (\<lambda>_. None)\<rparr> = Some (''ab'' @ nl @ ''c'' @ nl, s')"
proof -
  have E: "co_externals demo_open = demo_E" by (simp add: demo_open_def demo_C_def)
  have t: "time_text (1 * second) \<noteq> None" "time_text (3 * second) \<noteq> None" by (simp_all add: demo_times)
  have "\<forall>l \<in> set (log_of demo_logged 3). log_ok l \<and> 0 < lg_ID l"
    unfolding demo_log using t by (simp add: log_ok_def demo_line_def int64_ok_def text_ok_def)
  moreover have "in_order (log_of demo_logged 3)"
    unfolding demo_log by (simp add: in_order_def demo_line_def)
  moreover have "uuid_Parse demo_E ''uuu'' = Some 3" by (simp add: demo_E_def)
  moreover have "lenient (co_rate demo_open)" by (simp add: lenient_def demo_open_def)
  ultimately show ?thesis
    using logs_command_complete [of demo_open demo_client 3 demo_logged "''uuu''"
        "\<lparr>sv_session = calm demo_logged, sv_limiters = (\<lambda>_. None)\<rparr>" "\<lambda>j. []" "demo_around 9"] demo_may_read
    unfolding E demo_log
    by (simp add: demo_client_def plain_id_def) (auto simp: show_log_def log_response_def demo_line_def)
qed

section \<open>A scheduled run\<close>





section \<open>The life of an execution\<close>

lemma lifecycle_refined_witness:
  "life\<^sup>*\<^sup>* Over (phase_of demo_db 5) \<and> \<not> queued demo_db 5"
proof -
  define s :: "int system" where "s = boot\<lparr>sy_server := \<lparr>sv_session = calm demo_db, sv_limiters = (\<lambda>_. None)\<rparr>\<rparr>"
  have d: "sy_db s = demo_db" by (simp add: s_def sy_db_def)
  have p: "phase_of demo_db 5 = Over"
    using demo_tables(5,9) find_queued_None [of demo_db 5] by (simp add: phase_of_def demo_failed_def)
  show ?thesis
    using lifecycle_refined [OF sys_reach.here [of demo_C s], of 5] demo_inv unfolding d p by simp
qed

end
