(* ===== verification/Startup.thy ===== *)
theory Startup
  imports Config
begin

text \<open>
  What the programs are started from: \<^verbatim>\<open>New\<close>, \<^verbatim>\<open>Close\<close> and \<^verbatim>\<open>Migrate\<close> of
  \<^verbatim>\<open>internal/store/postgres\<close>, \<^verbatim>\<open>InitTracer\<close> and \<^verbatim>\<open>InitMetrics\<close> of
  \<^verbatim>\<open>internal/observability\<close>, the request identifiers of \<^verbatim>\<open>internal/logger\<close>, and what a
  \<^verbatim>\<open>main\<close> does with them: it acts, defers, and either returns, which runs what was deferred,
  or exits at once. The packages they call answer by arguments.
\<close>

section \<open>The connection\<close>

text \<open>The answers of \<^verbatim>\<open>sql.Open\<close> and of the first ping.\<close>

definition postgres_New :: "string option \<Rightarrow> string option \<Rightarrow> string + unit" where
  "postgres_New opened pinged =
     (case opened of Some e \<Rightarrow> Inl e
      | None \<Rightarrow> (case pinged of Some e \<Rightarrow> Inl e | None \<Rightarrow> Inr ()))"

definition postgres_Close :: "bool \<Rightarrow> string option \<Rightarrow> string option" where
  "postgres_Close has_db closed = (if has_db then closed else None)"

datatype up_outcome = UpDone | UpNoChange | UpFailed string

record migrate_answers =
  mg_source :: "string option"
  mg_driver :: "string option"
  mg_migrator :: "string option"
  mg_up :: up_outcome

definition Migrate :: "migrate_answers \<Rightarrow> string option" where
  "Migrate a =
     (case mg_source a of Some e \<Rightarrow> Some (''failed to create migration source: '' @ e)
      | None \<Rightarrow>
     (case mg_driver a of Some e \<Rightarrow> Some (''failed to create migration driver: '' @ e)
      | None \<Rightarrow>
     (case mg_migrator a of Some e \<Rightarrow> Some (''failed to create migrator: '' @ e)
      | None \<Rightarrow>
     (case mg_up a of UpDone \<Rightarrow> None | UpNoChange \<Rightarrow> None
      | UpFailed e \<Rightarrow> Some (''migration failed: '' @ e)))))"

section \<open>Observability\<close>

text \<open>The two errors \<^verbatim>\<open>InitTracer\<close> can return, of the exporter and of the resource; the
  globals are set only after both calls.\<close>

definition InitTracer :: "string option \<Rightarrow> string option \<Rightarrow> string + unit" where
  "InitTracer exporter resource =
     (case exporter of Some e \<Rightarrow> Inl (''failed to create trace exporter: '' @ e)
      | None \<Rightarrow> (case resource of Some e \<Rightarrow> Inl (''failed to create resource: '' @ e) | None \<Rightarrow> Inr ()))"

definition InitMetrics :: "string option \<Rightarrow> string + unit" where
  "InitMetrics exporter =
     (case exporter of Some e \<Rightarrow> Inl (''failed to create prometheus exporter: '' @ e) | None \<Rightarrow> Inr ())"

text \<open>The callback of the queue depth: a count is observed, an error is only logged, so a
  scrape never fails.\<close>

definition queue_depth :: "session \<Rightarrow> int list \<times> session" where
  "queue_depth s = (case Count s of (Inl e, t) \<Rightarrow> ([], t) | (Inr n, t) \<Rightarrow> ([n], t))"

section \<open>Request identifiers in logs\<close>

text \<open>The values bound to the key in a context, the innermost first, and the attributes of a
  logger.\<close>

type_synonym log_context = "string list"

type_synonym logger = "(string \<times> string) list"

definition WithRequestID :: "log_context \<Rightarrow> string \<Rightarrow> log_context" where
  "WithRequestID ctx requestID = requestID # ctx"

definition RequestIDFromContext :: "log_context \<Rightarrow> string" where
  "RequestIDFromContext ctx = (case ctx of [] \<Rightarrow> [] | v # _ \<Rightarrow> v)"

definition FromContext :: "log_context \<Rightarrow> logger \<Rightarrow> logger" where
  "FromContext ctx base =
     (let reqID = RequestIDFromContext ctx in
      if reqID \<noteq> [] then base @ [(''request_id'', reqID)] else base)"

lemma request_id_reaches_logger:
  "requestID \<noteq> [] \<Longrightarrow> FromContext (WithRequestID ctx requestID) base = base @ [(''request_id'', requestID)]"
  "FromContext (WithRequestID ctx []) base = base"
  by (simp_all add: FromContext_def WithRequestID_def RequestIDFromContext_def)

section \<open>Programs that defer and exit\<close>

datatype program_action =
    Say string
  | OpenStore string
  | CloseStore
  | RunMigrations
  | StartTracing string string
  | StopTracing
  | StartMetrics
  | StopMetrics
  | RegisterGauge string
  | StartServer string
  | Serve string
  | StartAgent AgentConfig
  | StartMetricsServer string
  | WaitForSignal
  | ShutdownServer duration
  | CancelAgent
  | WaitForAgent

record process =
  pr_trace :: "program_action list"
  pr_deferred :: "program_action list list"

text \<open>A \<^verbatim>\<open>main\<close> ends early with an exit code.\<close>

type_synonym 'a main = "(nat, 'a, process) prog"

definition act :: "program_action \<Rightarrow> unit main" where
  "act a p = (Inr (), p\<lparr>pr_trace := pr_trace p @ [a]\<rparr>)"

definition acts :: "program_action list \<Rightarrow> unit main" where
  "acts as p = (Inr (), p\<lparr>pr_trace := pr_trace p @ as\<rparr>)"

definition deferring :: "program_action list \<Rightarrow> unit main" where
  "deferring as p = (Inr (), p\<lparr>pr_deferred := as # pr_deferred p\<rparr>)"

text \<open>\<^verbatim>\<open>log.Fatalf\<close>: a line, and the process is gone; nothing that was deferred runs.\<close>

definition Fatalf :: "string \<Rightarrow> 'a main" where
  "Fatalf msg p = (Inl 1, p\<lparr>pr_trace := pr_trace p @ [Say msg]\<rparr>)"

definition or_fatal :: "string \<Rightarrow> string + 'a \<Rightarrow> 'a main" where
  "or_fatal what r = (case r of Inl e \<Rightarrow> Fatalf (what @ e) | Inr x \<Rightarrow> ret x)"

text \<open>The end of a process: its exit code and everything it did.\<close>

definition run_main :: "'a main \<Rightarrow> nat \<times> program_action list" where
  "run_main m = (case m \<lparr>pr_trace = [], pr_deferred = []\<rparr> of
       (Inl c, p) \<Rightarrow> (c, pr_trace p)
     | (Inr x, p) \<Rightarrow> (0, pr_trace p @ concat (pr_deferred p)))"

lemmas main_simps = act_def acts_def deferring_def Fatalf_def or_fatal_def

text \<open>An error of a deferred clean-up is a line in the log.\<close>

definition clean_up :: "program_action \<Rightarrow> string \<Rightarrow> string option \<Rightarrow> program_action list" where
  "clean_up a what r = a # (case r of None \<Rightarrow> [] | Some e \<Rightarrow> [Say (what @ e)])"

end
