(* ===== verification/Shutdown.thy ===== *)
theory Shutdown
  imports System "HOL-Library.Multiset"
begin

text \<open>
  The end of a controller: \<^verbatim>\<open>Shutdown\<close> of \<^verbatim>\<open>internal/controller/server.go\<close>, which first
  stops the HTTP server and then waits for the deliveries of the dispatcher, both within the
  time its context has left. The state adds to the control plane of \<^theory_text>\<open>System\<close> the requests
  accepted and not yet answered, how far the shutdown is, and two histories: the executions
  ever handed to \<^verbatim>\<open>Deliver\<close> and those whose delivery ended.
\<close>

section \<open>The states of a server\<close>

datatype go_error = ListenerError string | DeadlineExceeded

datatype 'e phase = Serving | Draining | Waiting "'e option" | Stopped "'e option"

type_synonym accepted = "surroundings \<times> string \<times> string list \<times> request"

record 'l life =
  lf_system :: "'l system"
  lf_inflight :: "accepted list"
  lf_phase :: "go_error phase"
  lf_handed :: "execution list"
  lf_finished :: "execution list"

fun is_stopped :: "'e phase \<Rightarrow> bool" where
  "is_stopped (Stopped e) = True"
| "is_stopped _ = False"

text \<open>The \<^verbatim>\<open>select\<close> of the dispatcher's \<^verbatim>\<open>Shutdown\<close>: the answer when the deliveries are over,
  and the answer when the context is.\<close>

definition wait_done :: "'e option" where
  "wait_done = None"

definition wait_expired :: "go_error option" where
  "wait_expired = Some DeadlineExceeded"

text \<open>
  One step. The HTTP server stops accepting as soon as its \<^verbatim>\<open>Shutdown\<close> runs, and that returns
  when no request is in flight (with the error of closing the listener, if any) or when the
  context is over. The goroutines a handler starts for its webhook (\<^verbatim>\<open>go h.triggerWebhook\<close>) are
  in no wait group: the dispatcher's \<^verbatim>\<open>Shutdown\<close> counts the executions handed to \<^verbatim>\<open>Deliver\<close>
  only. Handlers, lookups and deliveries go on in every phase until the server has stopped and
  its program exits.
\<close>

inductive work_step :: "'l controller \<Rightarrow> 'l life \<Rightarrow> 'l life \<Rightarrow> bool" for C where
  accept: "lf_phase s = Serving \<Longrightarrow>
    work_step C s (s\<lparr>lf_inflight := lf_inflight s @ [rq]\<rparr>)"
| handle: "\<not> is_stopped (lf_phase s) \<Longrightarrow> lf_inflight s = xs @ (n, meth, path, r) # ys \<Longrightarrow>
    ServeHTTP C n meth path r (sy_server (lf_system s)) = ((resp, hooks), v) \<Longrightarrow>
    work_step C s (s\<lparr>lf_inflight := xs @ ys, lf_system := (lf_system s)\<lparr>sy_server := v,
      sy_triggered := sy_triggered (lf_system s) @ hooks\<rparr>\<rparr>)"
| look_up: "\<not> is_stopped (lf_phase s) \<Longrightarrow> sy_triggered (lf_system s) = xs @ eid # ys \<Longrightarrow>
    on_session (triggerWebhook eid) (sy_server (lf_system s)) = (res, v) \<Longrightarrow>
    work_step C s (s\<lparr>lf_handed := lf_handed s @ spawned res, lf_system := (lf_system s)\<lparr>sy_server := v,
      sy_triggered := xs @ ys, sy_waiting := sy_waiting (lf_system s) @ spawned res\<rparr>\<rparr>)"
| take_slot: "\<not> is_stopped (lf_phase s) \<Longrightarrow> sy_waiting (lf_system s) = xs @ e # ys \<Longrightarrow>
    length (sy_sending (lf_system s)) < webhook_maxConcurrent \<Longrightarrow>
    work_step C s (s\<lparr>lf_system := (lf_system s)\<lparr>sy_waiting := xs @ ys,
      sy_sending := sy_sending (lf_system s) @ [e]\<rparr>\<rparr>)"
| deliver: "\<not> is_stopped (lf_phase s) \<Longrightarrow> sy_sending (lf_system s) = xs @ e # ys \<Longrightarrow>
    on_session (deliver_goroutine peer e) (sy_server (lf_system s)) = (res, v) \<Longrightarrow>
    work_step C s (s\<lparr>lf_finished := lf_finished s @ [e], lf_system := (lf_system s)\<lparr>sy_server := v,
      sy_sending := xs @ ys\<rparr>\<rparr>)"
| signal: "lf_phase s = Serving \<Longrightarrow> work_step C s (s\<lparr>lf_phase := Draining\<rparr>)"
| drained: "lf_phase s = Draining \<Longrightarrow> lf_inflight s = [] \<Longrightarrow>
    work_step C s (s\<lparr>lf_phase := Waiting (map_option ListenerError close_err)\<rparr>)"
| drain_expired: "lf_phase s = Draining \<Longrightarrow>
    work_step C s (s\<lparr>lf_phase := Waiting (Some DeadlineExceeded)\<rparr>)"
| waited: "lf_phase s = Waiting e \<Longrightarrow> sy_waiting (lf_system s) = [] \<Longrightarrow> sy_sending (lf_system s) = [] \<Longrightarrow>
    work_step C s (s\<lparr>lf_phase := Stopped (Shutdown_error e wait_done)\<rparr>)"
| wait_cut: "lf_phase s = Waiting e \<Longrightarrow>
    work_step C s (s\<lparr>lf_phase := Stopped (Shutdown_error e wait_expired)\<rparr>)"

text \<open>The connection to the database may change its mood before each step.\<close>

definition weathered :: "fate list \<Rightarrow> 'l life \<Rightarrow> 'l life" where
  "weathered fs s = s\<lparr>lf_system := (lf_system s)\<lparr>sy_server := (sy_server (lf_system s))\<lparr>sv_session :=
     (sv_session (sy_server (lf_system s)))\<lparr>fates := fs\<rparr>\<rparr>\<rparr>\<rparr>"

definition life_step :: "'l controller \<Rightarrow> 'l life \<Rightarrow> 'l life \<Rightarrow> bool" where
  "life_step C s t \<longleftrightarrow> (\<exists>fs. work_step C (weathered fs s) t)"

lemma weathered_simps [simp]:
  "lf_inflight (weathered fs s) = lf_inflight s"
  "lf_phase (weathered fs s) = lf_phase s"
  "lf_handed (weathered fs s) = lf_handed s"
  "lf_finished (weathered fs s) = lf_finished s"
  "sy_triggered (lf_system (weathered fs s)) = sy_triggered (lf_system s)"
  "sy_waiting (lf_system (weathered fs s)) = sy_waiting (lf_system s)"
  "sy_sending (lf_system (weathered fs s)) = sy_sending (lf_system s)"
  "sy_db (lf_system (weathered fs s)) = sy_db (lf_system s)"
  by (simp_all add: weathered_def sy_db_def)

definition start :: "'l system \<Rightarrow> 'l life" where
  "start s = \<lparr>lf_system = s, lf_inflight = [], lf_phase = Serving,
     lf_handed = sy_waiting s @ sy_sending s, lf_finished = []\<rparr>"

inductive life_reach :: "'l controller \<Rightarrow> 'l life \<Rightarrow> 'l life \<Rightarrow> bool" for C where
  begin_life: "life_reach C s s"
| live_on: "life_reach C s t \<Longrightarrow> life_step C t u \<Longrightarrow> life_reach C s u"

section \<open>It is the control plane\<close>

text \<open>Every step of a life is one or two steps of the control plane, or leaves it alone.\<close>

lemma work_step_sys: "work_step C s t \<Longrightarrow> sys_reach C (lf_system s) (lf_system t)"
  by (induction rule: work_step.induct) (auto intro: sys_step.intros background_step.intros sys_reach.intros)

lemma life_step_sys: "life_step C s t \<Longrightarrow> sys_reach C (lf_system s) (lf_system t)"
proof -
  assume "life_step C s t"
  then obtain fs where w: "work_step C (weathered fs s) t" by (auto simp: life_step_def)
  have "sys_step C (lf_system s) (lf_system (weathered fs s))"
    by (auto simp: weathered_def intro: sys_step.background background_step.connection)
  then show ?thesis using work_step_sys [OF w] by (meson sys_reach.intros sys_reach_trans)
qed

lemma life_reach_sys: "life_reach C s t \<Longrightarrow> sys_reach C (lf_system s) (lf_system t)"
  by (induction rule: life_reach.induct) (auto intro: sys_reach.here sys_reach_trans life_step_sys)

section \<open>What has stopped\<close>

text \<open>Deliveries are counted: what was handed over is waiting, being sent or over.\<close>

definition deliveries_counted :: "'l life \<Rightarrow> bool" where
  "deliveries_counted s \<longleftrightarrow> mset (lf_handed s) =
     mset (sy_waiting (lf_system s)) + mset (sy_sending (lf_system s)) + mset (lf_finished s)"

lemma work_step_counted: "work_step C s t \<Longrightarrow> deliveries_counted s \<Longrightarrow> deliveries_counted t"
  by (induction rule: work_step.induct) (simp_all add: deliveries_counted_def)

text \<open>An error-free phase is one the server went through properly.\<close>

definition phase_true :: "'l life \<Rightarrow> bool" where
  "phase_true s \<longleftrightarrow> (case lf_phase s of
     Waiting None \<Rightarrow> lf_inflight s = []
   | Stopped None \<Rightarrow> lf_inflight s = [] \<and> sy_waiting (lf_system s) = [] \<and> sy_sending (lf_system s) = []
   | _ \<Rightarrow> True)"

lemma Shutdown_error_None [simp]: "Shutdown_error a b = None \<longleftrightarrow> a = None \<and> b = None"
  by (cases a) (simp_all add: Shutdown_error_def)

lemma work_step_phase: "work_step C s t \<Longrightarrow> phase_true s \<Longrightarrow> phase_true t"
  by (induction rule: work_step.induct)
    (auto simp: phase_true_def wait_expired_def split: phase.splits option.splits)

lemma life_step_invariants:
  assumes "life_step C s t" and "deliveries_counted s" and "phase_true s"
  shows "deliveries_counted t \<and> phase_true t"
proof -
  obtain fs where w: "work_step C (weathered fs s) t" using assms(1) by (auto simp: life_step_def)
  have "deliveries_counted (weathered fs s)" "phase_true (weathered fs s)"
    using assms(2,3) by (simp_all add: deliveries_counted_def phase_true_def split: phase.splits option.splits)
  then show ?thesis using w work_step_counted work_step_phase by blast
qed

lemma life_invariants:
  assumes "life_reach C (start s0) t"
  shows "deliveries_counted t" and "phase_true t"
proof -
  have "deliveries_counted t \<and> phase_true t" using assms
    by (induction "start s0" t rule: life_reach.induct)
      (auto simp: start_def deliveries_counted_def phase_true_def dest: life_step_invariants)
  then show "deliveries_counted t" "phase_true t" by simp_all
qed

text \<open>C24: A shutdown that reports no error has left nothing behind that it knows of: every
  accepted request was answered and the delivery of every execution ever handed to \<^verbatim>\<open>Deliver\<close>
  has ended; at most the lookups that never reached \<^verbatim>\<open>Deliver\<close> are open.\<close>

theorem clean_shutdown:
  assumes "life_reach C (start s0) t" and "lf_phase t = Stopped None"
  shows "lf_inflight t = [] \<and> mset (lf_finished t) = mset (lf_handed t)"
  using life_invariants [OF assms(1)] assms(2)
  by (auto simp: phase_true_def deliveries_counted_def)

section \<open>It ends\<close>

text \<open>Once no request is accepted any more every step leaves less to do: a request becomes at
  most a lookup for each of its webhooks, a lookup at most a waiting delivery, and so on.\<close>

fun phase_rank :: "'e phase \<Rightarrow> nat" where
  "phase_rank Serving = 3"
| "phase_rank Draining = 2"
| "phase_rank (Waiting e) = 1"
| "phase_rank (Stopped e) = 0"

definition to_do :: "('l life \<Rightarrow> nat) list" where
  "to_do = [\<lambda>s. phase_rank (lf_phase s), \<lambda>s. length (lf_inflight s),
     \<lambda>s. length (sy_triggered (lf_system s)), \<lambda>s. length (sy_waiting (lf_system s)),
     \<lambda>s. length (sy_sending (lf_system s))]"

lemma work_step_less: "work_step C s t \<Longrightarrow> lf_phase s \<noteq> Serving \<Longrightarrow> (t, s) \<in> measures to_do"
  by (induction rule: work_step.induct) (auto simp: to_do_def)

lemma life_step_less: "life_step C s t \<Longrightarrow> lf_phase s \<noteq> Serving \<Longrightarrow> (t, s) \<in> measures to_do"
proof -
  assume "life_step C s t" and p: "lf_phase s \<noteq> Serving"
  then obtain fs where w: "work_step C (weathered fs s) t" by (auto simp: life_step_def)
  show ?thesis using work_step_less [OF w] p by (simp add: to_do_def)
qed

text \<open>A shutdown cannot go on for ever: once the server has stopped accepting, no sequence of
  steps is infinite, whatever the peers and the database do.\<close>

lemma shutdown_ends: "wf {(t, s). life_step C s t \<and> lf_phase s \<noteq> Serving}"
  by (rule wf_subset [OF wf_measures [of to_do]]) (auto intro: life_step_less)

lemma work_is_life: "work_step C s t \<Longrightarrow> life_step C s t"
proof -
  assume w: "work_step C s t"
  have "weathered (fates (sv_session (sy_server (lf_system s)))) s = s" by (simp add: weathered_def)
  then show ?thesis using w by (metis life_step_def)
qed

lemma life_reach_trans: "life_reach C s t \<Longrightarrow> life_reach C t u \<Longrightarrow> life_reach C s u"
  by (rotate_tac 1, induction rule: life_reach.induct) (auto intro: life_reach.intros)

lemma life_reach_work: "work_step C s t \<Longrightarrow> life_reach C t u \<Longrightarrow> life_reach C s u"
  by (meson life_reach.intros life_reach_trans work_is_life)

text \<open>As long as something is open, a request, a lookup or a delivery can be worked off.\<close>

definition idle :: "'l life \<Rightarrow> bool" where
  "idle s \<longleftrightarrow> lf_inflight s = [] \<and> sy_triggered (lf_system s) = [] \<and> sy_waiting (lf_system s) = [] \<and>
     sy_sending (lf_system s) = []"

lemma work_goes_on:
  assumes p: "\<not> is_stopped (lf_phase s)" and busy: "\<not> idle s"
  shows "\<exists>t. work_step C s t \<and> lf_phase t = lf_phase s"
proof -
  let ?y = "lf_system s"
  consider (inflight) "lf_inflight s \<noteq> []" | (triggered) "sy_triggered ?y \<noteq> []"
    | (sending) "sy_sending ?y \<noteq> []" | (waiting) "sy_waiting ?y \<noteq> []" "sy_sending ?y = []"
    using busy by (auto simp: idle_def)
  then show ?thesis
  proof cases
    case inflight
    then obtain n m path r ys where rq: "lf_inflight s = [] @ (n, m, path, r) # ys"
      by (cases "lf_inflight s") auto
    obtain resp hooks v where "ServeHTTP C n m path r (sy_server ?y) = ((resp, hooks), v)" by (metis surj_pair)
    from work_step.handle [OF p rq this] show ?thesis by fastforce
  next
    case triggered
    then obtain eid ys where eid: "sy_triggered ?y = [] @ eid # ys" by (cases "sy_triggered ?y") auto
    obtain res v where "on_session (triggerWebhook eid) (sy_server ?y) = (res, v)" by (metis surj_pair)
    from work_step.look_up [OF p eid this, of C] show ?thesis by fastforce
  next
    case sending
    then obtain e ys where e: "sy_sending ?y = [] @ e # ys" by (cases "sy_sending ?y") auto
    obtain res v where "on_session (deliver_goroutine (\<lambda>_. NoReply) e) (sy_server ?y) = (res, v)" by (metis surj_pair)
    from work_step.deliver [OF p e this, of C] show ?thesis by fastforce
  next
    case waiting
    then obtain e ys where e: "sy_waiting ?y = [] @ e # ys" by (cases "sy_waiting ?y") auto
    have "length (sy_sending ?y) < webhook_maxConcurrent" using waiting by (simp add: webhook_maxConcurrent_def)
    from work_step.take_slot [OF p e this, of C] show ?thesis by fastforce
  qed
qed

text \<open>Within its time a server that was asked to stop can always stop cleanly.\<close>

lemma can_become_idle:
  assumes "lf_phase s \<noteq> Serving" and "\<not> is_stopped (lf_phase s)"
  shows "\<exists>t. life_reach C s t \<and> idle t \<and> lf_phase t = lf_phase s"
  using assms
proof (induction s rule: wf_induct_rule [OF wf_measures [of to_do]])
  case (1 s)
  show ?case
  proof (cases "idle s")
    case True
    then show ?thesis by (blast intro: life_reach.begin_life)
  next
    case False
    then obtain t where t: "work_step C s t" "lf_phase t = lf_phase s" using work_goes_on 1(3) by blast
    from 1(1) [OF work_step_less [OF t(1) 1(2)]] 1(2,3) t obtain u where
      "life_reach C t u" "idle u" "lf_phase u = lf_phase s" by auto
    then show ?thesis using life_reach_work [OF t(1)] by blast
  qed
qed

lemma can_stop_cleanly:
  assumes "lf_phase s = Draining"
  shows "\<exists>t. life_reach C s t \<and> idle t \<and> lf_phase t = Stopped None"
proof -
  obtain t where t: "life_reach C s t" "idle t" "lf_phase t = Draining"
    using can_become_idle [of s C] assms by auto
  let ?u = "t\<lparr>lf_phase := Waiting (map_option ListenerError None)\<rparr>"
  let ?v = "?u\<lparr>lf_phase := Stopped (Shutdown_error None wait_done)\<rparr>"
  have u: "work_step C t ?u" using t by (intro work_step.drained) (simp_all add: idle_def)
  have v: "work_step C ?u ?v" using t by (intro work_step.waited) (simp_all add: idle_def)
  have "life_reach C s ?v"
    by (rule life_reach_trans [OF t(1)], rule life_reach_work [OF u], rule life_reach_work [OF v])
      (rule life_reach.begin_life)
  moreover have "idle ?v" "lf_phase ?v = Stopped None"
    using t(2) by (simp_all add: idle_def wait_done_def)
  ultimately show ?thesis by blast
qed

section \<open>What it does not wait for\<close>

lemma stopped_is_final: "life_step C s t \<Longrightarrow> is_stopped (lf_phase s) \<Longrightarrow> False"
  by (auto simp: life_step_def elim: work_step.cases)

text \<open>The lookups of a handler's webhooks are goroutines no wait group counts: when the last
  request in flight has been handled and no delivery is open, the server can stop at once with no
  error, and nothing can happen any more.\<close>

lemma stops_before_lookup:
  assumes "lf_phase s = Draining" and "lf_inflight s = [(n, meth, path, r)]"
    and "sy_waiting (lf_system s) = []" and "sy_sending (lf_system s) = []"
    and "ServeHTTP C n meth path r (sy_server (lf_system s)) = ((resp, hooks), v)"
  shows "\<exists>t. life_reach C s t \<and> lf_phase t = Stopped None \<and> lf_handed t = lf_handed s \<and>
     set hooks \<subseteq> set (sy_triggered (lf_system t)) \<and> sy_db (lf_system t) = db (sv_session v) \<and>
     (\<nexists>u. life_step C t u)"
proof -
  let ?t = "s\<lparr>lf_inflight := [], lf_system := (lf_system s)\<lparr>sy_server := v,
      sy_triggered := sy_triggered (lf_system s) @ hooks\<rparr>\<rparr>"
  let ?u = "?t\<lparr>lf_phase := Waiting (map_option ListenerError None)\<rparr>"
  let ?v = "?u\<lparr>lf_phase := Stopped (Shutdown_error None wait_done)\<rparr>"
  have t: "work_step C s ?t"
    using work_step.handle [of s "[]" n meth path r "[]" C resp hooks v] assms by simp
  have u: "work_step C ?t ?u" using assms by (intro work_step.drained) simp_all
  have v: "work_step C ?u ?v" using assms by (intro work_step.waited) simp_all
  have "life_reach C s ?v"
    by (rule life_reach_work [OF t], rule life_reach_work [OF u], rule life_reach_work [OF v])
      (rule life_reach.begin_life)
  moreover have "\<nexists>w. life_step C ?v w" using stopped_is_final [of C ?v] by auto
  ultimately show ?thesis by (intro exI [of _ ?v]) (simp add: wait_done_def sy_db_def)
qed

end
