(* ===== verification/Programs.thy ===== *)
theory Programs
  imports Startup Shutdown
begin

text \<open>
  The two long-running programs, \<^verbatim>\<open>cmd/controller/main.go\<close> and \<^verbatim>\<open>cmd/worker/main.go\<close>, from
  their configuration to their exit, and \<^verbatim>\<open>Run\<close> of \<^verbatim>\<open>internal/controller/server.go\<close>, which the
  first starts as a goroutine. What the packages and the peers answer is a record of arguments.
  Lines only logged on the way carry no error.
\<close>

section \<open>The goroutine of the server\<close>

text \<open>What ends the \<^verbatim>\<open>select\<close> of \<^verbatim>\<open>Run\<close>: an error of the listener, or the context, after which
  the two parts of \<^verbatim>\<open>Shutdown\<close> answer. A closed server sends nothing.\<close>

datatype 'e wake = ListenFailed 'e | ContextDone "'e option" "'e option"

fun Server_Run :: "'e wake \<Rightarrow> 'e option" where
  "Server_Run (ListenFailed e) = Some e"
| "Server_Run (ContextDone http_err webhook_err) = Shutdown_error http_err webhook_err"

text \<open>The goroutine runs with a context that never ends. It serves when listening on the address
  succeeds; an error of listening, or of accepting later on, is a line in the log.\<close>

definition stopped_line :: "string wake \<Rightarrow> program_action list" where
  "stopped_line w = (case Server_Run w of None \<Rightarrow> [] | Some e \<Rightarrow> [Say (''Server stopped: '' @ e)])"

definition server_goroutine :: "string option \<Rightarrow> string option \<Rightarrow> string \<Rightarrow> program_action list" where
  "server_goroutine listen accept addr = Say (''JobPlane Controller starting on '' @ addr) #
     (case listen of
        Some e \<Rightarrow> stopped_line (ListenFailed e)
      | None \<Rightarrow> Serve addr # (case accept of None \<Rightarrow> [] | Some e \<Rightarrow> stopped_line (ListenFailed e)))"

text \<open>What a process does whose \<^verbatim>\<open>main\<close> does \<open>xs\<close>: from the start of the goroutine on, its actions are
  interleaved with those of \<^verbatim>\<open>main\<close>, as many of them as it gets to before the process exits. The
  set holds every run of the process, and more: a goroutine that comes to listen only after the
  shutdown would find the server closed.\<close>

fun runs_with :: "(string \<Rightarrow> program_action list) \<Rightarrow> program_action list \<Rightarrow> program_action list set" where
  "runs_with G [] = {[]}"
| "runs_with G (x # xs) = (#) x `
     (case x of StartServer addr \<Rightarrow> (\<Union>g \<in> set (prefixes (G addr)). shuffles xs g) | _ \<Rightarrow> runs_with G xs)"

section \<open>The controller\<close>

record controller_answers =
  ca_config :: "string + Config"
  ca_open :: "string option"
  ca_ping :: "string option"
  ca_migrate :: migrate_answers
  ca_exporter :: "string option"
  ca_resource :: "string option"
  ca_metrics :: "string option"
  ca_gauge :: "string option"
  ca_listen :: "string option"
  ca_accept :: "string option"
  ca_shutdown :: "string option"
  ca_tracer_end :: "string option"
  ca_metrics_end :: "string option"

definition controller_addr :: "Config \<Rightarrow> string" where
  "controller_addr cfg = '':'' @ itoa (cg_HTTPPort cfg)"

definition optional :: "string option \<Rightarrow> string + unit" where
  "optional r = (case r of None \<Rightarrow> Inr () | Some e \<Rightarrow> Inl e)"

definition migrate_step :: "bool \<Rightarrow> controller_answers \<Rightarrow> unit main" where
  "migrate_step flag a =
     (if flag then
        and_then (act (Say ''Running database migrations...'')) (\<lambda>_.
        and_then (act RunMigrations) (\<lambda>_.
        and_then (or_fatal ''Migration failed: '' (optional (Migrate (ca_migrate a)))) (\<lambda>_.
        act (Say ''Migrations completed successfully''))))
      else ret ())"

definition telemetry_step :: "string \<Rightarrow> Config \<Rightarrow> controller_answers \<Rightarrow> unit main" where
  "telemetry_step name cfg a =
     and_then (or_fatal ''Failed to init tracing: '' (InitTracer (ca_exporter a) (ca_resource a))) (\<lambda>_.
     and_then (act (StartTracing name (cg_OTELEndpoint cfg))) (\<lambda>_.
     and_then (deferring (clean_up StopTracing ''Failed to shutdown tracer: '' (ca_tracer_end a))) (\<lambda>_.
     and_then (or_fatal ''Failed to init metrics: '' (InitMetrics (ca_metrics a))) (\<lambda>_.
     and_then (act StartMetrics) (\<lambda>_.
     deferring (clean_up StopMetrics ''Failed to shutdown metrics: '' (ca_metrics_end a)))))))"

definition gauge_step :: "controller_answers \<Rightarrow> unit main" where
  "gauge_step a = acts (RegisterGauge ''jobplane.queue.depth'' #
     (case ca_gauge a of None \<Rightarrow> [] | Some e \<Rightarrow> [Say (''Failed to register queue depth metric: '' @ e)]))"

definition stop_step :: "controller_answers \<Rightarrow> unit main" where
  "stop_step a =
     and_then (act WaitForSignal) (\<lambda>_.
     and_then (act (Say ''Shutting down controller...'')) (\<lambda>_.
     and_then (act (ShutdownServer (5 * second))) (\<lambda>_.
     and_then (or_fatal ''Server forced to shutdown: '' (optional (ca_shutdown a))) (\<lambda>_.
     act (Say ''Server exited properly'')))))"

definition controller_main :: "bool \<Rightarrow> controller_answers \<Rightarrow> unit main" where
  "controller_main migrate_flag a =
     and_then (or_fatal ''Failed to load config: '' (ca_config a)) (\<lambda>cfg.
     and_then (or_fatal ''Failed to connect to DB: '' (postgres_New (ca_open a) (ca_ping a))) (\<lambda>_.
     and_then (act (OpenStore (cg_DatabaseURL cfg))) (\<lambda>_.
     and_then (deferring [CloseStore]) (\<lambda>_.
     and_then (migrate_step migrate_flag a) (\<lambda>_.
     and_then (telemetry_step ''jobplane-controller'' cfg a) (\<lambda>_.
     and_then (gauge_step a) (\<lambda>_.
     and_then (act (StartServer (controller_addr cfg))) (\<lambda>_.
     stop_step a))))))))"

text \<open>The ways the process can go, with its exit code.\<close>

definition controller_runs :: "bool \<Rightarrow> controller_answers \<Rightarrow> (nat \<times> program_action list) set" where
  "controller_runs migrate_flag a =
     (case run_main (controller_main migrate_flag a) of
        (code, T) \<Rightarrow> Pair code ` runs_with (server_goroutine (ca_listen a) (ca_accept a)) T)"

text \<open>Every step of the start-up succeeded.\<close>

definition starts :: "bool \<Rightarrow> controller_answers \<Rightarrow> bool" where
  "starts migrate_flag a \<longleftrightarrow> (\<exists>cfg. ca_config a = Inr cfg) \<and> ca_open a = None \<and> ca_ping a = None \<and>
     (migrate_flag \<longrightarrow> Migrate (ca_migrate a) = None) \<and> ca_exporter a = None \<and> ca_resource a = None \<and>
     ca_metrics a = None"

lemmas program_simps = and_then_def ret_def main_simps run_main_def postgres_New_def InitTracer_def
  InitMetrics_def optional_def

lemmas program_steps = controller_main_def migrate_step_def telemetry_step_def gauge_step_def stop_step_def

text \<open>What \<^verbatim>\<open>main\<close> itself does.\<close>

lemma controller_main_exit:
  "(let (code, T) = run_main (controller_main flag a) in
     (\<exists>addr. StartServer addr \<in> set T) = starts flag a \<and> (\<forall>addr. Serve addr \<notin> set T) \<and>
     (if starts flag a \<and> ca_shutdown a = None
      then code = 0 \<and> (\<exists>pre. T = pre @ [WaitForSignal, Say ''Shutting down controller...'', ShutdownServer (5 * second),
          Say ''Server exited properly''] @ clean_up StopMetrics ''Failed to shutdown metrics: '' (ca_metrics_end a) @
          clean_up StopTracing ''Failed to shutdown tracer: '' (ca_tracer_end a) @ [CloseStore])
      else code = 1 \<and> set T \<inter> {StopMetrics, StopTracing, CloseStore} = {}))"
proof (cases "ca_config a")
  case (Inl e)
  then show ?thesis by (simp add: program_simps program_steps starts_def)
next
  case (Inr cfg)
  note program_eval = Inr program_simps program_steps starts_def clean_up_def
  show ?thesis
  proof (cases "ca_open a = None \<and> ca_ping a = None \<and> (flag \<longrightarrow> Migrate (ca_migrate a) = None)")
    case True
    then show ?thesis
      by (cases flag; cases "ca_exporter a"; cases "ca_resource a"; cases "ca_metrics a"; cases "ca_shutdown a")
        (auto simp: program_eval split: option.splits)
  next
    case False
    then show ?thesis
      by (cases "ca_open a"; cases "ca_ping a"; cases flag; cases "Migrate (ca_migrate a)") (auto simp: program_eval)
  qed
qed

text \<open>What the goroutine adds, and that it does not disturb the order of \<^verbatim>\<open>main\<close>.\<close>

lemma shuffles_set: "zs \<in> shuffles xs ys \<Longrightarrow> set zs = set xs \<union> set ys"
  by (rule set_shuffles)

lemma shuffles_subseq: "zs \<in> shuffles xs ys \<Longrightarrow> subseq xs zs"
  by (induction xs ys arbitrary: zs rule: shuffles.induct) (auto simp: subseq_Cons')

lemma runs_with_subseq: "Z \<in> runs_with G T \<Longrightarrow> subseq T Z"
proof (induction T arbitrary: Z)
  case (Cons x xs)
  then show ?case by (cases x) (auto dest: shuffles_subseq)
qed simp

lemma runs_with_adds: "Z \<in> runs_with G T \<Longrightarrow> y \<in> set Z \<Longrightarrow> y \<in> set T \<or> (\<exists>addr. StartServer addr \<in> set T \<and> y \<in> set (G addr))"
proof (induction T arbitrary: Z)
  case (Cons x xs)
  then show ?case
    by (cases x) (force dest: shuffles_set set_mono_prefix)+
qed simp

lemma append_in_shuffles: "xs @ ys \<in> shuffles xs ys"
proof (induction xs)
  case (Cons x xs)
  then show ?case by (cases ys) auto
qed simp

text \<open>The goroutine may do all it has to do as soon as it is started.\<close>

lemma runs_with_all:
  assumes "StartServer addr \<in> set T"
  shows "\<exists>Z \<in> runs_with G T. \<exists>addr. StartServer addr \<in> set T \<and> set (G addr) \<subseteq> set Z"
  using assms
proof (induction T)
  case (Cons x xs)
  show ?case
  proof (cases "\<exists>b. x = StartServer b")
    case True
    then obtain b where x: "x = StartServer b" by blast
    have "G b @ xs \<in> shuffles xs (G b)"
      using append_in_shuffles [of "G b" xs] by (simp add: shuffles_commutes)
    moreover have "G b \<in> set (prefixes (G b))" by simp
    ultimately have "x # G b @ xs \<in> runs_with G (x # xs)"
      unfolding x runs_with.simps program_action.case by (intro imageI UN_I)
    then show ?thesis using x by (intro bexI [of _ "x # G b @ xs"]) auto
  next
    case False
    then have "runs_with G (x # xs) = (#) x ` runs_with G xs" by (cases x) auto
    moreover have "StartServer addr \<in> set xs" using Cons.prems False by auto
    ultimately show ?thesis using Cons.IH by force
  qed
qed simp

text \<open>C26: The controller serves only when its whole start-up has succeeded and its address was free,
  and then it can; when listening fails, the process does not serve, writes a line to its log and
  stays as if it did. It exits with 0 exactly when every step of \<^verbatim>\<open>main\<close> before the listener
  succeeded and the shutdown returned no error, whether it has served or not; and then the metrics,
  the traces and the database are closed in this order, after the server; otherwise it exits with 1
  and none of them is, after a shutdown that ran out of time as little as after a failed start.\<close>

theorem controller_exit:
  "(\<forall>(code, Z) \<in> controller_runs flag a.
     (code = 0 \<longleftrightarrow> starts flag a \<and> ca_shutdown a = None) \<and>
     ((\<exists>addr. Serve addr \<in> set Z) \<longrightarrow> starts flag a \<and> ca_listen a = None) \<and>
     (if code = 0
      then subseq ([WaitForSignal, ShutdownServer (5 * second)] @
          clean_up StopMetrics ''Failed to shutdown metrics: '' (ca_metrics_end a) @
          clean_up StopTracing ''Failed to shutdown tracer: '' (ca_tracer_end a) @ [CloseStore]) Z
      else code = 1 \<and> set Z \<inter> {StopMetrics, StopTracing, CloseStore} = {})) \<and>
   (starts flag a \<longrightarrow> (\<exists>(code, Z) \<in> controller_runs flag a.
      case ca_listen a of None \<Rightarrow> \<exists>addr. Serve addr \<in> set Z | Some e \<Rightarrow> Say (''Server stopped: '' @ e) \<in> set Z))"
proof -
  let ?G = "server_goroutine (ca_listen a) (ca_accept a)"
  let ?clean = "clean_up StopMetrics ''Failed to shutdown metrics: '' (ca_metrics_end a) @
    clean_up StopTracing ''Failed to shutdown tracer: '' (ca_tracer_end a) @ [CloseStore]"
  obtain code T where run: "run_main (controller_main flag a) = (code, T)" by (cases "run_main (controller_main flag a)")
  have runs: "controller_runs flag a = Pair code ` runs_with ?G T" by (simp add: controller_runs_def run)
  note m = controller_main_exit [of flag a, unfolded run Let_def prod.case]
  have launched: "(\<exists>addr. StartServer addr \<in> set T) = starts flag a" and own: "\<And>addr. Serve addr \<notin> set T"
    using m by blast+
  have g: "Serve b \<in> set (?G addr) \<Longrightarrow> ca_listen a = None"
    "set (?G addr) \<inter> {StopMetrics, StopTracing, CloseStore} = {}" for addr b
    by (auto simp: server_goroutine_def stopped_line_def split: option.splits)
  have "(code = 0 \<longleftrightarrow> starts flag a \<and> ca_shutdown a = None) \<and>
     ((\<exists>addr. Serve addr \<in> set Z) \<longrightarrow> starts flag a \<and> ca_listen a = None) \<and>
     (if code = 0 then subseq ([WaitForSignal, ShutdownServer (5 * second)] @ ?clean) Z
      else code = 1 \<and> set Z \<inter> {StopMetrics, StopTracing, CloseStore} = {})" if Z: "Z \<in> runs_with ?G T" for Z
  proof (intro conjI)
    show c: "code = 0 \<longleftrightarrow> starts flag a \<and> ca_shutdown a = None" using m by (auto split: if_splits)
    show "(\<exists>addr. Serve addr \<in> set Z) \<longrightarrow> starts flag a \<and> ca_listen a = None"
      using runs_with_adds [OF Z] own launched g(1) by blast
    show "if code = 0 then subseq ([WaitForSignal, ShutdownServer (5 * second)] @ ?clean) Z
      else code = 1 \<and> set Z \<inter> {StopMetrics, StopTracing, CloseStore} = {}"
    proof (cases "code = 0")
      case True
      then obtain pre where "T = pre @ [WaitForSignal, Say ''Shutting down controller...'', ShutdownServer (5 * second),
          Say ''Server exited properly''] @ ?clean" using m c by auto
      moreover have "subseq ([WaitForSignal, ShutdownServer (5 * second)] @ ?clean)
          (pre @ [WaitForSignal, Say ''Shutting down controller...'', ShutdownServer (5 * second),
          Say ''Server exited properly''] @ ?clean)"
        by (rule list_emb_append2, rule list_emb_append_mono) simp_all
      ultimately have "subseq ([WaitForSignal, ShutdownServer (5 * second)] @ ?clean) Z"
        using subseq_order.trans [OF _ runs_with_subseq [OF Z]] by simp
      then show ?thesis using True by simp
    next
      case False
      then have "code = 1" "set T \<inter> {StopMetrics, StopTracing, CloseStore} = {}" using m c by (auto split: if_splits)
      then show ?thesis using runs_with_adds [OF Z] g(2) False by fastforce
    qed
  qed
  then have all: "\<forall>Z \<in> runs_with ?G T. (code = 0 \<longleftrightarrow> starts flag a \<and> ca_shutdown a = None) \<and>
     ((\<exists>addr. Serve addr \<in> set Z) \<longrightarrow> starts flag a \<and> ca_listen a = None) \<and>
     (if code = 0 then subseq ([WaitForSignal, ShutdownServer (5 * second)] @ ?clean) Z
      else code = 1 \<and> set Z \<inter> {StopMetrics, StopTracing, CloseStore} = {})" by blast
  have some: "\<exists>(code, Z) \<in> controller_runs flag a.
      case ca_listen a of None \<Rightarrow> \<exists>addr. Serve addr \<in> set Z | Some e \<Rightarrow> Say (''Server stopped: '' @ e) \<in> set Z"
    if up: "starts flag a"
  proof -
    obtain addr where "StartServer addr \<in> set T" using up launched by blast
    then obtain Z b where Z: "Z \<in> runs_with ?G T" "set (?G b) \<subseteq> set Z" using runs_with_all [of addr T ?G] by blast
    have "case ca_listen a of None \<Rightarrow> Serve b \<in> set (?G b) | Some e \<Rightarrow> Say (''Server stopped: '' @ e) \<in> set (?G b)"
      by (simp add: server_goroutine_def stopped_line_def split: option.split)
    then have "case ca_listen a of None \<Rightarrow> \<exists>addr. Serve addr \<in> set Z | Some e \<Rightarrow> Say (''Server stopped: '' @ e) \<in> set Z"
      using Z(2) by (auto split: option.splits)
    then show ?thesis using Z(1) by (auto simp: runs)
  qed
  show ?thesis using all some unfolding runs ball_simps prod.case by blast
qed

section \<open>The worker\<close>

record worker_answers =
  wa_config :: "string + Config"
  wa_exporter :: "string option"
  wa_resource :: "string option"
  wa_runtime :: "string option"
  wa_metrics :: "string option"
  wa_tracer_end :: "string option"
  wa_metrics_end :: "string option"

definition runtime_step :: "Config \<Rightarrow> string option \<Rightarrow> unit main" where
  "runtime_step cfg err =
     (case choose_runtime cfg of
        UseExec dir \<Rightarrow> act (Say (''Using exec runtime (workdir: '' @ dir @ '')''))
      | UseKubernetes k \<Rightarrow>
          and_then (or_fatal ''Failed to create Kubernetes runtime: '' (optional err)) (\<lambda>_.
          act (Say (''Using kubernetes runtime (namespace: '' @ kc_Namespace k @ '')'')))
      | UseDocker \<Rightarrow>
          and_then (or_fatal ''Failed to create Docker runtime: '' (optional err)) (\<lambda>_.
          act (Say ''Using docker runtime'')))"

definition worker_main :: "worker_answers \<Rightarrow> unit main" where
  "worker_main a =
     and_then (or_fatal ''Failed to load config: '' (wa_config a)) (\<lambda>cfg.
     and_then (deferring [CancelAgent]) (\<lambda>_.
     and_then (or_fatal ''Failed to init tracing: '' (InitTracer (wa_exporter a) (wa_resource a))) (\<lambda>_.
     and_then (act (StartTracing ''jobplane-worker'' (cg_OTELEndpoint cfg))) (\<lambda>_.
     and_then (deferring (clean_up StopTracing ''Failed to shutdown tracer: '' (wa_tracer_end a))) (\<lambda>_.
     and_then (runtime_step cfg (wa_runtime a)) (\<lambda>_.
     and_then (act (Say (''Worker started with concurrency '' @ itoa (cg_WorkerConcurrency cfg)))) (\<lambda>_.
     and_then (act (StartAgent (New_config (worker_config cfg)))) (\<lambda>_.
     and_then (or_fatal ''Failed to init metrics: '' (InitMetrics (wa_metrics a))) (\<lambda>_.
     and_then (act StartMetrics) (\<lambda>_.
     and_then (deferring (clean_up StopMetrics ''Failed to shutdown metrics: '' (wa_metrics_end a))) (\<lambda>_.
     and_then (act (StartMetricsServer '':6162'')) (\<lambda>_.
     and_then (act WaitForSignal) (\<lambda>_.
     and_then (act (Say ''Shutting down worker...'')) (\<lambda>_.
     and_then (act CancelAgent) (\<lambda>_.
     act WaitForAgent)))))))))))))))"

definition agent_starts :: "worker_answers \<Rightarrow> Config \<Rightarrow> bool" where
  "agent_starts a cfg \<longleftrightarrow> wa_config a = Inr cfg \<and> wa_exporter a = None \<and> wa_resource a = None \<and>
     (cg_Runtime cfg \<noteq> ''exec'' \<longrightarrow> wa_runtime a = None)"

lemma runtime_stepE:
  obtains msg where "runtime_step cfg err =
     (\<lambda>p. (if cg_Runtime cfg = ''exec'' \<or> err = None then Inr () else Inl 1, p\<lparr>pr_trace := pr_trace p @ [Say msg]\<rparr>))"
proof (cases "choose_runtime cfg")
  case (UseExec dir)
  then show ?thesis using that
    by (auto simp: runtime_step_def fun_eq_iff choose_runtime_def main_simps and_then_def ret_def split: if_splits)
next
  case (UseKubernetes k)
  then show ?thesis using that
    by (cases err) (auto simp: runtime_step_def fun_eq_iff choose_runtime_def optional_def main_simps and_then_def ret_def
        split: if_splits)
next
  case UseDocker
  then show ?thesis using that
    by (cases err) (auto simp: runtime_step_def fun_eq_iff choose_runtime_def optional_def main_simps and_then_def ret_def
        split: if_splits)
qed

text \<open>The worker waits for its executions unless its metrics fail. It exits with 0 exactly when
  its agent and its metrics have started, and then it has cancelled the agent and waited for it
  before anything was closed; when the metrics cannot be started the agent is already running, and
  the process exits with 1 without cancelling it or waiting for what it has claimed.\<close>

lemma worker_exit:
  "(let (code, T) = run_main (worker_main a) in
     (\<forall>A. StartAgent A \<in> set T \<longleftrightarrow> (\<exists>cfg. agent_starts a cfg \<and> A = New_config (worker_config cfg))) \<and>
     (if (\<exists>cfg. agent_starts a cfg) \<and> wa_metrics a = None
      then code = 0 \<and> (\<exists>pre. T = pre @ [WaitForSignal, Say ''Shutting down worker...'', CancelAgent, WaitForAgent] @
          clean_up StopMetrics ''Failed to shutdown metrics: '' (wa_metrics_end a) @
          clean_up StopTracing ''Failed to shutdown tracer: '' (wa_tracer_end a) @ [CancelAgent])
      else code = 1 \<and> set T \<inter> {CancelAgent, WaitForAgent, StopTracing} = {}))"
proof (cases "wa_config a")
  case (Inl e)
  then show ?thesis by (simp add: program_simps worker_main_def agent_starts_def)
next
  case (Inr cfg)
  obtain msg where rt: "runtime_step cfg (wa_runtime a) = (\<lambda>p. (if cg_Runtime cfg = ''exec'' \<or> wa_runtime a = None
      then Inr () else Inl 1, p\<lparr>pr_trace := pr_trace p @ [Say msg]\<rparr>))"
    by (rule runtime_stepE)
  show ?thesis
    by (cases "wa_exporter a"; cases "wa_resource a"; cases "cg_Runtime cfg = ''exec'' \<or> wa_runtime a = None";
        cases "wa_metrics a")
      (auto simp: Inr rt program_simps worker_main_def agent_starts_def clean_up_def split: option.splits)
qed

end
