(* ===== verification/Wiring.thy ===== *)
theory Wiring
  imports Programs Agent_Theorems
begin

text \<open>
  How the parts are put together: the constructors of the rate limiter, the dispatcher and the
  handlers, \<^verbatim>\<open>New\<close> of \<^verbatim>\<open>internal/controller/server.go\<close>, and what a controller and a worker
  started from loaded configurations have to do with each other.
\<close>

section \<open>The constructors\<close>

text \<open>\<^verbatim>\<open>NewRateLimiter\<close>: five minutes unless an option \<^verbatim>\<open>WithTTL\<close> says otherwise, and no limiter
  cached.\<close>

definition WithTTL :: "duration \<Rightarrow> duration \<times> 'l limiters \<Rightarrow> duration \<times> 'l limiters" where
  "WithTTL ttl rl = (ttl, snd rl)"

definition NewRateLimiter :: "(duration \<times> 'l limiters \<Rightarrow> duration \<times> 'l limiters) list \<Rightarrow> duration \<times> 'l limiters" where
  "NewRateLimiter opts = fold (\<lambda>opt rl. opt rl) opts (5 * minute, \<lambda>tid. None)"

text \<open>\<^verbatim>\<open>NewDispatcher\<close>: the time a request may take, the slots, and no delivery under way.\<close>

record dispatcher =
  dp_timeout :: duration
  dp_slots :: nat
  dp_deliveries :: nat

definition NewDispatcher :: dispatcher where
  "NewDispatcher = \<lparr>dp_timeout = 10 * second, dp_slots = webhook_maxConcurrent, dp_deliveries = 0\<rparr>"

record 'l Handlers =
  hn_VisibilityExtension :: duration
  hn_OnTenantUpdated :: "(uuid \<Rightarrow> 'l limiters \<Rightarrow> 'l limiters) option"
  hn_webhook :: "dispatcher option"

definition handlers_New :: "duration \<Rightarrow> 'l Handlers" where
  "handlers_New c = \<lparr>hn_VisibilityExtension = c, hn_OnTenantUpdated = None, hn_webhook = None\<rparr>"

definition WithCallbacks :: "(uuid \<Rightarrow> 'l limiters \<Rightarrow> 'l limiters) option \<Rightarrow> 'l Handlers \<Rightarrow> 'l Handlers" where
  "WithCallbacks c h = h\<lparr>hn_OnTenantUpdated := c\<rparr>"

definition WithWebhook :: "dispatcher option \<Rightarrow> 'l Handlers \<Rightarrow> 'l Handlers" where
  "WithWebhook wd h = h\<lparr>hn_webhook := wd\<rparr>"

definition server_handlers :: "Config \<Rightarrow> 'l Handlers" where
  "server_handlers cfg = WithWebhook (Some NewDispatcher)
     (WithCallbacks (Some InvalidateTenant) (handlers_New (cg_HeartVisibilityExtension cfg)))"

text \<open>The controller the model serves with, and the state it starts in on a database.\<close>

definition controller_New :: "externals \<Rightarrow> 'l rate \<Rightarrow> Config \<Rightarrow> response option \<Rightarrow> 'l controller" where
  "controller_New E P cfg metrics = \<lparr>co_externals = E, co_rate = P, co_secret = cg_SystemSecret cfg,
     co_extension = hn_VisibilityExtension (server_handlers cfg :: 'l Handlers), co_metrics = metrics\<rparr>"

definition server_start :: "database \<Rightarrow> 'l server" where
  "server_start d = \<lparr>sv_session = calm d, sv_limiters = snd (NewRateLimiter [])\<rparr>"

text \<open>The handlers of a server do what the model of \<^verbatim>\<open>ServeHTTP\<close> does with their effects.\<close>

lemma wiring [simp]:
  "fst (NewRateLimiter []) = default_ttl" "snd (NewRateLimiter []) tid = None"
  "fst (NewRateLimiter [WithTTL ttl]) = ttl"
  "hn_OnTenantUpdated (server_handlers cfg) = Some InvalidateTenant"
  "map_option dp_slots (hn_webhook (server_handlers cfg)) = Some webhook_maxConcurrent"
  "co_extension (controller_New E P cfg m) = cg_HeartVisibilityExtension cfg"
  "co_secret (controller_New E P cfg m) = cg_SystemSecret cfg" "co_externals (controller_New E P cfg m) = E"
  by (simp_all add: NewRateLimiter_def WithTTL_def server_handlers_def WithWebhook_def WithCallbacks_def
      handlers_New_def NewDispatcher_def controller_New_def default_ttl_def)

lemma run_effects_callbacks:
  "hn_OnTenantUpdated (server_handlers cfg) = Some f \<Longrightarrow>
   run_effects [OnTenantUpdated tid] s = s\<lparr>sv_limiters := f tid (sv_limiters s)\<rparr>"
  by simp

section \<open>A controller and a worker from configurations\<close>


text \<open>The interval of the heartbeats of one is in no relation to the extension of the other: with an
  extension below the interval, a claim runs out between two heartbeats.\<close>

lemma slow_heartbeats_lose_claim:
  assumes "SetVisibleAfter eid (t + ext) s = (Inr (), u)" and "q \<in> set (queue (db u))" "qr_execution_id q = eid"
    and "ext < interval" and "qr_id q \<notin> set locked" and "tids = [] \<or> qr_tenant_id q \<in> set tids"
  shows "\<exists>now < t + interval. claimable now locked tids q"
proof -
  have "queue (db u) = update_where (\<lambda>q. qr_execution_id q = eid) (\<lambda>q. q\<lparr>qr_visible_after := t + ext\<rparr>) (queue (db s))"
    using assms(1) by (auto simp: SetVisibleAfter_def postpone_def dest!: exec_Inr)
  then have "q \<in> (\<lambda>r. if qr_execution_id r = eid then r\<lparr>qr_visible_after := t + ext\<rparr> else r) ` set (queue (db s))"
    using assms(2) by (simp only: set_update_where)
  then obtain r where "q = (if qr_execution_id r = eid then r\<lparr>qr_visible_after := t + ext\<rparr> else r)" by (rule imageE)
  then have "qr_visible_after q = t + ext"
    using assms(3) by (cases "qr_execution_id r = eid") simp_all
  then have "claimable (t + ext) locked tids q" using assms(5,6) by (simp add: claimable_def)
  then show ?thesis using assms(4) by (intro exI [of _ "t + ext"]) simp
qed

section \<open>A report while the controller stops\<close>

text \<open>A request as the server holds it once it is accepted.\<close>

definition accepted_as :: "(json \<Rightarrow> string) \<Rightarrow> string \<Rightarrow> surroundings \<Rightarrow> client_request \<Rightarrow> accepted" where
  "accepted_as render base n rq = (let target = drop (length base) (cq_URL rq) in
     (n, cq_Method rq, url_segments target, received render target rq))"

text \<open>C25: A shutdown can lose a webhook and report no error. When the last request in flight is the
  report of a success, the worker is told 200 and the execution is completed, but the lookup that
  would hand it to the dispatcher is a goroutine no wait group counts: with no delivery open the
  controller can stop with no error before it runs, nothing can happen any more, and the callback
  of the execution keeps the status it had, pending.\<close>

theorem shutdown_loses_webhooks:
  assumes draining: "lf_phase s = Draining"
    and inflight: "lf_inflight s = [accepted_as render (ac_ControllerURL A) n (result_request (co_externals C) A eid rep)]"
    and calm: "sy_waiting (lf_system s) = []" "sy_sending (lf_system s) = []" "sv_session (sy_server (lf_system s)) = calm d"
    and report: "ran (co_externals C) payload env" "re_wait env = Inr x" "xt_ExitCode x = 0"
      "reports (processItem (co_externals C) ctx eid payload env) = [rep]" "jsonb_ok (enc_raw (er_Result rep))"
    and parties: "paired C A eid" "find_execution d eid = Some e" "ex_CallbackStatus e = Some CallbackStatusPending"
  shows "\<exists>t e'. life_reach C s t \<and> lf_phase t = Stopped None \<and> (\<nexists>u. life_step C t u) \<and>
     eid \<in> set (sy_triggered (lf_system t)) \<and> lf_handed t = lf_handed s \<and>
     find_execution (sy_db (lf_system t)) eid = Some e' \<and>
     ex_Status e' = ExecutionStatusCompleted \<and> ex_CallbackStatus e' = Some CallbackStatusPending"
proof -
  let ?rq = "result_request (co_externals C) A eid rep" and ?v = "sy_server (lf_system s)"
  obtain d' where "served render C n (ac_ControllerURL A) ?rq ?v = ((bare_status 200, [eid]), ?v\<lparr>sv_session := calm d'\<rparr>)"
    and e': "find_execution d' eid = Some (e\<lparr>ex_Status := ExecutionStatusCompleted,
      ex_ExitCode := Some 0, ex_Result := Some (enc_raw (er_Result rep)), ex_CompletedAt := Some (db_now (en_clocks n))\<rparr>)"
    using success_served [OF report(1-4) parties(1) calm(3) parties(2) report(5), of render n] by blast
  then have h: "ServeHTTP C n (cq_Method ?rq) (url_segments (drop (length (ac_ControllerURL A)) (cq_URL ?rq)))
      (received render (drop (length (ac_ControllerURL A)) (cq_URL ?rq)) ?rq) ?v =
      ((bare_status 200, [eid]), ?v\<lparr>sv_session := calm d'\<rparr>)"
    by (simp add: served_def Let_def)
  obtain t where "life_reach C s t" "lf_phase t = Stopped None" "lf_handed t = lf_handed s"
    "eid \<in> set (sy_triggered (lf_system t))" "sy_db (lf_system t) = d'" "\<nexists>u. life_step C t u"
    using stops_before_lookup [OF draining inflight [unfolded accepted_as_def Let_def] calm(1,2) h] by auto
  then show ?thesis using e' parties(3)
    by (intro exI [of _ t] exI [of _ "e\<lparr>ex_Status := ExecutionStatusCompleted,
      ex_ExitCode := Some 0, ex_Result := Some (enc_raw (er_Result rep)), ex_CompletedAt := Some (db_now (en_clocks n))\<rparr>"])
      simp
qed

end
