(* ===== verification/Concurrent_Claims.thy ===== *)
theory Concurrent_Claims
  imports Claims
begin

text \<open>
  \<^verbatim>\<open>DequeueBatch\<close> by many sessions at once, statement by statement. A transaction selects rows that
  no other transaction holds, locks them, and writes new versions of its rows and of their
  executions that the others see when it commits; anything else may happen to the committed tables
  in between that respects the row locks, as PostgreSQL documents them. The result is that every
  interleaving is a serial run of the \<^verbatim>\<open>DequeueBatch\<close> of \<^theory_text>\<open>Store_Queue\<close> for some list of locked rows,
  the parameter its theorems are proved for.
\<close>

section \<open>Transactions\<close>

record dequeue_args =
  da_clk :: clocks
  da_tids :: "uuid list"
  da_limit :: int

text \<open>A session: between transactions, after the \<^verbatim>\<open>SELECT\<close>, after the first \<^verbatim>\<open>UPDATE\<close>, and after the
  second, with the versions of the executions it has locked.\<close>

datatype claim_tx =
    NoTx
  | Selected dequeue_args "queue_row list"
  | Bumped dequeue_args "queue_row list"
  | Marked dequeue_args "queue_row list" "execution list"

record concurrent =
  cc_db :: database
  cc_tx :: "nat \<Rightarrow> claim_tx"

fun held :: "claim_tx \<Rightarrow> queue_row list" where
  "held NoTx = []"
| "held (Selected a rows) = rows"
| "held (Bumped a rows) = rows"
| "held (Marked a rows es) = rows"

fun written :: "claim_tx \<Rightarrow> execution list" where
  "written (Marked a rows es) = es"
| "written _ = []"

definition execution_ids :: "queue_row list \<Rightarrow> uuid set" where
  "execution_ids rows = qr_execution_id ` set rows"

text \<open>The new versions the two \<^verbatim>\<open>UPDATE\<close>s write, the second reading the rows of the first, and their
  publication by the commit.\<close>

definition bump_row :: "time \<Rightarrow> queue_row \<Rightarrow> queue_row" where
  "bump_row now q = q\<lparr>qr_attempt := qr_attempt q + 1, qr_visible_after := now + VisibilityTimeout\<rparr>"

definition mark_row :: "time \<Rightarrow> queue_row list \<Rightarrow> execution \<Rightarrow> execution" where
  "mark_row now rows e = mark_running now (find (\<lambda>q. qr_execution_id q = ex_ID e) (map (bump_row now) rows)) e"

definition publish :: "('r \<Rightarrow> 'k) \<Rightarrow> 'r list \<Rightarrow> 'r list \<Rightarrow> 'r list" where
  "publish key new = map (\<lambda>x. case find (\<lambda>y. key y = key x) new of None \<Rightarrow> x | Some y \<Rightarrow> y)"

definition commit_claim :: "dequeue_args \<Rightarrow> queue_row list \<Rightarrow> execution list \<Rightarrow> database \<Rightarrow> database" where
  "commit_claim a rows es d = (let now = db_now (da_clk a) in
     d\<lparr>queue := publish qr_id (map (bump_row now) rows) (queue d),
       executions := publish ex_ID (map (mark_row now rows) es) (executions d)\<rparr>)"

inductive tx_step :: "concurrent \<Rightarrow> concurrent \<Rightarrow> bool" where
  select: "cc_tx c i = NoTx \<Longrightarrow> set locked = (\<Union>j \<in> UNIV - {i}. qr_id ` set (held (cc_tx c j))) \<Longrightarrow>
    rows = select_batch (db_now (da_clk a)) locked (da_tids a) (at_least_one (da_limit a)) (cc_db c) \<Longrightarrow>
    tx_step c (c\<lparr>cc_tx := (cc_tx c)(i := if rows = [] then NoTx else Selected a rows)\<rparr>)"
| bump: "cc_tx c i = Selected a rows \<Longrightarrow> tx_step c (c\<lparr>cc_tx := (cc_tx c)(i := Bumped a rows)\<rparr>)"
| mark: "cc_tx c i = Bumped a rows \<Longrightarrow> es = filter (\<lambda>e. ex_ID e \<in> execution_ids rows) (executions (cc_db c)) \<Longrightarrow>
    tx_step c (c\<lparr>cc_tx := (cc_tx c)(i := Marked a rows es)\<rparr>)"
| commit: "cc_tx c i = Marked a rows es \<Longrightarrow>
    tx_step c (c\<lparr>cc_db := commit_claim a rows es (cc_db c), cc_tx := (cc_tx c)(i := NoTx)\<rparr>)"
| abort: "tx_step c (c\<lparr>cc_tx := (cc_tx c)(i := NoTx)\<rparr>)"
| others: "safe (cc_db c) d \<Longrightarrow> \<forall>i. set (held (cc_tx c i)) \<subseteq> set (queue d) \<Longrightarrow>
    \<forall>i. set (written (cc_tx c i)) \<subseteq> set (executions d) \<Longrightarrow> tx_step c (c\<lparr>cc_db := d\<rparr>)"

section \<open>What holds between the statements\<close>

text \<open>The rows of a transaction are as it selected them, due, and its batch is within the limit; once
  it has marked executions, these are the ones of its rows.\<close>

definition tx_rows_ok :: "database \<Rightarrow> dequeue_args \<Rightarrow> queue_row list \<Rightarrow> bool" where
  "tx_rows_ok d a rows \<longleftrightarrow> rows \<noteq> [] \<and> distinct rows \<and> set rows \<subseteq> set (queue d) \<and>
     int (length rows) \<le> at_least_one (da_limit a) \<and>
     (\<forall>q \<in> set rows. claimable (db_now (da_clk a)) [] (da_tids a) q)"

definition tx_marks_ok :: "database \<Rightarrow> queue_row list \<Rightarrow> execution list \<Rightarrow> bool" where
  "tx_marks_ok d rows es \<longleftrightarrow> set es \<subseteq> set (executions d) \<and> ex_ID ` set es = execution_ids rows"

fun tx_ok :: "database \<Rightarrow> claim_tx \<Rightarrow> bool" where
  "tx_ok d NoTx = True"
| "tx_ok d (Selected a rows) = tx_rows_ok d a rows"
| "tx_ok d (Bumped a rows) = tx_rows_ok d a rows"
| "tx_ok d (Marked a rows es) = (tx_rows_ok d a rows \<and> tx_marks_ok d rows es)"

definition concurrent_inv :: "concurrent \<Rightarrow> bool" where
  "concurrent_inv c \<longleftrightarrow> db_inv (cc_db c) \<and> (\<forall>i. tx_ok (cc_db c) (cc_tx c i)) \<and>
     (\<forall>i j. i \<noteq> j \<longrightarrow> qr_id ` set (held (cc_tx c i)) \<inter> qr_id ` set (held (cc_tx c j)) = {})"

lemma queue_key_eq:
  assumes "db_inv d" and "q \<in> set (queue d)" "r \<in> set (queue d)"
  shows "qr_id q = qr_id r \<Longrightarrow> q = r" and "qr_execution_id q = qr_execution_id r \<Longrightarrow> q = r"
  using assms by (auto simp: db_inv_def queue_ok_def dest: distinct_map_eqD)

lemma find_unique:
  assumes "r \<in> set xs" and "P r" and "\<forall>x \<in> set xs. P x \<longrightarrow> x = r"
  shows "find P xs = Some r"
proof -
  have "find P xs \<noteq> None" using assms(1,2) by (simp only: find_None_iff) blast
  then obtain y where y: "find P xs = Some y" by auto
  then have "y \<in> set xs \<and> P y" by (rule find_SomeD)
  then show ?thesis using y assms(3) by simp
qed

text \<open>Publishing versions: a row with a version takes it, another stays.\<close>

definition published :: "('r \<Rightarrow> 'k) \<Rightarrow> 'r list \<Rightarrow> 'r \<Rightarrow> 'r" where
  "published key new x = (case find (\<lambda>y. key y = key x) new of None \<Rightarrow> x | Some y \<Rightarrow> y)"

lemma publish_eq: "publish key new = map (published key new)"
  by (simp add: publish_def published_def [abs_def])

lemma published_some:
  assumes "y \<in> set new" "key y = key x" "\<forall>z \<in> set new. key z = key x \<longrightarrow> z = y"
  shows "published key new x = y"
  unfolding published_def find_unique [of y new "\<lambda>y. key y = key x", OF assms] by (rule option.case(2))

lemma published_none: "\<forall>z \<in> set new. key z \<noteq> key x \<Longrightarrow> published key new x = x"
proof -
  assume "\<forall>z \<in> set new. key z \<noteq> key x"
  then have "find (\<lambda>y. key y = key x) new = None" by (simp only: find_None_iff) blast
  then show ?thesis by (simp add: published_def)
qed

lemma bump_row_simps [simp]: "qr_id (bump_row now q) = qr_id q" "qr_execution_id (bump_row now q) = qr_execution_id q"
  by (simp_all add: bump_row_def)

lemma mark_row_id [simp]: "ex_ID (mark_row now rows e) = ex_ID e"
  by (simp add: mark_row_def mark_running_def split: option.split)

text \<open>What a commit publishes is the claim of its rows.\<close>

lemma published_queue:
  assumes inv: "db_inv d" and sub: "set rows \<subseteq> set (queue d)" and x: "x \<in> set (queue d)"
  shows "published qr_id (map (bump_row now) rows) x = bumped now (map qr_id rows) x"
proof (cases "x \<in> set rows")
  case True
  have "\<forall>z \<in> set rows. qr_id z = qr_id x \<longrightarrow> z = x" using queue_key_eq(1) [OF inv _ x] sub by blast
  then have "published qr_id (map (bump_row now) rows) x = bump_row now x"
    using True by (intro published_some) auto
  then show ?thesis using True by (simp add: bumped_def bump_row_def)
next
  case False
  then have n: "\<forall>z \<in> set rows. qr_id z \<noteq> qr_id x" using queue_key_eq(1) [OF inv _ x] sub by blast
  then have "published qr_id (map (bump_row now) rows) x = x" by (intro published_none) simp
  then show ?thesis using n by (auto simp: bumped_def)
qed

lemma published_execution:
  assumes inv: "db_inv d" and sub: "set rows \<subseteq> set (queue d)" and es: "tx_marks_ok d rows es"
    and x: "x \<in> set (executions d)"
  shows "published ex_ID (map (mark_row now rows) es) x = claimed_execution now (map qr_id rows) d x"
proof (cases "ex_ID x \<in> execution_ids rows")
  case True
  then obtain r where r: "r \<in> set rows" "qr_execution_id r = ex_ID x" by (auto simp: execution_ids_def)
  have "ex_ID x \<in> ex_ID ` set es" using es True by (simp add: tx_marks_ok_def)
  then obtain y where y: "y \<in> set es" "ex_ID x = ex_ID y" by (rule imageE)
  have u: "\<forall>z \<in> set es. ex_ID z = ex_ID x \<longrightarrow> z = x"
    using es executions_unique [OF inv _ x] by (auto simp: tx_marks_ok_def)
  have "x \<in> set es" using u y by simp
  then have m: "published ex_ID (map (mark_row now rows) es) x = mark_row now rows x"
    using u by (intro published_some) auto
  have ur: "\<forall>q \<in> set (queue d). qr_execution_id q = ex_ID x \<longrightarrow> q = r"
    using queue_key_eq(2) [OF inv] r sub by auto
  then have 1: "find (\<lambda>q. qr_execution_id q = ex_ID x) (map (bump_row now) rows) = Some (bump_row now r)"
    using r sub by (intro find_unique) auto
  have 2: "find (\<lambda>q. qr_id q \<in> set (map qr_id rows) \<and> qr_execution_id q = ex_ID x) (queue d) = Some r"
    using r sub ur by (intro find_unique) auto
  show ?thesis
    unfolding m mark_row_def 1 claimed_execution_def 2 using r(1) by (simp add: bumped_def bump_row_def)
next
  case False
  have "find (\<lambda>q. qr_id q \<in> set (map qr_id rows) \<and> qr_execution_id q = ex_ID x) (queue d) = None"
  proof -
    have "\<not> (qr_id q \<in> set (map qr_id rows) \<and> qr_execution_id q = ex_ID x)" if q: "q \<in> set (queue d)" for q
    proof
      assume a: "qr_id q \<in> set (map qr_id rows) \<and> qr_execution_id q = ex_ID x"
      then obtain r where "r \<in> set rows" "qr_id q = qr_id r" by auto
      then have "q \<in> set rows" using queue_key_eq(1) [OF inv q] sub by blast
      then have "qr_execution_id q \<in> execution_ids rows" by (simp add: execution_ids_def)
      then show False using a False by simp
    qed
    then show ?thesis by (simp only: find_None_iff) blast
  qed
  moreover have "\<forall>z \<in> set (map (mark_row now rows) es). ex_ID z \<noteq> ex_ID x"
  proof -
    have "ex_ID z \<noteq> ex_ID x" if z: "z \<in> set es" for z
    proof
      assume "ex_ID z = ex_ID x"
      moreover have "ex_ID z \<in> execution_ids rows" using es z by (auto simp: tx_marks_ok_def)
      ultimately show False using False by simp
    qed
    then show ?thesis by simp
  qed
  ultimately show ?thesis by (simp add: published_none claimed_execution_def mark_running_def)
qed

lemma commit_is_claim:
  assumes "db_inv d" and "tx_rows_ok d a rows" and "tx_marks_ok d rows es"
  shows "commit_claim a rows es d = claim (db_now (da_clk a)) (map qr_id rows) d"
proof -
  have sub: "set rows \<subseteq> set (queue d)" using assms(2) by (simp add: tx_rows_ok_def)
  have "map (published qr_id (map (bump_row now) rows)) (queue d) = map (bumped now (map qr_id rows)) (queue d)" for now
    using published_queue [OF assms(1) sub] by simp
  moreover have "map (published ex_ID (map (mark_row now rows) es)) (executions d) =
      map (claimed_execution now (map qr_id rows) d) (executions d)" for now
    using published_execution [OF assms(1) sub assms(3)] by simp
  ultimately show ?thesis by (simp add: commit_claim_def Let_def claim_eq publish_eq)
qed

section \<open>The invariant\<close>

lemma select_batch_length: "int (length (select_batch now locked tids n d)) \<le> max 0 n"
  by (simp add: select_batch_def)

lemma distinct_select_batch:
  assumes "db_inv d"
  shows "distinct (select_batch now locked tids n d)"
proof -
  have "distinct (queue d)" using assms by (auto simp: db_inv_def queue_ok_def distinct_map)
  then show ?thesis unfolding select_batch_def by (simp add: distinct_take distinct_filter)
qed

lemma selected_rows_ok:
  assumes "db_inv d" and "rows = select_batch (db_now (da_clk a)) locked (da_tids a) (at_least_one (da_limit a)) d"
    and "rows \<noteq> []"
  shows "tx_rows_ok d a rows" and "qr_id ` set rows \<inter> set locked = {}"
proof -
  have m: "q \<in> set (queue d) \<and> claimable (db_now (da_clk a)) locked (da_tids a) q" if "q \<in> set rows" for q
    using select_batch_in_queue that assms(2) by blast
  have "0 < at_least_one (da_limit a)" by (simp add: at_least_one_def)
  then have "int (length rows) \<le> at_least_one (da_limit a)"
    using select_batch_length [of "db_now (da_clk a)" locked "da_tids a" "at_least_one (da_limit a)" d] assms(2) by simp
  moreover have "distinct rows" using distinct_select_batch [OF assms(1)] assms(2) by simp
  ultimately show "tx_rows_ok d a rows"
    using m assms(3) by (auto simp: tx_rows_ok_def claimable_def)
  show "qr_id ` set rows \<inter> set locked = {}" using m by (auto simp: claimable_def)
qed

lemma marks_of_rows:
  assumes "db_inv d" and "set rows \<subseteq> set (queue d)"
  shows "tx_marks_ok d rows (filter (\<lambda>e. ex_ID e \<in> execution_ids rows) (executions d))"
proof -
  have "\<exists>e \<in> set (executions d). ex_ID e = qr_execution_id q" if "q \<in> set rows" for q
  proof -
    have "q \<in> set (queue d)" using that assms(2) by blast
    then obtain e where "e \<in> set (executions d)" "agree q e" using assms(1) queued_execution by blast
    then show ?thesis by (auto simp: agree_def)
  qed
  then have "execution_ids rows \<subseteq> ex_ID ` set (executions d)" by (force simp: execution_ids_def)
  then show ?thesis by (auto simp: tx_marks_ok_def)
qed

text \<open>The rows and the executions of another transaction are not those of the one that commits.\<close>

lemma tx_ok_other_commit:
  assumes inv: "db_inv d" and rows: "set rows \<subseteq> set (queue d)" and ok: "tx_ok d t"
    and dis: "qr_id ` set rows \<inter> qr_id ` set (held t) = {}"
  shows "tx_ok (claim now (map qr_id rows) d) t"
proof -
  have q: "q \<in> set (queue (claim now (map qr_id rows) d))" if "q \<in> set (queue d)" "qr_id q \<notin> qr_id ` set rows" for q
    using that by (force simp: claim_eq bumped_def)
  have r: "tx_rows_ok (claim now (map qr_id rows) d) a rs" if "tx_rows_ok d a rs" "rs = held t" for a rs
    using that q dis by (auto simp: tx_rows_ok_def)
  have m: "tx_marks_ok (claim now (map qr_id rows) d) rs es" if "tx_marks_ok d rs es" "tx_rows_ok d a rs" "rs = held t" for a rs es
  proof -
    have "e \<in> set (executions (claim now (map qr_id rows) d))" if e: "e \<in> set es" for e
    proof -
      have x: "e \<in> set (executions d)" using e \<open>tx_marks_ok d rs es\<close> by (auto simp: tx_marks_ok_def)
      have "ex_ID e \<in> execution_ids rs" using e \<open>tx_marks_ok d rs es\<close> by (auto simp: tx_marks_ok_def)
      then obtain s where s: "s \<in> set rs" "qr_execution_id s = ex_ID e" by (auto simp: execution_ids_def)
      have sd: "s \<in> set (queue d)" using s \<open>tx_rows_ok d a rs\<close> by (auto simp: tx_rows_ok_def)
      have "find (\<lambda>q. qr_id q \<in> set (map qr_id rows) \<and> qr_execution_id q = ex_ID e) (queue d) = None"
      proof -
        have "\<not> (qr_id q \<in> set (map qr_id rows) \<and> qr_execution_id q = ex_ID e)" if "q \<in> set (queue d)" for q
          using queue_key_eq(2) [OF inv that sd] s dis \<open>rs = held t\<close> by auto
        then show ?thesis by (simp only: find_None_iff) blast
      qed
      then have "claimed_execution now (map qr_id rows) d e = e" by (simp add: claimed_execution_def mark_running_def)
      then show ?thesis using x by (force simp: claim_eq)
    qed
    then show ?thesis using \<open>tx_marks_ok d rs es\<close> by (auto simp: tx_marks_ok_def)
  qed
  show ?thesis using ok r m by (cases t) auto
qed

lemma tx_ok_others:
  "tx_ok d t \<Longrightarrow> set (held t) \<subseteq> set (queue d') \<Longrightarrow> set (written t) \<subseteq> set (executions d') \<Longrightarrow> tx_ok d' t"
  by (cases t) (auto simp: tx_rows_ok_def tx_marks_ok_def)

lemma concurrent_inv_update:
  assumes inv: "concurrent_inv c" and t: "tx_ok (cc_db c) t"
    and dis: "\<And>j. j \<noteq> i \<Longrightarrow> qr_id ` set (held t) \<inter> qr_id ` set (held (cc_tx c j)) = {}"
  shows "concurrent_inv (c\<lparr>cc_tx := (cc_tx c)(i := t)\<rparr>)"
proof -
  have "qr_id ` set (held (((cc_tx c)(i := t)) k)) \<inter> qr_id ` set (held (((cc_tx c)(i := t)) j)) = {}" if "k \<noteq> j" for j k
  proof -
    consider "k = i" | "j = i" "k \<noteq> i" | "j \<noteq> i" "k \<noteq> i" by blast
    then show ?thesis
    proof cases
      case 1
      then show ?thesis using dis [of j] that by simp
    next
      case 2
      then show ?thesis using dis [of k] by (simp add: Int_commute)
    next
      case 3
      then show ?thesis using inv that by (simp add: concurrent_inv_def)
    qed
  qed
  then show ?thesis using inv t by (simp add: concurrent_inv_def)
qed

lemma concurrent_invD:
  assumes "concurrent_inv c" and "cc_tx c i = t"
  shows "tx_ok (cc_db c) t" and "db_inv (cc_db c)"
    and "j \<noteq> i \<Longrightarrow> qr_id ` set (held t) \<inter> qr_id ` set (held (cc_tx c j)) = {}"
  using assms unfolding concurrent_inv_def by blast+

lemma tx_step_inv: "tx_step c c' \<Longrightarrow> concurrent_inv c \<Longrightarrow> concurrent_inv c'"
proof (induction rule: tx_step.induct)
  case (select c i locked rows a)
  note inv = concurrent_invD [OF select.prems select(1)]
  show ?case
  proof (cases "rows = []")
    case True
    then show ?thesis using concurrent_inv_update [OF select.prems, of NoTx i] by simp
  next
    case False
    note ok = selected_rows_ok [OF inv(2) select(3) False]
    have "qr_id ` set rows \<inter> qr_id ` set (held (cc_tx c j)) = {}" if "j \<noteq> i" for j
      using ok(2) select(2) that by blast
    then show ?thesis using False ok(1) concurrent_inv_update [OF select.prems, of "Selected a rows" i] by simp
  qed
next
  case (bump c i a rows)
  note inv = concurrent_invD [OF bump.prems bump(1)]
  show ?case by (rule concurrent_inv_update [OF bump.prems]) (use inv in simp_all)
next
  case (mark c i a rows es)
  note inv = concurrent_invD [OF mark.prems mark(1)]
  have "tx_marks_ok (cc_db c) rows es"
    unfolding mark(2) using inv(1,2) by (intro marks_of_rows) (auto simp: tx_rows_ok_def)
  then show ?case by (intro concurrent_inv_update [OF mark.prems]) (use inv in simp_all)
next
  case (commit c i a rows es)
  have ok: "tx_rows_ok (cc_db c) a rows" "tx_marks_ok (cc_db c) rows es" and inv: "db_inv (cc_db c)"
    using commit.prems commit(1) by (auto simp: concurrent_inv_def dest!: spec [of _ i])
  note c = commit_is_claim [OF inv ok]
  have sub: "set rows \<subseteq> set (queue (cc_db c))" using ok(1) by (simp add: tx_rows_ok_def)
  have "db_inv (claim now (map qr_id rows) (cc_db c))" for now using safe_claim inv by (simp add: safe_def)
  moreover have "tx_ok (claim now (map qr_id rows) (cc_db c)) (cc_tx c j)" if "j \<noteq> i" for j now
  proof (rule tx_ok_other_commit [OF inv sub])
    show "tx_ok (cc_db c) (cc_tx c j)" using commit.prems by (simp add: concurrent_inv_def)
    have "held (cc_tx c i) = rows" using commit(1) by simp
    then show "qr_id ` set rows \<inter> qr_id ` set (held (cc_tx c j)) = {}"
      using commit.prems that unfolding concurrent_inv_def by blast
  qed
  ultimately show ?case using commit.prems by (auto simp: concurrent_inv_def c)
next
  case (abort c i)
  then show ?case by (intro concurrent_inv_update) simp_all
next
  case (others c d)
  have "tx_ok d (cc_tx c i)" for i
    using tx_ok_others [of "cc_db c" "cc_tx c i" d] others by (simp add: concurrent_inv_def)
  moreover have "db_inv d" using others by (simp add: concurrent_inv_def safe_def)
  ultimately show ?case using others.prems by (simp add: concurrent_inv_def)
qed

definition at_rest :: "database \<Rightarrow> concurrent" where
  "at_rest d = \<lparr>cc_db = d, cc_tx = (\<lambda>i. NoTx)\<rparr>"

lemma tx_run_inv: "tx_step\<^sup>*\<^sup>* (at_rest d) c \<Longrightarrow> db_inv d \<Longrightarrow> concurrent_inv c"
proof (induction rule: rtranclp_induct)
  case base
  then show ?case by (simp add: concurrent_inv_def at_rest_def)
qed (blast intro: tx_step_inv)

section \<open>Serial runs\<close>

lemma claim_cong: "set ids = set ids' \<Longrightarrow> claim now ids d = claim now ids' d"
  by (simp add: claim_def bump_claimed_def start_claimed_def)

text \<open>The rows of a transaction are the batch of a dequeue that passes over all others.\<close>

lemma rows_selected_again:
  assumes inv: "db_inv d" and ok: "tx_rows_ok d a rows"
    and locked: "locked = map qr_id (filter (\<lambda>q. q \<notin> set rows) (queue d))"
  shows "mset (select_batch (db_now (da_clk a)) locked (da_tids a) (at_least_one (da_limit a)) d) = mset rows"
proof -
  let ?f = "filter (claimable (db_now (da_clk a)) locked (da_tids a)) (queue d)"
  have "claimable (db_now (da_clk a)) locked (da_tids a) q \<longleftrightarrow> q \<in> set rows" if q: "q \<in> set (queue d)" for q
  proof -
    have "qr_id q \<in> set locked \<longleftrightarrow> q \<notin> set rows"
      using queue_key_eq(1) [OF inv q] q by (auto simp: locked)
    then show ?thesis using ok by (auto simp: claimable_def tx_rows_ok_def)
  qed
  then have f: "?f = filter (\<lambda>q. q \<in> set rows) (queue d)" by (intro filter_cong) auto
  have dis: "distinct (queue d)" "distinct rows" "set rows \<subseteq> set (queue d)"
    using inv ok by (auto simp: db_inv_def queue_ok_def distinct_map tx_rows_ok_def)
  have m: "mset ?f = mset rows"
    unfolding f using dis by (intro set_eq_iff_mset_eq_distinct [THEN iffD1]) auto
  then have "length (sort_key dequeue_key ?f) = length rows" by (metis length_sort size_mset)
  moreover have "int (length rows) \<le> at_least_one (da_limit a)" using ok by (simp add: tx_rows_ok_def)
  ultimately have "take (nat (at_least_one (da_limit a))) (sort_key dequeue_key ?f) = sort_key dequeue_key ?f"
    by (intro take_all) linarith
  then show ?thesis using m by (simp add: select_batch_def)
qed

text \<open>C6: Concurrent dequeues are serial. However the statements of any number of dequeue transactions
  are interleaved with each other and with other changes that respect row locks, a transaction that
  commits has the effect and, up to the order of equals, the result of one \<^verbatim>\<open>DequeueBatch\<close> run alone
  on the committed tables with some rows locked; and no two transactions under way hold the same
  row.\<close>

theorem dequeues_serialise:
  assumes run: "tx_step\<^sup>*\<^sup>* (at_rest d0) c" and d0: "db_inv d0" and tx: "cc_tx c i = Marked a rows es"
  shows "(\<exists>locked items. DequeueBatch (da_clk a) locked (da_tids a) (da_limit a) (calm (cc_db c)) =
      (Inr items, calm (commit_claim a rows es (cc_db c))) \<and> mset items = mset (map queue_item rows)) \<and>
    (\<forall>j. j = i \<or> set (held (cc_tx c j)) \<inter> set rows = {})"
proof -
  have inv: "concurrent_inv c" using tx_run_inv run d0 .
  then have ok: "tx_rows_ok (cc_db c) a rows" "tx_marks_ok (cc_db c) rows es" and db: "db_inv (cc_db c)"
    using tx by (auto simp: concurrent_inv_def dest!: spec [of _ i])
  define locked where "locked = map qr_id (filter (\<lambda>q. q \<notin> set rows) (queue (cc_db c)))"
  define sel where "sel = select_batch (db_now (da_clk a)) locked (da_tids a) (at_least_one (da_limit a)) (cc_db c)"
  have m: "mset sel = mset rows" unfolding sel_def by (rule rows_selected_again [OF db ok(1) locked_def])
  then have "sel \<noteq> []" using ok(1) by (auto simp: tx_rows_ok_def)
  from DequeueBatch_calm [OF sel_def this]
  have "DequeueBatch (da_clk a) locked (da_tids a) (da_limit a) (calm (cc_db c)) =
      (Inr (map queue_item sel), calm (claim (db_now (da_clk a)) (map qr_id sel) (cc_db c)))" .
  moreover have "set (map qr_id sel) = set (map qr_id rows)" using mset_eq_setD [OF m] by simp
  then have "claim (db_now (da_clk a)) (map qr_id sel) (cc_db c) = commit_claim a rows es (cc_db c)"
    unfolding commit_is_claim [OF db ok] by (rule claim_cong)
  moreover have "mset (map queue_item sel) = mset (map queue_item rows)" using m by simp
  moreover have "set (held (cc_tx c j)) \<inter> set rows = {}" if "j \<noteq> i" for j
  proof -
    have "held (cc_tx c i) = rows" using tx by simp
    then have "qr_id ` set (held (cc_tx c j)) \<inter> qr_id ` set rows = {}"
      using inv that unfolding concurrent_inv_def by blast
    then show ?thesis by blast
  qed
  ultimately show ?thesis by metis
qed

end
