(* ===== verification/Webhook_Request.thy ===== *)
theory Webhook_Request
  imports Webhook Wire
begin

text \<open>
  The request of a webhook delivery (\<^verbatim>\<open>doPost\<close> of
  \<^verbatim>\<open>internal/controller/webhook/webhook.go\<close>) and the program that stands for its receiver
  (\<^verbatim>\<open>tools/webhook-receiver/main.go\<close>): the headers that are sent, what the receiver shows of
  them, and the delivery it confirms.
\<close>

section \<open>The request\<close>

text \<open>\<^verbatim>\<open>textproto.CanonicalMIMEHeaderKey\<close>: a key of token characters has its words capitalised; any
  other key stays as it is.\<close>

definition token_char :: "char \<Rightarrow> bool" where
  "token_char c \<longleftrightarrow> (let n = of_char c :: nat in
     48 \<le> n \<and> n \<le> 57 \<or> 65 \<le> n \<and> n \<le> 90 \<or> 97 \<le> n \<and> n \<le> 122 \<or>
     n \<in> {33, 35, 36, 37, 38, 39, 42, 43, 45, 46, 94, 95, 96, 124, 126})"

fun capitalise :: "bool \<Rightarrow> string \<Rightarrow> string" where
  "capitalise up [] = []"
| "capitalise up (c # cs) = (if up then to_upper c else to_lower c) # capitalise (c = CHR ''-'') cs"

definition canonical_key :: "string \<Rightarrow> string" where
  "canonical_key k = (if list_all token_char k then capitalise True k else k)"

text \<open>\<^verbatim>\<open>Header.Set\<close>, and the headers of a delivery: the two of the program, then the custom ones,
  which replace what is there, in the order the map is ranged over.\<close>

definition header_set :: "string \<Rightarrow> string \<Rightarrow> string_map \<Rightarrow> string_map" where
  "header_set k v h = AList.update (canonical_key k) v h"

definition webhook_headers :: "string_map \<Rightarrow> string_map" where
  "webhook_headers custom = fold (\<lambda>(k, v) h. header_set k v h) custom
     (header_set ''User-Agent'' ''jobplane-webhook/1.0''
       (header_set ''Content-Type'' ''application/json'' []))"

definition webhook_request :: "string \<Rightarrow> json option \<Rightarrow> string_map \<Rightarrow> client_request" where
  "webhook_request url payload custom = \<lparr>cq_Method = ''POST'', cq_URL = url,
     cq_Header = webhook_headers custom, cq_Body = payload\<rparr>"

text \<open>\<open>makes\<close> says whether \<^verbatim>\<open>NewRequest\<close> accepts the address, \<open>peer\<close> what comes back for a
  request at an attempt; the result is what \<^verbatim>\<open>doPost\<close> classifies.\<close>

definition post_to ::
    "(string \<Rightarrow> bool) \<Rightarrow> (nat \<Rightarrow> client_request \<Rightarrow> nat option) \<Rightarrow> client_request \<Rightarrow> nat \<Rightarrow> post_outcome" where
  "post_to makes peer rq n =
     (if \<not> makes (cq_URL rq) then NoRequest
      else case peer n rq of None \<Rightarrow> NoReply | Some c \<Rightarrow> Reply c)"

definition delivery_request :: "externals \<Rightarrow> time \<Rightarrow> execution \<Rightarrow> client_request" where
  "delivery_request E now e =
     webhook_request (case ex_CallbackURL e of None \<Rightarrow> [] | Some u \<Rightarrow> u) (buildPayload E now e) (custom_headers e)"

lemma header_set_same: "map_of (header_set k v h) (canonical_key k) = Some v"
  by (simp add: header_set_def update_conv)

lemma map_of_header_set: "map_of (header_set k v h) x = (if x = canonical_key k then Some v else map_of h x)"
  by (simp add: header_set_def update_conv)

lemma map_of_fold_header_set:
  "map_of (fold (\<lambda>(k, v) h. header_set k v h) custom h) x =
     (case map_of (rev (map (\<lambda>(k, v). (canonical_key k, v)) custom)) x of Some v \<Rightarrow> Some v | None \<Rightarrow> map_of h x)"
  by (induction custom arbitrary: h) (auto simp: map_of_header_set map_add_def split: option.splits)

text \<open>A custom header arrives under its canonical name, unless another of the map has the same;
  content type and user agent are the program's unless they are custom.\<close>

lemma custom_header_arrives:
  assumes "distinct (map (canonical_key \<circ> fst) custom)" and "(k, v) \<in> set custom"
  shows "map_of (webhook_headers custom) (canonical_key k) = Some v"
proof -
  let ?c = "map (\<lambda>(k, v). (canonical_key k, v)) custom"
  have "distinct (map fst (rev ?c))"
    using assms(1) by (simp add: rev_map [symmetric] comp_def case_prod_unfold)
  moreover have "(canonical_key k, v) \<in> set (rev ?c)" using assms(2) by force
  ultimately have "map_of (rev ?c) (canonical_key k) = Some v" by (simp add: map_of_eq_Some_iff del: set_rev)
  then show ?thesis by (simp add: webhook_headers_def map_of_fold_header_set)
qed

lemma default_headers:
  assumes "x \<notin> (canonical_key \<circ> fst) ` set custom"
  shows "x = ''Content-Type'' \<Longrightarrow> map_of (webhook_headers custom) x = Some ''application/json''"
    and "x = ''User-Agent'' \<Longrightarrow> map_of (webhook_headers custom) x = Some ''jobplane-webhook/1.0''"
proof -
  have "map_of (rev (map (\<lambda>(k, v). (canonical_key k, v)) custom)) x = None"
    using assms by (force simp: map_of_eq_None_iff)
  then have h: "map_of (webhook_headers custom) x = map_of (header_set ''User-Agent'' ''jobplane-webhook/1.0''
       (header_set ''Content-Type'' ''application/json'' [])) x"
    by (simp add: webhook_headers_def map_of_fold_header_set)
  have k: "canonical_key ''User-Agent'' = ''User-Agent''" "canonical_key ''Content-Type'' = ''Content-Type''"
    by code_simp+
  show "x = ''Content-Type'' \<Longrightarrow> map_of (webhook_headers custom) x = Some ''application/json''"
    "x = ''User-Agent'' \<Longrightarrow> map_of (webhook_headers custom) x = Some ''jobplane-webhook/1.0''"
    using h by (simp_all add: map_of_header_set k)
qed

section \<open>The receiver\<close>

definition rule_line :: string where
  "rule_line = concat (replicate 50 [CHR 0xE2, CHR 0x94, CHR 0x81])"

definition envelope :: string where
  "envelope = [CHR 0xF0, CHR 0x9F, CHR 0x93, CHR 0xA9]"

definition standard_headers :: "string list" where
  "standard_headers = [''Content-Type'', ''User-Agent'', ''Content-Length'', ''Accept-Encoding'']"

definition header_get :: "string_map \<Rightarrow> string \<Rightarrow> string" where
  "header_get h k = (case map_of h k of None \<Rightarrow> [] | Some v \<Rightarrow> v)"

text \<open>What is read of the body: a JSON value, or bytes that are none.\<close>

definition body_text :: "(json \<Rightarrow> string) \<Rightarrow> string + json \<Rightarrow> string" where
  "body_text pretty b = (case b of Inl raw \<Rightarrow> raw | Inr j \<Rightarrow> pretty j)"

text \<open>One request: the lines printed, the answer, and the counter. \<open>clock\<close> is the time of day.\<close>

definition receiver_shows ::
    "(json \<Rightarrow> string) \<Rightarrow> string \<Rightarrow> nat \<Rightarrow> string \<Rightarrow> string \<Rightarrow> string_map \<Rightarrow> string + json \<Rightarrow> string list" where
  "receiver_shows pretty clock count meth path h b =
     [[], rule_line, envelope @ '' Webhook #'' @ itoa (int count) @ '' received at '' @ clock, rule_line,
      ''  Method:       '' @ meth @ '' '' @ path,
      ''  Content-Type: '' @ header_get h ''Content-Type'',
      ''  User-Agent:   '' @ header_get h ''User-Agent''] @
     map (\<lambda>(k, v). ''  '' @ k @ '': '' @ v) (filter (\<lambda>(k, v). k \<notin> set standard_headers) h) @
     [''  Body:'', ''  '' @ body_text pretty b, rule_line]"

definition receiver_answer :: response where
  "receiver_answer = \<lparr>rs_status = 200, rs_headers = [(''Content-Type'', ''application/json'')],
     rs_body = JsonBody (JObj [(''status'', JStr ''received'')])\<rparr>"

definition receiver ::
    "(json \<Rightarrow> string) \<Rightarrow> string \<Rightarrow> string \<Rightarrow> client_request \<Rightarrow> nat \<Rightarrow> (string list \<times> response) \<times> nat" where
  "receiver pretty clock path rq count =
     ((receiver_shows pretty clock (Suc count) (cq_Method rq) path (cq_Header rq)
         (case cq_Body rq of None \<Rightarrow> Inl [] | Some j \<Rightarrow> Inr j), receiver_answer), Suc count)"

text \<open>\<open>os.Args[1]\<close>, or the default port.\<close>

definition receiver_port :: "string list \<Rightarrow> string" where
  "receiver_port args = (case args of p # q # ps \<Rightarrow> q | _ \<Rightarrow> ''9999'')"

lemma distinct_header_set: "distinct (map fst h) \<Longrightarrow> distinct (map fst (header_set k v h))"
  by (simp add: header_set_def distinct_update)

lemma distinct_webhook_headers: "distinct (map fst (webhook_headers custom))"
proof -
  have "distinct (map fst (fold (\<lambda>(k, v) h. header_set k v h) custom h))" if "distinct (map fst h)" for h
    using that by (induction custom arbitrary: h) (auto simp: distinct_header_set)
  then show ?thesis unfolding webhook_headers_def by (simp add: distinct_header_set)
qed

text \<open>A webhook reaches a receiver at the first attempt. When the address makes a request and the
  receiver answers there, the delivery is one POST and has succeeded, whatever the receiver would
  have answered later; the receiver counts it once and shows the payload and each custom header
  whose canonical name is its own and not one of the four standard ones.\<close>

lemma webhook_is_received:
  assumes u: "ex_CallbackURL e = Some url" "makes url"
    and peer: "peer 0 = (\<lambda>rq. Some (rs_status (snd (fst (receiver pretty clock path rq count)))))"
    and p: "buildPayload E now e = Some j"
  shows "deliverWithRetry (post_to makes peer (delivery_request E now e)) = ([Attempt 0], True) \<and>
    snd (receiver pretty clock path (delivery_request E now e) count) = Suc count \<and>
    (let shown = fst (fst (receiver pretty clock path (delivery_request E now e) count)) in
     ''  '' @ pretty j \<in> set shown \<and>
     (distinct (map (canonical_key \<circ> fst) (custom_headers e)) \<longrightarrow>
      (\<forall>(k, v) \<in> set (custom_headers e). canonical_key k \<notin> set standard_headers \<longrightarrow>
         ''  '' @ canonical_key k @ '': '' @ v \<in> set shown)))"
proof -
  let ?rq = "delivery_request E now e"
  have rq: "cq_URL ?rq = url" "cq_Body ?rq = Some j" "cq_Header ?rq = webhook_headers (custom_headers e)"
    using u p by (simp_all add: delivery_request_def webhook_request_def)
  have o: "post_to makes peer ?rq 0 = Reply 200"
    using u(2) peer by (simp add: post_to_def rq receiver_def receiver_answer_def)
  have del: "deliverWithRetry (post_to makes peer ?rq) = ([Attempt 0], True)"
    unfolding deliverWithRetry_def by (subst deliver_from.simps) (simp add: o backoff_before_def)
  have hdr: "''  '' @ canonical_key k @ '': '' @ v \<in> set (fst (fst (receiver pretty clock path ?rq count)))"
    if "distinct (map (canonical_key \<circ> fst) (custom_headers e))" "(k, v) \<in> set (custom_headers e)"
      "canonical_key k \<notin> set standard_headers" for k v
  proof -
    have "(canonical_key k, v) \<in> set (webhook_headers (custom_headers e))"
      using custom_header_arrives [OF that(1,2)] by (rule map_of_SomeD)
    then show ?thesis using that(3) by (force simp: receiver_def receiver_shows_def rq)
  qed
  have "''  '' @ pretty j \<in> set (fst (fst (receiver pretty clock path ?rq count)))"
    by (simp add: receiver_def receiver_shows_def rq body_text_def)
  then show ?thesis using del hdr by (auto simp: receiver_def Let_def)
qed

end
