(* ===== verification/Log_Streams.thy ===== *)
theory Log_Streams
  imports Runtime_Theorems Agent
begin

text \<open>
  Where the lines of an execution come from: the reader over both pipes of a process
  (\<^verbatim>\<open>combinedReader\<close> of \<^verbatim>\<open>internal/worker/runtime/exec.go\<close>), the log stream of a container, the
  client of the Docker runtime, and the beginning of \<^verbatim>\<open>streamLogs\<close> of
  \<^verbatim>\<open>internal/worker/agent.go\<close>, which gives up when there is no stream.
\<close>

section \<open>The combined reader of a process\<close>

text \<open>What the pipes still hold; both are at their end when nothing is left.\<close>

record combinedReader =
  cr_stdout :: string
  cr_stderr :: string

definition newCombinedReader :: "string \<Rightarrow> string \<Rightarrow> combinedReader" where
  "newCombinedReader stdout stderr = \<lparr>cr_stdout = stdout, cr_stderr = stderr\<rparr>"

text \<open>\<^verbatim>\<open>io.MultiReader\<close>: at most \<open>n\<close> bytes of the first reader that has any.\<close>

definition combined_Read :: "nat \<Rightarrow> combinedReader \<Rightarrow> string \<times> combinedReader" where
  "combined_Read n c =
     (if cr_stdout c \<noteq> [] then (take n (cr_stdout c), c\<lparr>cr_stdout := drop n (cr_stdout c)\<rparr>)
      else (take n (cr_stderr c), c\<lparr>cr_stderr := drop n (cr_stderr c)\<rparr>))"

text \<open>\<^verbatim>\<open>Close\<close> closes both, whatever the first says, and joins the errors.\<close>

definition combined_Close :: "string option \<Rightarrow> string option \<Rightarrow> string option" where
  "combined_Close out_err err_err =
     (let errs = (case out_err of None \<Rightarrow> [] | Some e \<Rightarrow> [e]) @ (case err_err of None \<Rightarrow> [] | Some e \<Rightarrow> [e]) in
      if length errs > 0 then Some (join_with [CHR 0x0A] errs) else None)"

definition exec_StreamLogs :: "combinedReader \<Rightarrow> string + combinedReader" where
  "exec_StreamLogs combined = Inr combined"

fun reads :: "nat list \<Rightarrow> combinedReader \<Rightarrow> string \<times> combinedReader" where
  "reads [] c = ([], c)"
| "reads (n # ns) c = (let (x, c') = combined_Read n c; (y, c'') = reads ns c' in (x @ y, c''))"

text \<open>However the reads are cut, they yield the output and then the errors, nothing lost or
  doubled.\<close>

lemma reads_in_order:
  "reads ns c = (x, c') \<Longrightarrow> x @ cr_stdout c' @ cr_stderr c' = cr_stdout c @ cr_stderr c"
proof (induction ns arbitrary: c x)
  case (Cons n ns)
  obtain y c1 where r: "combined_Read n c = (y, c1)" by (cases "combined_Read n c")
  obtain z where z: "reads ns c1 = (z, c')" and x: "x = y @ z"
    using Cons.prems r by (auto simp: Let_def split: prod.splits)
  have "y @ cr_stdout c1 @ cr_stderr c1 = cr_stdout c @ cr_stderr c"
    using r by (auto simp: combined_Read_def split: if_splits)
  then show ?case using Cons.IH [OF z] x by simp
qed simp

lemma reads_all:
  "reads ns (newCombinedReader out err) = (x, newCombinedReader [] []) \<Longrightarrow> x = out @ err"
  using reads_in_order [of ns "newCombinedReader out err" x "newCombinedReader [] []"]
  by (simp add: newCombinedReader_def)

text \<open>The lines of a process, and their quirk: a last line of the output without its end runs
  into the first line of the errors.\<close>

definition process_lines :: "string \<Rightarrow> string \<Rightarrow> string list" where
  "process_lines out err = clean_lines (out @ err)"

lemma raw_lines_Cons: "CHR 0x0A \<notin> set l \<Longrightarrow> raw_lines (l @ CHR 0x0A # s) = l # raw_lines s"
  by (auto simp: raw_lines_def Let_def split_on_append)

lemma raw_lines_one: "CHR 0x0A \<notin> set l \<Longrightarrow> l \<noteq> [] \<Longrightarrow> raw_lines l = [l]"
  by (simp add: raw_lines_def Let_def split_on_no_sep)

lemma process_lines_separate:
  assumes "CHR 0x0A \<notin> set a" "CHR 0x0A \<notin> set b" "length a < max_line" "length b < max_line" "b \<noteq> []"
    and "CHR 0x0D \<notin> set a" "CHR 0x0D \<notin> set b" "CHR 0x00 \<notin> set a" "CHR 0x00 \<notin> set b"
  shows "process_lines (a @ [CHR 0x0A]) b = [a, b]"
    and "length a + length b < max_line \<Longrightarrow> process_lines a b = [a @ b]"
proof -
  have cr: "drop_cr s = s" if "CHR 0x0D \<notin> set s" for s using that unfolding drop_cr_def by (metis last_in_set)
  show "process_lines (a @ [CHR 0x0A]) b = [a, b]"
    using assms by (simp add: process_lines_def clean_lines_def scan_lines_def raw_lines_Cons raw_lines_one cr
        strip_nul_id)
  show "length a + length b < max_line \<Longrightarrow> process_lines a b = [a @ b]"
    using assms by (simp add: process_lines_def clean_lines_def scan_lines_def raw_lines_one cr strip_nul_id)
qed

section \<open>The stream of a container\<close>

record logs_options =
  lo_ShowStdout :: bool
  lo_ShowStderr :: bool
  lo_Follow :: bool

text \<open>The answers of the Docker client, for its creation and for a stream of logs.\<close>

definition NewDockerRuntime :: "string option \<Rightarrow> string + unit" where
  "NewDockerRuntime err =
     (case err of Some e \<Rightarrow> Inl (''Failed to create Docker client: '' @ e) | None \<Rightarrow> Inr ())"

definition docker_StreamLogs :: "(string \<Rightarrow> logs_options \<Rightarrow> string + string) \<Rightarrow> string \<Rightarrow> string + string" where
  "docker_StreamLogs ContainerLogs containerID =
     ContainerLogs containerID \<lparr>lo_ShowStdout = True, lo_ShowStderr = True, lo_Follow = True\<rparr>"

section \<open>The start of the stream\<close>

text \<open>Without a stream nothing is shipped, and the execution goes on.\<close>

definition start_stream :: "string + string \<Rightarrow> log_event list \<Rightarrow> (bool \<times> string list) list" where
  "start_stream rc es = (case rc of Inl err \<Rightarrow> [] | Inr text \<Rightarrow> streamLogs True [] es)"

text \<open>The lines of a stream are shipped in order, whatever the ticker does, when it is read to its
  end while its context lives.\<close>

lemma stream_is_shipped:
  assumes "LogEnd \<in> set es" and "LogStop \<notin> set es" "ContextEnds \<notin> set es"
    and "streamed es = clean_lines txt"
  shows "concat (shipped (start_stream (Inr txt) es)) = clean_lines txt"
proof -
  obtain dead where "streamLogs True [] es = filter fst (streamLogs True [] es) @ dead" "dead = []"
    using streamLogs_split [of True "[]" es] assms(2,3) by auto
  then have "filter fst (streamLogs True [] es) = streamLogs True [] es" by simp
  then show ?thesis using assms(1,4) streamLogs_concat [of es True "[]"]
    by (simp add: start_stream_def shipped_def)
qed

end
