(* ===== verification/Cli_Setup.thy ===== *)
theory Cli_Setup
  imports Cli_Status Startup
begin

text \<open>
  How \<^verbatim>\<open>jobctl\<close> comes to a command: \<^verbatim>\<open>cmd/cli/main.go\<close>, the settings of
  \<^verbatim>\<open>cmd/cli/cmd/root.go\<close>, and the flags each command registers and reads. Cobra, which parses
  the command line, and viper, which looks settings up, are parameters: the first by the values
  it gives to flags, the second by a lookup with the law its documentation states.
\<close>

section \<open>Settings\<close>

text \<open>What viper has been told: the file, the prefix of environment variables, whether they are
  looked up for every key, and the flags bound to keys with their defaults.\<close>

record cli_setup =
  cs_file :: config_file
  cs_prefix :: string
  cs_automatic :: bool
  cs_flags :: "(string \<times> string) list"

text \<open>\<^verbatim>\<open>init\<close> and \<^verbatim>\<open>initConfig\<close>. Without a home directory the program prints the error and exits
  with 1; a file that cannot be read is passed over in silence.\<close>

definition bound_flags :: "(string \<times> string) list" where
  "bound_flags = [(''url'', ''http://localhost:6161''), (''token'', [])]"

definition initConfig :: "string \<Rightarrow> string + string \<Rightarrow> (cli_setup \<Rightarrow> string option) \<Rightarrow> cli_setup main" where
  "initConfig cfgFile home ReadInConfig =
     and_then (if cfgFile \<noteq> [] then ret (FileAt cfgFile)
       else case home of Inl e \<Rightarrow> and_then (act (Say e)) (\<lambda>_. throw 1)
         | Inr h \<Rightarrow> ret (FileNamed ''.jobctl'' ''yaml'' h)) (\<lambda>file.
     let su = \<lparr>cs_file = file, cs_prefix = ''JOBPLANE'', cs_automatic = True, cs_flags = bound_flags\<rparr> in
     and_then (case ReadInConfig su of None \<Rightarrow> ret () | Some used \<Rightarrow> act (Say (''Using config file: '' @ used))) (\<lambda>_.
     ret su))"

text \<open>\<^verbatim>\<open>main\<close>: an error of \<^verbatim>\<open>Execute\<close>, which cobra has printed, becomes exit code 1.\<close>

definition cli_main :: "'a main \<Rightarrow> string option \<Rightarrow> unit main" where
  "cli_main before executed =
     and_then before (\<lambda>_. case executed of None \<Rightarrow> ret () | Some e \<Rightarrow> throw 1)"

lemma initConfig_Inr:
  "initConfig cfgFile home f p = (Inr su, q) \<Longrightarrow>
   cs_prefix su = ''JOBPLANE'' \<and> cs_automatic su \<and> cs_flags su = bound_flags \<and>
   cs_file su = (if cfgFile \<noteq> [] then FileAt cfgFile else FileNamed ''.jobctl'' ''yaml'' (projr home))"
  by (auto simp: initConfig_def Let_def ret_def throw_def act_def and_then_def
      split: if_splits sum.splits option.splits prod.splits)

section \<open>Looking a setting up\<close>

definition env_key :: "string \<Rightarrow> string \<Rightarrow> string" where
  "env_key pre key = map to_upper (pre @ ''_'' @ key)"

type_synonym cli_lookup =
  "cli_setup \<Rightarrow> (string \<Rightarrow> string option) \<Rightarrow> (string \<Rightarrow> string option) \<Rightarrow> string \<Rightarrow> string"

text \<open>
  The documented precedence, for a lookup with the flags given on the command line and the
  environment: a bound flag that was given, the variable of the key with its prefix, if it is
  not empty, then what neither of them decides (the file, the defaults).
\<close>

definition viper_precedence :: "cli_lookup \<Rightarrow> bool" where
  "viper_precedence L \<longleftrightarrow> (\<forall>su given env key.
     L su given env key =
       (case (if key \<in> fst ` set (cs_flags su) then given key else None) of
          Some v \<Rightarrow> v
        | None \<Rightarrow>
            (case (if cs_automatic su then env (env_key (cs_prefix su) key) else None) of
               Some v \<Rightarrow> if v \<noteq> [] then v else L su (\<lambda>_. None) (\<lambda>_. None) key
             | None \<Rightarrow> L su (\<lambda>_. None) (\<lambda>_. None) key)))"

definition NewJobClient :: "string \<Rightarrow> string \<Rightarrow> JobClient" where
  "NewJobClient baseURL token = \<lparr>jc_BaseURL = baseURL, jc_Token = token\<rparr>"

definition configured_client ::
    "cli_lookup \<Rightarrow> cli_setup \<Rightarrow> (string \<Rightarrow> string option) \<Rightarrow> (string \<Rightarrow> string option) \<Rightarrow> JobClient" where
  "configured_client L su given env = NewJobClient (L su given env ''url'') (L su given env ''token'')"

lemma env_keys: "env_key ''JOBPLANE'' ''url'' = ''JOBPLANE_URL''" "env_key ''JOBPLANE'' ''token'' = ''JOBPLANE_TOKEN''"
  by code_simp+

text \<open>
  The variable the help names, \<^verbatim>\<open>JOBPLANE_API_URL\<close>, does nothing; the client takes its token and
  its address from the flags and the variables \<^verbatim>\<open>JOBPLANE_TOKEN\<close> and \<^verbatim>\<open>JOBPLANE_URL\<close>.
\<close>

lemma documented_variable_is_not_read:
  assumes "viper_precedence L" and "initConfig cfgFile home f p = (Inr su, q)"
  shows "configured_client L su given (env(''JOBPLANE_API_URL'' := x)) = configured_client L su given env"
    and "given ''url'' = None \<Longrightarrow> env ''JOBPLANE_URL'' = Some u \<Longrightarrow> u \<noteq> [] \<Longrightarrow>
      jc_BaseURL (configured_client L su given env) = u"
    and "given ''token'' = None \<Longrightarrow> env ''JOBPLANE_TOKEN'' = Some t \<Longrightarrow> t \<noteq> [] \<Longrightarrow>
      jc_Token (configured_client L su given env) = t"
proof -
  have su: "cs_prefix su = ''JOBPLANE''" "cs_automatic su = True" "cs_flags su = bound_flags"
    using initConfig_Inr [OF assms(2)] by simp_all
  have L: "L su given e key =
      (case given key of Some v \<Rightarrow> v
       | None \<Rightarrow> (case e (env_key ''JOBPLANE'' key) of
           Some v \<Rightarrow> if v \<noteq> [] then v else L su (\<lambda>_. None) (\<lambda>_. None) key
         | None \<Rightarrow> L su (\<lambda>_. None) (\<lambda>_. None) key))" if "key \<in> {''url'', ''token''}" for e key
    using assms(1) [unfolded viper_precedence_def, rule_format, of su given e key] that
    unfolding su if_True by (auto simp: bound_flags_def)
  show "configured_client L su given (env(''JOBPLANE_API_URL'' := x)) = configured_client L su given env"
    by (simp add: configured_client_def L env_keys cong: option.case_cong)
  show "given ''url'' = None \<Longrightarrow> env ''JOBPLANE_URL'' = Some u \<Longrightarrow> u \<noteq> [] \<Longrightarrow>
      jc_BaseURL (configured_client L su given env) = u"
    by (simp add: configured_client_def NewJobClient_def L [of "''url''"] env_keys)
  show "given ''token'' = None \<Longrightarrow> env ''JOBPLANE_TOKEN'' = Some t \<Longrightarrow> t \<noteq> [] \<Longrightarrow>
      jc_Token (configured_client L su given env) = t"
    by (simp add: configured_client_def NewJobClient_def L [of "''token''"] env_keys)
qed

section \<open>Flags\<close>

datatype flag_spec =
    StringFlag string string string
  | ArrayFlag string string
  | IntFlag string string int
  | BoolFlag string string bool

text \<open>The \<^verbatim>\<open>init\<close> functions: the name, the shorthand and the default of each flag.\<close>

definition create_flags :: "flag_spec list" where
  "create_flags = [StringFlag ''name'' ''n'' [], StringFlag ''image'' ''i'' [], ArrayFlag ''command'' ''c'',
     IntFlag ''timeout'' [] 0, IntFlag ''priority'' ''p'' 0]"

definition submit_flags :: "flag_spec list" where
  "submit_flags = [StringFlag ''name'' ''n'' [], StringFlag ''image'' ''i'' [], ArrayFlag ''command'' ''c'',
     IntFlag ''timeout'' [] 0, IntFlag ''priority'' ''p'' 0]"

definition run_flags :: "flag_spec list" where
  "run_flags = [StringFlag ''schedule'' [] [], StringFlag ''callback-url'' [] []]"

definition logs_flags :: "flag_spec list" where
  "logs_flags = [BoolFlag ''follow'' ''f'' False]"

definition dlq_list_flags :: "flag_spec list" where
  "dlq_list_flags = [IntFlag ''limit'' ''l'' 20, IntFlag ''offset'' ''o'' 0]"

text \<open>The values of flags after parsing, and the law that a flag not given has its default.\<close>

record parsed =
  pf_string :: "string \<Rightarrow> string"
  pf_array :: "string \<Rightarrow> string list"
  pf_int :: "string \<Rightarrow> int"
  pf_bool :: "string \<Rightarrow> bool"

fun has_default :: "parsed \<Rightarrow> flag_spec \<Rightarrow> bool" where
  "has_default p (StringFlag n sh d) = (pf_string p n = d)"
| "has_default p (ArrayFlag n sh) = (pf_array p n = [])"
| "has_default p (IntFlag n sh d) = (pf_int p n = d)"
| "has_default p (BoolFlag n sh d) = (pf_bool p n = d)"

definition read_job_flags :: "parsed \<Rightarrow> job_flags" where
  "read_job_flags p = \<lparr>jf_name = pf_string p ''name'', jf_image = pf_string p ''image'',
     jf_command = pf_array p ''command'', jf_timeout = pf_int p ''timeout'', jf_priority = pf_int p ''priority''\<rparr>"

text \<open>A job created with the required flags only has no timeout of its own and priority 0.\<close>

lemma create_defaults:
  assumes "\<forall>f \<in> set create_flags. f \<in> {StringFlag ''name'' ''n'' [], StringFlag ''image'' ''i'' [], ArrayFlag ''command'' ''c''} \<or>
    has_default p f"
  shows "create_request (read_job_flags p) = \<lparr>cj_Name = pf_string p ''name'', cj_Image = pf_string p ''image'',
    cj_Command = Some (pf_array p ''command''), cj_DefaultTimeout = 0, cj_Priority = 0, cj_CallbackURL = None,
    cj_CallbackHeaders = None\<rparr>"
  using assms by (simp add: create_flags_def read_job_flags_def create_request_def)

text \<open>Running \<^verbatim>\<open>jobctl\<close>: the command with its arguments, as cobra hands them over. Only a command
  that takes an identifier gets one.\<close>

datatype invocation = InvCreate | InvSubmit | InvRun string | InvDlqList | InvDlqRetry string

definition jobctl ::
    "'s wire \<Rightarrow> (string \<Rightarrow> string + time) \<Rightarrow> (string list list \<Rightarrow> string) \<Rightarrow> (time \<Rightarrow> string) \<Rightarrow> JobClient \<Rightarrow>
     parsed \<Rightarrow> invocation \<Rightarrow> 's command" where
  "jobctl wire parse table rfc3339 c p iv =
     (case iv of
        InvCreate \<Rightarrow> cmd_create wire c (read_job_flags p)
      | InvSubmit \<Rightarrow> cmd_submit wire c (read_job_flags p)
      | InvRun jobID \<Rightarrow> cmd_run wire parse c jobID (pf_string p ''schedule'') (pf_string p ''callback-url'')
      | InvDlqList \<Rightarrow> cmd_dlq_list wire table rfc3339 c (pf_int p ''limit'') (pf_int p ''offset'')
      | InvDlqRetry eid \<Rightarrow> cmd_dlq_retry wire c eid)"

text \<open>Without a token, \<^verbatim>\<open>create\<close>, \<^verbatim>\<open>submit\<close> and \<^verbatim>\<open>run\<close> print a hint, exit with 0 and send
  nothing.\<close>

lemma no_token_no_request:
  "jc_Token c = [] \<Longrightarrow> iv \<in> {InvCreate, InvSubmit, InvRun jobID} \<Longrightarrow>
   jobctl wire parse table rfc3339 c p iv s = ((no_token, 0), s)"
  by (auto simp: jobctl_def cmd_create_def cmd_submit_def cmd_run_def prints_def)

end
