(* ===== verification/Program_Examples.thy ===== *)
theory Program_Examples
  imports Client_Examples Wiring Concurrent_Claims Webhook_Request Log_Streams Cli_Setup
begin

text \<open>
  The programs as a whole in the small installation: claims that last, a claim given away, a
  controller that stops, and a webhook on its way.
\<close>

section \<open>Claims\<close>

lemma demo_system_simps: "sy_db demo_system = demo_db" "sv_session (sy_server demo_system) = calm demo_db"
  by (simp_all add: demo_system_def demo_server_def sy_db_def)

definition demo_claimed :: "int system" where
  "demo_claimed = demo_system\<lparr>sy_server := demo_server\<lparr>sv_session := calm (claim 0 [2] demo_db)\<rparr>\<rparr>"

lemma demo_claim:
  "on_session (DequeueBatch (tick 0) [] [] 1) (sy_server demo_system) =
     (Inr [queue_item (demo_queued 2 4 9)], demo_server\<lparr>sv_session := calm (claim 0 [2] demo_db)\<rparr>)"
  "(4 :: uuid) \<in> qi_ExecutionID ` set [queue_item (demo_queued 2 4 9)]"
  using demo_dequeue_one by (simp_all add: on_session_def demo_system_def demo_server_def queue_item_def demo_queued_def)

text \<open>The dispatcher may do nothing at all, and the database be asked again.\<close>

lemma demo_undisturbed: "(undisturbed_step demo_C eid until)\<^sup>*\<^sup>* demo_claimed demo_claimed"
proof -
  have "undisturbed_step demo_C eid until demo_claimed demo_claimed"
    using background_step.connection [of demo_claimed "[]"]
    by (auto simp: calm_def demo_claimed_def intro: undisturbed_step.background)
  then show ?thesis by auto
qed

lemma claim_is_exclusive_witness: "4 \<notin> qi_ExecutionID ` set [queue_item (demo_queued 1 3 5)]"
proof -
  have two: "DequeueBatch (tick 1) [] [] 1 (sv_session (sy_server demo_claimed)) =
      (Inr [queue_item (demo_queued 1 3 5)], calm (claim 1 [1] (claim 0 [2] demo_db)))"
    using demo_dequeue_again by (simp add: demo_claimed_def)
  show ?thesis
    by (rule claim_is_exclusive [OF _ demo_claim demo_undisturbed [unfolded demo_claimed_def] two [unfolded demo_claimed_def]])
      (simp_all add: demo_system_simps demo_inv VisibilityTimeout_def)
qed


lemma late_failure_releases_claim_witness:
  "\<exists>d'. Fail (tick second) 4 (Some 1) ''late'' (calm (claim 0 [2] demo_db)) = (Inr (), calm d') \<and>
    (\<exists>at < VisibilityTimeout. \<forall>clk limit items u. at \<le> db_now clk \<and> 2 \<le> limit \<and>
       DequeueBatch clk [] [] limit (calm d') = (Inr items, u) \<longrightarrow> 4 \<in> qi_ExecutionID ` set items)"
proof -
  let ?d = "claim 0 [2] demo_db"
  have q: "find_queued ?d 4 = Some ((demo_queued 2 4 9)\<lparr>qr_attempt := 1, qr_visible_after := VisibilityTimeout\<rparr>)"
    by (simp add: find_queued_def claim_eval demo_defs)
  have len: "length (queue ?d) = 2" by (simp add: claim_eval demo_defs)
  have inv: "db_inv ?d"
    using keepsD [OF keeps_DequeueBatch demo_dequeue_one] demo_inv by (simp add: on_db_def safe_def)
  have "4 \<in> qi_ExecutionID ` set [queue_item (demo_queued 2 4 9)]"
    by (simp add: queue_item_def demo_queued_def)
  from late_failure_releases_claim [OF demo_dequeue_one this q _ _ inv, of "tick second" "Some 1" "''late''"] len
  show ?thesis by (simp add: fail_backoff_def VisibilityTimeout_def)
qed

definition demo_claiming :: dequeue_args where
  "demo_claiming = \<lparr>da_clk = tick 0, da_tids = [], da_limit = 1\<rparr>"

definition demo_marked :: concurrent where
  "demo_marked = \<lparr>cc_db = demo_db, cc_tx = (\<lambda>i. NoTx)(0 := Marked demo_claiming [demo_queued 2 4 9]
     (filter (\<lambda>e. ex_ID e \<in> execution_ids [demo_queued 2 4 9]) (executions demo_db)))\<rparr>"

lemma demo_marked_reached: "tx_step\<^sup>*\<^sup>* (at_rest demo_db) demo_marked"
proof -
  let ?c = "at_rest demo_db" and ?rows = "[demo_queued 2 4 9]"
  have "?rows = select_batch (db_now (da_clk demo_claiming)) [] (da_tids demo_claiming) (at_least_one (da_limit demo_claiming)) (cc_db ?c)"
    using demo_select_one [of 0] by (simp add: demo_claiming_def at_rest_def at_least_one_def)
  from tx_step.select [OF _ _ this, of 0]
  have 1: "tx_step ?c (?c\<lparr>cc_tx := (cc_tx ?c)(0 := Selected demo_claiming ?rows)\<rparr>)" by (simp add: at_rest_def)
  note 2 = tx_step.bump [of "?c\<lparr>cc_tx := (cc_tx ?c)(0 := Selected demo_claiming ?rows)\<rparr>" 0 demo_claiming ?rows]
  note 3 = tx_step.mark [of "?c\<lparr>cc_tx := (cc_tx ?c)(0 := Bumped demo_claiming ?rows)\<rparr>" 0 demo_claiming ?rows, OF _ refl]
  show ?thesis
    using rtranclp.rtrancl_into_rtrancl [OF rtranclp.rtrancl_into_rtrancl [OF r_into_rtranclp [of tx_step, OF 1]]] 2 3
    by (simp add: at_rest_def demo_marked_def)
qed

lemma dequeues_serialise_witness:
  "\<exists>locked items. DequeueBatch (tick 0) locked [] 1 (calm demo_db) =
    (Inr items, calm (commit_claim demo_claiming [demo_queued 2 4 9]
      (filter (\<lambda>e. ex_ID e \<in> execution_ids [demo_queued 2 4 9]) (executions demo_db)) demo_db)) \<and> mset items = {#queue_item (demo_queued 2 4 9)#}"
  using dequeues_serialise [OF demo_marked_reached demo_inv, of 0 demo_claiming "[demo_queued 2 4 9]"]
  by (simp add: demo_marked_def demo_claiming_def)

section \<open>A controller that stops\<close>

definition demo_stopping :: "int life" where
  "demo_stopping = \<lparr>lf_system = demo_system, lf_inflight = [], lf_phase = Draining, lf_handed = [], lf_finished = []\<rparr>"

lemma clean_shutdown_witness:
  "\<exists>t. life_reach demo_C (start demo_system) t \<and> lf_inflight t = [] \<and> mset (lf_finished t) = mset (lf_handed t)"
proof -
  have d: "start demo_system\<lparr>lf_phase := Draining\<rparr> = demo_stopping"
    by (simp add: start_def demo_stopping_def demo_system_def)
  have w: "work_step demo_C (start demo_system) (start demo_system\<lparr>lf_phase := Draining\<rparr>)"
    by (rule work_step.signal) (simp add: start_def)
  obtain t where t: "life_reach demo_C demo_stopping t" "lf_phase t = Stopped None"
    using can_stop_cleanly [of demo_stopping demo_C] by (auto simp: demo_stopping_def)
  have r: "life_reach demo_C (start demo_system) t" by (rule life_reach_work [OF w [unfolded d] t(1)])
  from clean_shutdown [OF r t(2)] r show ?thesis by blast
qed

definition demo_pending :: database where
  "demo_pending = demo_db\<lparr>executions := [(demo_execution 3 5)\<lparr>ex_CallbackStatus := Some CallbackStatusPending\<rparr>]\<rparr>"

definition demo_ending :: "int life" where
  "demo_ending = \<lparr>lf_system = demo_system\<lparr>sy_server := demo_server\<lparr>sv_session := calm demo_pending\<rparr>\<rparr>,
     lf_inflight = [accepted_as (\<lambda>j. []) (ac_ControllerURL demo_config) (demo_around 9) (result_request demo_E demo_config 3 demo_report)],
     lf_phase = Draining, lf_handed = [], lf_finished = []\<rparr>"

lemma shutdown_loses_webhooks_witness:
  "\<exists>t e'. life_reach demo_C demo_ending t \<and> lf_phase t = Stopped None \<and> 3 \<in> set (sy_triggered (lf_system t)) \<and>
     find_execution (sy_db (lf_system t)) 3 = Some e' \<and> ex_Status e' = ExecutionStatusCompleted \<and>
     ex_CallbackStatus e' = Some CallbackStatusPending"
proof -
  let ?e = "(demo_execution 3 5)\<lparr>ex_CallbackStatus := Some CallbackStatusPending\<rparr>"
  have p: "lf_phase demo_ending = Draining"
    "lf_inflight demo_ending = [accepted_as (\<lambda>j. []) (ac_ControllerURL demo_config) (demo_around 9)
       (result_request (co_externals demo_C) demo_config 3 demo_report)]"
    "sy_waiting (lf_system demo_ending) = []" "sy_sending (lf_system demo_ending) = []"
    "sv_session (sy_server (lf_system demo_ending)) = calm demo_pending"
    by (simp_all add: demo_ending_def demo_system_def)
  have f: "find_execution demo_pending 3 = Some ?e"
    by (simp add: find_execution_def demo_pending_def demo_defs)
  have r: "ran (co_externals demo_C) (Some demo_payload) demo_env"
    "re_wait demo_env = Inr \<lparr>xt_ExitCode = 0, xt_Error = None\<rparr>"
    "reports (processItem (co_externals demo_C) Background 3 (Some demo_payload) demo_env) = [demo_report]"
    using demo_ran demo_reports by (simp_all add: demo_env_def)
  have j: "jsonb_ok (enc_raw (er_Result demo_report))" by (simp add: demo_report_def jsonb_ok_int64 int64_ok_def)
  from shutdown_loses_webhooks [OF p r(1,2) _ r(3) j demo_paired(1) f] show ?thesis by auto
qed

section \<open>Programs\<close>


text \<open>A controller whose port is taken.\<close>

definition demo_answers :: controller_answers where
  "demo_answers = \<lparr>ca_config = Inr demo_loaded, ca_open = None, ca_ping = None,
     ca_migrate = \<lparr>mg_source = None, mg_driver = None, mg_migrator = None, mg_up = UpDone\<rparr>, ca_exporter = None,
     ca_resource = None, ca_metrics = None, ca_gauge = None, ca_listen = Some ''address already in use'',
     ca_accept = None, ca_shutdown = None, ca_tracer_end = None, ca_metrics_end = None\<rparr>"

lemma controller_exit_witness:
  "\<exists>(code, Z) \<in> controller_runs False demo_answers. code = 0 \<and> (\<forall>addr. Serve addr \<notin> set Z) \<and>
     Say ''Server stopped: address already in use'' \<in> set Z"
proof -
  have up: "starts False demo_answers" "ca_shutdown demo_answers = None" "ca_listen demo_answers = Some ''address already in use''"
    by (simp_all add: starts_def demo_answers_def)
  note exit = controller_exit [of False demo_answers]
  obtain code Z where Z: "(code, Z) \<in> controller_runs False demo_answers"
    and said: "Say (''Server stopped: '' @ ''address already in use'') \<in> set Z"
    using conjunct2 [OF exit, rule_format, OF up(1)] unfolding up(3) option.case by blast
  have "code = 0" "\<forall>addr. Serve addr \<notin> set Z"
    using bspec [OF conjunct1 [OF exit] Z, unfolded prod.case] up by simp_all
  then show ?thesis using Z said by (intro bexI [OF _ Z]) simp
qed

end
