(* ===== verification/Spec2Isabelle.thy ===== *)
theory Spec2Isabelle
  imports Program_Examples
begin

text \<open>
  jobplane runs jobs for tenants. A \<^emph>\<open>controller\<close> keeps everything in one PostgreSQL database and
  serves an HTTP API; \<^emph>\<open>workers\<close> ask it for executions, run them as processes, Docker containers
  or Kubernetes jobs, and report back; \<^verbatim>\<open>jobctl\<close> is the command line client. A request to run a job
  inserts an execution and a row of the queue in one transaction. A worker claims rows, highest
  priority first; a claim hides the row for the visibility timeout, which heartbeats extend, so that
  the row of a worker that has died is claimed again. A success takes the row out of the queue and
  closes the execution; a failure postpones the row with a doubling delay, and after five retries
  moves it to the dead letter queue, from where it can be run anew. A result triggers a webhook.

  \<^bold>\<open>Theories and source files.\<close>

  \<^item> \<^verbatim>\<open>Prelude\<close>: programs as functions from a state to a sum and a state (\<open>and_then\<close>, \<open>on_error\<close>,
    \<open>guard\<close>), updates and deletions of table rows, the rules by which a program keeps a relation.
  \<^item> \<^verbatim>\<open>Golib\<close>, \<^verbatim>\<open>Rfc3339\<close>, \<^verbatim>\<open>Duration\<close>, \<^verbatim>\<open>Json\<close>, \<^verbatim>\<open>Paths\<close>: what the program uses of Go's standard library:
    \<^verbatim>\<open>strconv\<close>, \<^verbatim>\<open>strings\<close>, \<^verbatim>\<open>unicode/utf8\<close>, contexts and deadlines, time formats, \<^verbatim>\<open>encoding/json\<close> on
    JSON values, \<^verbatim>\<open>path/filepath\<close>. A string is a list of bytes; what passes through JSON has every byte
    that is not UTF-8 replaced (\<open>to_valid\<close>), and the database refuses text that is not UTF-8.
  \<^item> \<^verbatim>\<open>Models\<close>, \<^verbatim>\<open>Api\<close>, \<^verbatim>\<open>Responses\<close>, \<^verbatim>\<open>Payload\<close>: the structs of \<^verbatim>\<open>internal/store/models.go\<close> and
    \<^verbatim>\<open>pkg/api/api.go\<close>, their JSON encoding and decoding, and the payload of a queued execution.
  \<^item> \<^verbatim>\<open>Sql\<close>, \<^verbatim>\<open>Store_Queue\<close>, \<^verbatim>\<open>Store_Records\<close>: the tables with the constraints of the migration,
    statements and transactions on a connection that may fail, and every operation of
    \<^verbatim>\<open>internal/store/postgres\<close>.
  \<^item> \<^verbatim>\<open>Http\<close>, \<^verbatim>\<open>Auth\<close>, \<^verbatim>\<open>RateLimit\<close>, \<^verbatim>\<open>Handlers\<close>, \<^verbatim>\<open>Server\<close>: \<^verbatim>\<open>internal/controller\<close>, each handler with its
    guards in the order of the code, the middlewares, the route table and \<^verbatim>\<open>ServeHTTP\<close>.
  \<^item> \<^verbatim>\<open>Retry\<close>, \<^verbatim>\<open>Webhook\<close>: loops that retry, and \<^verbatim>\<open>internal/controller/webhook\<close>.
  \<^item> \<^verbatim>\<open>Store_Inv\<close>, \<^verbatim>\<open>Store_Safe\<close>, \<^verbatim>\<open>Handlers_Safe\<close>, \<^verbatim>\<open>System\<close>: the invariant of the tables, its
    preservation by every operation and handler, and the control plane as a step relation of
    requests, changes of the connection and webhook goroutines.
  \<^item> \<^verbatim>\<open>Lifecycle\<close>: the machine of an execution, and that the control plane refines it.
  \<^item> \<^verbatim>\<open>Queue_Theorems\<close>, \<^verbatim>\<open>Recovery_Theorems\<close>, \<^verbatim>\<open>Handler_Theorems\<close>, \<^verbatim>\<open>Access_Theorems\<close>: the properties of
    the controller. \<^verbatim>\<open>Claims\<close>: how long the claim of a row lasts while the control plane runs.
    \<^verbatim>\<open>Concurrent_Claims\<close>: \<^verbatim>\<open>DequeueBatch\<close> in many transactions at once, statement by statement.
  \<^item> \<^verbatim>\<open>Shutdown\<close>: \<^verbatim>\<open>Shutdown\<close> of the server and of the dispatcher, with the requests in flight.
    \<^verbatim>\<open>Webhook_Request\<close>: the request \<^verbatim>\<open>doPost\<close> makes, and \<^verbatim>\<open>tools/webhook-receiver\<close>, which receives it.
  \<^item> \<^verbatim>\<open>Wire\<close>: requests between clients and the controller. \<^verbatim>\<open>Agent\<close>, \<^verbatim>\<open>Agent_Loop\<close>, \<^verbatim>\<open>Agent_Theorems\<close>:
    \<^verbatim>\<open>internal/worker/agent.go\<close>, alone and against the controller. \<^verbatim>\<open>Heartbeats\<close>: the claim a worker
    keeps while the control plane runs.
  \<^item> \<^verbatim>\<open>Runtime\<close>, \<^verbatim>\<open>Runtime_Exec\<close>, \<^verbatim>\<open>Runtime_Docker\<close>, \<^verbatim>\<open>Runtime_Kube\<close>, \<^verbatim>\<open>Runtime_Theorems\<close>:
    \<^verbatim>\<open>internal/worker/runtime\<close>.
    \<^verbatim>\<open>Log_Streams\<close>: the streams the agent ships as logs, from the pipes of a process or a container.
  \<^item> \<^verbatim>\<open>Config\<close>: \<^verbatim>\<open>internal/config\<close>. \<^verbatim>\<open>Startup\<close>, \<^verbatim>\<open>Programs\<close>: opening the store, \<^verbatim>\<open>migrations.go\<close>,
    \<^verbatim>\<open>internal/observability\<close>, \<^verbatim>\<open>internal/logger\<close>, and the two programs \<^verbatim>\<open>cmd/controller/main.go\<close> and
    \<^verbatim>\<open>cmd/worker/main.go\<close> from their start to their exit code. \<^verbatim>\<open>Wiring\<close>: the constructors, by which a
    loaded configuration becomes the controller the other theories speak of.
  \<^item> \<^verbatim>\<open>Cli\<close>, \<^verbatim>\<open>Cli_Status\<close>, \<^verbatim>\<open>Cli_Theorems\<close>: the commands of \<^verbatim>\<open>cmd/cli/cmd\<close>. \<^verbatim>\<open>Cli_Setup\<close>: \<^verbatim>\<open>root.go\<close>, the
    flags of each command and \<^verbatim>\<open>cmd/cli/main.go\<close>.
  \<^item> \<^verbatim>\<open>Examples\<close>, \<^verbatim>\<open>Agent_Examples\<close>, \<^verbatim>\<open>Client_Examples\<close>, \<^verbatim>\<open>Program_Examples\<close>: a small installation in
    which each property with hypotheses is applied. This theory: the properties of the whole.

  \<^bold>\<open>State and operations.\<close> The database is a record of tables, each a list of rows in the order of
  their insertion, with the sequences of their keys. An operation of the store runs on a session: the
  database and the \<open>fates\<close> of the statements to come, of which each may fail, or break off in the
  middle of its rows, which two reads do not notice. A transaction restores
  the tables when it fails, but not the sequences; the operations the handlers call without a
  transaction commit statement by statement. \<^verbatim>\<open>FOR UPDATE SKIP LOCKED\<close> is a list of rows that other
  sessions hold; rows equal for an \<^verbatim>\<open>ORDER BY\<close> come as \<open>ties\<close> ranks them. A handler is a program whose early returns are its errors; what it leaves to be done,
  a webhook or the loss of a cached limiter, is a list of effects. The agent is a function from what it
  meets to the list of its actions, and its pull loop a step relation in which the select picks any
  case that is ready, with the timer of the current turn as part of its state. A runtime is a program
  on the paths of the worker's disk and the containers of the host or the jobs of the cluster; its
  wait is told when the context of the execution ends, which kills a process. A command is a program on a network, and yields the text it
  prints and its exit code. A \<^verbatim>\<open>main\<close> is a program on the list of what it has done and deferred: a fatal
  line ends it before anything deferred runs; the goroutine that serves is interleaved with it. The life of a server adds to the control plane the
  requests in flight, the phase of the shutdown and two histories.

  \<^bold>\<open>Interfaces.\<close> The locales are contracts: relations that programs keep (\<open>step_order\<close>, \<open>db_step_order\<close>), guards in front of handlers (\<open>request_guard\<close>, \<open>tenant_lookup\<close>), loops with a
  bounded number of attempts (\<open>retry_loop\<close>, interpreted by the webhook dispatcher and by the agent's
  requests), and \<open>job_runtime\<close>, what the agent relies on from \<^verbatim>\<open>runtime.Runtime\<close>, interpreted by all
  three runtimes.

  \<^bold>\<open>What is shown.\<close> At every reachable point the tables are well formed, history is kept, and the
  phase of every execution moves through its machine only. Claims go to the best rows, are exclusive
  while they last and while heartbeats extend them, whatever else the control plane does, and are
  taken over when they have run out;
  concurrent dequeues have the effect of serial ones; six failures lead to the dead letter
  queue; retries from there and runs of jobs are atomic; tenants see their own rows; nothing changes
  without a credential. What a worker reports and logs reaches the database; its pull
  loop accounts for every execution, keeps to its concurrency and comes to its next poll whatever
  happens; no directory of an execution is left behind, and archives stay inside. \<^verbatim>\<open>jobctl run\<close> creates
  the execution it was asked for, and \<^verbatim>\<open>jobctl logs\<close> ends with the whole log, if its times differ. Timestamps and payloads survive their encoding. A shutdown without an error has answered
  every request and ended every delivery it was handed, and one always ends; the controller exits
  with 0 exactly after that, even if its port was taken and it never served; controllers and workers made from configurations that load fit. Other
  theorems and lemmas record where the code falls short of what it means to do: interrupted
  completions and burials, late failures, executions the API cannot read, limits that a dequeue
  ignores, pages cut short without an error, webhooks lost in a shutdown, jobs abandoned by a stopping worker or by one whose metrics
  fail to start, containers that are never removed, watches that end early.

  \<^bold>\<open>Bounds and fuel.\<close> The retry loops end by a measure on the attempts left; the loop of \<^verbatim>\<open>jobctl logs\<close>,
  which need not end, is a \<^verbatim>\<open>partial_function\<close> whose result is shown to exist. Identifiers are words of
  128 bits, lock keys of 32; Go's \<^verbatim>\<open>int\<close> and durations are integers with \<open>wrap64\<close> written out where a
  product can leave their range and range checks where a value is decoded or stored. That a shutdown
  ends is well-foundedness of its steps. There is no fuel.

  \<^bold>\<open>Parameters.\<close> UUIDs and SHA-256 (\<open>externals\<close>, with \<open>uuid_law\<close>: parsing reads back what is printed),
  the token bucket of \<^verbatim>\<open>golang.org/x/time/rate\<close>, viper (with \<open>viper_law\<close> for the programs and
  \<open>viper_precedence\<close> for \<^verbatim>\<open>jobctl\<close>), the values cobra parses, the answers of \<^verbatim>\<open>sql.Open\<close>, golang-migrate and
  OpenTelemetry, the Docker daemon and the Kubernetes API by their answers, clocks, random numbers,
  the peers of requests and the text of JSON.

  \<^bold>\<open>Not modelled.\<close> Handlers run one after the other, except that dequeues may be interleaved with each
  other and with changes that respect their row locks; what else isolation at READ COMMITTED lets
  through, and waiting for locks, is not there. Times are integers of nanoseconds
  in UTC; PostgreSQL's rounding to microseconds and time zones are left out. A \<^verbatim>\<open>JSONB\<close> value is stored
  as it is written: that PostgreSQL sorts the keys of objects, keeps the last of equal ones and
  spells numbers its own way is not there. Rows that tie in a claim come in table order. Order of iteration over
  Go maps is that of their association lists. Targets of requests hold no escapes. Paths are held in
  their cleaned form, removing a directory of the worker's own succeeds, and files a process writes
  outside its directory are its own affair. The panic of \<^verbatim>\<open>resource.MustParse\<close> is left out. The
  floating-point durations of \<^verbatim>\<open>jobctl status\<close> are taken exactly; the layout of dates, tables and
  indented JSON are arguments. Spans and metrics other than the queue depth, log lines that carry no
  error, HTTP timeouts of the server and help texts change nothing that is modelled.
\<close>

section \<open>The life of the system\<close>

text \<open>C1: At every point of the life of the control plane, whatever requests it serves and
  however its connection fails, the tables are well formed: keys are unique, queued rows agree
  with their executions, an execution is running exactly when its row has been claimed, dead
  letters have used up their retries, and finished executions are not queued. At most ten
  webhook deliveries are in flight, all of executions that are over.\<close>

theorem system_invariant:
  assumes "sys_reach C boot s"
  shows "db_inv (sy_db s) \<and> dispatcher_inv s \<and> (\<forall>eid. \<not> (finished (sy_db s) eid \<and> queued (sy_db s) eid))"
  using reachable_inv [OF assms] reachable_dispatcher [OF assms] finished_not_queued by blast

text \<open>C17: History is kept. From a well-formed state on, an execution that is over stays over, log
  lines are only added, jobs and tenants are never removed, and every execution stays with the
  job, tenant, priority, origin and callback it was created with.\<close>

theorem history_is_kept:
  assumes "sys_reach C s t" and "db_inv (sy_db s)"
  shows "{eid. finished (sy_db s) eid} \<subseteq> {eid. finished (sy_db t) eid} \<and>
    prefix (logs (sy_db s)) (logs (sy_db t)) \<and> prefix (jobs (sy_db s)) (jobs (sy_db t)) \<and>
    prefix (map tn_ID (tenants (sy_db s))) (map tn_ID (tenants (sy_db t))) \<and>
    prefix (map identity_of (executions (sy_db s))) (map identity_of (executions (sy_db t)))"
  using sys_reach_safe [OF assms(1)] assms(2) by (auto simp: safe_def grows_def)

section \<open>The properties at work\<close>

lemma delivered_iff_witness:
  "snd (deliverWithRetry (\<lambda>n. if n = 0 then NoReply else Reply 204))"
  by (subst delivered_iff) (rule exI [of _ 1], auto simp: webhook_maxRetries_def worth_retry_def)

definition demo_first :: "int system" where
  "demo_first = boot\<lparr>sy_server := snd (ServeHTTP demo_C (demo_around 9) ''POST'' [''tenants'']
     (demo_request [] [] (Doc demo_tenant_body)) (sy_server boot)),
     sy_triggered := snd (fst (ServeHTTP demo_C (demo_around 9) ''POST'' [''tenants'']
     (demo_request [] [] (Doc demo_tenant_body)) (sy_server boot)))\<rparr>"

lemma demo_first_reached: "sys_reach demo_C boot demo_first"
proof -
  let ?r = "ServeHTTP demo_C (demo_around 9) ''POST'' [''tenants''] (demo_request [] [] (Doc demo_tenant_body)) (sy_server (boot :: int system))"
  obtain resp hooks v where r: "?r = ((resp, hooks), v)" by (metis surj_pair)
  have "sys_step demo_C boot ((boot :: int system)\<lparr>sy_server := snd ?r, sy_triggered := sy_triggered (boot :: int system) @ snd (fst ?r)\<rparr>)"
    using sys_step.request [OF r] by (simp add: r)
  then show ?thesis
    unfolding demo_first_def by (simp add: sys_reach.further [OF sys_reach.here] boot_def)
qed

lemma demo_first_tenant: "map tn_Name (tenants (sy_db demo_first)) = [''beta'']"
  by (simp add: demo_first_def sy_db_def ServeHTTP_def server_defs boot_def route_of_def routes_def patterns_def
      match_method_def wildcards_def open_chain_def on_session_def h_CreateTenant_def handler_eval demo_tenant_body
      CreateTenant_def insert_tenant_def new_tenant_def demo_tenant_request_def zero_CreateTenantRequest_def
      default_if_zero_def tenant_ints_ok_def int32_ok_def tenant_text_ok_def text_ok_def has_tenant_def
      empty_db_def tenant_row_of_def tenant.defs tenant_row.defs reply_def)

lemma system_invariant_witness:
  "map tn_Name (tenants (sy_db demo_first)) = [''beta''] \<and> db_inv (sy_db demo_first) \<and> dispatcher_inv demo_first"
  using system_invariant [OF demo_first_reached] demo_first_tenant by blast

lemma history_is_kept_witness:
  "prefix (map tn_ID (tenants (sy_db (boot :: int system)))) (map tn_ID (tenants (sy_db demo_first)))"
  using history_is_kept [OF demo_first_reached] boot_inv by blast

end
